(* ===== verification/Prelude.thy ===== *)
theory Prelude
  imports Main "HOL-Library.Sublist"
begin

text \<open>
  The vocabulary every theory of the development shares: the outcome of a Go call
  (\<open>gores\<close>: a value, an error, or a panic), error values as the tree that
  \<^verbatim>\<open>errors.Is\<close> and \<^verbatim>\<open>errors.As\<close> walk, namespaced names, and the functions of
  Go's \<^verbatim>\<open>strings\<close> package the operator calls, with their laws. Strings are byte
  strings; case mapping is the ASCII one, which is what Kubernetes names consist of.
\<close>

section \<open>Collections and outcomes\<close>

named_theorems go_defs \<open>definitions that are unfolded to run the model on a concrete input\<close>
named_theorems go_str \<open>laws of the string functions\<close>

datatype (set_gores: 'a, dead 'e) gores_of = Ok 'a | Err 'e | Panic string

text \<open>
  Error values. \<open>Sentinel\<close> is a package variable made by \<^verbatim>\<open>errors.New\<close> (its name is
  its identity), \<open>Wrap\<close> the result of \<^verbatim>\<open>fmt.Errorf\<close> with \<open>%w\<close>, \<open>Join\<close> of
  \<^verbatim>\<open>errors.Join\<close>. Errors made by libraries are represented by what the code can
  observe of them: an API status by its reason, a discovery failure by the errors of its
  map and by the errors its \<^verbatim>\<open>Unwrap\<close> returns.
\<close>

datatype err =
    Sentinel string string
  | Wrap string err
  | Join "err list"
  | ApiStatus string string
  | NoKindMatch string
  | NoResourceMatch string
  | DiscoveryFailed "err list" "err list" string
  | OtherErr string

type_synonym 'a gores = "('a, err) gores_of"

definition nil_pointer :: string where "nil_pointer = ''nil pointer dereference''"

definition is_ok :: "'a gores \<Rightarrow> bool" where
  "is_ok r \<longleftrightarrow> (case r of Ok _ \<Rightarrow> True | _ \<Rightarrow> False)"

lemma is_ok_simps [simp]:
  "is_ok (Ok a)" "\<not> is_ok (Err e)" "\<not> is_ok (Panic p)"
  by (simp_all add: is_ok_def)

lemma is_ok_iff: "is_ok r \<longleftrightarrow> (\<exists>a. r = Ok a)"
  by (cases r) auto

definition bind_go :: "'a gores \<Rightarrow> ('a \<Rightarrow> 'b gores) \<Rightarrow> 'b gores" where
  "bind_go r f = (case r of Ok a \<Rightarrow> f a | Err e \<Rightarrow> Err e | Panic p \<Rightarrow> Panic p)"

lemma bind_go_simps [simp]:
  "bind_go (Ok a) f = f a" "bind_go (Err e) f = Err e" "bind_go (Panic p) f = Panic p"
  by (simp_all add: bind_go_def)

lemma bind_go_Ok_iff: "bind_go r f = Ok b \<longleftrightarrow> (\<exists>a. r = Ok a \<and> f a = Ok b)"
  by (cases r) auto

record nname =
  nn_namespace :: string
  nn_name :: string

section \<open>The strings package\<close>

definition trim_prefix :: "string \<Rightarrow> string \<Rightarrow> string" where
  "trim_prefix s p = (if prefix p s then drop (length p) s else s)"

lemma trim_prefix_append [simp, go_str]: "trim_prefix (p @ s) p = s"
  by (simp add: trim_prefix_def)

lemma trim_prefix_id [go_str]: "\<not> prefix p s \<Longrightarrow> trim_prefix s p = s"
  by (simp add: trim_prefix_def)

fun split_on :: "char \<Rightarrow> string \<Rightarrow> string list" where
  "split_on c [] = [[]]"
| "split_on c (x # xs) =
     (if x = c then [] # split_on c xs
      else (case split_on c xs of [] \<Rightarrow> [[x]] | w # ws \<Rightarrow> (x # w) # ws))"

fun join_with :: "string \<Rightarrow> string list \<Rightarrow> string" where
  "join_with sep [] = []"
| "join_with sep [w] = w"
| "join_with sep (w # v # ws) = w @ sep @ join_with sep (v # ws)"

lemma split_on_nonempty [simp]: "split_on c s \<noteq> []"
  by (cases s) (auto split: list.splits)

lemma join_split [go_str]: "join_with [c] (split_on c s) = s"
proof (induction s)
  case Nil
  then show ?case by simp
next
  case (Cons x s)
  obtain w ws where ws: "split_on c s = w # ws"
    by (cases "split_on c s") auto
  with Cons have "join_with [c] (w # ws) = s" by simp
  then show ?case by (cases ws) (auto simp: ws)
qed

lemma split_on_no_sep: "w \<in> set (split_on c s) \<Longrightarrow> c \<notin> set w"
proof (induction s arbitrary: w)
  case Nil
  then show ?case by simp
next
  case (Cons x s)
  then show ?case
    by (cases "split_on c s") (auto split: if_splits)
qed

lemma length_split_on: "length (split_on c s) = Suc (count_list s c)"
  by (induction s) (auto split: list.splits)

text \<open>ASCII case mapping, \<^verbatim>\<open>strings.ToLower\<close> and \<^verbatim>\<open>strings.EqualFold\<close>.\<close>

definition char_lower :: "char \<Rightarrow> char" where
  "char_lower c = (let n = (of_char c :: nat) in if 65 \<le> n \<and> n \<le> 90 then char_of (n + 32) else c)"

definition to_lower :: "string \<Rightarrow> string" where
  "to_lower s = map char_lower s"

definition equal_fold :: "string \<Rightarrow> string \<Rightarrow> bool" where
  "equal_fold s t \<longleftrightarrow> to_lower s = to_lower t"

definition is_upper :: "char \<Rightarrow> bool" where
  "is_upper c \<longleftrightarrow> (let n = (of_char c :: nat) in 65 \<le> n \<and> n \<le> 90)"

lemma of_char_lower:
  "(of_char (char_lower c) :: nat)
     = (if 65 \<le> (of_char c :: nat) \<and> (of_char c :: nat) \<le> 90 then of_char c + 32 else of_char c)"
  by (simp add: char_lower_def Let_def)

lemma char_lower_not_upper [simp]: "\<not> is_upper (char_lower c)"
  by (simp add: is_upper_def of_char_lower Let_def)

lemma char_lower_idem [simp]: "char_lower (char_lower c) = char_lower c"
proof -
  have "(of_char (char_lower (char_lower c)) :: nat) = of_char (char_lower c)"
    by (simp add: of_char_lower)
  then show ?thesis by simp
qed

lemma to_lower_idem [simp]: "to_lower (to_lower s) = to_lower s"
  by (simp add: to_lower_def)

lemma to_lower_append [simp]: "to_lower (s @ t) = to_lower s @ to_lower t"
  by (simp add: to_lower_def)

lemma length_to_lower [simp]: "length (to_lower s) = length s"
  by (simp add: to_lower_def)

lemma equal_fold_refl [simp]: "equal_fold s s"
  by (simp add: equal_fold_def)

lemma equal_fold_lower [simp]: "equal_fold s (to_lower s)" "equal_fold (to_lower s) s"
  by (simp_all add: equal_fold_def)

text \<open>\<^verbatim>\<open>strings.TrimSpace\<close> (ASCII space) and \<^verbatim>\<open>strings.ReplaceAll\<close> of one character.\<close>

definition is_space :: "char \<Rightarrow> bool" where
  "is_space c \<longleftrightarrow> (let n = (of_char c :: nat) in n = 32 \<or> (9 \<le> n \<and> n \<le> 13))"

definition trim_space :: "string \<Rightarrow> string" where
  "trim_space s = rev (dropWhile is_space (rev (dropWhile is_space s)))"

definition replace_char :: "char \<Rightarrow> string \<Rightarrow> string \<Rightarrow> string" where
  "replace_char c r s = concat (map (\<lambda>x. if x = c then r else [x]) s)"

lemma trim_space_nil [simp]: "trim_space [] = []"
  by (simp add: trim_space_def)

lemma dropWhile_all: "(\<forall>x\<in>set xs. P x) \<Longrightarrow> dropWhile P xs = []"
  by (induction xs) auto

section \<open>Lists\<close>

lemma find_Some_mem: "find P xs = Some x \<Longrightarrow> x \<in> set xs \<and> P x"
  by (induction xs) (auto split: if_splits)

lemma find_None_iff_all: "find P xs = None \<longleftrightarrow> (\<forall>x\<in>set xs. \<not> P x)"
  by (induction xs) auto

end
