(* ===== verification/GoErrors.thy ===== *)
theory GoErrors
  imports Prelude
begin

text \<open>
  Error trees and \<^verbatim>\<open>pkg/utils/errors.go\<close>. \<open>err_nodes\<close> lists the nodes of an error tree in
  the order in which \<^verbatim>\<open>errors.Is\<close> and \<^verbatim>\<open>errors.As\<close> visit them (the node first, then
  what its \<^verbatim>\<open>Unwrap\<close> returns, depth first).
\<close>

section \<open>Walking an error tree\<close>

fun err_nodes :: "err \<Rightarrow> err list" where
  "err_nodes (Wrap m e) = Wrap m e # err_nodes e"
| "err_nodes (Join es) = Join es # concat (map err_nodes es)"
| "err_nodes (DiscoveryFailed es us m) = DiscoveryFailed es us m # concat (map err_nodes us)"
| "err_nodes e = [e]"

definition err_is :: "err \<Rightarrow> err \<Rightarrow> bool" where
  "err_is e t \<longleftrightarrow> t \<in> set (err_nodes e)"

fun is_api_status :: "err \<Rightarrow> bool" where
  "is_api_status (ApiStatus r m) = True"
| "is_api_status _ = False"

fun is_discovery_failed :: "err \<Rightarrow> bool" where
  "is_discovery_failed (DiscoveryFailed es us m) = True"
| "is_discovery_failed _ = False"

fun is_no_kind_match :: "err \<Rightarrow> bool" where
  "is_no_kind_match (NoKindMatch m) = True"
| "is_no_kind_match _ = False"

fun is_no_resource_match :: "err \<Rightarrow> bool" where
  "is_no_resource_match (NoResourceMatch m) = True"
| "is_no_resource_match _ = False"

text \<open>\<^verbatim>\<open>apierrors.IsNotFound\<close>: the first API status of the tree has the reason \<open>NotFound\<close>.\<close>

definition is_not_found :: "err \<Rightarrow> bool" where
  "is_not_found e \<longleftrightarrow>
     (case find is_api_status (err_nodes e) of
        Some (ApiStatus r m) \<Rightarrow> r = ''NotFound''
      | _ \<Rightarrow> False)"

definition ignore_not_found :: "err option \<Rightarrow> err option" where
  "ignore_not_found r = (case r of Some e \<Rightarrow> if is_not_found e then None else Some e | None \<Rightarrow> None)"

text \<open>The text of an error, \<^verbatim>\<open>err.Error()\<close>.\<close>

fun err_msg :: "err \<Rightarrow> string" where
  "err_msg (Sentinel n m) = m"
| "err_msg (Wrap m e) = m"
| "err_msg (Join es) = join_with [CHR 0x0A] (map err_msg es)"
| "err_msg (ApiStatus r m) = m"
| "err_msg (NoKindMatch m) = m"
| "err_msg (NoResourceMatch m) = m"
| "err_msg (DiscoveryFailed es us m) = m"
| "err_msg (OtherErr m) = m"

lemma err_nodes_head [simp]: "e \<in> set (err_nodes e)"
  by (cases e) auto

lemma err_is_refl [simp]: "err_is e e"
  by (simp add: err_is_def)

lemma err_is_wrap [simp]: "err_is (Wrap m e) t \<longleftrightarrow> t = Wrap m e \<or> err_is e t"
  by (auto simp: err_is_def)

lemma err_is_join: "e \<in> set es \<Longrightarrow> err_is e t \<Longrightarrow> err_is (Join es) t"
  by (auto simp: err_is_def)

lemma err_is_sentinel [simp]: "err_is (Sentinel n m) t \<longleftrightarrow> t = Sentinel n m"
  by (auto simp: err_is_def)

lemma is_not_found_simps [simp]:
  "is_not_found (ApiStatus r m) \<longleftrightarrow> r = ''NotFound''"
  "is_not_found (Wrap m e) = is_not_found e"
  "\<not> is_not_found (Sentinel n m)"
  "\<not> is_not_found (NoKindMatch m)"
  "\<not> is_not_found (NoResourceMatch m)"
  "\<not> is_not_found (OtherErr m)"
  by (simp_all add: is_not_found_def)

lemma ignore_not_found_simps [simp]:
  "ignore_not_found None = None"
  "ignore_not_found (Some e) = (if is_not_found e then None else Some e)"
  by (simp_all add: ignore_not_found_def)

section \<open>IsCRDNotFound\<close>

text \<open>
  \<^verbatim>\<open>IsCRDNotFound\<close>: a nil error is \<open>None\<close>. The comparison with
  \<^verbatim>\<open>&meta.NoKindMatchError{}\<close> holds at any node of that kind (the type's own
  \<^verbatim>\<open>Is\<close> method), \<^verbatim>\<open>errors.As\<close> takes the first discovery failure of the tree.
\<close>

definition IsCRDNotFound :: "err option \<Rightarrow> bool" where
  "IsCRDNotFound r = (case r of
     None \<Rightarrow> False
   | Some e \<Rightarrow>
       if list_ex is_no_kind_match (err_nodes e) then True
       else if list_ex is_no_resource_match (err_nodes e) then True
       else (case find is_discovery_failed (err_nodes e) of
               Some (DiscoveryFailed es us m) \<Rightarrow> list_all is_not_found es
             | _ \<Rightarrow> False))"

lemma IsCRDNotFound_None [simp]: "\<not> IsCRDNotFound None"
  by (simp add: IsCRDNotFound_def)

lemma IsCRDNotFound_simps [simp]:
  "IsCRDNotFound (Some (NoKindMatch m))"
  "IsCRDNotFound (Some (NoResourceMatch m))"
  "\<not> IsCRDNotFound (Some (ApiStatus r m))"
  "\<not> IsCRDNotFound (Some (Sentinel n m))"
  "\<not> IsCRDNotFound (Some (OtherErr m))"
  by (simp_all add: IsCRDNotFound_def)

lemma find_discovery_split:
  "find is_discovery_failed xs = Some x \<Longrightarrow> \<exists>es us m. x = DiscoveryFailed es us m"
  by (drule find_Some_mem) (cases x; simp)

lemma IsCRDNotFound_discovery:
  "IsCRDNotFound (Some (DiscoveryFailed es us m)) \<longleftrightarrow>
     list_ex is_no_kind_match (concat (map err_nodes us)) \<or>
     list_ex is_no_resource_match (concat (map err_nodes us)) \<or>
     list_all is_not_found es"
  by (simp add: IsCRDNotFound_def)

text \<open>
  What \<^verbatim>\<open>controller-runtime\<close> documents of a discovery failure: unwrapping it yields its
  errors, with each \<open>NotFound\<close> replaced by a no-resource-match error.
\<close>

definition discovery_unwrap_doc :: "err \<Rightarrow> bool" where
  "discovery_unwrap_doc e \<longleftrightarrow> (case e of
     DiscoveryFailed es us m \<Rightarrow>
       us = map (\<lambda>x. if is_not_found x then NoResourceMatch (err_msg x) else x) es
   | _ \<Rightarrow> False)"

text \<open>
  IsCRDNotFound on a discovery failure whose Unwrap behaves as documented: one group
  version reported as not found is enough, whatever the errors of the other group versions
  are. (The comment in the code says that all wrapped errors must be NotFound; the earlier
  errors.Is check already answers true.)
\<close>

theorem crd_not_found_one_is_enough:
  assumes "discovery_unwrap_doc (DiscoveryFailed es us m)"
    and "x \<in> set es" and "is_not_found x"
  shows "IsCRDNotFound (Some (DiscoveryFailed es us m))"
proof -
  from assms have "NoResourceMatch (err_msg x) \<in> set us"
    by (auto simp: discovery_unwrap_doc_def)
  then have "list_ex is_no_resource_match (concat (map err_nodes us))"
    by (force simp: list_ex_iff)
  then show ?thesis by (simp add: IsCRDNotFound_discovery)
qed

theorem crd_not_found_one_is_enough_witness:
  "IsCRDNotFound (Some (DiscoveryFailed
     [ApiStatus ''NotFound'' ''gone'', ApiStatus ''Forbidden'' ''no'']
     [NoResourceMatch ''gone'', ApiStatus ''Forbidden'' ''no''] ''discovery''))"
  by (rule crd_not_found_one_is_enough [where x = "ApiStatus ''NotFound'' ''gone''"])
     (simp_all add: discovery_unwrap_doc_def)

end
