(* ===== verification/Kube.thy ===== *)
theory Kube
  imports GoErrors
begin

text \<open>
  The Kubernetes objects the operator reads and writes, with the fields it uses, and the
  API client. The API server is not part of the repository: a client is a record of
  operations over an opaque world \<open>'w\<close>, an argument of every definition that uses one;
  \<open>api_laws\<close> states the documented behaviour of these operations and is a hypothesis
  where a property needs it. Reads are functions of the world at the moment of the call;
  writes return the next world. \<^verbatim>\<open>pkg/utils/meta.go\<close> is modelled at the end.
\<close>

section \<open>Object metadata and conditions\<close>

record objmeta =
  om_namespace :: string
  om_name :: string
  om_labels :: "(string \<Rightarrow> string option) option"
  om_annotations :: "(string \<Rightarrow> string option) option"
  om_finalizers :: "string list"
  om_deletion :: "int option"
  om_generation :: int
  om_owners :: "nname list"

definition empty_meta :: "string \<Rightarrow> string \<Rightarrow> objmeta" where
  "empty_meta ns n = \<lparr> om_namespace = ns, om_name = n, om_labels = None, om_annotations = None,
     om_finalizers = [], om_deletion = None, om_generation = 0, om_owners = [] \<rparr>"

datatype cond_status = CTrue | CFalse | CUnknown

record condition =
  cond_type :: string
  cond_stat :: cond_status
  cond_reason :: string
  cond_message :: string
  cond_time :: int

section \<open>Bodies\<close>

record secret_body =
  se_type :: string
  se_data :: "(string \<Rightarrow> string option) option"

record policy_rule =
  pr_groups :: "string list"
  pr_resources :: "string list"
  pr_verbs :: "string list"

record role_ref =
  rr_group :: string
  rr_kind :: string
  rr_name :: string

record subject =
  sj_kind :: string
  sj_name :: string
  sj_namespace :: string

record provider_body =
  pv_package :: string
  pv_pull_policy :: "string option"
  pv_pull_secrets :: "string list"
  pv_runtime_ref :: "string option"
  pv_conditions :: "condition list"

record container =
  ct_name :: string
  ct_args :: "string list"

record deployment_spec =
  ds_selector :: "string option"
  ds_containers :: "container list"
  ds_rest :: string

text \<open>
  A DeploymentRuntimeConfig: the deployment template (its spec), the service account
  template (its metadata, of which only the optional name is read) and the rest.
\<close>

record drc_body =
  dr_deployment :: "deployment_spec option option"
  dr_service_account :: "string option option option"

record rule_with_ops =
  ro_operations :: "string list"
  ro_groups :: "string list"
  ro_versions :: "string list"
  ro_resources :: "string list"

record validation =
  va_expression :: string
  va_message :: string
  va_reason :: "string option"

record vap_spec =
  vs_failure_policy :: "string option"
  vs_param_kind :: "(string \<times> string) option"
  vs_match_constraints :: "rule_with_ops list option"
  vs_match_conditions :: "(string \<times> string) list"
  vs_variables :: "(string \<times> string) list"
  vs_validations :: "validation list"

record vapb_spec =
  vb_policy_name :: string
  vb_param_ref :: "(string \<times> string option) option"
  vb_actions :: "string list"

record package_restriction =
  rs_registries :: "string list"
  rs_packages :: "string list"

record cpr_spec =
  cs_providers :: package_restriction
  cs_configurations :: package_restriction
  cs_functions :: package_restriction

record source_spec =
  ss_url :: string
  ss_timeout :: "int option"
  ss_interval :: int
  ss_suspend :: bool

record chart_template =
  ht_chart :: string
  ht_version :: string
  ht_source_kind :: string
  ht_source_name :: string

record helm_install =
  hi_create_namespace :: bool
  hi_retries :: "int option"

record helm_release_spec =
  hs_chart :: "chart_template option"
  hs_release_name :: string
  hs_target_namespace :: string
  hs_storage_namespace :: string
  hs_kubeconfig :: "(string \<times> string) option"
  hs_values :: "string option"
  hs_interval :: int
  hs_suspend :: bool
  hs_install :: "helm_install option"
  hs_upgrade :: "int option option"

record crd_spec =
  xs_kind :: string
  xs_rest :: string

datatype kind =
    KSecret | KNamespace | KServiceAccount | KClusterRole | KClusterRoleBinding
  | KProvider | KDeploymentRuntimeConfig | KPolicy | KPolicyBinding | KPackageRestriction
  | KCRD | KHelmRelease | KHelmRepository | KGitRepository | KOCIRepository
  | KUnstructured string string string

datatype kbody =
    BSecret secret_body
  | BNamespace
  | BServiceAccount "bool option"
  | BClusterRole "policy_rule list"
  | BClusterRoleBinding role_ref "subject list"
  | BProvider provider_body
  | BDeploymentRuntimeConfig drc_body
  | BPolicy vap_spec int
  | BPolicyBinding vapb_spec
  | BPackageRestriction cpr_spec
  | BCRD crd_spec "string list"
  | BHelmRelease helm_release_spec "condition list"
  | BHelmRepository source_spec "condition list"
  | BGitRepository source_spec "condition list"
  | BOCIRepository source_spec "condition list"
  | BUnstructured string string string

record kobj =
  ko_meta :: objmeta
  ko_body :: kbody

fun kind_of_body :: "kbody \<Rightarrow> kind" where
  "kind_of_body (BSecret _) = KSecret"
| "kind_of_body BNamespace = KNamespace"
| "kind_of_body (BServiceAccount _) = KServiceAccount"
| "kind_of_body (BClusterRole _) = KClusterRole"
| "kind_of_body (BClusterRoleBinding _ _) = KClusterRoleBinding"
| "kind_of_body (BProvider _) = KProvider"
| "kind_of_body (BDeploymentRuntimeConfig _) = KDeploymentRuntimeConfig"
| "kind_of_body (BPolicy _ _) = KPolicy"
| "kind_of_body (BPolicyBinding _) = KPolicyBinding"
| "kind_of_body (BPackageRestriction _) = KPackageRestriction"
| "kind_of_body (BCRD _ _) = KCRD"
| "kind_of_body (BHelmRelease _ _) = KHelmRelease"
| "kind_of_body (BHelmRepository _ _) = KHelmRepository"
| "kind_of_body (BGitRepository _ _) = KGitRepository"
| "kind_of_body (BOCIRepository _ _) = KOCIRepository"
| "kind_of_body (BUnstructured g v k) = KUnstructured g v k"

definition kind_of :: "kobj \<Rightarrow> kind" where
  "kind_of ob = kind_of_body (ko_body ob)"

definition key_of :: "kobj \<Rightarrow> nname" where
  "key_of ob = \<lparr> nn_namespace = om_namespace (ko_meta ob), nn_name = om_name (ko_meta ob) \<rparr>"

definition new_obj :: "string \<Rightarrow> string \<Rightarrow> kbody \<Rightarrow> kobj" where
  "new_obj ns n b = \<lparr> ko_meta = empty_meta ns n, ko_body = b \<rparr>"

definition labels_of :: "kobj \<Rightarrow> string \<Rightarrow> string option" where
  "labels_of ob = (case om_labels (ko_meta ob) of None \<Rightarrow> Map.empty | Some l \<Rightarrow> l)"

definition annotations_of :: "kobj \<Rightarrow> string \<Rightarrow> string option" where
  "annotations_of ob = (case om_annotations (ko_meta ob) of None \<Rightarrow> Map.empty | Some l \<Rightarrow> l)"

lemma kind_of_new [simp]: "kind_of (new_obj ns n b) = kind_of_body b"
  by (simp add: kind_of_def new_obj_def)

lemma key_of_new [simp]: "key_of (new_obj ns n b) = \<lparr> nn_namespace = ns, nn_name = n \<rparr>"
  by (simp add: key_of_def new_obj_def empty_meta_def)

section \<open>The client\<close>

datatype list_opt = MatchingLabels "(string \<times> string) list" | HasLabels "string list" | Limit nat

fun opt_matches :: "list_opt \<Rightarrow> kobj \<Rightarrow> bool" where
  "opt_matches (MatchingLabels kvs) ob = list_all (\<lambda>(k, v). labels_of ob k = Some v) kvs"
| "opt_matches (HasLabels ks) ob = list_all (\<lambda>k. labels_of ob k \<noteq> None) ks"
| "opt_matches (Limit n) ob = True"

definition opts_match :: "list_opt list \<Rightarrow> kobj \<Rightarrow> bool" where
  "opts_match os ob = list_all (\<lambda>p. opt_matches p ob) os"

fun is_limit :: "list_opt \<Rightarrow> bool" where
  "is_limit (Limit n) = True"
| "is_limit _ = False"

record 'w client =
  cl_get :: "kind \<Rightarrow> nname \<Rightarrow> 'w \<Rightarrow> err + kobj"
  cl_list :: "kind \<Rightarrow> list_opt list \<Rightarrow> 'w \<Rightarrow> err + kobj list"
  cl_create_or_update :: "kobj \<Rightarrow> (kobj \<Rightarrow> err + kobj) \<Rightarrow> 'w \<Rightarrow> err option \<times> 'w"
  cl_update :: "kobj \<Rightarrow> 'w \<Rightarrow> err option \<times> 'w"
  cl_delete :: "kobj \<Rightarrow> 'w \<Rightarrow> err option \<times> 'w"
  cl_delete_all_of :: "kind \<Rightarrow> list_opt list \<Rightarrow> 'w \<Rightarrow> err option \<times> 'w"

text \<open>
  Documented behaviour of the client, over a view of the objects the server holds. A read
  may fail, but what it returns is what the server holds, and a not-found answer is
  truthful. \<^verbatim>\<open>CreateOrUpdate\<close> reads the object, applies the mutate function to what it
  found (to the given object when there is none) and stores the result; a failing mutate
  function, and a write the server refuses, leave everything unchanged. A delete removes
  the object, but one with finalizers is only marked for deletion, and an error means that
  nothing happened. Updating an object that is marked for deletion and has no finalizer left
  removes it.
\<close>

type_synonym 'w kview = "'w \<Rightarrow> kind \<Rightarrow> nname \<Rightarrow> kobj option"

definition left_behind :: "kobj option \<Rightarrow> kobj option \<Rightarrow> bool" where
  "left_behind cur new \<longleftrightarrow>
     (case cur of
        None \<Rightarrow> new = None
      | Some ob \<Rightarrow>
          if om_finalizers (ko_meta ob) = [] then new = None
          else \<exists>t. new = Some (ob\<lparr>ko_meta := (ko_meta ob)\<lparr>om_deletion := Some t\<rparr>\<rparr>))"

definition persisted :: "kobj \<Rightarrow> kobj option" where
  "persisted ob =
     (if om_deletion (ko_meta ob) \<noteq> None \<and> om_finalizers (ko_meta ob) = [] then None else Some ob)"

definition get_law :: "'w client \<Rightarrow> 'w kview \<Rightarrow> bool" where
  "get_law cl view \<longleftrightarrow> (\<forall>k n w.
     (\<forall>ob. cl_get cl k n w = Inr ob \<longrightarrow> view w k n = Some ob) \<and>
     (\<forall>e. cl_get cl k n w = Inl e \<longrightarrow> is_not_found e \<longrightarrow> view w k n = None))"

definition list_law :: "'w client \<Rightarrow> 'w kview \<Rightarrow> bool" where
  "list_law cl view \<longleftrightarrow> (\<forall>k os w obs. cl_list cl k os w = Inr obs \<longrightarrow>
     (if list_ex is_limit os then set obs \<subseteq> {ob. \<exists>n. view w k n = Some ob \<and> opts_match os ob}
      else set obs = {ob. \<exists>n. view w k n = Some ob \<and> opts_match os ob}))"

definition cou_law :: "'w client \<Rightarrow> 'w kview \<Rightarrow> bool" where
  "cou_law cl view \<longleftrightarrow> (\<forall>ob f w.
     (let k = kind_of ob; n = key_of ob;
          base = (case view w k n of Some cur \<Rightarrow> cur | None \<Rightarrow> ob);
          r = cl_create_or_update cl ob f w
      in case fst r of
           Some e \<Rightarrow> view (snd r) = view w
         | None \<Rightarrow> (\<exists>ob'. f base = Inr ob' \<and> view (snd r) = (view w)(k := (view w k)(n \<mapsto> ob')))))"

definition delete_law :: "'w client \<Rightarrow> 'w kview \<Rightarrow> bool" where
  "delete_law cl view \<longleftrightarrow> (\<forall>ob w.
     (let k = kind_of ob; n = key_of ob; r = cl_delete cl ob w
      in case fst r of
           Some e \<Rightarrow> view (snd r) = view w \<and> (is_not_found e \<longrightarrow> view w k n = None)
         | None \<Rightarrow> (\<exists>new. left_behind (view w k n) new
                      \<and> view (snd r) = (view w)(k := (view w k)(n := new)))))"

definition delete_all_law :: "'w client \<Rightarrow> 'w kview \<Rightarrow> bool" where
  "delete_all_law cl view \<longleftrightarrow> (\<forall>k os w.
     (let r = cl_delete_all_of cl k os w
      in case fst r of
           Some e \<Rightarrow> True
         | None \<Rightarrow> (\<exists>left. (\<forall>n. case view w k n of
                 Some ob \<Rightarrow> if opts_match os ob then left_behind (Some ob) (left n) else left n = Some ob
               | None \<Rightarrow> left n = None)
             \<and> view (snd r) = (view w)(k := left))))"

definition update_law :: "'w client \<Rightarrow> 'w kview \<Rightarrow> bool" where
  "update_law cl view \<longleftrightarrow> (\<forall>ob w.
     (let k = kind_of ob; n = key_of ob; r = cl_update cl ob w
      in case fst r of
           Some e \<Rightarrow> view (snd r) = view w
         | None \<Rightarrow> view (snd r) = (view w)(k := (view w k)(n := persisted ob))))"

definition api_laws :: "'w client \<Rightarrow> 'w kview \<Rightarrow> bool" where
  "api_laws cl view \<longleftrightarrow> get_law cl view \<and> list_law cl view \<and> cou_law cl view \<and>
     delete_law cl view \<and> delete_all_law cl view \<and> update_law cl view"

lemma left_behind_None [simp]: "left_behind None new \<longleftrightarrow> new = None"
  by (simp add: left_behind_def)

lemma left_behind_trans: "left_behind a b \<Longrightarrow> left_behind b c \<Longrightarrow> left_behind a c"
  by (auto simp: left_behind_def split: option.splits if_splits)

lemma cou_law_ok:
  assumes "cou_law cl view" and "cl_create_or_update cl ob f w = (None, w')"
  obtains ob' where
    "f (case view w (kind_of ob) (key_of ob) of Some cur \<Rightarrow> cur | None \<Rightarrow> ob) = Inr ob'"
    "view w' = (view w)(kind_of ob := (view w (kind_of ob))(key_of ob \<mapsto> ob'))"
  using assms(1)[unfolded cou_law_def, rule_format, where ob = ob and f = f and w = w] assms(2)
  by (auto simp: Let_def)

lemma cou_law_err:
  assumes "cou_law cl view" and "cl_create_or_update cl ob f w = (Some e, w')"
  shows "view w' = view w"
  using assms(1)[unfolded cou_law_def, rule_format, where ob = ob and f = f and w = w] assms(2)
  by (auto simp: Let_def)

section \<open>pkg/utils/meta.go\<close>

definition LabelManagedBy :: string where
  "LabelManagedBy = ''app.kubernetes.io/managed-by''"
definition LabelManagedByValue :: string where
  "LabelManagedByValue = ''control-plane-operator''"
definition LabelComponentName :: string where
  "LabelComponentName = ''controlplane.core.orchestrate.cloud.sap/component''"

definition SetLabel :: "kobj \<Rightarrow> string \<Rightarrow> string \<Rightarrow> kobj" where
  "SetLabel ob label value =
     (let labels = (case om_labels (ko_meta ob) of None \<Rightarrow> Map.empty | Some l \<Rightarrow> l)
      in ob\<lparr>ko_meta := (ko_meta ob)\<lparr>om_labels := Some (labels(label \<mapsto> value))\<rparr>\<rparr>)"

definition SetManagedBy :: "kobj \<Rightarrow> kobj" where
  "SetManagedBy ob = SetLabel ob LabelManagedBy LabelManagedByValue"

definition IsManaged :: list_opt where
  "IsManaged = MatchingLabels [(LabelManagedBy, LabelManagedByValue)]"

definition HasComponentLabel :: list_opt where
  "HasComponentLabel = HasLabels [LabelComponentName]"

text \<open>The labels map is passed as its entries, in the order the \<^verbatim>\<open>range\<close> loop meets them.\<close>

fun SetLabels :: "kobj \<Rightarrow> (string \<times> string) list \<Rightarrow> kobj" where
  "SetLabels ob [] = ob"
| "SetLabels ob ((k, v) # kvs) = SetLabels (SetLabel ob k v) kvs"

lemma labels_of_SetLabel [simp]: "labels_of (SetLabel ob k v) = (labels_of ob)(k \<mapsto> v)"
  by (simp add: labels_of_def SetLabel_def Let_def split: option.splits)

lemma SetLabel_frame [simp]:
  "ko_body (SetLabel ob k v) = ko_body ob" "kind_of (SetLabel ob k v) = kind_of ob"
  "key_of (SetLabel ob k v) = key_of ob" "annotations_of (SetLabel ob k v) = annotations_of ob"
  "om_finalizers (ko_meta (SetLabel ob k v)) = om_finalizers (ko_meta ob)"
  "om_deletion (ko_meta (SetLabel ob k v)) = om_deletion (ko_meta ob)"
  "om_name (ko_meta (SetLabel ob k v)) = om_name (ko_meta ob)"
  "om_namespace (ko_meta (SetLabel ob k v)) = om_namespace (ko_meta ob)"
  by (simp_all add: SetLabel_def Let_def kind_of_def key_of_def annotations_of_def)

lemma SetManagedBy_frame [simp]:
  "ko_body (SetManagedBy ob) = ko_body ob" "kind_of (SetManagedBy ob) = kind_of ob"
  "key_of (SetManagedBy ob) = key_of ob" "annotations_of (SetManagedBy ob) = annotations_of ob"
  "labels_of (SetManagedBy ob) = (labels_of ob)(LabelManagedBy \<mapsto> LabelManagedByValue)"
  by (simp_all add: SetManagedBy_def)

lemma SetLabels_frame [simp]:
  "ko_body (SetLabels ob kvs) = ko_body ob" "kind_of (SetLabels ob kvs) = kind_of ob"
  "key_of (SetLabels ob kvs) = key_of ob" "annotations_of (SetLabels ob kvs) = annotations_of ob"
  by (induction ob kvs rule: SetLabels.induct) simp_all

text \<open>The order of the \<^verbatim>\<open>range\<close> loop does not matter: the keys of a map are distinct.\<close>

lemma labels_of_SetLabels:
  "distinct (map fst kvs) \<Longrightarrow> labels_of (SetLabels ob kvs) = labels_of ob ++ map_of kvs"
proof (induction ob kvs rule: SetLabels.induct)
  case (2 ob k v kvs)
  then have "map_of kvs k = None" by (simp add: map_of_eq_None_iff)
  with 2 show ?case by (auto simp: fun_eq_iff map_add_def split: option.splits)
qed simp

end
