(* ===== verification/NestedMaps.thy ===== *)
theory NestedMaps
  imports GoErrors
begin

text \<open>
  \<^verbatim>\<open>pkg/utils/maps.go\<close>: defaults and lookups along a path of a
  \<^verbatim>\<open>map[string]any\<close>. A Go map value is \<open>(string \<rightharpoonup> any) option\<close>, \<open>None\<close> being the nil
  map; an interface value is a nil interface, a nested map, or a leaf the code only ever
  distinguishes from a map. The functions mutate their argument in place, so the model
  returns the map as it is left, also on an error. The values come from decoded JSON and
  share no sub-maps.
\<close>

datatype any =
    ANil
  | AMap "(string \<Rightarrow> any option) option"
  | AStr string
  | ABool bool
  | AInt int
  | AOther string

type_synonym anymap = "(string \<Rightarrow> any option) option"

definition ErrNotAStringAnyMap :: err where
  "ErrNotAStringAnyMap = Sentinel ''ErrNotAStringAnyMap'' ''sub-map is not of type map[string]any''"
definition ErrNoPath :: err where
  "ErrNoPath = Sentinel ''ErrNoPath'' ''at least one path element needs to be specified''"
definition ErrMapNil :: err where
  "ErrMapNil = Sentinel ''ErrMapNil'' ''map is nil''"
definition ErrValueNotFound :: err where
  "ErrValueNotFound = Sentinel ''ErrValueNotFound'' ''value not found''"

lemmas map_errs = ErrNotAStringAnyMap_def ErrNoPath_def ErrMapNil_def ErrValueNotFound_def

lemma map_errs_distinct [simp]:
  "ErrNotAStringAnyMap \<noteq> ErrNoPath" "ErrNotAStringAnyMap \<noteq> ErrMapNil"
  "ErrNotAStringAnyMap \<noteq> ErrValueNotFound" "ErrNoPath \<noteq> ErrMapNil"
  "ErrNoPath \<noteq> ErrValueNotFound" "ErrMapNil \<noteq> ErrValueNotFound"
  "ErrValueNotFound \<noteq> ErrNotAStringAnyMap" "ErrValueNotFound \<noteq> ErrMapNil"
  by (simp_all add: map_errs)

definition is_nil :: "any option \<Rightarrow> bool" where
  "is_nil x \<longleftrightarrow> x = None \<or> x = Some ANil"

fun SetNestedDefault :: "anymap \<Rightarrow> any \<Rightarrow> string list \<Rightarrow> err option \<times> anymap" where
  "SetNestedDefault None v path = (Some ErrMapNil, None)"
| "SetNestedDefault (Some m) v [] = (Some ErrNoPath, Some m)"
| "SetNestedDefault (Some m) v [k] =
     (case m k of Some _ \<Rightarrow> (None, Some m) | None \<Rightarrow> (None, Some (m(k \<mapsto> v))))"
| "SetNestedDefault (Some m) v (k # k2 # ks) =
     (let m1 = (if is_nil (m k) then m(k \<mapsto> AMap (Some Map.empty)) else m)
      in case m1 k of
           Some (AMap sub) \<Rightarrow>
             (let (e, sub') = SetNestedDefault sub v (k2 # ks)
              in (e, Some (m1(k \<mapsto> AMap sub'))))
         | _ \<Rightarrow> (Some ErrNotAStringAnyMap, Some m1))"

fun GetNestedValue :: "anymap \<Rightarrow> string list \<Rightarrow> any gores" where
  "GetNestedValue None path = Err ErrMapNil"
| "GetNestedValue (Some m) [] = Err ErrNoPath"
| "GetNestedValue (Some m) [k] =
     (case m k of Some x \<Rightarrow> Ok x | None \<Rightarrow> Err ErrValueNotFound)"
| "GetNestedValue (Some m) (k # k2 # ks) =
     (if is_nil (m k) then Err ErrValueNotFound
      else case m k of
             Some (AMap sub) \<Rightarrow> GetNestedValue sub (k2 # ks)
           | _ \<Rightarrow> Err ErrNotAStringAnyMap)"

lemma is_nil_simps [simp]:
  "is_nil None" "is_nil (Some ANil)" "\<not> is_nil (Some (AMap s))" "\<not> is_nil (Some (AStr t))"
  "\<not> is_nil (Some (ABool b))" "\<not> is_nil (Some (AInt i))" "\<not> is_nil (Some (AOther t))"
  by (simp_all add: is_nil_def)

text \<open>The two ways through one step of the path.\<close>

lemma SetNestedDefault_step_nil:
  "is_nil (m k) \<Longrightarrow> SetNestedDefault (Some m) v (k # k2 # ks) =
     (fst (SetNestedDefault (Some Map.empty) v (k2 # ks)),
      Some (m(k \<mapsto> AMap (snd (SetNestedDefault (Some Map.empty) v (k2 # ks))))))"
  by (simp add: Let_def split: prod.splits)

lemma SetNestedDefault_step_map:
  "m k = Some (AMap sub) \<Longrightarrow> SetNestedDefault (Some m) v (k # k2 # ks) =
     (fst (SetNestedDefault sub v (k2 # ks)),
      Some (m(k \<mapsto> AMap (snd (SetNestedDefault sub v (k2 # ks))))))"
  by (simp add: Let_def split: prod.splits)

lemma SetNestedDefault_step_leaf:
  "\<not> is_nil (m k) \<Longrightarrow> (\<And>sub. m k \<noteq> Some (AMap sub)) \<Longrightarrow>
     SetNestedDefault (Some m) v (k # k2 # ks) = (Some ErrNotAStringAnyMap, Some m)"
  by (auto simp: Let_def split: option.splits any.splits)

lemmas SetNestedDefault_steps =
  SetNestedDefault_step_nil SetNestedDefault_step_map SetNestedDefault_step_leaf

lemma entry_cases:
  obtains (Nil) "is_nil (m k)" | (Map) sub where "m k = Some (AMap sub)"
  | (Leaf) "\<not> is_nil (m k)" "\<And>sub. m k \<noteq> Some (AMap sub)"
  by (cases "m k") (auto simp: is_nil_def)

declare SetNestedDefault.simps(4) [simp del]

text \<open>A default below a fresh map always succeeds, and is found again.\<close>

lemma set_in_empty:
  "fst (SetNestedDefault (Some Map.empty) v (k # ks)) = None
   \<and> GetNestedValue (snd (SetNestedDefault (Some Map.empty) v (k # ks))) (k # ks) = Ok v"
proof (induction ks arbitrary: k)
  case Nil
  then show ?case by simp
next
  case (Cons k2 ks)
  have n: "is_nil (Map.empty k)" by simp
  from Cons [of k2] show ?case by (simp add: SetNestedDefault_step_nil [OF n])
qed

lemma set_error_unchanged:
  "fst (SetNestedDefault m v p) = Some e \<Longrightarrow> snd (SetNestedDefault m v p) = m"
proof (induction m v p rule: SetNestedDefault.induct)
  case (4 m v k k2 ks)
  show ?case
  proof (cases m k rule: entry_cases)
    case Nil
    with "4.prems" set_in_empty [of v k2 ks] show ?thesis
      by (simp add: SetNestedDefault_step_nil)
  next
    case (Map sub)
    with "4.prems" have "snd (SetNestedDefault sub v (k2 # ks)) = sub"
      by (intro "4.IH" [of m]) (auto simp: SetNestedDefault_step_map)
    with Map show ?thesis
      by (auto simp: SetNestedDefault_step_map)
  next
    case Leaf
    then show ?thesis by (simp add: SetNestedDefault_step_leaf)
  qed
qed (auto split: option.splits)

text \<open>
  Setting a default along a path reports an error exactly when the map is nil, the path
  is empty or a value that is not a map lies on the path, and then nothing was changed: the
  in-place mutation never leaves a half-written path behind.
\<close>

theorem SetNestedDefault_error_leaves_map:
  "fst (SetNestedDefault m v p) = Some e \<Longrightarrow>
     snd (SetNestedDefault m v p) = m
     \<and> (case GetNestedValue m p of Err e' \<Rightarrow> e' = e \<and> e \<noteq> ErrValueNotFound | _ \<Rightarrow> False)"
proof (induction m v p rule: SetNestedDefault.induct)
  case (4 m v k k2 ks)
  show ?case
  proof (cases m k rule: entry_cases)
    case Nil
    with "4.prems" set_in_empty [of v k2 ks] show ?thesis
      by (simp add: SetNestedDefault_step_nil)
  next
    case (Map sub)
    with "4.prems" have "snd (SetNestedDefault sub v (k2 # ks)) = sub
        \<and> (case GetNestedValue sub (k2 # ks) of Err e' \<Rightarrow> e' = e \<and> e \<noteq> ErrValueNotFound | _ \<Rightarrow> False)"
      by (intro "4.IH" [of m]) (auto simp: SetNestedDefault_step_map)
    with Map show ?thesis
      by (auto simp: SetNestedDefault_step_map)
  next
    case Leaf
    with "4.prems" show ?thesis
      by (auto simp: SetNestedDefault_step_leaf split: option.splits any.splits)
  qed
qed (auto split: option.splits)

theorem SetNestedDefault_error_leaves_map_witness:
  "snd (SetNestedDefault (Some [''a'' \<mapsto> AStr ''x'']) (AInt 1) [''a'', ''b''])
     = Some [''a'' \<mapsto> AStr ''x'']"
proof -
  have "fst (SetNestedDefault (Some [''a'' \<mapsto> AStr ''x'']) (AInt 1) [''a'', ''b''])
      = Some ErrNotAStringAnyMap"
    by (simp add: SetNestedDefault.simps)
  from SetNestedDefault_error_leaves_map [OF this] show ?thesis by simp
qed

lemma set_then_get:
  "fst (SetNestedDefault m v p) = None \<Longrightarrow>
     GetNestedValue (snd (SetNestedDefault m v p)) p
       = (case GetNestedValue m p of Ok x \<Rightarrow> Ok x | _ \<Rightarrow> Ok v)"
proof (induction m v p rule: SetNestedDefault.induct)
  case (4 m v k k2 ks)
  show ?case
  proof (cases m k rule: entry_cases)
    case Nil
    with set_in_empty [of v k2 ks] show ?thesis
      by (simp add: SetNestedDefault_step_nil)
  next
    case (Map sub)
    with "4.prems" have "GetNestedValue (snd (SetNestedDefault sub v (k2 # ks))) (k2 # ks)
        = (case GetNestedValue sub (k2 # ks) of Ok x \<Rightarrow> Ok x | _ \<Rightarrow> Ok v)"
      by (intro "4.IH" [of m]) (auto simp: SetNestedDefault_step_map)
    with Map show ?thesis by (simp add: SetNestedDefault_step_map)
  next
    case Leaf
    with "4.prems" show ?thesis by (simp add: SetNestedDefault_step_leaf)
  qed
qed (auto split: option.splits)

text \<open>
  C40. A default that is set without an error is read back by GetNestedValue, unless the path
  already held a value, which is then kept and read back instead.
\<close>

theorem SetNestedDefault_then_get:
  "fst (SetNestedDefault m v p) = None \<Longrightarrow>
     GetNestedValue (snd (SetNestedDefault m v p)) p
       = (case GetNestedValue m p of Ok x \<Rightarrow> Ok x | _ \<Rightarrow> Ok v)"
  by (rule set_then_get)

theorem SetNestedDefault_then_get_witness:
  "GetNestedValue (snd (SetNestedDefault (Some [''a'' \<mapsto> AMap (Some [''c'' \<mapsto> AInt 3])])
     (AInt 1) [''a'', ''b''])) [''a'', ''b''] = Ok (AInt 1)"
proof -
  have "fst (SetNestedDefault (Some [''a'' \<mapsto> AMap (Some [''c'' \<mapsto> AInt 3])]) (AInt 1) [''a'', ''b'']) = None"
    by (simp add: SetNestedDefault.simps)
  from SetNestedDefault_then_get [OF this] show ?thesis by simp
qed

text \<open>Reading anywhere off the path sees no difference.\<close>

lemma get_off_path_empty:
  "\<not> prefix q (k # ks) \<Longrightarrow> \<not> prefix (k # ks) q \<Longrightarrow>
     GetNestedValue (snd (SetNestedDefault (Some Map.empty) v (k # ks))) q = Err ErrValueNotFound"
proof (induction ks arbitrary: k q)
  case Nil
  then obtain j q' where "q = j # q'" by (cases q) auto
  with Nil show ?case by (cases q') auto
next
  case (Cons k2 ks)
  then obtain j q' where q: "q = j # q'" by (cases q) auto
  have n: "is_nil (Map.empty k)" by simp
  show ?case
  proof (cases q')
    case Nil
    with q Cons.prems show ?thesis by (simp add: SetNestedDefault_step_nil [OF n])
  next
    case (Cons j2 q'')
    with q Cons.prems Cons.IH [of q' k2] show ?thesis
      by (auto simp: SetNestedDefault_step_nil [OF n])
  qed
qed

lemma set_frame:
  "\<not> prefix q p \<Longrightarrow> \<not> prefix p q \<Longrightarrow>
     GetNestedValue (snd (SetNestedDefault m v p)) q = GetNestedValue m q"
proof (induction m v p arbitrary: q rule: SetNestedDefault.induct)
  case (3 m v k)
  then obtain j q' where "q = j # q'" by (cases q) auto
  with 3 show ?case by (cases q') (auto split: option.splits)
next
  case (4 m v k k2 ks)
  then obtain j q' where q: "q = j # q'" by (cases q) auto
  show ?case
  proof (cases "j = k \<and> q' \<noteq> []")
    case False
    with q "4.prems" show ?thesis
      by (cases m k rule: entry_cases; cases q')
         (auto simp: SetNestedDefault_steps)
  next
    case True
    then obtain j2 q'' where q': "j = k" "q' = j2 # q''" by (cases q') auto
    have off: "\<not> prefix q' (k2 # ks)" "\<not> prefix (k2 # ks) q'"
      using "4.prems" q q' by auto
    show ?thesis
    proof (cases m k rule: entry_cases)
      case Nil
      with off q q' show ?thesis
        by (simp add: SetNestedDefault_step_nil get_off_path_empty)
    next
      case (Map sub)
      with off have "GetNestedValue (snd (SetNestedDefault sub v (k2 # ks))) q' = GetNestedValue sub q'"
        by (intro "4.IH" [of m]) auto
      with Map q q' show ?thesis by (simp add: SetNestedDefault_step_map)
    next
      case Leaf
      then show ?thesis by (simp add: SetNestedDefault_step_leaf)
    qed
  qed
qed auto

text \<open>
  SetNestedDefault touches its path only: reading any path that is neither on the way to
  it nor below it gives the same value, or the same error, as before.
\<close>

theorem SetNestedDefault_frame:
  "\<not> prefix q p \<Longrightarrow> \<not> prefix p q \<Longrightarrow>
     GetNestedValue (snd (SetNestedDefault m v p)) q = GetNestedValue m q"
  by (rule set_frame)

theorem SetNestedDefault_frame_witness:
  "GetNestedValue (snd (SetNestedDefault (Some [''a'' \<mapsto> AMap (Some [''c'' \<mapsto> AInt 3])])
     (AInt 1) [''a'', ''b''])) [''a'', ''c''] = Ok (AInt 3)"
  using SetNestedDefault_frame [of "[''a'', ''c'']" "[''a'', ''b'']"
      "Some [''a'' \<mapsto> AMap (Some [''c'' \<mapsto> AInt 3])]" "AInt 1"]
  by simp

text \<open>Setting the default again changes nothing.\<close>

lemma set_present_noop:
  "GetNestedValue m p = Ok x \<Longrightarrow> SetNestedDefault m v p = (None, m)"
proof (induction m v p rule: SetNestedDefault.induct)
  case (4 m v k k2 ks)
  show ?case
  proof (cases m k rule: entry_cases)
    case (Map sub)
    with "4.prems" have "SetNestedDefault sub v (k2 # ks) = (None, sub)"
      by (intro "4.IH" [of m]) auto
    with Map show ?thesis by (auto simp: SetNestedDefault_step_map)
  qed (use "4.prems" in \<open>auto split: option.splits any.splits\<close>)
qed (auto split: option.splits)

lemma SetNestedDefault_idem:
  assumes "fst (SetNestedDefault m v p) = None"
  shows "SetNestedDefault (snd (SetNestedDefault m v p)) w p = (None, snd (SetNestedDefault m v p))"
proof -
  have "\<exists>x. GetNestedValue (snd (SetNestedDefault m v p)) p = Ok x"
    using assms set_then_get [OF assms] by (auto split: gores_of.splits)
  then show ?thesis by (auto intro: set_present_noop)
qed

end
