(* ===== verification/Libs.thy ===== *)
theory Libs
  imports Kube NestedMaps
begin

text \<open>
  Functions of third-party packages the operator calls. They are not in the repository, so
  they are a record that the definitions using them take as an argument; the laws below
  state what their documentation says and are hypotheses of the properties that rely on
  them.

  \<^item> \<open>lib_find_condition\<close>, \<open>lib_set_condition\<close>, \<open>lib_remove_condition\<close>: the status
    condition helpers of \<^verbatim>\<open>k8s.io/apimachinery/pkg/api/meta\<close>;
  \<^item> \<open>lib_get_condition\<close>: Crossplane's \<^verbatim>\<open>GetCondition\<close>;
  \<^item> \<open>lib_set_meta_label\<close>: \<^verbatim>\<open>metav1.SetMetaDataLabel\<close>;
  \<^item> \<open>lib_add_finalizer\<close>, \<open>lib_remove_finalizer\<close>, \<open>lib_contains_finalizer\<close>: the finalizer
    helpers of controller-runtime's \<^verbatim>\<open>controllerutil\<close>;
  \<^item> \<open>lib_title\<close>: \<^verbatim>\<open>cases.Title(language.English).String\<close>;
  \<^item> \<open>lib_scheme_default\<close>: the defaulting functions of the runtime scheme;
  \<^item> \<open>lib_unmarshal\<close>, \<open>lib_marshal\<close>: the JSON codec on \<^verbatim>\<open>map[string]any\<close>.
\<close>

record libs =
  lib_find_condition :: "condition list \<Rightarrow> string \<Rightarrow> condition option"
  lib_set_condition :: "condition list \<Rightarrow> condition \<Rightarrow> bool \<times> condition list"
  lib_remove_condition :: "condition list \<Rightarrow> string \<Rightarrow> bool \<times> condition list"
  lib_get_condition :: "condition list \<Rightarrow> string \<Rightarrow> condition"
  lib_set_meta_label :: "kobj \<Rightarrow> string \<Rightarrow> string \<Rightarrow> kobj"
  lib_add_finalizer :: "string list \<Rightarrow> string \<Rightarrow> bool \<times> string list"
  lib_remove_finalizer :: "string list \<Rightarrow> string \<Rightarrow> bool \<times> string list"
  lib_contains_finalizer :: "string list \<Rightarrow> string \<Rightarrow> bool"
  lib_title :: "string \<Rightarrow> string"
  lib_scheme_default :: "kobj \<Rightarrow> kobj"
  lib_unmarshal :: "string \<Rightarrow> err + anymap"
  lib_marshal :: "anymap \<Rightarrow> err + string"

section \<open>The documented behaviour of the condition helpers\<close>

definition find_law :: "libs \<Rightarrow> bool" where
  "find_law L \<longleftrightarrow> (\<forall>cs t. lib_find_condition L cs t = find (\<lambda>c. cond_type c = t) cs)"

text \<open>
  Setting a condition: a condition of a new type is appended; of the existing condition of
  that type all fields are set to the new ones, but the transition time, which is kept when
  the status did not change. The answer tells whether anything changed.
\<close>

definition merge_condition :: "condition \<Rightarrow> condition \<Rightarrow> condition" where
  "merge_condition old new =
     (if cond_stat old = cond_stat new then new\<lparr>cond_time := cond_time old\<rparr> else new)"

fun set_condition_doc :: "condition list \<Rightarrow> condition \<Rightarrow> condition list" where
  "set_condition_doc [] new = [new]"
| "set_condition_doc (c # cs) new =
     (if cond_type c = cond_type new then merge_condition c new # cs
      else c # set_condition_doc cs new)"

definition set_law :: "libs \<Rightarrow> bool" where
  "set_law L \<longleftrightarrow> (\<forall>cs c. lib_set_condition L cs c =
     (set_condition_doc cs c \<noteq> cs, set_condition_doc cs c))"

definition remove_law :: "libs \<Rightarrow> bool" where
  "remove_law L \<longleftrightarrow> (\<forall>cs t. lib_remove_condition L cs t =
     (filter (\<lambda>c. cond_type c \<noteq> t) cs \<noteq> cs, filter (\<lambda>c. cond_type c \<noteq> t) cs))"

definition conditions_laws :: "libs \<Rightarrow> bool" where
  "conditions_laws L \<longleftrightarrow> find_law L \<and> set_law L \<and> remove_law L"

definition default_law :: "libs \<Rightarrow> bool" where
  "default_law L \<longleftrightarrow> (\<forall>ob. lib_scheme_default L ob = ob)"

text \<open>A label is set on the object's metadata, and nothing else of it changes.\<close>

definition meta_label_law :: "libs \<Rightarrow> bool" where
  "meta_label_law L \<longleftrightarrow> (\<forall>ob k v. lib_set_meta_label L ob k v = SetLabel ob k v)"

text \<open>A condition that is not there is reported with the status unknown.\<close>

definition get_condition_law :: "libs \<Rightarrow> bool" where
  "get_condition_law L \<longleftrightarrow> (\<forall>cs t. lib_get_condition L cs t =
     (case find (\<lambda>c. cond_type c = t) cs of
        Some c \<Rightarrow> c
      | None \<Rightarrow> \<lparr> cond_type = t, cond_stat = CUnknown, cond_reason = [], cond_message = [], cond_time = 0 \<rparr>))"

text \<open>The finalizer helpers tell whether they changed the list.\<close>

definition finalizer_law :: "libs \<Rightarrow> bool" where
  "finalizer_law L \<longleftrightarrow> (\<forall>fs f.
     lib_add_finalizer L fs f = (if f \<in> set fs then (False, fs) else (True, fs @ [f]))
     \<and> lib_remove_finalizer L fs f = (f \<in> set fs, filter (\<lambda>x. x \<noteq> f) fs)
     \<and> (lib_contains_finalizer L fs f \<longleftrightarrow> f \<in> set fs))"

definition codec_law :: "libs \<Rightarrow> bool" where
  "codec_law L \<longleftrightarrow> (\<forall>m s. lib_marshal L m = Inr s \<longrightarrow> lib_unmarshal L s = Inr m)"

lemma conditions_lawsD:
  assumes "conditions_laws L"
  shows "lib_find_condition L cs t = find (\<lambda>c. cond_type c = t) cs"
    and "lib_set_condition L cs c = (set_condition_doc cs c \<noteq> cs, set_condition_doc cs c)"
    and "lib_remove_condition L cs t =
      (filter (\<lambda>c. cond_type c \<noteq> t) cs \<noteq> cs, filter (\<lambda>c. cond_type c \<noteq> t) cs)"
  using assms by (simp_all add: conditions_laws_def find_law_def set_law_def remove_law_def)

text \<open>An instance that follows the documentation, for witnesses.\<close>

definition doc_libs :: libs where
  "doc_libs = \<lparr>
     lib_find_condition = (\<lambda>cs t. find (\<lambda>c. cond_type c = t) cs),
     lib_set_condition = (\<lambda>cs c. (set_condition_doc cs c \<noteq> cs, set_condition_doc cs c)),
     lib_remove_condition = (\<lambda>cs t.
       (filter (\<lambda>c. cond_type c \<noteq> t) cs \<noteq> cs, filter (\<lambda>c. cond_type c \<noteq> t) cs)),
     lib_get_condition = (\<lambda>cs t. case find (\<lambda>c. cond_type c = t) cs of
        Some c \<Rightarrow> c
      | None \<Rightarrow> \<lparr> cond_type = t, cond_stat = CUnknown, cond_reason = [], cond_message = [], cond_time = 0 \<rparr>),
     lib_set_meta_label = SetLabel,
     lib_add_finalizer = (\<lambda>fs f. if f \<in> set fs then (False, fs) else (True, fs @ [f])),
     lib_remove_finalizer = (\<lambda>fs f. (f \<in> set fs, filter (\<lambda>x. x \<noteq> f) fs)),
     lib_contains_finalizer = (\<lambda>fs f. f \<in> set fs),
     lib_title = (\<lambda>s. s),
     lib_scheme_default = (\<lambda>ob. ob),
     lib_unmarshal = (\<lambda>s. Inl (OtherErr ''no json'')),
     lib_marshal = (\<lambda>m. Inl (OtherErr ''no json'')) \<rparr>"

lemma doc_libs_laws [simp]: "conditions_laws doc_libs" "default_law doc_libs" "codec_law doc_libs"
  "meta_label_law doc_libs" "get_condition_law doc_libs" "finalizer_law doc_libs"
  by (simp_all add: finalizer_law_def meta_label_law_def get_condition_law_def conditions_laws_def find_law_def set_law_def remove_law_def default_law_def
        codec_law_def doc_libs_def)

end
