(* ===== verification/Conditions.thy ===== *)
theory Conditions
  imports Libs
begin

text \<open>
  \<^verbatim>\<open>pkg/utils/conditions.go\<close> (UpdateConditions) and the condition constructors of
  \<^verbatim>\<open>api/v1beta1/controlplane_types.go\<close>. The time of \<^verbatim>\<open>metav1.Now()\<close> is an argument.
\<close>

section \<open>UpdateConditions\<close>

fun set_all :: "libs \<Rightarrow> condition list \<Rightarrow> condition list \<Rightarrow> bool \<times> condition list" where
  "set_all L conditions [] = (False, conditions)"
| "set_all L conditions (newCond # newConds) =
     (case lib_set_condition L conditions newCond of
        (setChanged, conditions') \<Rightarrow>
          (case set_all L conditions' newConds of
             (changed, conditions'') \<Rightarrow> (setChanged \<or> changed, conditions'')))"

text \<open>
  The second loop ranges over the slice as it is when the loop starts; removing a condition
  replaces the slice behind the pointer.
\<close>

fun remove_stale :: "libs \<Rightarrow> condition list \<Rightarrow> condition list \<Rightarrow> condition list \<Rightarrow> bool \<times> condition list" where
  "remove_stale L newConditions [] conditions = (False, conditions)"
| "remove_stale L newConditions (cond # conds) conditions =
     (if lib_find_condition L newConditions (cond_type cond) = None
      then (case lib_remove_condition L conditions (cond_type cond) of
              (removeChanged, conditions') \<Rightarrow>
                (case remove_stale L newConditions conds conditions' of
                   (changed, conditions'') \<Rightarrow> (removeChanged \<or> changed, conditions'')))
      else remove_stale L newConditions conds conditions)"

definition UpdateConditions :: "libs \<Rightarrow> condition list \<Rightarrow> condition list \<Rightarrow> bool \<times> condition list" where
  "UpdateConditions L conditions newConditions =
     (case set_all L conditions newConditions of
        (changed1, conditions1) \<Rightarrow>
          (case remove_stale L newConditions conditions1 conditions1 of
             (changed2, conditions2) \<Rightarrow> (changed1 \<or> changed2, conditions2)))"

section \<open>Condition constructors\<close>

definition mk_condition :: "string \<Rightarrow> cond_status \<Rightarrow> string \<Rightarrow> string \<Rightarrow> int \<Rightarrow> condition" where
  "mk_condition t s r m now = \<lparr> cond_type = t, cond_stat = s, cond_reason = r,
     cond_message = m, cond_time = now \<rparr>"

definition Creating :: "int \<Rightarrow> condition" where
  "Creating now = mk_condition ''Ready'' CFalse ''Creating'' [] now"
definition Deleting :: "int \<Rightarrow> condition" where
  "Deleting now = mk_condition ''Ready'' CFalse ''Deleting'' [] now"
definition Unavailable :: "int \<Rightarrow> condition" where
  "Unavailable now = mk_condition ''Ready'' CFalse ''Unavailable'' [] now"
definition Available :: "int \<Rightarrow> condition" where
  "Available now = mk_condition ''Ready'' CTrue ''Available'' [] now"
definition ReconcileSuccess :: "int \<Rightarrow> condition" where
  "ReconcileSuccess now = mk_condition ''Synced'' CTrue ''ReconcileSuccess'' [] now"
definition ReconcileError :: "err \<Rightarrow> int \<Rightarrow> condition" where
  "ReconcileError e now = mk_condition ''Synced'' CFalse ''ReconcileError'' (err_msg e) now"

lemmas condition_defs [go_defs] = mk_condition_def Creating_def Deleting_def Unavailable_def
  Available_def ReconcileSuccess_def ReconcileError_def

section \<open>Laws\<close>

lemma types_set_condition_doc:
  "map cond_type (set_condition_doc cs c) =
     (if cond_type c \<in> cond_type ` set cs then map cond_type cs else map cond_type cs @ [cond_type c])"
  by (induction cs) (auto simp: merge_condition_def)

definition set_all_doc :: "condition list \<Rightarrow> condition list \<Rightarrow> condition list" where
  "set_all_doc cs ns = foldl set_condition_doc cs ns"

lemma set_all_doc_simps [simp]:
  "set_all_doc cs [] = cs"
  "set_all_doc cs (n # ns) = set_all_doc (set_condition_doc cs n) ns"
  by (simp_all add: set_all_doc_def)

lemma set_all_eq:
  "conditions_laws L \<Longrightarrow> snd (set_all L cs ns) = set_all_doc cs ns"
  by (induction ns arbitrary: cs) (simp_all add: conditions_lawsD case_prod_beta)

lemma remove_stale_eq:
  "conditions_laws L \<Longrightarrow> snd (remove_stale L ns xs cs) =
     filter (\<lambda>c. cond_type c \<in> cond_type ` set ns \<or> cond_type c \<notin> cond_type ` set xs) cs"
proof (induction xs arbitrary: cs)
  case Nil
  then show ?case by simp
next
  case (Cons x xs)
  have "lib_find_condition L ns (cond_type x) = None \<longleftrightarrow> cond_type x \<notin> cond_type ` set ns"
    using Cons.prems by (auto simp: conditions_lawsD find_None_iff_all image_iff)
  with Cons show ?case
    by (simp add: conditions_lawsD case_prod_beta)
       (auto intro!: filter_cong)
qed

lemma UpdateConditions_eq:
  "conditions_laws L \<Longrightarrow> snd (UpdateConditions L cs ns) =
     filter (\<lambda>c. cond_type c \<in> cond_type ` set ns) (set_all_doc cs ns)"
  by (auto simp: UpdateConditions_def case_prod_beta set_all_eq remove_stale_eq
           intro!: filter_cong)

lemma set_all_doc_types:
  "cond_type ` set (set_all_doc cs ns) = cond_type ` set cs \<union> cond_type ` set ns"
proof (induction ns arbitrary: cs)
  case Nil
  then show ?case by simp
next
  case (Cons n ns)
  have "cond_type ` set (set_condition_doc cs n) = insert (cond_type n) (cond_type ` set cs)"
    using arg_cong [OF types_set_condition_doc [of cs n], of set] by (auto split: if_splits)
  with Cons show ?case by auto
qed

lemma distinct_set_condition_doc:
  "distinct (map cond_type cs) \<Longrightarrow> distinct (map cond_type (set_condition_doc cs c))"
  by (auto simp: types_set_condition_doc)

lemma distinct_set_all_doc:
  "distinct (map cond_type cs) \<Longrightarrow> distinct (map cond_type (set_all_doc cs ns))"
  by (induction ns arbitrary: cs) (auto simp: distinct_set_condition_doc)

definition cond_of :: "condition list \<Rightarrow> string \<Rightarrow> condition option" where
  "cond_of cs t = find (\<lambda>c. cond_type c = t) cs"

lemma cond_type_merge [simp]: "cond_type (merge_condition c n) = cond_type n"
  by (simp add: merge_condition_def)

lemma cond_of_set_condition_doc:
  "cond_of (set_condition_doc cs c) t =
     (if t = cond_type c
      then Some (case cond_of cs t of None \<Rightarrow> c | Some old \<Rightarrow> merge_condition old c)
      else cond_of cs t)"
  by (induction cs) (auto simp: cond_of_def)

lemma cond_of_set_all_doc_other:
  "t \<notin> cond_type ` set ns \<Longrightarrow> cond_of (set_all_doc cs ns) t = cond_of cs t"
  by (induction ns arbitrary: cs) (auto simp: cond_of_set_condition_doc)

lemma cond_of_set_all_doc:
  "distinct (map cond_type ns) \<Longrightarrow> n \<in> set ns \<Longrightarrow>
     cond_of (set_all_doc cs ns) (cond_type n) =
       Some (case cond_of cs (cond_type n) of None \<Rightarrow> n | Some old \<Rightarrow> merge_condition old n)"
proof (induction ns arbitrary: cs)
  case Nil
  then show ?case by simp
next
  case (Cons m ns)
  show ?case
  proof (cases "n = m")
    case True
    with Cons.prems show ?thesis
      by (simp add: cond_of_set_all_doc_other cond_of_set_condition_doc cong: option.case_cong)
  next
    case False
    with Cons.prems have "n \<in> set ns" "cond_type n \<noteq> cond_type m" by (auto simp: image_iff)
    with Cons show ?thesis by (simp add: cond_of_set_condition_doc)
  qed
qed

lemma cond_of_filter:
  "P t \<Longrightarrow> cond_of (filter (\<lambda>c. P (cond_type c)) cs) t = cond_of cs t"
  by (induction cs) (auto simp: cond_of_def)

text \<open>
  C39. UpdateConditions leaves exactly the condition types of the new conditions, each once,
  and each with the content of the new condition; only the transition time of a condition
  whose status did not change is the old one. In particular a condition list with no new
  conditions is emptied.
\<close>

theorem UpdateConditions_spec:
  assumes "conditions_laws L" and "distinct (map cond_type cs)" and "distinct (map cond_type ns)"
  shows "distinct (map cond_type (snd (UpdateConditions L cs ns)))
    \<and> cond_type ` set (snd (UpdateConditions L cs ns)) = cond_type ` set ns
    \<and> (\<forall>n \<in> set ns. cond_of (snd (UpdateConditions L cs ns)) (cond_type n) =
         Some (case cond_of cs (cond_type n) of
                 None \<Rightarrow> n
               | Some old \<Rightarrow> if cond_stat old = cond_stat n then n\<lparr>cond_time := cond_time old\<rparr> else n))"
proof -
  let ?r = "snd (UpdateConditions L cs ns)"
  have r: "?r = filter (\<lambda>c. cond_type c \<in> cond_type ` set ns) (set_all_doc cs ns)"
    by (rule UpdateConditions_eq [OF assms(1)])
  have "distinct (map cond_type ?r)"
    unfolding r by (rule distinct_map_filter) (rule distinct_set_all_doc [OF assms(2)])
  moreover have "cond_type ` set ?r = cond_type ` set ns"
  proof -
    have "cond_type ` {c \<in> A. cond_type c \<in> T} = cond_type ` A \<inter> T" for A T by auto
    from this [of "set (set_all_doc cs ns)" "cond_type ` set ns"] show ?thesis
      by (simp add: r set_all_doc_types Int_absorb1)
  qed
  moreover have "cond_of ?r (cond_type n) =
      Some (case cond_of cs (cond_type n) of None \<Rightarrow> n | Some old \<Rightarrow> merge_condition old n)"
    if "n \<in> set ns" for n
    unfolding r using that cond_of_set_all_doc [OF assms(3) that]
    by (subst cond_of_filter) auto
  ultimately show ?thesis by (auto simp: merge_condition_def split: option.splits)
qed

theorem UpdateConditions_spec_witness:
  "cond_of (snd (UpdateConditions doc_libs [Unavailable 1, ReconcileSuccess 2] [Available 5])) ''Ready''
     = Some (Available 5)
   \<and> cond_type ` set (snd (UpdateConditions doc_libs [Unavailable 1, ReconcileSuccess 2] [Available 5]))
     = {''Ready''}"
  using UpdateConditions_spec [of doc_libs "[Unavailable 1, ReconcileSuccess 2]" "[Available 5]"]
  by (simp add: condition_defs cond_of_def)

end
