(* ===== verification/RContext.thy ===== *)
theory RContext
  imports Libs
begin

text \<open>
  \<^verbatim>\<open>pkg/utils/rcontext/rcontext.go\<close> and the resolver types of
  \<^verbatim>\<open>api/v1beta1/releasechannel_types.go\<close> and
  \<^verbatim>\<open>pkg/controlplane/secretresolver/secretresolver.go\<close>. A context is a record of the values
  the operator stores in it; a key that was never set is \<open>None\<close>. The two getters that
  assert the type of the stored value without a check panic on a missing key.
\<close>

record component_version =
  cv_version :: string
  cv_docker_ref :: string
  cv_helm_repo :: string
  cv_helm_chart :: string
  cv_oci_url :: string

definition zero_component_version :: component_version where
  "zero_component_version = \<lparr> cv_version = [], cv_docker_ref = [], cv_helm_repo = [],
     cv_helm_chart = [], cv_oci_url = [] \<rparr>"

type_synonym 'w version_resolver = "string \<Rightarrow> string \<Rightarrow> 'w \<Rightarrow> err + component_version"
type_synonym 'w available_resolver = "string \<Rightarrow> 'w \<Rightarrow> err + string list"

record url_secret_type =
  us_url :: string
  us_type :: string

type_synonym secret_resolver = "url_secret_type \<Rightarrow> string option"

record 'w rctx =
  rc_tenant_namespace :: "string option"
  rc_flux_kubeconfig :: "(string \<times> string) option"
  rc_version_resolver :: "'w version_resolver option"
  rc_available_resolver :: "'w available_resolver option"
  rc_secret_resolver :: "secret_resolver option"

definition background :: "'w rctx" where
  "background = \<lparr> rc_tenant_namespace = None, rc_flux_kubeconfig = None,
     rc_version_resolver = None, rc_available_resolver = None, rc_secret_resolver = None \<rparr>"

definition WithTenantNamespace :: "'w rctx \<Rightarrow> string \<Rightarrow> 'w rctx" where
  "WithTenantNamespace ctx ns = ctx\<lparr>rc_tenant_namespace := Some ns\<rparr>"

definition TenantNamespace :: "'w rctx \<Rightarrow> string gores" where
  "TenantNamespace ctx = (case rc_tenant_namespace ctx of
     Some ns \<Rightarrow> Ok ns | None \<Rightarrow> Panic ''interface conversion'')"

definition WithFluxKubeconfigRef :: "'w rctx \<Rightarrow> string \<Rightarrow> 'w rctx" where
  "WithFluxKubeconfigRef ctx name = ctx\<lparr>rc_flux_kubeconfig := Some (name, ''kubeconfig'')\<rparr>"

definition FluxKubeconfigRef :: "'w rctx \<Rightarrow> (string \<times> string) gores" where
  "FluxKubeconfigRef ctx = (case rc_flux_kubeconfig ctx of
     Some r \<Rightarrow> Ok r | None \<Rightarrow> Panic ''interface conversion'')"

definition WithVersionResolver :: "'w rctx \<Rightarrow> 'w version_resolver \<Rightarrow> 'w rctx" where
  "WithVersionResolver ctx fn = ctx\<lparr>rc_version_resolver := Some fn\<rparr>"

definition WithAvailableVersionsResolver :: "'w rctx \<Rightarrow> 'w available_resolver \<Rightarrow> 'w rctx" where
  "WithAvailableVersionsResolver ctx fn = ctx\<lparr>rc_available_resolver := Some fn\<rparr>"

definition VersionResolver :: "'w rctx \<Rightarrow> 'w version_resolver option" where
  "VersionResolver ctx = rc_version_resolver ctx"

definition AvailableVersionsResolver :: "'w rctx \<Rightarrow> 'w available_resolver option" where
  "AvailableVersionsResolver ctx = rc_available_resolver ctx"

definition WithSecretRefResolver :: "'w rctx \<Rightarrow> secret_resolver \<Rightarrow> 'w rctx" where
  "WithSecretRefResolver ctx fn = ctx\<lparr>rc_secret_resolver := Some fn\<rparr>"

definition SecretRefResolver :: "'w rctx \<Rightarrow> secret_resolver option" where
  "SecretRefResolver ctx = rc_secret_resolver ctx"

lemmas rctx_defs [go_defs] =
  WithTenantNamespace_def TenantNamespace_def WithFluxKubeconfigRef_def FluxKubeconfigRef_def
  WithVersionResolver_def WithAvailableVersionsResolver_def VersionResolver_def
  AvailableVersionsResolver_def WithSecretRefResolver_def SecretRefResolver_def

lemma TenantNamespace_simps [simp]:
  "TenantNamespace (WithTenantNamespace ctx ns) = Ok ns"
  "TenantNamespace (WithFluxKubeconfigRef ctx r) = TenantNamespace ctx"
  "TenantNamespace (WithVersionResolver ctx f) = TenantNamespace ctx"
  "TenantNamespace (WithAvailableVersionsResolver ctx g) = TenantNamespace ctx"
  "TenantNamespace (WithSecretRefResolver ctx h) = TenantNamespace ctx"
  by (simp_all add: rctx_defs)

lemma FluxKubeconfigRef_simps [simp]:
  "FluxKubeconfigRef (WithFluxKubeconfigRef ctx r) = Ok (r, ''kubeconfig'')"
  "FluxKubeconfigRef (WithTenantNamespace ctx ns) = FluxKubeconfigRef ctx"
  "FluxKubeconfigRef (WithVersionResolver ctx f) = FluxKubeconfigRef ctx"
  "FluxKubeconfigRef (WithAvailableVersionsResolver ctx g) = FluxKubeconfigRef ctx"
  "FluxKubeconfigRef (WithSecretRefResolver ctx h) = FluxKubeconfigRef ctx"
  by (simp_all add: rctx_defs)

lemma VersionResolver_simps [simp]:
  "VersionResolver (WithVersionResolver ctx f) = Some f"
  "VersionResolver (WithTenantNamespace ctx ns) = VersionResolver ctx"
  "VersionResolver (WithFluxKubeconfigRef ctx r) = VersionResolver ctx"
  "VersionResolver (WithAvailableVersionsResolver ctx g) = VersionResolver ctx"
  "VersionResolver (WithSecretRefResolver ctx h) = VersionResolver ctx"
  by (simp_all add: rctx_defs)

lemma AvailableVersionsResolver_simps [simp]:
  "AvailableVersionsResolver (WithAvailableVersionsResolver ctx g) = Some g"
  "AvailableVersionsResolver (WithSecretRefResolver ctx h) = AvailableVersionsResolver ctx"
  "AvailableVersionsResolver (WithFluxKubeconfigRef ctx r) = AvailableVersionsResolver ctx"
  by (simp_all add: rctx_defs)

lemma SecretRefResolver_simps [simp]:
  "SecretRefResolver (WithSecretRefResolver ctx h) = Some h"
  "SecretRefResolver (WithFluxKubeconfigRef ctx r) = SecretRefResolver ctx"
  by (simp_all add: rctx_defs)

end
