(* ===== verification/Ocm.thy ===== *)
theory Ocm
  imports RContext
begin

text \<open>
  \<^verbatim>\<open>internal/ocm\<close> and the release channel types of
  \<^verbatim>\<open>api/v1beta1/releasechannel_types.go\<close>: looking a component version up in the release
  channels, listing the available versions, and building the component list of a release
  channel from an OCM repository. The OCM library (the repository, the access methods, the
  version sort) is a parameter.
\<close>

section \<open>Release channels\<close>

record rc_component =
  co_name :: string
  co_versions :: "component_version list"

record release_channel_spec =
  rs_ocm_registry_url :: string
  rs_pull_secret_ref :: nname
  rs_ocm_registry_secret_ref :: nname
  rs_ocm_registry_secret_key :: string
  rs_prefix_filter :: string
  rs_interval :: int

record release_channel =
  rch_name :: string
  rch_spec :: release_channel_spec
  rch_components :: "rc_component list"

section \<open>Version lookup\<close>

definition ErrComponentVersionNotFound :: err where
  "ErrComponentVersionNotFound = Sentinel ''ErrComponentVersionNotFound'' ''component version not found''"

fun find_in_components :: "string \<Rightarrow> string \<Rightarrow> rc_component list \<Rightarrow> component_version option" where
  "find_in_components componentName version [] = None"
| "find_in_components componentName version (component # components) =
     (if co_name component = componentName
      then (case find (\<lambda>v. cv_version v = version) (co_versions component) of
              Some v \<Rightarrow> Some v
            | None \<Rightarrow> find_in_components componentName version components)
      else find_in_components componentName version components)"

fun find_in_channels :: "string \<Rightarrow> string \<Rightarrow> release_channel list \<Rightarrow> component_version option" where
  "find_in_channels componentName version [] = None"
| "find_in_channels componentName version (rc # rcs) =
     (case find_in_components componentName version (rch_components rc) of
        Some v \<Rightarrow> Some v
      | None \<Rightarrow> find_in_channels componentName version rcs)"

definition GetOCMComponent ::
  "('w \<Rightarrow> err + release_channel list) \<Rightarrow> string \<Rightarrow> string \<Rightarrow> 'w \<Rightarrow> err + component_version" where
  "GetOCMComponent list_channels componentName version w =
     (case list_channels w of
        Inl e \<Rightarrow> Inl e
      | Inr rcs \<Rightarrow>
          (case find_in_channels componentName version rcs of
             Some v \<Rightarrow> Inr v
           | None \<Rightarrow> Inl (Wrap (err_msg ErrComponentVersionNotFound @ '': component '' @ componentName
                              @ '' with version '' @ version) ErrComponentVersionNotFound)))"

fun first_component :: "string \<Rightarrow> rc_component list \<Rightarrow> rc_component option" where
  "first_component componentName [] = None"
| "first_component componentName (c # cs) =
     (if co_name c = componentName then Some c else first_component componentName cs)"

fun first_in_channels :: "string \<Rightarrow> release_channel list \<Rightarrow> rc_component option" where
  "first_in_channels componentName [] = None"
| "first_in_channels componentName (rc # rcs) =
     (case first_component componentName (rch_components rc) of
        Some c \<Rightarrow> Some c
      | None \<Rightarrow> first_in_channels componentName rcs)"

definition GetOCMComponentAvailableVersions ::
  "(string list \<Rightarrow> string list) \<Rightarrow> ('w \<Rightarrow> err + release_channel list) \<Rightarrow> string \<Rightarrow> 'w
     \<Rightarrow> err + string list" where
  "GetOCMComponentAvailableVersions sort_versions list_channels componentName w =
     (case list_channels w of
        Inl e \<Rightarrow> Inl e
      | Inr rcs \<Rightarrow>
          (case first_in_channels componentName rcs of
             Some c \<Rightarrow> Inr (sort_versions (map cv_version (co_versions c)))
           | None \<Rightarrow> Inl (OtherErr (''no versions found for component '' @ componentName))))"

text \<open>The nested loops visit the versions of the flattened channels in order.\<close>

definition all_versions :: "release_channel list \<Rightarrow> (string \<times> component_version) list" where
  "all_versions rcs =
     concat (map (\<lambda>rc. concat (map (\<lambda>c. map (Pair (co_name c)) (co_versions c)) (rch_components rc))) rcs)"

lemma find_append: "find P (xs @ ys) = (case find P xs of Some x \<Rightarrow> Some x | None \<Rightarrow> find P ys)"
  by (induction xs) auto

lemma find_map_Pair:
  "find (\<lambda>(n, v). n = c \<and> cv_version v = ver) (map (Pair m) vs)
     = (if m = c then map_option (Pair m) (find (\<lambda>v. cv_version v = ver) vs) else None)"
  by (induction vs) auto

lemma find_in_components_flat:
  "find_in_components c ver cs = map_option snd
     (find (\<lambda>(n, v). n = c \<and> cv_version v = ver)
        (concat (map (\<lambda>c. map (Pair (co_name c)) (co_versions c)) cs)))"
  by (induction cs) (auto simp: find_append find_map_Pair split: option.splits)

lemma find_in_channels_flat:
  "find_in_channels c ver rcs =
     map_option snd (find (\<lambda>(n, v). n = c \<and> cv_version v = ver) (all_versions rcs))"
  by (induction rcs)
     (auto simp: all_versions_def find_append find_in_components_flat split: option.splits)

lemma find_in_channels_None:
  "find_in_channels c ver rcs = None \<longleftrightarrow> (\<forall>(n, v) \<in> set (all_versions rcs). \<not> (n = c \<and> cv_version v = ver))"
  by (auto simp: find_in_channels_flat find_None_iff_all)

lemma find_in_channels_Some:
  "find_in_channels c ver rcs = Some v \<Longrightarrow> (c, v) \<in> set (all_versions rcs) \<and> cv_version v = ver"
  by (auto simp: find_in_channels_flat dest!: find_Some_mem)

text \<open>
  Version lookup is complete and truthful: with the release channels listed, it succeeds
  exactly when some channel offers the component in the requested version, what it returns is
  such an offer, and otherwise the error is recognised by errors.Is as
  ErrComponentVersionNotFound.
\<close>

theorem GetOCMComponent_spec:
  assumes "list_channels w = Inr rcs"
  shows "case GetOCMComponent list_channels name ver w of
           Inr v \<Rightarrow> (name, v) \<in> set (all_versions rcs) \<and> cv_version v = ver
         | Inl e \<Rightarrow> err_is e ErrComponentVersionNotFound
                    \<and> (\<forall>v. (name, v) \<in> set (all_versions rcs) \<longrightarrow> cv_version v \<noteq> ver)"
proof (cases "find_in_channels name ver rcs")
  case None
  then have "\<forall>v. (name, v) \<in> set (all_versions rcs) \<longrightarrow> cv_version v \<noteq> ver"
    by (auto simp: find_in_channels_None)
  with assms None show ?thesis by (simp add: GetOCMComponent_def)
next
  case (Some v)
  with assms show ?thesis
    by (auto simp: GetOCMComponent_def dest: find_in_channels_Some)
qed

definition cv_of :: "string \<Rightarrow> component_version" where
  "cv_of v = zero_component_version\<lparr>cv_version := v\<rparr>"

definition channel_of :: "string \<Rightarrow> (string \<times> string list) list \<Rightarrow> release_channel" where
  "channel_of n cs = \<lparr> rch_name = n, rch_spec =
     \<lparr> rs_ocm_registry_url = [], rs_pull_secret_ref = \<lparr>nn_namespace = [], nn_name = []\<rparr>,
       rs_ocm_registry_secret_ref = \<lparr>nn_namespace = [], nn_name = []\<rparr>,
       rs_ocm_registry_secret_key = [], rs_prefix_filter = [], rs_interval = 0 \<rparr>,
     rch_components = map (\<lambda>(c, vs). \<lparr> co_name = c, co_versions = map cv_of vs \<rparr>) cs \<rparr>"

theorem GetOCMComponent_spec_witness:
  "case GetOCMComponent (\<lambda>w :: unit. Inr [channel_of ''stable'' [(''flux'', [''2.0.0''])]]) ''flux'' ''2.0.0'' () of
     Inr v \<Rightarrow> cv_version v = ''2.0.0'' | Inl e \<Rightarrow> False"
proof -
  let ?rcs = "[channel_of ''stable'' [(''flux'', [''2.0.0''])]]"
  from GetOCMComponent_spec [where list_channels = "\<lambda>w :: unit. Inr ?rcs" and rcs = ?rcs
      and w = "()" and name = "''flux''" and ver = "''2.0.0''"]
  show ?thesis
    by (auto simp: all_versions_def channel_of_def cv_of_def split: sum.splits)
qed

text \<open>
  The list of available versions shows one channel only: a component offered by two
  release channels can be installed in a version of the second one, which the list of
  available versions does not contain (whatever order the version sort gives).
\<close>

theorem available_versions_miss_later_channels:
  assumes "\<And>vs. set (sort_versions vs) = set vs"
    and "first_component name (rch_components rc1) = Some c1"
    and "(name, v) \<in> set (all_versions [rc2])"
    and "cv_version v \<notin> cv_version ` set (co_versions c1)"
    and "list_channels w = Inr [rc1, rc2]"
  shows "(\<exists>v'. GetOCMComponent list_channels name (cv_version v) w = Inr v')
         \<and> (\<exists>vs. GetOCMComponentAvailableVersions sort_versions list_channels name w = Inr vs
                 \<and> cv_version v \<notin> set vs)"
proof -
  have "(name, v) \<in> set (all_versions [rc1, rc2])"
    using assms(3) by (auto simp: all_versions_def)
  then have "find_in_channels name (cv_version v) [rc1, rc2] \<noteq> None"
    by (auto simp only: find_in_channels_None)
  then show ?thesis using assms
    by (auto simp: GetOCMComponent_def GetOCMComponentAvailableVersions_def split: option.splits)
qed

theorem available_versions_miss_later_channels_witness:
  "\<exists>vs. GetOCMComponentAvailableVersions (\<lambda>vs. vs)
     (\<lambda>w :: unit. Inr [channel_of ''stable'' [(''flux'', [''2.0.0''])],
                        channel_of ''latest'' [(''flux'', [''2.1.0''])]]) ''flux'' () = Inr vs
     \<and> ''2.1.0'' \<notin> set vs"
proof -
  let ?rc1 = "channel_of ''stable'' [(''flux'', [''2.0.0''])]"
  let ?rc2 = "channel_of ''latest'' [(''flux'', [''2.1.0''])]"
  have "(\<exists>v'. GetOCMComponent (\<lambda>w :: unit. Inr [?rc1, ?rc2]) ''flux'' (cv_version (cv_of ''2.1.0'')) () = Inr v')
         \<and> (\<exists>vs. GetOCMComponentAvailableVersions (\<lambda>vs. vs) (\<lambda>w :: unit. Inr [?rc1, ?rc2]) ''flux'' () = Inr vs
                 \<and> cv_version (cv_of ''2.1.0'') \<notin> set vs)"
    by (rule available_versions_miss_later_channels
          [where ?c1.0 = "\<lparr> co_name = ''flux'', co_versions = [cv_of ''2.0.0''] \<rparr>"])
       (auto simp: channel_of_def all_versions_def cv_of_def)
  then show ?thesis by (simp add: cv_of_def)
qed

end
