(* ===== verification/Juggler.thy ===== *)
theory Juggler
  imports Ocm
begin

text \<open>
  \<^verbatim>\<open>pkg/juggler\<close>: the component framework (\<^verbatim>\<open>component.go\<close>, \<^verbatim>\<open>reconciler.go\<close>,
  \<^verbatim>\<open>events.go\<close>, \<^verbatim>\<open>juggler.go\<close>). The Go interfaces are records of their methods:
  \<open>component_iface\<close> for components of any type \<open>'c\<close> (with the optional interfaces as
  options), \<open>reconciler\<close> for ComponentReconciler. A component is a pointer whose fields
  the operations may update, so every operation takes the component and the world and
  returns both.
\<close>

section \<open>Component statuses, results and conditions (component.go)\<close>

datatype component_event = ComponentEventNone | ComponentEventNormal | ComponentEventWarning

record component_status =
  st_name :: string
  st_ready :: bool
  st_emits :: component_event

definition mk_status :: "string \<Rightarrow> bool \<Rightarrow> component_event \<Rightarrow> component_status" where
  "mk_status n r e = \<lparr> st_name = n, st_ready = r, st_emits = e \<rparr>"

definition StatusReconcilerNotFound :: component_status where
  "StatusReconcilerNotFound = mk_status ''ReconcilerNotFound'' False ComponentEventWarning"
definition StatusObservationFailed :: component_status where
  "StatusObservationFailed = mk_status ''ObservationFailed'' False ComponentEventWarning"
definition StatusUninstallFailed :: component_status where
  "StatusUninstallFailed = mk_status ''UninstallFailed'' False ComponentEventWarning"
definition StatusUninstalled :: component_status where
  "StatusUninstalled = mk_status ''Uninstalled'' False ComponentEventNormal"
definition StatusDisabled :: component_status where
  "StatusDisabled = mk_status ''Disabled'' False ComponentEventNone"
definition StatusComponentNotAllowed :: component_status where
  "StatusComponentNotAllowed = mk_status ''ComponentNotAllowed'' False ComponentEventWarning"
definition StatusDependencyCheckFailed :: component_status where
  "StatusDependencyCheckFailed = mk_status ''DependencyCheckFailed'' False ComponentEventWarning"
definition StatusInstallFailed :: component_status where
  "StatusInstallFailed = mk_status ''InstallFailed'' False ComponentEventWarning"
definition StatusInstalled :: component_status where
  "StatusInstalled = mk_status ''Installed'' False ComponentEventNormal"
definition StatusUpdateFailed :: component_status where
  "StatusUpdateFailed = mk_status ''UpdateFailed'' False ComponentEventWarning"
definition StatusUnhealthyReconciliationSkipped :: component_status where
  "StatusUnhealthyReconciliationSkipped = mk_status ''ReconciliationSkipped'' False ComponentEventNormal"
definition StatusUnhealthy :: component_status where
  "StatusUnhealthy = mk_status ''Unhealthy'' False ComponentEventNone"
definition StatusHealthyReconciliationSkipped :: component_status where
  "StatusHealthyReconciliationSkipped = mk_status ''ReconciliationSkipped'' True ComponentEventNormal"
definition StatusHealthy :: component_status where
  "StatusHealthy = mk_status ''Healthy'' True ComponentEventNone"

lemmas status_defs [go_defs] =
  mk_status_def
  StatusReconcilerNotFound_def StatusObservationFailed_def StatusUninstallFailed_def
  StatusUninstalled_def StatusDisabled_def StatusComponentNotAllowed_def
  StatusDependencyCheckFailed_def StatusInstallFailed_def StatusInstalled_def
  StatusUpdateFailed_def StatusUnhealthyReconciliationSkipped_def StatusUnhealthy_def
  StatusHealthyReconciliationSkipped_def StatusHealthy_def

record healthiness =
  he_healthy :: bool
  he_message :: string

record observation =
  ob_exists :: bool
  ob_skipped :: bool
  ob_health :: healthiness

definition zero_healthiness :: healthiness where
  "zero_healthiness = \<lparr> he_healthy = False, he_message = [] \<rparr>"

definition zero_observation :: observation where
  "zero_observation = \<lparr> ob_exists = False, ob_skipped = False, ob_health = zero_healthiness \<rparr>"

type_synonym rtype = string
type_synonym 'w hook = "'w client \<Rightarrow> 'w \<Rightarrow> err option \<times> 'w"

record 'w component_hooks =
  hk_pre_uninstall :: "'w hook option"
  hk_pre_install :: "'w hook option"
  hk_pre_update :: "'w hook option"

definition no_hooks :: "'w component_hooks" where
  "no_hooks = \<lparr> hk_pre_uninstall = None, hk_pre_install = None, hk_pre_update = None \<rparr>"

record ('c, 'w) component_iface =
  ci_type :: "'c \<Rightarrow> rtype"
  ci_name :: "'c \<Rightarrow> string"
  ci_dependencies :: "'c \<Rightarrow> 'c list"
  ci_enabled :: "'c \<Rightarrow> bool"
  ci_hooks :: "'c \<Rightarrow> 'w component_hooks"
  ci_installable :: "'w rctx \<Rightarrow> 'c \<Rightarrow> 'w \<Rightarrow> bool gores"
  ci_status_internal :: "'c \<Rightarrow> bool option"
  ci_keep_on_uninstall :: "'c \<Rightarrow> bool option"
  ci_available_versions :: "'c \<Rightarrow> ('w rctx \<Rightarrow> 'w \<Rightarrow> string list gores) option"

definition isComponentInternal :: "('c, 'w) component_iface \<Rightarrow> 'c \<Rightarrow> bool" where
  "isComponentInternal I c = (case ci_status_internal I c of Some b \<Rightarrow> b | None \<Rightarrow> False)"

definition keeps_on_uninstall :: "('c, 'w) component_iface \<Rightarrow> 'c \<Rightarrow> bool" where
  "keeps_on_uninstall I c = (case ci_keep_on_uninstall I c of Some b \<Rightarrow> b | None \<Rightarrow> False)"

record 'c component_result =
  cr_component :: 'c
  cr_result :: component_status
  cr_message :: string

definition conditionType :: "('c, 'w) component_iface \<Rightarrow> 'c component_result \<Rightarrow> string" where
  "conditionType I r =
     (let componentName = ci_name I (cr_component r);
          componentName' =
            (if isComponentInternal I (cr_component r) \<and> length componentName > 0
             then to_lower (take 1 componentName) @ drop 1 componentName else componentName)
      in componentName' @ ''Ready'')"

definition ToCondition :: "('c, 'w) component_iface \<Rightarrow> int \<Rightarrow> 'c component_result \<Rightarrow> condition" where
  "ToCondition I now r =
     (let status = (if st_ready (cr_result r) then CTrue else CFalse);
          reason = st_name (cr_result r);
          (reason', status') = (if reason = [] then (''Unknown'', CFalse) else (reason, status))
      in \<lparr> cond_type = conditionType I r, cond_stat = status', cond_reason = reason',
           cond_message = cr_message r, cond_time = now \<rparr>)"

section \<open>Events (events.go)\<close>

record event =
  ev_type :: component_event
  ev_reason :: string
  ev_message :: string

definition emitted_event ::
  "('c, 'w) component_iface \<Rightarrow> 'c \<Rightarrow> component_status \<Rightarrow> string \<Rightarrow> event list" where
  "emitted_event I c status message =
     (if st_emits status = ComponentEventNone then []
      else [\<lparr> ev_type = st_emits status, ev_reason = ci_name I c @ st_name status,
              ev_message = message \<rparr>])"

section \<open>Reconcilers (reconciler.go)\<close>

record ('c, 'w) reconciler =
  rk_known_types :: "rtype list"
  rk_observe :: "'w rctx \<Rightarrow> 'c \<Rightarrow> 'w \<Rightarrow> observation gores \<times> 'c \<times> 'w"
  rk_uninstall :: "'w rctx \<Rightarrow> 'c \<Rightarrow> 'w \<Rightarrow> unit gores \<times> 'c \<times> 'w"
  rk_update :: "'w rctx \<Rightarrow> 'c \<Rightarrow> 'w \<Rightarrow> unit gores \<times> 'c \<times> 'w"
  rk_install :: "'w rctx \<Rightarrow> 'c \<Rightarrow> 'w \<Rightarrow> unit gores \<times> 'c \<times> 'w"
  rk_pre_uninstall :: "'w rctx \<Rightarrow> 'c \<Rightarrow> 'w \<Rightarrow> unit gores \<times> 'c \<times> 'w"
  rk_pre_install :: "'w rctx \<Rightarrow> 'c \<Rightarrow> 'w \<Rightarrow> unit gores \<times> 'c \<times> 'w"
  rk_pre_update :: "'w rctx \<Rightarrow> 'c \<Rightarrow> 'w \<Rightarrow> unit gores \<times> 'c \<times> 'w"
  rk_detect_orphans :: "('w rctx \<Rightarrow> 'c list \<Rightarrow> 'w \<Rightarrow> 'c list gores) option"

definition DefaultLabelFunc :: "string \<Rightarrow> ('c, 'w) component_iface \<Rightarrow> 'c \<Rightarrow> (string \<times> string) list" where
  "DefaultLabelFunc componentLabel I c =
     [(LabelManagedBy, LabelManagedByValue), (componentLabel, ci_name I c)]"

section \<open>The Juggler (juggler.go)\<close>

definition errNoReconcilerForComponentType :: err where
  "errNoReconcilerForComponentType =
     Sentinel ''errNoReconcilerForComponentType'' ''no reconciler available for component''"
definition errTooManyReconcilers :: err where
  "errTooManyReconcilers =
     Sentinel ''errTooManyReconcilers'' ''more than one reconciler available for component''"
definition errDependencyNotRegistered :: err where
  "errDependencyNotRegistered =
     Sentinel ''errDependencyNotRegistered'' ''one or more dependencies are not registered''"
definition errDependencyNotEnabled :: err where
  "errDependencyNotEnabled =
     Sentinel ''errDependencyNotEnabled'' ''one or more dependencies are registered but not enabled''"
definition errHookFailed :: err where
  "errHookFailed = Sentinel ''errHookFailed'' ''hook failed''"

record ('c, 'w) juggler =
  jg_components :: "'c list"
  jg_reconcilers :: "('c, 'w) reconciler list"

definition NewJuggler :: "('c, 'w) juggler" where
  "NewJuggler = \<lparr> jg_components = [], jg_reconcilers = [] \<rparr>"

definition RegisterComponent :: "('c, 'w) juggler \<Rightarrow> 'c list \<Rightarrow> ('c, 'w) juggler" where
  "RegisterComponent am cs = am\<lparr>jg_components := jg_components am @ cs\<rparr>"

definition RegisterReconciler ::
  "('c, 'w) juggler \<Rightarrow> ('c, 'w) reconciler list \<Rightarrow> ('c, 'w) juggler" where
  "RegisterReconciler am rs = am\<lparr>jg_reconcilers := jg_reconcilers am @ rs\<rparr>"

definition RegisteredComponents :: "('c, 'w) juggler \<Rightarrow> nat" where
  "RegisteredComponents am = length (jg_components am)"

fun find_in_types :: "rtype \<Rightarrow> 'r \<Rightarrow> rtype list \<Rightarrow> 'r option \<Rightarrow> err + 'r option" where
  "find_in_types t rec [] sel = Inr sel"
| "find_in_types t rec (kt # kts) sel =
     (if t = kt
      then (case sel of Some _ \<Rightarrow> Inl errTooManyReconcilers
            | None \<Rightarrow> find_in_types t rec kts (Some rec))
      else find_in_types t rec kts sel)"

fun find_reconciler_loop ::
  "rtype \<Rightarrow> ('c, 'w) reconciler list \<Rightarrow> ('c, 'w) reconciler option
     \<Rightarrow> err + ('c, 'w) reconciler option" where
  "find_reconciler_loop t [] sel = Inr sel"
| "find_reconciler_loop t (rec # recs) sel =
     (case find_in_types t rec (rk_known_types rec) sel of
        Inl e \<Rightarrow> Inl e
      | Inr sel' \<Rightarrow> find_reconciler_loop t recs sel')"

definition findReconcilerFor ::
  "('c, 'w) component_iface \<Rightarrow> ('c, 'w) reconciler list \<Rightarrow> 'c \<Rightarrow> err + ('c, 'w) reconciler" where
  "findReconcilerFor I recs c =
     (case find_reconciler_loop (ci_type I c) recs None of
        Inl e \<Rightarrow> Inl e
      | Inr (Some rec) \<Rightarrow> Inr rec
      | Inr None \<Rightarrow> Inl errNoReconcilerForComponentType)"

definition findRegisteredComponent ::
  "('c, 'w) component_iface \<Rightarrow> 'c list \<Rightarrow> 'c \<Rightarrow> 'c option" where
  "findRegisteredComponent I comps sample = find (\<lambda>r. ci_type I r = ci_type I sample) comps"

fun check_deps :: "('c, 'w) component_iface \<Rightarrow> 'c list \<Rightarrow> 'c list \<Rightarrow> err option" where
  "check_deps I comps [] = None"
| "check_deps I comps (dep # deps) =
     (case findRegisteredComponent I comps dep of
        None \<Rightarrow> Some errDependencyNotRegistered
      | Some registered \<Rightarrow>
          if \<not> ci_enabled I registered then Some errDependencyNotEnabled
          else check_deps I comps deps)"

definition checkDependencies ::
  "('c, 'w) component_iface \<Rightarrow> 'c list \<Rightarrow> 'c \<Rightarrow> err option" where
  "checkDependencies I comps c = check_deps I comps (ci_dependencies I c)"

definition componentsOfReconciler ::
  "('c, 'w) component_iface \<Rightarrow> 'c list \<Rightarrow> ('c, 'w) reconciler \<Rightarrow> 'c list" where
  "componentsOfReconciler I comps rec =
     concat (map (\<lambda>cc. concat (map (\<lambda>kt. if ci_type I cc = kt then [cc] else [])
                                   (rk_known_types rec))) comps)"

fun register_orphans ::
  "('c, 'w) component_iface \<Rightarrow> 'w rctx \<Rightarrow> 'w \<Rightarrow> ('c, 'w) reconciler list \<Rightarrow> ('c, 'w) juggler
     \<Rightarrow> unit gores \<times> ('c, 'w) juggler" where
  "register_orphans I ctx w [] am = (Ok (), am)"
| "register_orphans I ctx w (rec # recs) am =
     (case rk_detect_orphans rec of
        None \<Rightarrow> register_orphans I ctx w recs am
      | Some detect \<Rightarrow>
          (case detect ctx (componentsOfReconciler I (jg_components am) rec) w of
             Err e \<Rightarrow> (Err e, am)
           | Panic p \<Rightarrow> (Panic p, am)
           | Ok orphaned \<Rightarrow> register_orphans I ctx w recs (RegisterComponent am orphaned)))"

definition RegisterOrphanedComponents ::
  "('c, 'w) component_iface \<Rightarrow> 'w rctx \<Rightarrow> 'w \<Rightarrow> ('c, 'w) juggler \<Rightarrow> unit gores \<times> ('c, 'w) juggler" where
  "RegisterOrphanedComponents I ctx w am = register_orphans I ctx w (jg_reconcilers am) am"

definition appendAvailableVersionsToMessage ::
  "('c, 'w) component_iface \<Rightarrow> 'w rctx \<Rightarrow> 'c \<Rightarrow> string \<Rightarrow> 'w \<Rightarrow> string gores" where
  "appendAvailableVersionsToMessage I ctx c message w =
     (case AvailableVersionsResolver ctx of
        None \<Rightarrow> Ok message
      | Some _ \<Rightarrow>
          (case ci_available_versions I c of
             None \<Rightarrow> Ok message
           | Some gv \<Rightarrow>
               (case gv ctx w of
                  Err e \<Rightarrow> Ok (message @ '': available versions: '' @ err_msg e)
                | Panic p \<Rightarrow> Panic p
                | Ok versions \<Rightarrow> Ok (message @ '': available versions: '' @ join_with '', '' versions))))"

definition result_of ::
  "'c \<Rightarrow> component_status \<Rightarrow> string \<Rightarrow> 'w \<Rightarrow> 'c component_result gores \<times> 'c \<times> 'w" where
  "result_of c st msg w = (Ok \<lparr> cr_component = c, cr_result = st, cr_message = msg \<rparr>, c, w)"

definition hook_error :: "err \<Rightarrow> string" where
  "hook_error e = err_msg (Join [errHookFailed, e])"

text \<open>The branch for a resource that exists although its component is not enabled.\<close>

definition uninstall_branch ::
  "('c, 'w) component_iface \<Rightarrow> ('c, 'w) reconciler \<Rightarrow> 'w rctx \<Rightarrow> 'c \<Rightarrow> 'w
     \<Rightarrow> 'c component_result gores \<times> 'c \<times> 'w" where
  "uninstall_branch I rec ctx c w =
     (if keeps_on_uninstall I c
      then result_of c StatusUninstalled (ci_name I c @ '' is marked as 'keep on uninstall'.'') w
      else
        (case rk_pre_uninstall rec ctx c w of
           (Panic p, c1, w1) \<Rightarrow> (Panic p, c1, w1)
         | (Err e, c1, w1) \<Rightarrow> result_of c1 StatusUninstallFailed (hook_error e) w1
         | (Ok _, c1, w1) \<Rightarrow>
             (case rk_uninstall rec ctx c1 w1 of
                (Panic p, c2, w2) \<Rightarrow> (Panic p, c2, w2)
              | (Err e, c2, w2) \<Rightarrow> result_of c2 StatusUninstallFailed (err_msg e) w2
              | (Ok _, c2, w2) \<Rightarrow>
                  result_of c2 StatusUninstalled
                    (ci_name I c2 @ '' has been uninstalled successfully.'') w2)))"

text \<open>The branch for a resource that does not exist but is enabled.\<close>

definition install_branch ::
  "('c, 'w) component_iface \<Rightarrow> ('c, 'w) reconciler \<Rightarrow> 'w rctx \<Rightarrow> 'c \<Rightarrow> 'w
     \<Rightarrow> 'c component_result gores \<times> 'c \<times> 'w" where
  "install_branch I rec ctx c w =
     (case rk_pre_install rec ctx c w of
        (Panic p, c1, w1) \<Rightarrow> (Panic p, c1, w1)
      | (Err e, c1, w1) \<Rightarrow> result_of c1 StatusInstallFailed (hook_error e) w1
      | (Ok _, c1, w1) \<Rightarrow>
          (case rk_install rec ctx c1 w1 of
             (Panic p, c2, w2) \<Rightarrow> (Panic p, c2, w2)
           | (Err e, c2, w2) \<Rightarrow> result_of c2 StatusInstallFailed (err_msg e) w2
           | (Ok _, c2, w2) \<Rightarrow>
               result_of c2 StatusInstalled
                 (ci_name I c2 @ '' has been installed successfully.'') w2))"

text \<open>The status of an observation after an update.\<close>

definition observed_result ::
  "('c, 'w) component_iface \<Rightarrow> observation \<Rightarrow> 'c \<Rightarrow> 'w \<Rightarrow> 'c component_result gores \<times> 'c \<times> 'w" where
  "observed_result I obs c w =
     (let skipped = ''Reconciliation of '' @ ci_name I c
                    @ '' skipped due to skip-reconciliation annotation.''
      in if \<not> he_healthy (ob_health obs)
         then (if ob_skipped obs then result_of c StatusUnhealthyReconciliationSkipped skipped w
               else result_of c StatusUnhealthy (he_message (ob_health obs)) w)
         else if ob_skipped obs then result_of c StatusHealthyReconciliationSkipped skipped w
         else result_of c StatusHealthy (ci_name I c @ '' is healthy.'') w)"

definition update_branch ::
  "('c, 'w) component_iface \<Rightarrow> ('c, 'w) reconciler \<Rightarrow> 'w rctx \<Rightarrow> 'c \<Rightarrow> 'w
     \<Rightarrow> 'c component_result gores \<times> 'c \<times> 'w" where
  "update_branch I rec ctx c w =
     (case rk_pre_update rec ctx c w of
        (Panic p, c1, w1) \<Rightarrow> (Panic p, c1, w1)
      | (Err e, c1, w1) \<Rightarrow> result_of c1 StatusUpdateFailed (hook_error e) w1
      | (Ok _, c1, w1) \<Rightarrow>
          (case rk_update rec ctx c1 w1 of
             (Panic p, c2, w2) \<Rightarrow> (Panic p, c2, w2)
           | (Err e, c2, w2) \<Rightarrow> result_of c2 StatusUpdateFailed (err_msg e) w2
           | (Ok _, c2, w2) \<Rightarrow>
               (case rk_observe rec ctx c2 w2 of
                  (Panic p, c3, w3) \<Rightarrow> (Panic p, c3, w3)
                | (Err e, c3, w3) \<Rightarrow> result_of c3 StatusObservationFailed (err_msg e) w3
                | (Ok obs, c3, w3) \<Rightarrow> observed_result I obs c3 w3)))"

text \<open>
  \<^verbatim>\<open>reconcileComponent\<close>: \<open>before\<close> and \<open>after\<close> are the components registered around
  the one that is reconciled; the dependency check looks through all of them, with the
  component in its current state.
\<close>

definition reconcileComponent ::
  "('c, 'w) component_iface \<Rightarrow> ('c, 'w) reconciler list \<Rightarrow> 'w rctx \<Rightarrow> 'c list \<Rightarrow> 'c \<Rightarrow> 'c list \<Rightarrow> 'w
     \<Rightarrow> 'c component_result gores \<times> 'c \<times> 'w" where
  "reconcileComponent I recs ctx before c after w =
     (case findReconcilerFor I recs c of
        Inl e \<Rightarrow> result_of c StatusReconcilerNotFound (err_msg e) w
      | Inr rec \<Rightarrow>
          (case rk_observe rec ctx c w of
             (Panic p, c1, w1) \<Rightarrow> (Panic p, c1, w1)
           | (Err e, c1, w1) \<Rightarrow> result_of c1 StatusObservationFailed (err_msg e) w1
           | (Ok obs, c1, w1) \<Rightarrow>
               if ob_exists obs \<and> \<not> ci_enabled I c1 then uninstall_branch I rec ctx c1 w1
               else if \<not> ci_enabled I c1
               then result_of c1 StatusDisabled (ci_name I c1 @ '' is not enabled.'') w1
               else
                 (case ci_installable I ctx c1 w1 of
                    Panic p \<Rightarrow> (Panic p, c1, w1)
                  | Err e \<Rightarrow>
                      if ob_exists obs \<and> err_is e ErrComponentVersionNotFound
                      then (case appendAvailableVersionsToMessage I ctx c1
                                   (ci_name I c1 @ '' is installed but current version is not in release channel'') w1 of
                              Ok message \<Rightarrow> result_of c1 StatusHealthy message w1
                            | Err e' \<Rightarrow> (Err e', c1, w1)
                            | Panic p \<Rightarrow> (Panic p, c1, w1))
                      else result_of c1 StatusInstallFailed
                             (ci_name I c1 @ '' not installable: '' @ err_msg e) w1
                  | Ok installable \<Rightarrow>
                      if \<not> installable
                      then result_of c1 StatusComponentNotAllowed (ci_name I c1 @ '' not installable.'') w1
                      else
                        (case checkDependencies I (before @ c1 # after) c1 of
                           Some e \<Rightarrow> result_of c1 StatusDependencyCheckFailed (err_msg e) w1
                         | None \<Rightarrow>
                             if \<not> ob_exists obs then install_branch I rec ctx c1 w1
                             else update_branch I rec ctx c1 w1))))"

fun reconcile_loop ::
  "('c, 'w) component_iface \<Rightarrow> ('c, 'w) reconciler list \<Rightarrow> 'w rctx \<Rightarrow> 'c list \<Rightarrow> 'c list \<Rightarrow> 'w
     \<Rightarrow> 'c component_result list gores \<times> 'c list \<times> event list \<times> 'w" where
  "reconcile_loop I recs ctx before [] w = (Ok [], before, [], w)"
| "reconcile_loop I recs ctx before (c # after) w =
     (case reconcileComponent I recs ctx before c after w of
        (Ok cr, c', w') \<Rightarrow>
          (case reconcile_loop I recs ctx (before @ [c']) after w' of
             (rs, comps, evs, w'') \<Rightarrow>
               (bind_go rs (\<lambda>crs. Ok (cr # crs)), comps,
                emitted_event I c' (cr_result cr) (cr_message cr) @ evs, w''))
      | (Err e, c', w') \<Rightarrow> (Err e, before @ c' # after, [], w')
      | (Panic p, c', w') \<Rightarrow> (Panic p, before @ c' # after, [], w'))"

definition Reconcile ::
  "('c, 'w) component_iface \<Rightarrow> ('c, 'w) juggler \<Rightarrow> 'w rctx \<Rightarrow> 'w
     \<Rightarrow> 'c component_result list gores \<times> 'c list \<times> event list \<times> 'w" where
  "Reconcile I am ctx w = reconcile_loop I (jg_reconcilers am) ctx [] (jg_components am) w"

end
