(* ===== verification/JugglerLaws.thy ===== *)
theory JugglerLaws
  imports Juggler
begin

text \<open>
  Laws of the component framework: the reconciler selection against its reference
  definition, the decision table of \<^verbatim>\<open>reconcileComponent\<close>, and the contract the Juggler
  relies on (\<open>reconciler_contract\<close>: what an implementation of ComponentReconciler keeps
  of a component), under which a reconcile round is proved to keep the registered
  components and to report one result per component in order.
\<close>

section \<open>Selecting the reconciler\<close>

definition reconciler_matches ::
  "rtype \<Rightarrow> ('c, 'w) reconciler list \<Rightarrow> ('c, 'w) reconciler list" where
  "reconciler_matches t recs =
     concat (map (\<lambda>rec. map (\<lambda>_. rec) (filter (\<lambda>kt. t = kt) (rk_known_types rec))) recs)"

definition select_unique :: "'r list \<Rightarrow> err + 'r option" where
  "select_unique ms = (case ms of [] \<Rightarrow> Inr None | [r] \<Rightarrow> Inr (Some r) | _ \<Rightarrow> Inl errTooManyReconcilers)"

definition of_opt :: "'r option \<Rightarrow> 'r list" where
  "of_opt r = (case r of None \<Rightarrow> [] | Some x \<Rightarrow> [x])"

lemma of_opt_simps [simp]: "of_opt None = []" "of_opt (Some x) = [x]"
  by (simp_all add: of_opt_def)

lemma select_unique_simps [simp]:
  "select_unique [] = Inr None" "select_unique [r] = Inr (Some r)"
  "select_unique (a # b # ms) = Inl errTooManyReconcilers"
  by (simp_all add: select_unique_def)

lemma select_unique_of_opt [simp]: "select_unique (of_opt sel) = Inr sel"
  by (cases sel) simp_all

lemma find_in_types_ref:
  "find_in_types t rec kts sel = select_unique (of_opt sel @ map (\<lambda>_. rec) (filter (\<lambda>kt. t = kt) kts))"
  by (induction kts arbitrary: sel) (auto split: option.splits)

lemma select_unique_append:
  "(case select_unique ms of Inl e \<Rightarrow> Inl e | Inr sel \<Rightarrow> select_unique (of_opt sel @ ns)) = select_unique (ms @ ns)"
  by (cases ms rule: remdups_adj.cases) auto

lemma find_reconciler_loop_ref:
  "find_reconciler_loop t recs sel = select_unique (of_opt sel @ reconciler_matches t recs)"
proof (induction recs arbitrary: sel)
  case Nil
  then show ?case by (cases sel) (simp_all add: reconciler_matches_def)
next
  case (Cons rec recs)
  let ?ms = "of_opt sel @ map (\<lambda>_. rec) (filter (\<lambda>kt. t = kt) (rk_known_types rec))"
  have "find_reconciler_loop t (rec # recs) sel
      = (case select_unique ?ms of Inl e \<Rightarrow> Inl e
           | Inr sel' \<Rightarrow> select_unique (of_opt sel' @ reconciler_matches t recs))"
    by (simp add: find_in_types_ref Cons.IH cong: sum.case_cong)
  also have "\<dots> = select_unique (?ms @ reconciler_matches t recs)"
    by (rule select_unique_append)
  finally show ?case by (simp add: reconciler_matches_def)
qed

lemma findReconcilerFor_ref:
  "findReconcilerFor I recs c =
     (case reconciler_matches (ci_type I c) recs of
        [] \<Rightarrow> Inl errNoReconcilerForComponentType
      | [r] \<Rightarrow> Inr r
      | _ \<Rightarrow> Inl errTooManyReconcilers)"
  by (cases "reconciler_matches (ci_type I c) recs" rule: remdups_adj.cases)
     (simp_all add: findReconcilerFor_def find_reconciler_loop_ref)

text \<open>
  The nested search loop with its early exit selects a reconciler exactly when one and
  only one (reconciler, known type) pair matches the component's type: none is the
  no-reconciler error, two or more are the too-many error, and a selected reconciler is
  registered and knows the type.
\<close>

theorem findReconcilerFor_unique:
  "(findReconcilerFor I recs c = Inr rec
      \<longleftrightarrow> reconciler_matches (ci_type I c) recs = [rec])
   \<and> (findReconcilerFor I recs c = Inl errNoReconcilerForComponentType
      \<longleftrightarrow> \<not> (\<exists>r \<in> set recs. ci_type I c \<in> set (rk_known_types r)))
   \<and> (findReconcilerFor I recs c = Inl errTooManyReconcilers
      \<longleftrightarrow> 2 \<le> length (reconciler_matches (ci_type I c) recs))"
proof -
  have neq: "errNoReconcilerForComponentType \<noteq> errTooManyReconcilers"
    by (simp add: errNoReconcilerForComponentType_def errTooManyReconcilers_def)
  have empty: "reconciler_matches t recs = [] \<longleftrightarrow> \<not> (\<exists>r \<in> set recs. t \<in> set (rk_known_types r))" for t
    by (auto simp: reconciler_matches_def filter_empty_conv)
  show ?thesis
    unfolding empty [symmetric] using neq
    by (auto simp: findReconcilerFor_ref split: list.splits)
qed

lemma findReconcilerFor_registered:
  assumes "findReconcilerFor I recs c = Inr rec"
  shows "rec \<in> set recs \<and> ci_type I c \<in> set (rk_known_types rec)"
proof -
  have "reconciler_matches (ci_type I c) recs = [rec]"
    using assms by (auto simp: findReconcilerFor_ref split: list.splits)
  then have "rec \<in> set (reconciler_matches (ci_type I c) recs)" by simp
  then show ?thesis by (auto simp: reconciler_matches_def)
qed

section \<open>Dependencies\<close>

lemma check_deps_None:
  "check_deps I comps deps = None \<longleftrightarrow>
     (\<forall>d \<in> set deps. \<exists>r. findRegisteredComponent I comps d = Some r \<and> ci_enabled I r)"
  by (induction deps) (auto split: option.splits)

lemma findRegisteredComponent_Some:
  "findRegisteredComponent I comps d = Some r \<Longrightarrow> r \<in> set comps \<and> ci_type I r = ci_type I d"
  unfolding findRegisteredComponent_def by (rule find_Some_mem)

section \<open>The statuses\<close>

definition healthy_status :: "component_status \<Rightarrow> bool" where
  "healthy_status s \<longleftrightarrow> s = StatusHealthy \<or> s = StatusHealthyReconciliationSkipped"

definition disabled_status :: "component_status \<Rightarrow> bool" where
  "disabled_status s \<longleftrightarrow> s = StatusDisabled \<or> s = StatusUninstalled \<or> s = StatusUninstallFailed"

definition observe_failed_status :: "component_status \<Rightarrow> bool" where
  "observe_failed_status s \<longleftrightarrow> s = StatusObservationFailed \<or> s = StatusReconcilerNotFound"

lemma component_status_eq_iff:
  "(mk_status n r e = mk_status n' r' e') \<longleftrightarrow> n = n' \<and> r = r' \<and> e = e'"
  by (simp add: mk_status_def)

lemmas status_eqs =
  StatusReconcilerNotFound_def StatusObservationFailed_def StatusUninstallFailed_def
  StatusUninstalled_def StatusDisabled_def StatusComponentNotAllowed_def
  StatusDependencyCheckFailed_def StatusInstallFailed_def StatusInstalled_def
  StatusUpdateFailed_def StatusUnhealthyReconciliationSkipped_def StatusUnhealthy_def
  StatusHealthyReconciliationSkipped_def StatusHealthy_def component_status_eq_iff

lemma ready_iff_healthy_name:
  "st_ready StatusHealthy" "st_ready StatusHealthyReconciliationSkipped"
  "\<not> st_ready StatusDisabled" "\<not> st_ready StatusUninstalled" "\<not> st_ready StatusInstalled"
  by (simp_all add: status_defs)

section \<open>When a reconcile uninstalls, and when it installs or updates\<close>

lemma reconciler_matches_map:
  "(\<And>r. rk_known_types (f r) = rk_known_types r) \<Longrightarrow>
     reconciler_matches t (map f recs) = map f (reconciler_matches t recs)"
  by (induction recs) (auto simp: reconciler_matches_def comp_def)

lemma findReconcilerFor_map:
  assumes "\<And>r. rk_known_types (f r) = rk_known_types r"
  shows "findReconcilerFor I (map f recs) c = map_sum id f (findReconcilerFor I recs c)"
  by (cases "reconciler_matches (ci_type I c) recs" rule: remdups_adj.cases)
     (simp_all add: findReconcilerFor_ref reconciler_matches_map [OF assms])

definition uninstall_permitted ::
  "('c, 'w) component_iface \<Rightarrow> ('c, 'w) reconciler \<Rightarrow> 'w rctx \<Rightarrow> 'c \<Rightarrow> 'w \<Rightarrow> bool" where
  "uninstall_permitted I rec ctx c w \<longleftrightarrow>
     (case rk_observe rec ctx c w of
        (Ok obs, c1, w1) \<Rightarrow>
          ob_exists obs \<and> \<not> ci_enabled I c1 \<and> \<not> keeps_on_uninstall I c1
          \<and> is_ok (fst (rk_pre_uninstall rec ctx c1 w1))
      | _ \<Rightarrow> False)"

definition apply_permitted ::
  "('c, 'w) component_iface \<Rightarrow> ('c, 'w) reconciler \<Rightarrow> 'w rctx \<Rightarrow> 'c list \<Rightarrow> 'c \<Rightarrow> 'c list \<Rightarrow> 'w \<Rightarrow> bool" where
  "apply_permitted I rec ctx before c after w \<longleftrightarrow>
     (case rk_observe rec ctx c w of
        (Ok obs, c1, w1) \<Rightarrow>
          ci_enabled I c1 \<and> ci_installable I ctx c1 w1 = Ok True
          \<and> checkDependencies I (before @ c1 # after) c1 = None
          \<and> is_ok (fst (if ob_exists obs then rk_pre_update rec ctx c1 w1
                        else rk_pre_install rec ctx c1 w1))
      | _ \<Rightarrow> False)"

lemma uninstall_branch_gate:
  "keeps_on_uninstall I c \<or> \<not> is_ok (fst (rk_pre_uninstall rec ctx c w)) \<Longrightarrow>
     uninstall_branch I (rec\<lparr>rk_uninstall := u\<rparr>) ctx c w = uninstall_branch I rec ctx c w"
  by (auto simp: uninstall_branch_def split: prod.splits gores_of.splits)

lemma update_branch_ext [simp]:
  "update_branch I (rec\<lparr>rk_uninstall := u\<rparr>) ctx c w = update_branch I rec ctx c w"
  "install_branch I (rec\<lparr>rk_uninstall := u\<rparr>) ctx c w = install_branch I rec ctx c w"
  by (auto simp: update_branch_def install_branch_def split: prod.splits gores_of.splits)

text \<open>
  C1. No accidental uninstall: unless the component's reconciler observes an existing resource
  of a component that is disabled and not marked keep-on-uninstall, and the pre-uninstall hook
  passes, the outcome of reconcileComponent (result, component and world) does not depend on
  the reconcilers' Uninstall operation: replacing it by any other changes nothing.
\<close>

theorem reconcileComponent_uninstall_gated:
  assumes "\<And>rec. findReconcilerFor I recs c = Inr rec \<Longrightarrow> \<not> uninstall_permitted I rec ctx c w"
  shows "reconcileComponent I (map (\<lambda>r. r\<lparr>rk_uninstall := u r\<rparr>) recs) ctx before c after w
           = reconcileComponent I recs ctx before c after w"
proof (cases "findReconcilerFor I recs c")
  case (Inl e)
  then show ?thesis by (simp add: reconcileComponent_def findReconcilerFor_map)
next
  case (Inr rec)
  from assms [OF Inr] have "uninstall_branch I (rec\<lparr>rk_uninstall := v\<rparr>) ctx c1 w1
      = uninstall_branch I rec ctx c1 w1"
    if "rk_observe rec ctx c w = (Ok obs, c1, w1)" "ob_exists obs" "\<not> ci_enabled I c1" for obs c1 w1 v
    using that by (intro uninstall_branch_gate) (auto simp: uninstall_permitted_def)
  with Inr show ?thesis
    by (auto simp: reconcileComponent_def findReconcilerFor_map
             split: prod.splits gores_of.splits option.splits)
qed

lemma apply_branch_gate:
  "\<not> is_ok (fst (rk_pre_install rec ctx c w)) \<Longrightarrow>
     install_branch I (rec\<lparr>rk_install := f, rk_update := g\<rparr>) ctx c w = install_branch I rec ctx c w"
  "\<not> is_ok (fst (rk_pre_update rec ctx c w)) \<Longrightarrow>
     update_branch I (rec\<lparr>rk_install := f, rk_update := g\<rparr>) ctx c w = update_branch I rec ctx c w"
  "uninstall_branch I (rec\<lparr>rk_install := f, rk_update := g\<rparr>) ctx c w = uninstall_branch I rec ctx c w"
  by (auto simp: install_branch_def update_branch_def uninstall_branch_def
           split: prod.splits gores_of.splits)

text \<open>
  C2. No install or update behind the gates: unless the component is enabled after the
  observation, reported installable, has every dependency registered and enabled, and its
  pre-install (pre-update) hook passes, the outcome of reconcileComponent does not depend on
  the reconcilers' Install and Update operations.
\<close>

theorem reconcileComponent_apply_gated:
  assumes "\<And>rec. findReconcilerFor I recs c = Inr rec \<Longrightarrow> \<not> apply_permitted I rec ctx before c after w"
  shows "reconcileComponent I (map (\<lambda>r. r\<lparr>rk_install := f r, rk_update := g r\<rparr>) recs) ctx before c after w
           = reconcileComponent I recs ctx before c after w"
proof (cases "findReconcilerFor I recs c")
  case (Inl e)
  then show ?thesis by (simp add: reconcileComponent_def findReconcilerFor_map)
next
  case (Inr rec)
  note np = assms [OF Inr, unfolded apply_permitted_def]
  obtain r1 c1 w1 where obs: "rk_observe rec ctx c w = (r1, c1, w1)"
    by (cases "rk_observe rec ctx c w")
  show ?thesis
  proof (cases "\<exists>o1. r1 = Ok o1 \<and> ci_installable I ctx c1 w1 = Ok True
                  \<and> checkDependencies I (before @ c1 # after) c1 = None \<and> ci_enabled I c1")
    case True
    with np obs Inr show ?thesis
      by (auto simp: reconcileComponent_def findReconcilerFor_map apply_branch_gate)
  next
    case False
    with obs Inr show ?thesis
      by (auto simp: reconcileComponent_def findReconcilerFor_map apply_branch_gate
               split: gores_of.splits option.splits)
  qed
qed

section \<open>The contract of a reconciler\<close>

text \<open>
  What the Juggler relies on: an operation of a reconciler never changes what the Juggler
  reads of the component (its type, name, enablement, visibility and keep flag), and observing
  and the hooks leave the world alone.
\<close>

definition same_component :: "('c, 'w) component_iface \<Rightarrow> 'c \<Rightarrow> 'c \<Rightarrow> bool" where
  "same_component I c c' \<longleftrightarrow>
     ci_type I c' = ci_type I c \<and> ci_name I c' = ci_name I c \<and> ci_enabled I c' = ci_enabled I c
     \<and> ci_status_internal I c' = ci_status_internal I c
     \<and> ci_keep_on_uninstall I c' = ci_keep_on_uninstall I c
     \<and> map (ci_type I) (ci_dependencies I c') = map (ci_type I) (ci_dependencies I c)"

lemma same_component_refl [simp]: "same_component I c c"
  by (simp add: same_component_def)

lemma same_component_trans [trans]:
  "same_component I a b \<Longrightarrow> same_component I b c \<Longrightarrow> same_component I a c"
  by (simp add: same_component_def)

lemma same_component_keeps: "same_component I c c' \<Longrightarrow> keeps_on_uninstall I c' = keeps_on_uninstall I c"
  by (simp add: same_component_def keeps_on_uninstall_def)

definition enabled_statuses :: "component_status set" where
  "enabled_statuses = {StatusReconcilerNotFound, StatusObservationFailed, StatusComponentNotAllowed,
     StatusDependencyCheckFailed, StatusInstallFailed, StatusInstalled, StatusUpdateFailed,
     StatusUnhealthyReconciliationSkipped, StatusUnhealthy, StatusHealthyReconciliationSkipped,
     StatusHealthy}"

definition disabled_statuses :: "component_status set" where
  "disabled_statuses = {StatusReconcilerNotFound, StatusObservationFailed, StatusUninstallFailed,
     StatusUninstalled, StatusDisabled}"

definition allowed_statuses :: "('c, 'w) component_iface \<Rightarrow> 'c \<Rightarrow> component_status set" where
  "allowed_statuses I c = (if ci_enabled I c then enabled_statuses else disabled_statuses)"

lemma healthy_not_disabled: "healthy_status s \<Longrightarrow> s \<notin> disabled_statuses"
  by (auto simp: healthy_status_def disabled_statuses_def status_eqs)

lemma disabled_not_enabled: "StatusDisabled \<notin> enabled_statuses"
  by (auto simp: enabled_statuses_def status_eqs)

lemma appendAvailableVersions_no_Err: "appendAvailableVersionsToMessage I ctx c m w \<noteq> Err e"
  by (auto simp: appendAvailableVersionsToMessage_def split: option.splits gores_of.splits)

locale reconciler_contract =
  fixes I :: "('c, 'w) component_iface"
    and recs :: "('c, 'w) reconciler list"
  assumes observe_contract:
      "rec \<in> set recs \<Longrightarrow> rk_observe rec ctx c w = (r, c', w') \<Longrightarrow> same_component I c c' \<and> w' = w"
    and pre_uninstall_contract:
      "rec \<in> set recs \<Longrightarrow> rk_pre_uninstall rec ctx c w = (ru, c', w') \<Longrightarrow> same_component I c c' \<and> w' = w"
    and pre_install_contract:
      "rec \<in> set recs \<Longrightarrow> rk_pre_install rec ctx c w = (ru, c', w') \<Longrightarrow> same_component I c c' \<and> w' = w"
    and pre_update_contract:
      "rec \<in> set recs \<Longrightarrow> rk_pre_update rec ctx c w = (ru, c', w') \<Longrightarrow> same_component I c c' \<and> w' = w"
    and uninstall_contract:
      "rec \<in> set recs \<Longrightarrow> rk_uninstall rec ctx c w = (ru, c', w') \<Longrightarrow> same_component I c c'"
    and install_contract:
      "rec \<in> set recs \<Longrightarrow> rk_install rec ctx c w = (ru, c', w') \<Longrightarrow> same_component I c c'"
    and update_contract:
      "rec \<in> set recs \<Longrightarrow> rk_update rec ctx c w = (ru, c', w') \<Longrightarrow> same_component I c c'"
begin

lemmas contracts = observe_contract pre_uninstall_contract pre_install_contract
  pre_update_contract uninstall_contract install_contract update_contract

lemma uninstall_branch_contract:
  assumes mem: "rec \<in> set recs" and eq: "uninstall_branch I rec ctx c w = (r, c', w')"
  shows "same_component I c c'
     \<and> (\<forall>cr. r = Ok cr \<longrightarrow> cr_component cr = c' \<and> cr_result cr \<in> {StatusUninstalled, StatusUninstallFailed})
     \<and> (keeps_on_uninstall I c \<longrightarrow> w' = w) \<and> (\<forall>e. r \<noteq> Err e)"
proof -
  obtain r1 c1 w1 where p: "rk_pre_uninstall rec ctx c w = (r1, c1, w1)" by (rule prod_cases3)
  obtain r2 c2 w2 where q: "rk_uninstall rec ctx c1 w1 = (r2, c2, w2)" by (rule prod_cases3)
  have s1: "same_component I c c1" using pre_uninstall_contract [OF mem p] by simp
  have s2: "same_component I c c2"
    using s1 uninstall_contract [OF mem q] by (rule same_component_trans)
  show ?thesis using eq p q s1 s2
    by (auto simp: uninstall_branch_def result_of_def split: if_splits gores_of.splits)
qed

lemma install_branch_contract:
  assumes mem: "rec \<in> set recs" and eq: "install_branch I rec ctx c w = (r, c', w')"
  shows "same_component I c c'
     \<and> (\<forall>cr. r = Ok cr \<longrightarrow> cr_component cr = c' \<and> cr_result cr \<in> {StatusInstalled, StatusInstallFailed})
     \<and> (\<forall>e. r \<noteq> Err e)"
proof -
  obtain r1 c1 w1 where p: "rk_pre_install rec ctx c w = (r1, c1, w1)" by (rule prod_cases3)
  obtain r2 c2 w2 where q: "rk_install rec ctx c1 w1 = (r2, c2, w2)" by (rule prod_cases3)
  have s1: "same_component I c c1" using pre_install_contract [OF mem p] by simp
  have s2: "same_component I c c2"
    using s1 install_contract [OF mem q] by (rule same_component_trans)
  show ?thesis using eq p q s1 s2
    by (auto simp: install_branch_def result_of_def split: gores_of.splits)
qed

lemma observed_result_cases:
  assumes "observed_result I obs c w = (r, c', w')"
  shows "c' = c \<and> w' = w \<and> (\<exists>cr. r = Ok cr \<and> cr_component cr = c' \<and>
     cr_result cr \<in> {StatusUnhealthyReconciliationSkipped, StatusUnhealthy,
                      StatusHealthyReconciliationSkipped, StatusHealthy})"
  using assms by (auto simp: observed_result_def result_of_def Let_def split: if_splits)

lemma update_branch_contract:
  assumes mem: "rec \<in> set recs" and eq: "update_branch I rec ctx c w = (r, c', w')"
  shows "same_component I c c'
     \<and> (\<forall>cr. r = Ok cr \<longrightarrow> cr_component cr = c'
          \<and> cr_result cr \<in> {StatusUpdateFailed, StatusObservationFailed,
               StatusUnhealthyReconciliationSkipped, StatusUnhealthy,
               StatusHealthyReconciliationSkipped, StatusHealthy})
     \<and> (\<forall>e. r \<noteq> Err e)"
proof -
  obtain r1 c1 w1 where p: "rk_pre_update rec ctx c w = (r1, c1, w1)" by (rule prod_cases3)
  obtain r2 c2 w2 where q: "rk_update rec ctx c1 w1 = (r2, c2, w2)" by (rule prod_cases3)
  obtain r3 c3 w3 where o: "rk_observe rec ctx c2 w2 = (r3, c3, w3)" by (rule prod_cases3)
  have s1: "same_component I c c1" using pre_update_contract [OF mem p] by simp
  have s2: "same_component I c c2"
    using s1 update_contract [OF mem q] by (rule same_component_trans)
  have s3: "same_component I c c3"
    using s2 observe_contract [OF mem o] by (blast intro: same_component_trans)
  show ?thesis
  proof (cases "\<exists>a b ob. r1 = Ok a \<and> r2 = Ok b \<and> r3 = Ok ob")
    case True
    then obtain ob where ob: "observed_result I ob c3 w3 = (r, c', w')"
      using eq p q o by (auto simp: update_branch_def)
    from observed_result_cases [OF this] s3 show ?thesis by auto
  next
    case False
    then show ?thesis using eq p q o s1 s2 s3
      by (auto simp: update_branch_def result_of_def split: gores_of.splits)
  qed
qed

lemma reconcileComponent_contract:
  assumes eq: "reconcileComponent I recs ctx before c after w = (r, c', w')"
  shows "same_component I c c'
     \<and> (\<forall>cr. r = Ok cr \<longrightarrow> cr_component cr = c'
          \<and> cr_result cr \<in> allowed_statuses I c')
     \<and> (\<not> ci_enabled I c \<and> keeps_on_uninstall I c \<longrightarrow> w' = w) \<and> (\<forall>e. r \<noteq> Err e)"
proof (cases "findReconcilerFor I recs c")
  case (Inl e)
  with eq show ?thesis
    by (auto simp: reconcileComponent_def result_of_def allowed_statuses_def
                   enabled_statuses_def disabled_statuses_def)
next
  case (Inr rec)
  have mem: "rec \<in> set recs" using findReconcilerFor_registered [OF Inr] by simp
  obtain r1 c1 w1 where o: "rk_observe rec ctx c w = (r1, c1, w1)" by (rule prod_cases3)
  have s1: "same_component I c c1" and w1: "w1 = w" using observe_contract [OF mem o] by auto
  have en: "ci_enabled I c1 = ci_enabled I c" and ke: "keeps_on_uninstall I c1 = keeps_on_uninstall I c"
    using s1 by (auto simp: same_component_def same_component_keeps [OF s1])
  note unf = reconcileComponent_def Inr o
  have al: "allowed_statuses I d = (if ci_enabled I c then enabled_statuses else disabled_statuses)"
    if "same_component I c d" for d
    using that by (simp add: allowed_statuses_def same_component_def)
  show ?thesis
  proof (cases r1)
    case (Ok ob)
    show ?thesis
    proof (cases "ci_enabled I c")
      case False
      show ?thesis
      proof (cases "ob_exists ob")
        case True
        then have "uninstall_branch I rec ctx c1 w1 = (r, c', w')"
          using eq Ok False en by (simp add: unf)
        from uninstall_branch_contract [OF mem this] s1 w1 False ke show ?thesis
          by (auto simp: disabled_statuses_def al dest: same_component_trans)
      next
        case noex: False
        then show ?thesis using eq Ok False en s1 w1
          by (auto simp: unf al result_of_def disabled_statuses_def)
      qed
    next
      case True
      show ?thesis
      proof (cases "ci_installable I ctx c1 w1 = Ok True \<and> checkDependencies I (before @ c1 # after) c1 = None")
        case inst: True
        show ?thesis
        proof (cases "ob_exists ob")
          case ex: True
          then have "update_branch I rec ctx c1 w1 = (r, c', w')"
            using eq Ok True en inst by (simp add: unf)
          from update_branch_contract [OF mem this] s1 True show ?thesis
            by (auto simp: enabled_statuses_def al dest: same_component_trans)
        next
          case noex: False
          then have "install_branch I rec ctx c1 w1 = (r, c', w')"
            using eq Ok True en inst by (simp add: unf)
          from install_branch_contract [OF mem this] s1 True show ?thesis
            by (auto simp: enabled_statuses_def al dest: same_component_trans)
        qed
      next
        case ninst: False
        then show ?thesis using eq Ok True en s1
          by (auto simp: unf al result_of_def enabled_statuses_def appendAvailableVersions_no_Err
                   split: gores_of.splits if_splits option.splits)
      qed
    qed
  qed (use eq s1 w1 in \<open>auto simp: unf al result_of_def enabled_statuses_def disabled_statuses_def\<close>)
qed

lemma reconcile_loop_contract:
  assumes "reconcile_loop I recs ctx before after w = (rs, comps, evs, w')"
  shows "\<exists>new. comps = before @ new \<and> list_all2 (same_component I) after new
     \<and> (\<forall>e. rs \<noteq> Err e)
     \<and> (\<forall>crs. rs = Ok crs \<longrightarrow> map cr_component crs = new
          \<and> (\<forall>cr \<in> set crs. cr_result cr \<in> allowed_statuses I (cr_component cr))
          \<and> evs = concat (map (\<lambda>cr. emitted_event I (cr_component cr) (cr_result cr) (cr_message cr)) crs))"
  using assms
proof (induction after arbitrary: before w rs comps evs w')
  case Nil
  then show ?case by auto
next
  case (Cons c after)
  obtain r1 c1 w1 where c: "reconcileComponent I recs ctx before c after w = (r1, c1, w1)"
    by (rule prod_cases3)
  note k = reconcileComponent_contract [OF c]
  show ?case
  proof (cases r1)
    case (Ok cr)
    obtain rs2 comps2 evs2 w2 where l:
      "reconcile_loop I recs ctx (before @ [c1]) after w1 = (rs2, comps2, evs2, w2)"
      by (rule prod_cases4)
    from Cons.IH [OF l] obtain new where new:
      "comps2 = (before @ [c1]) @ new" "list_all2 (same_component I) after new" "\<forall>e. rs2 \<noteq> Err e"
      "\<forall>crs. rs2 = Ok crs \<longrightarrow> map cr_component crs = new
          \<and> (\<forall>cr \<in> set crs. cr_result cr \<in> allowed_statuses I (cr_component cr))
          \<and> evs2 = concat (map (\<lambda>cr. emitted_event I (cr_component cr) (cr_result cr) (cr_message cr)) crs)"
      by blast
    show ?thesis using Cons.prems c Ok l new k
      by (intro exI [of _ "c1 # new"]) (cases rs2; auto)
  next
    case (Err e)
    with k show ?thesis by blast
  next
    case (Panic p)
    with Cons.prems c k show ?thesis
      by (intro exI [of _ "c1 # after"]) (auto simp: list.rel_refl)
  qed
qed

end

section \<open>The gates at work\<close>

text \<open>
  An installed component whose keep-on-uninstall flag is the component itself, and a
  reconciler that reports that it exists. The world counts the writes.
\<close>

definition gate_iface :: "bool \<Rightarrow> (bool, nat) component_iface" where
  "gate_iface enabled = \<lparr> ci_type = (\<lambda>c. ''Gate''), ci_name = (\<lambda>c. ''gate''), ci_dependencies = (\<lambda>c. []),
     ci_enabled = (\<lambda>c. enabled), ci_hooks = (\<lambda>c. no_hooks), ci_installable = (\<lambda>ctx c w. Ok False),
     ci_status_internal = (\<lambda>c. None), ci_keep_on_uninstall = (\<lambda>c. Some c), ci_available_versions = (\<lambda>c. None) \<rparr>"

definition gate_reconciler :: "(bool, nat) reconciler" where
  "gate_reconciler =
     (let pass = (\<lambda>ctx c w. (Ok (), c, w)); write = (\<lambda>ctx c w. (Ok (), c, Suc w))
      in \<lparr> rk_known_types = [''Gate''],
           rk_observe = (\<lambda>ctx c w. (Ok \<lparr> ob_exists = True, ob_skipped = False, ob_health = zero_healthiness \<rparr>, c, w)),
           rk_uninstall = write, rk_update = write, rk_install = write,
           rk_pre_uninstall = pass, rk_pre_install = pass, rk_pre_update = pass,
           rk_detect_orphans = None \<rparr>)"

lemma gate_selected: "findReconcilerFor (gate_iface e) [gate_reconciler] c = Inr gate_reconciler"
  by (simp add: findReconcilerFor_def gate_reconciler_def gate_iface_def Let_def)

text \<open>A disabled component that is to be kept is not uninstalled, by whatever the reconciler has for it.\<close>

lemma reconcileComponent_uninstall_gated_witness:
  "\<forall>u. reconcileComponent (gate_iface False) (map (\<lambda>r. r\<lparr>rk_uninstall := u r\<rparr>) [gate_reconciler])
       background [] True [] 0
     = reconcileComponent (gate_iface False) [gate_reconciler] background [] True [] 0"
proof
  fix u
  have np: "\<not> uninstall_permitted (gate_iface False) rec background True 0"
    if "findReconcilerFor (gate_iface False) [gate_reconciler] True = Inr rec" for rec
    using that by (simp add: gate_selected)
      (auto simp: uninstall_permitted_def gate_iface_def gate_reconciler_def keeps_on_uninstall_def Let_def)
  show "reconcileComponent (gate_iface False) (map (\<lambda>r. r\<lparr>rk_uninstall := u r\<rparr>) [gate_reconciler])
       background [] True [] 0
     = reconcileComponent (gate_iface False) [gate_reconciler] background [] True [] 0"
    by (rule reconcileComponent_uninstall_gated [OF np])
qed

text \<open>An enabled component that is not installable is not updated.\<close>

lemma reconcileComponent_apply_gated_witness:
  "\<forall>f g. reconcileComponent (gate_iface True) (map (\<lambda>r. r\<lparr>rk_install := f r, rk_update := g r\<rparr>) [gate_reconciler])
       background [] True [] 0
     = reconcileComponent (gate_iface True) [gate_reconciler] background [] True [] 0"
proof (intro allI)
  fix f g
  have np: "\<not> apply_permitted (gate_iface True) rec background [] True [] 0"
    if "findReconcilerFor (gate_iface True) [gate_reconciler] True = Inr rec" for rec
    using that by (simp add: gate_selected)
      (auto simp: apply_permitted_def gate_iface_def gate_reconciler_def Let_def)
  show "reconcileComponent (gate_iface True) (map (\<lambda>r. r\<lparr>rk_install := f r, rk_update := g r\<rparr>) [gate_reconciler])
       background [] True [] 0
     = reconcileComponent (gate_iface True) [gate_reconciler] background [] True [] 0"
    by (rule reconcileComponent_apply_gated [OF np])
qed

end
