(* ===== verification/FluxCD.thy ===== *)
theory FluxCD
  imports JugglerLaws
begin

text \<open>
  \<^verbatim>\<open>pkg/juggler/fluxcd\<close>: the adapters around the Flux objects (\<^verbatim>\<open>flux_sources.go\<close>,
  \<^verbatim>\<open>flux_manifesto.go\<close>) and the reconciler that installs a component as a source repository
  and a HelmRelease (\<^verbatim>\<open>flux_reconciler.go\<close>).
\<close>

section \<open>Flux resources\<close>

record source_obj =
  so_meta :: objmeta
  so_spec :: source_spec
  so_conds :: "condition list"

record helm_release =
  hr_meta :: objmeta
  hr_spec :: helm_release_spec
  hr_conds :: "condition list"

text \<open>
  FluxResource: the three source adapters and the manifesto. Each wraps a pointer to an
  object of its kind.
\<close>

datatype flux_resource =
    HelmRepositoryAdapter source_obj
  | GitRepositoryAdapter source_obj
  | OCIRepositoryAdapter source_obj
  | HelmReleaseManifesto helm_release

definition errNotAHelmReleaseManifesto :: err where
  "errNotAHelmReleaseManifesto =
     Sentinel ''errNotAHelmReleaseManifesto'' ''FluxResource is not a HelmReleaseManifesto''"
definition errNotAHelmRepositoryAdapter :: err where
  "errNotAHelmRepositoryAdapter =
     Sentinel ''errNotAHelmRepositoryAdapter'' ''FluxResource is not a HelmRepositoryAdapter''"
definition errNotAGitRepositoryAdapter :: err where
  "errNotAGitRepositoryAdapter =
     Sentinel ''errNotAGitRepositoryAdapter'' ''FluxResource is not a GitRepositoryAdapter''"
definition errNotFluxComponent :: err where
  "errNotFluxComponent = Sentinel ''errNotFluxComponent'' ''not a flux component''"

definition msgReadyNotPresent :: string where
  "msgReadyNotPresent = ''Unable to check healthiness. Ready condition is not present.''"

definition zero_source_spec :: source_spec where
  "zero_source_spec = \<lparr> ss_url = [], ss_timeout = None, ss_interval = 0, ss_suspend = False \<rparr>"

definition zero_release_spec :: helm_release_spec where
  "zero_release_spec = \<lparr> hs_chart = None, hs_release_name = [], hs_target_namespace = [],
     hs_storage_namespace = [], hs_kubeconfig = None, hs_values = None, hs_interval = 0,
     hs_suspend = False, hs_install = None, hs_upgrade = None \<rparr>"

definition empty_source :: "source_obj \<Rightarrow> source_obj" where
  "empty_source s = \<lparr> so_meta = empty_meta (om_namespace (so_meta s)) (om_name (so_meta s)),
     so_spec = zero_source_spec, so_conds = [] \<rparr>"

definition empty_release :: "helm_release \<Rightarrow> helm_release" where
  "empty_release h = \<lparr> hr_meta = empty_meta (om_namespace (hr_meta h)) (om_name (hr_meta h)),
     hr_spec = zero_release_spec, hr_conds = [] \<rparr>"

definition helmrepo_Empty :: "source_obj \<Rightarrow> flux_resource" where
  "helmrepo_Empty s = HelmRepositoryAdapter (empty_source s)"

definition gitrepo_Empty :: "source_obj \<Rightarrow> flux_resource" where
  "gitrepo_Empty s = GitRepositoryAdapter (empty_source s)"

definition ocirepo_Empty :: "source_obj \<Rightarrow> flux_resource" where
  "ocirepo_Empty s = OCIRepositoryAdapter (empty_source s)"

definition manifesto_Empty :: "helm_release \<Rightarrow> flux_resource" where
  "manifesto_Empty h = HelmReleaseManifesto (empty_release h)"

fun flux_Empty :: "flux_resource \<Rightarrow> flux_resource" where
  "flux_Empty (HelmRepositoryAdapter s) = helmrepo_Empty s"
| "flux_Empty (GitRepositoryAdapter s) = gitrepo_Empty s"
| "flux_Empty (OCIRepositoryAdapter s) = ocirepo_Empty s"
| "flux_Empty (HelmReleaseManifesto h) = manifesto_Empty h"

definition reconcile_source :: "source_obj \<Rightarrow> source_obj \<Rightarrow> source_obj" where
  "reconcile_source actual desired =
     (let preserved = so_spec actual
      in actual\<lparr>so_spec := (so_spec desired)\<lparr>ss_suspend := ss_suspend preserved\<rparr>\<rparr>)"

definition reconcile_release :: "helm_release \<Rightarrow> helm_release \<Rightarrow> helm_release" where
  "reconcile_release actual desired =
     (let preserved = hr_spec actual
      in actual\<lparr>hr_spec := (hr_spec desired)\<lparr>hs_suspend := hs_suspend preserved\<rparr>\<rparr>)"

text \<open>
  \<^verbatim>\<open>Reconcile\<close> of each adapter. The OCI adapter reports the error variable of the Git
  adapter, as the source does.
\<close>

definition helmrepo_Reconcile :: "source_obj \<Rightarrow> flux_resource \<Rightarrow> err + flux_resource" where
  "helmrepo_Reconcile s desired =
     (case desired of HelmRepositoryAdapter d \<Rightarrow> Inr (HelmRepositoryAdapter (reconcile_source s d))
      | _ \<Rightarrow> Inl errNotAHelmRepositoryAdapter)"

definition gitrepo_Reconcile :: "source_obj \<Rightarrow> flux_resource \<Rightarrow> err + flux_resource" where
  "gitrepo_Reconcile s desired =
     (case desired of GitRepositoryAdapter d \<Rightarrow> Inr (GitRepositoryAdapter (reconcile_source s d))
      | _ \<Rightarrow> Inl errNotAGitRepositoryAdapter)"

definition ocirepo_Reconcile :: "source_obj \<Rightarrow> flux_resource \<Rightarrow> err + flux_resource" where
  "ocirepo_Reconcile s desired =
     (case desired of OCIRepositoryAdapter d \<Rightarrow> Inr (OCIRepositoryAdapter (reconcile_source s d))
      | _ \<Rightarrow> Inl errNotAGitRepositoryAdapter)"

definition manifesto_Reconcile :: "helm_release \<Rightarrow> flux_resource \<Rightarrow> err + flux_resource" where
  "manifesto_Reconcile h desired =
     (case desired of HelmReleaseManifesto d \<Rightarrow> Inr (HelmReleaseManifesto (reconcile_release h d))
      | _ \<Rightarrow> Inl errNotAHelmReleaseManifesto)"

fun flux_Reconcile :: "flux_resource \<Rightarrow> flux_resource \<Rightarrow> err + flux_resource" where
  "flux_Reconcile (HelmRepositoryAdapter s) desired = helmrepo_Reconcile s desired"
| "flux_Reconcile (GitRepositoryAdapter s) desired = gitrepo_Reconcile s desired"
| "flux_Reconcile (OCIRepositoryAdapter s) desired = ocirepo_Reconcile s desired"
| "flux_Reconcile (HelmReleaseManifesto h) desired = manifesto_Reconcile h desired"

definition helmrepo_GetObject :: "source_obj \<Rightarrow> kobj" where
  "helmrepo_GetObject s = \<lparr> ko_meta = so_meta s, ko_body = BHelmRepository (so_spec s) (so_conds s) \<rparr>"

definition gitrepo_GetObject :: "source_obj \<Rightarrow> kobj" where
  "gitrepo_GetObject s = \<lparr> ko_meta = so_meta s, ko_body = BGitRepository (so_spec s) (so_conds s) \<rparr>"

definition ocirepo_GetObject :: "source_obj \<Rightarrow> kobj" where
  "ocirepo_GetObject s = \<lparr> ko_meta = so_meta s, ko_body = BOCIRepository (so_spec s) (so_conds s) \<rparr>"

definition manifesto_GetObject :: "helm_release \<Rightarrow> kobj" where
  "manifesto_GetObject h = \<lparr> ko_meta = hr_meta h, ko_body = BHelmRelease (hr_spec h) (hr_conds h) \<rparr>"

fun flux_GetObject :: "flux_resource \<Rightarrow> kobj" where
  "flux_GetObject (HelmRepositoryAdapter s) = helmrepo_GetObject s"
| "flux_GetObject (GitRepositoryAdapter s) = gitrepo_GetObject s"
| "flux_GetObject (OCIRepositoryAdapter s) = ocirepo_GetObject s"
| "flux_GetObject (HelmReleaseManifesto h) = manifesto_GetObject h"

text \<open>
  Reading an object from the API server into the object an adapter points to: the client
  fills it in place.
\<close>

fun flux_load :: "flux_resource \<Rightarrow> kobj \<Rightarrow> flux_resource" where
  "flux_load (HelmRepositoryAdapter s) ob =
     (case ko_body ob of
        BHelmRepository sp cs \<Rightarrow> HelmRepositoryAdapter \<lparr> so_meta = ko_meta ob, so_spec = sp, so_conds = cs \<rparr>
      | _ \<Rightarrow> HelmRepositoryAdapter s)"
| "flux_load (GitRepositoryAdapter s) ob =
     (case ko_body ob of
        BGitRepository sp cs \<Rightarrow> GitRepositoryAdapter \<lparr> so_meta = ko_meta ob, so_spec = sp, so_conds = cs \<rparr>
      | _ \<Rightarrow> GitRepositoryAdapter s)"
| "flux_load (OCIRepositoryAdapter s) ob =
     (case ko_body ob of
        BOCIRepository sp cs \<Rightarrow> OCIRepositoryAdapter \<lparr> so_meta = ko_meta ob, so_spec = sp, so_conds = cs \<rparr>
      | _ \<Rightarrow> OCIRepositoryAdapter s)"
| "flux_load (HelmReleaseManifesto h) ob =
     (case ko_body ob of
        BHelmRelease sp cs \<Rightarrow> HelmReleaseManifesto \<lparr> hr_meta = ko_meta ob, hr_spec = sp, hr_conds = cs \<rparr>
      | _ \<Rightarrow> HelmReleaseManifesto h)"

definition helmrepo_GetObjectKey :: "source_obj \<Rightarrow> nname" where
  "helmrepo_GetObjectKey s = \<lparr> nn_namespace = om_namespace (so_meta s), nn_name = om_name (so_meta s) \<rparr>"

definition gitrepo_GetObjectKey :: "source_obj \<Rightarrow> nname" where
  "gitrepo_GetObjectKey s = \<lparr> nn_namespace = om_namespace (so_meta s), nn_name = om_name (so_meta s) \<rparr>"

definition ocirepo_GetObjectKey :: "source_obj \<Rightarrow> nname" where
  "ocirepo_GetObjectKey s = \<lparr> nn_namespace = om_namespace (so_meta s), nn_name = om_name (so_meta s) \<rparr>"

definition manifesto_GetObjectKey :: "helm_release \<Rightarrow> nname" where
  "manifesto_GetObjectKey h = \<lparr> nn_namespace = om_namespace (hr_meta h), nn_name = om_name (hr_meta h) \<rparr>"

fun flux_GetObjectKey :: "flux_resource \<Rightarrow> nname" where
  "flux_GetObjectKey (HelmRepositoryAdapter s) = helmrepo_GetObjectKey s"
| "flux_GetObjectKey (GitRepositoryAdapter s) = gitrepo_GetObjectKey s"
| "flux_GetObjectKey (OCIRepositoryAdapter s) = ocirepo_GetObjectKey s"
| "flux_GetObjectKey (HelmReleaseManifesto h) = manifesto_GetObjectKey h"

definition ready_healthiness :: "libs \<Rightarrow> condition list \<Rightarrow> healthiness" where
  "ready_healthiness L conds =
     (case lib_find_condition L conds ''Ready'' of
        None \<Rightarrow> \<lparr> he_healthy = False, he_message = msgReadyNotPresent \<rparr>
      | Some c \<Rightarrow> \<lparr> he_healthy = (cond_stat c = CTrue), he_message = cond_message c \<rparr>)"

definition helmrepo_GetHealthiness :: "libs \<Rightarrow> source_obj \<Rightarrow> healthiness" where
  "helmrepo_GetHealthiness L s = ready_healthiness L (so_conds s)"

definition gitrepo_GetHealthiness :: "libs \<Rightarrow> source_obj \<Rightarrow> healthiness" where
  "gitrepo_GetHealthiness L s = ready_healthiness L (so_conds s)"

definition ocirepo_GetHealthiness :: "libs \<Rightarrow> source_obj \<Rightarrow> healthiness" where
  "ocirepo_GetHealthiness L s = ready_healthiness L (so_conds s)"

definition manifesto_GetHealthiness :: "libs \<Rightarrow> helm_release \<Rightarrow> healthiness" where
  "manifesto_GetHealthiness L h = ready_healthiness L (hr_conds h)"

fun flux_GetHealthiness :: "libs \<Rightarrow> flux_resource \<Rightarrow> healthiness" where
  "flux_GetHealthiness L (HelmRepositoryAdapter s) = helmrepo_GetHealthiness L s"
| "flux_GetHealthiness L (GitRepositoryAdapter s) = gitrepo_GetHealthiness L s"
| "flux_GetHealthiness L (OCIRepositoryAdapter s) = ocirepo_GetHealthiness L s"
| "flux_GetHealthiness L (HelmReleaseManifesto h) = manifesto_GetHealthiness L h"

definition minute :: int where "minute = 60 * 1000000000"
definition hour :: int where "hour = 60 * minute"

text \<open>
  \<^verbatim>\<open>ApplyDefaults\<close>: the scheme's defaulting functions, then the operator's own defaults.
\<close>

definition default_release :: "helm_release \<Rightarrow> helm_release" where
  "default_release h =
     (let sp = hr_spec h;
          install = (case hs_install sp of None \<Rightarrow> \<lparr> hi_create_namespace = False, hi_retries = None \<rparr> | Some i \<Rightarrow> i)
      in h\<lparr>hr_spec := sp\<lparr>hs_interval := 5 * minute,
             hs_install := Some (install\<lparr>hi_create_namespace := True, hi_retries := Some (-1)\<rparr>),
             hs_upgrade := Some (Some (-1))\<rparr>\<rparr>)"

definition default_source :: "source_obj \<Rightarrow> source_obj" where
  "default_source s = s\<lparr>so_spec := (so_spec s)\<lparr>ss_interval := 1 * hour\<rparr>\<rparr>"

definition helmrepo_ApplyDefaults :: "libs \<Rightarrow> source_obj \<Rightarrow> flux_resource" where
  "helmrepo_ApplyDefaults L s =
     (case flux_load (HelmRepositoryAdapter s) (lib_scheme_default L (helmrepo_GetObject s)) of
        HelmRepositoryAdapter s1 \<Rightarrow> HelmRepositoryAdapter (default_source s1) | other \<Rightarrow> other)"

definition gitrepo_ApplyDefaults :: "libs \<Rightarrow> source_obj \<Rightarrow> flux_resource" where
  "gitrepo_ApplyDefaults L s =
     (case flux_load (GitRepositoryAdapter s) (lib_scheme_default L (gitrepo_GetObject s)) of
        GitRepositoryAdapter s1 \<Rightarrow> GitRepositoryAdapter (default_source s1) | other \<Rightarrow> other)"

definition ocirepo_ApplyDefaults :: "libs \<Rightarrow> source_obj \<Rightarrow> flux_resource" where
  "ocirepo_ApplyDefaults L s =
     (case flux_load (OCIRepositoryAdapter s) (lib_scheme_default L (ocirepo_GetObject s)) of
        OCIRepositoryAdapter s1 \<Rightarrow> OCIRepositoryAdapter (default_source s1) | other \<Rightarrow> other)"

definition manifesto_ApplyDefaults :: "libs \<Rightarrow> helm_release \<Rightarrow> flux_resource" where
  "manifesto_ApplyDefaults L h =
     (case flux_load (HelmReleaseManifesto h) (lib_scheme_default L (manifesto_GetObject h)) of
        HelmReleaseManifesto h1 \<Rightarrow> HelmReleaseManifesto (default_release h1) | other \<Rightarrow> other)"

fun flux_ApplyDefaults :: "libs \<Rightarrow> flux_resource \<Rightarrow> flux_resource" where
  "flux_ApplyDefaults L (HelmRepositoryAdapter s) = helmrepo_ApplyDefaults L s"
| "flux_ApplyDefaults L (GitRepositoryAdapter s) = gitrepo_ApplyDefaults L s"
| "flux_ApplyDefaults L (OCIRepositoryAdapter s) = ocirepo_ApplyDefaults L s"
| "flux_ApplyDefaults L (HelmReleaseManifesto h) = manifesto_ApplyDefaults L h"

lemmas flux_method_defs [simp] =
  helmrepo_Empty_def gitrepo_Empty_def ocirepo_Empty_def manifesto_Empty_def
  helmrepo_Reconcile_def gitrepo_Reconcile_def ocirepo_Reconcile_def manifesto_Reconcile_def
  helmrepo_GetObject_def gitrepo_GetObject_def ocirepo_GetObject_def manifesto_GetObject_def
  helmrepo_GetObjectKey_def gitrepo_GetObjectKey_def ocirepo_GetObjectKey_def
  manifesto_GetObjectKey_def helmrepo_GetHealthiness_def gitrepo_GetHealthiness_def
  ocirepo_GetHealthiness_def manifesto_GetHealthiness_def helmrepo_ApplyDefaults_def
  gitrepo_ApplyDefaults_def ocirepo_ApplyDefaults_def manifesto_ApplyDefaults_def

declare flux_ApplyDefaults.simps [simp del] flux_GetHealthiness.simps [simp del] flux_GetObjectKey.simps [simp del]

text \<open>What the adapters have in common.\<close>

fun flux_conditions :: "flux_resource \<Rightarrow> condition list" where
  "flux_conditions (HelmRepositoryAdapter s) = so_conds s"
| "flux_conditions (GitRepositoryAdapter s) = so_conds s"
| "flux_conditions (OCIRepositoryAdapter s) = so_conds s"
| "flux_conditions (HelmReleaseManifesto h) = hr_conds h"

fun apply_own_defaults :: "flux_resource \<Rightarrow> flux_resource" where
  "apply_own_defaults (HelmRepositoryAdapter s) = HelmRepositoryAdapter (default_source s)"
| "apply_own_defaults (GitRepositoryAdapter s) = GitRepositoryAdapter (default_source s)"
| "apply_own_defaults (OCIRepositoryAdapter s) = OCIRepositoryAdapter (default_source s)"
| "apply_own_defaults (HelmReleaseManifesto h) = HelmReleaseManifesto (default_release h)"

lemma flux_GetHealthiness_conditions: "flux_GetHealthiness L r = ready_healthiness L (flux_conditions r)"
  by (cases r) (simp_all add: flux_GetHealthiness.simps)

lemma flux_GetObjectKey_object [simp]: "flux_GetObjectKey r = key_of (flux_GetObject r)"
  by (cases r) (simp_all add: key_of_def flux_GetObjectKey.simps)

section \<open>The reconciler (flux_reconciler.go)\<close>

text \<open>
  FluxComponent: a component that also builds a source repository and a manifesto. Building
  reads the context (and, through its version resolver, the cluster) and may update the
  component's own fields. \<open>fi_is_flux\<close> is the type assertion of the reconciler.
\<close>

type_synonym ('c, 'w) builder = "'w rctx \<Rightarrow> 'c \<Rightarrow> 'w \<Rightarrow> flux_resource gores \<times> 'c"

record ('c, 'w) flux_iface =
  fi_is_flux :: "'c \<Rightarrow> bool"
  fi_source :: "('c, 'w) builder"
  fi_manifesto :: "('c, 'w) builder"

record ('c, 'w) flux_reconciler =
  fr_local :: "'w client"
  fr_remote :: "'w client"
  fr_known :: "rtype list"
  fr_labels :: "'c \<Rightarrow> (string \<times> string) list"

definition NewFluxReconciler ::
  "('c, 'w) component_iface \<Rightarrow> 'w client \<Rightarrow> 'w client \<Rightarrow> string \<Rightarrow> ('c, 'w) flux_reconciler" where
  "NewFluxReconciler I localClient remoteClient labelComponentName =
     \<lparr> fr_local = localClient, fr_remote = remoteClient, fr_known = [],
       fr_labels = DefaultLabelFunc labelComponentName I \<rparr>"

definition flux_WithLabelFunc ::
  "('c, 'w) flux_reconciler \<Rightarrow> ('c \<Rightarrow> (string \<times> string) list) option \<Rightarrow> ('c, 'w) flux_reconciler" where
  "flux_WithLabelFunc r fn = (case fn of None \<Rightarrow> r | Some f \<Rightarrow> r\<lparr>fr_labels := f\<rparr>)"

definition flux_RegisterType ::
  "('c, 'w) component_iface \<Rightarrow> ('c, 'w) flux_reconciler \<Rightarrow> 'c list \<Rightarrow> ('c, 'w) flux_reconciler" where
  "flux_RegisterType I r comps =
     fold (\<lambda>c r. r\<lparr>fr_known := List.insert (ci_type I c) (fr_known r)\<rparr>) comps r"

definition aggregateHealthiness :: "healthiness list \<Rightarrow> healthiness" where
  "aggregateHealthiness states =
     (let r = fold (\<lambda>rh r. if he_healthy rh then r
                          else \<lparr> he_healthy = False,
                                 he_message = he_message r @ [CHR 10] @ he_message rh \<rparr>)
                   states \<lparr> he_healthy = True, he_message = [] \<rparr>
      in r\<lparr>he_message := trim_space (he_message r)\<rparr>)"

text \<open>
  \<^verbatim>\<open>observeSource\<close> and \<^verbatim>\<open>observeManifesto\<close> differ in the builder only. Any answer of
  Get but not-found counts as existing; when it is another error the object was not filled.
\<close>

definition observe_resource ::
  "libs \<Rightarrow> ('c, 'w) flux_reconciler \<Rightarrow> ('c, 'w) builder \<Rightarrow> 'w rctx \<Rightarrow> 'c \<Rightarrow> 'w \<Rightarrow> observation gores \<times> 'c" where
  "observe_resource L r build ctx c w =
     (case build ctx c w of
        (Err e, c') \<Rightarrow> (Err e, c')
      | (Panic p, c') \<Rightarrow> (Panic p, c')
      | (Ok desired, c') \<Rightarrow>
          (let actual = flux_Empty desired
           in case cl_get (fr_local r) (kind_of (flux_GetObject actual)) (flux_GetObjectKey actual) w of
                Inl e \<Rightarrow>
                  if is_not_found e then (Ok zero_observation, c')
                  else (Ok \<lparr> ob_exists = True, ob_skipped = False,
                             ob_health = flux_GetHealthiness L actual \<rparr>, c')
              | Inr ob \<Rightarrow>
                  (Ok \<lparr> ob_exists = True, ob_skipped = False,
                        ob_health = flux_GetHealthiness L (flux_load actual ob) \<rparr>, c')))"

definition observeSource :: "libs \<Rightarrow> ('c, 'w) flux_iface \<Rightarrow> ('c, 'w) flux_reconciler \<Rightarrow> 'w rctx \<Rightarrow> 'c \<Rightarrow> 'w \<Rightarrow> observation gores \<times> 'c" where
  "observeSource L F r = observe_resource L r (fi_source F)"

definition observeManifesto :: "libs \<Rightarrow> ('c, 'w) flux_iface \<Rightarrow> ('c, 'w) flux_reconciler \<Rightarrow> 'w rctx \<Rightarrow> 'c \<Rightarrow> 'w \<Rightarrow> observation gores \<times> 'c" where
  "observeManifesto L F r = observe_resource L r (fi_manifesto F)"

definition flux_Observe ::
  "libs \<Rightarrow> ('c, 'w) flux_iface \<Rightarrow> ('c, 'w) flux_reconciler \<Rightarrow> 'w rctx \<Rightarrow> 'c \<Rightarrow> 'w
     \<Rightarrow> observation gores \<times> 'c \<times> 'w" where
  "flux_Observe L F r ctx c w =
     (if \<not> fi_is_flux F c then (Err errNotFluxComponent, c, w)
      else
        (case observeSource L F r ctx c w of
           (Err e, c1) \<Rightarrow> (Err e, c1, w)
         | (Panic p, c1) \<Rightarrow> (Panic p, c1, w)
         | (Ok src, c1) \<Rightarrow>
             (case observeManifesto L F r ctx c1 w of
                (Err e, c2) \<Rightarrow> (Err e, c2, w)
              | (Panic p, c2) \<Rightarrow> (Panic p, c2, w)
              | (Ok man, c2) \<Rightarrow>
                  (Ok \<lparr> ob_exists = (ob_exists src \<or> ob_exists man), ob_skipped = False,
                        ob_health = aggregateHealthiness [ob_health man, ob_health src] \<rparr>, c2, w))))"

definition of_err :: "err option \<Rightarrow> unit gores" where
  "of_err e = (case e of None \<Rightarrow> Ok () | Some e \<Rightarrow> Err e)"

definition delete_resource ::
  "('c, 'w) flux_reconciler \<Rightarrow> ('c, 'w) builder \<Rightarrow> 'w rctx \<Rightarrow> 'c \<Rightarrow> 'w \<Rightarrow> unit gores \<times> 'c \<times> 'w" where
  "delete_resource r build ctx c w =
     (case build ctx c w of
        (Err e, c') \<Rightarrow> (Err e, c', w)
      | (Panic p, c') \<Rightarrow> (Panic p, c', w)
      | (Ok desired, c') \<Rightarrow>
          (case cl_delete (fr_local r) (flux_GetObject desired) w of
             (e, w') \<Rightarrow> (of_err (ignore_not_found e), c', w')))"

definition deleteSource :: "('c, 'w) flux_iface \<Rightarrow> ('c, 'w) flux_reconciler \<Rightarrow> 'w rctx \<Rightarrow> 'c \<Rightarrow> 'w \<Rightarrow> unit gores \<times> 'c \<times> 'w" where
  "deleteSource F r = delete_resource r (fi_source F)"

definition deleteManifesto :: "('c, 'w) flux_iface \<Rightarrow> ('c, 'w) flux_reconciler \<Rightarrow> 'w rctx \<Rightarrow> 'c \<Rightarrow> 'w \<Rightarrow> unit gores \<times> 'c \<times> 'w" where
  "deleteManifesto F r = delete_resource r (fi_manifesto F)"

definition flux_Uninstall ::
  "('c, 'w) flux_iface \<Rightarrow> ('c, 'w) flux_reconciler \<Rightarrow> 'w rctx \<Rightarrow> 'c \<Rightarrow> 'w \<Rightarrow> unit gores \<times> 'c \<times> 'w" where
  "flux_Uninstall F r ctx c w =
     (if \<not> fi_is_flux F c then (Err errNotFluxComponent, c, w)
      else
        (case deleteSource F r ctx c w of
           (Ok _, c1, w1) \<Rightarrow> deleteManifesto F r ctx c1 w1
         | (Err e, c1, w1) \<Rightarrow> (Err e, c1, w1)
         | (Panic p, c1, w1) \<Rightarrow> (Panic p, c1, w1)))"

text \<open>
  \<^verbatim>\<open>installOrUpdateSource\<close> and \<^verbatim>\<open>installOrUpdateManifesto\<close>: the mutate function gets the
  object as it was found, loaded into the empty adapter.
\<close>

definition flux_mutate ::
  "('c, 'w) flux_reconciler \<Rightarrow> 'c \<Rightarrow> flux_resource \<Rightarrow> flux_resource \<Rightarrow> kobj \<Rightarrow> err + kobj" where
  "flux_mutate r c actual desired ob =
     (case flux_Reconcile (flux_load actual ob) desired of
        Inl e \<Rightarrow> Inl e
      | Inr a \<Rightarrow> Inr (SetLabels (flux_GetObject a) (fr_labels r c)))"

definition apply_resource ::
  "('c, 'w) flux_reconciler \<Rightarrow> ('c, 'w) builder \<Rightarrow> 'w rctx \<Rightarrow> 'c \<Rightarrow> 'w \<Rightarrow> unit gores \<times> 'c \<times> 'w" where
  "apply_resource r build ctx c w =
     (case build ctx c w of
        (Err e, c') \<Rightarrow> (Err e, c', w)
      | (Panic p, c') \<Rightarrow> (Panic p, c', w)
      | (Ok desired, c') \<Rightarrow>
          (let actual = flux_Empty desired
           in case cl_create_or_update (fr_local r) (flux_GetObject actual)
                     (flux_mutate r c' actual desired) w of
                (e, w') \<Rightarrow> (of_err e, c', w')))"

definition installOrUpdateSource :: "('c, 'w) flux_iface \<Rightarrow> ('c, 'w) flux_reconciler \<Rightarrow> 'w rctx \<Rightarrow> 'c \<Rightarrow> 'w \<Rightarrow> unit gores \<times> 'c \<times> 'w" where
  "installOrUpdateSource F r = apply_resource r (fi_source F)"

definition installOrUpdateManifesto :: "('c, 'w) flux_iface \<Rightarrow> ('c, 'w) flux_reconciler \<Rightarrow> 'w rctx \<Rightarrow> 'c \<Rightarrow> 'w \<Rightarrow> unit gores \<times> 'c \<times> 'w" where
  "installOrUpdateManifesto F r = apply_resource r (fi_manifesto F)"

definition flux_installOrUpdate ::
  "('c, 'w) flux_iface \<Rightarrow> ('c, 'w) flux_reconciler \<Rightarrow> 'w rctx \<Rightarrow> 'c \<Rightarrow> 'w \<Rightarrow> unit gores \<times> 'c \<times> 'w" where
  "flux_installOrUpdate F r ctx c w =
     (if \<not> fi_is_flux F c then (Err errNotFluxComponent, c, w)
      else
        (case installOrUpdateSource F r ctx c w of
           (Ok _, c1, w1) \<Rightarrow> installOrUpdateManifesto F r ctx c1 w1
         | (Err e, c1, w1) \<Rightarrow> (Err e, c1, w1)
         | (Panic p, c1, w1) \<Rightarrow> (Panic p, c1, w1)))"

definition flux_Install :: "('c, 'w) flux_iface \<Rightarrow> ('c, 'w) flux_reconciler \<Rightarrow> 'w rctx \<Rightarrow> 'c \<Rightarrow> 'w \<Rightarrow> unit gores \<times> 'c \<times> 'w" where
  "flux_Install F r = flux_installOrUpdate F r"

definition flux_Update :: "('c, 'w) flux_iface \<Rightarrow> ('c, 'w) flux_reconciler \<Rightarrow> 'w rctx \<Rightarrow> 'c \<Rightarrow> 'w \<Rightarrow> unit gores \<times> 'c \<times> 'w" where
  "flux_Update F r = flux_installOrUpdate F r"

lemmas flux_stage_defs [simp] = flux_Install_def flux_Update_def

lemmas flux_Observe_stages = flux_Observe_def [unfolded observeSource_def observeManifesto_def]
lemmas flux_Uninstall_stages = flux_Uninstall_def [unfolded deleteSource_def deleteManifesto_def]
lemmas flux_installOrUpdate_stages =
  flux_installOrUpdate_def [unfolded installOrUpdateSource_def installOrUpdateManifesto_def]

definition run_hook ::
  "'w hook option \<Rightarrow> 'w client \<Rightarrow> 'c \<Rightarrow> 'w \<Rightarrow> unit gores \<times> 'c \<times> 'w" where
  "run_hook h cl c w =
     (case h of None \<Rightarrow> (Ok (), c, w)
      | Some hook \<Rightarrow> (case hook cl w of (e, w') \<Rightarrow> (of_err e, c, w')))"

definition as_flux_reconciler ::
  "libs \<Rightarrow> ('c, 'w) component_iface \<Rightarrow> ('c, 'w) flux_iface \<Rightarrow> ('c, 'w) flux_reconciler
     \<Rightarrow> ('c, 'w) reconciler" where
  "as_flux_reconciler L I F r =
     \<lparr> rk_known_types = fr_known r,
       rk_observe = flux_Observe L F r,
       rk_uninstall = flux_Uninstall F r,
       rk_update = flux_Update F r,
       rk_install = flux_Install F r,
       rk_pre_uninstall = (\<lambda>ctx c w. run_hook (hk_pre_uninstall (ci_hooks I c)) (fr_remote r) c w),
       rk_pre_install = (\<lambda>ctx c w. run_hook (hk_pre_install (ci_hooks I c)) (fr_remote r) c w),
       rk_pre_update = (\<lambda>ctx c w. run_hook (hk_pre_update (ci_hooks I c)) (fr_remote r) c w),
       rk_detect_orphans = None \<rparr>"

end
