(* ===== verification/ObjectRec.thy ===== *)
theory ObjectRec
  imports FluxCD
begin

text \<open>
  \<^verbatim>\<open>pkg/juggler/object\<close>: the reconciler of components that are a single Kubernetes
  object on the target cluster (\<^verbatim>\<open>object_reconciler.go\<close>), and its detection of orphaned
  objects. The ObjectComponent and OrphanedObjectsDetector interfaces
  (\<^verbatim>\<open>object_component.go\<close>) are records of their methods.
\<close>

definition errNotObjectComponent :: err where
  "errNotObjectComponent = Sentinel ''errNotObjectComponent'' ''not an object component''"

definition AnnotationSkipReconciliation :: string where
  "AnnotationSkipReconciliation = ''core.orchestrate.cloud.sap/skip-reconciliation''"

record 'c detector_context =
  dc_filter :: "list_opt list"
  dc_convert :: "kobj list \<Rightarrow> 'c list"
  dc_same :: "'c \<Rightarrow> 'c \<Rightarrow> bool"
  dc_list_type :: kind

text \<open>
  \<open>oi_is_object\<close> is the type assertion, \<open>oi_detector\<close> the detector context of the types
  whose (nil) value implements OrphanedObjectsDetector.
\<close>

record ('c, 'w) object_iface =
  oi_is_object :: "'c \<Rightarrow> bool"
  oi_build :: "'w rctx \<Rightarrow> 'c \<Rightarrow> (kobj \<times> nname) gores"
  oi_reconcile :: "'w rctx \<Rightarrow> 'c \<Rightarrow> 'w \<Rightarrow> kobj \<Rightarrow> kobj gores"
  oi_healthy :: "'c \<Rightarrow> kobj \<Rightarrow> healthiness"
  oi_detector :: "rtype \<Rightarrow> 'c detector_context option"

record ('c, 'w) object_reconciler =
  or_remote :: "'w client"
  or_known :: "rtype list"
  or_labels :: "'c \<Rightarrow> (string \<times> string) list"

definition NewReconciler ::
  "('c, 'w) component_iface \<Rightarrow> 'w client \<Rightarrow> string \<Rightarrow> ('c, 'w) object_reconciler" where
  "NewReconciler I remoteClient labelComponentName =
     \<lparr> or_remote = remoteClient, or_known = [], or_labels = DefaultLabelFunc labelComponentName I \<rparr>"

definition object_WithLabelFunc ::
  "('c, 'w) object_reconciler \<Rightarrow> ('c \<Rightarrow> (string \<times> string) list) option \<Rightarrow> ('c, 'w) object_reconciler" where
  "object_WithLabelFunc r fn = (case fn of None \<Rightarrow> r | Some f \<Rightarrow> r\<lparr>or_labels := f\<rparr>)"

definition object_RegisterType ::
  "('c, 'w) component_iface \<Rightarrow> ('c, 'w) object_reconciler \<Rightarrow> 'c list \<Rightarrow> ('c, 'w) object_reconciler" where
  "object_RegisterType I r comps =
     fold (\<lambda>c r. r\<lparr>or_known := List.insert (ci_type I c) (or_known r)\<rparr>) comps r"

definition shouldSkipReconciliation :: "kobj \<Rightarrow> bool" where
  "shouldSkipReconciliation ob \<longleftrightarrow> annotations_of ob AnnotationSkipReconciliation = Some ''true''"

definition object_Observe ::
  "('c, 'w) object_iface \<Rightarrow> ('c, 'w) object_reconciler \<Rightarrow> 'w rctx \<Rightarrow> 'c \<Rightarrow> 'w
     \<Rightarrow> observation gores \<times> 'c \<times> 'w" where
  "object_Observe J r ctx c w =
     (if \<not> oi_is_object J c then (Err errNotObjectComponent, c, w)
      else
        (case oi_build J ctx c of
           Err e \<Rightarrow> (Err e, c, w)
         | Panic p \<Rightarrow> (Panic p, c, w)
         | Ok (obj, key) \<Rightarrow>
             (case cl_get (or_remote r) (kind_of obj) key w of
                Inl e \<Rightarrow>
                  if is_not_found e \<or> IsCRDNotFound (Some e) then (Ok zero_observation, c, w)
                  else (Err e, c, w)
              | Inr actual \<Rightarrow>
                  (Ok \<lparr> ob_exists = True, ob_skipped = shouldSkipReconciliation actual,
                        ob_health = oi_healthy J c actual \<rparr>, c, w))))"

definition set_key :: "kobj \<Rightarrow> nname \<Rightarrow> kobj" where
  "set_key obj key = obj\<lparr>ko_meta := (ko_meta obj)\<lparr>om_name := nn_name key, om_namespace := nn_namespace key\<rparr>\<rparr>"

definition object_Uninstall ::
  "('c, 'w) object_iface \<Rightarrow> ('c, 'w) object_reconciler \<Rightarrow> 'w rctx \<Rightarrow> 'c \<Rightarrow> 'w \<Rightarrow> unit gores \<times> 'c \<times> 'w" where
  "object_Uninstall J r ctx c w =
     (if \<not> oi_is_object J c then (Err errNotObjectComponent, c, w)
      else
        (case oi_build J ctx c of
           Err e \<Rightarrow> (Err e, c, w)
         | Panic p \<Rightarrow> (Panic p, c, w)
         | Ok (obj, key) \<Rightarrow>
             (case cl_delete (or_remote r) (set_key obj key) w of
                (e, w') \<Rightarrow> (of_err (ignore_not_found e), c, w'))))"

text \<open>
  The mutate function of \<^verbatim>\<open>applyObject\<close>. A panic inside it unwinds through CreateOrUpdate:
  it is carried through the client as the reserved error \<open>panicked\<close>, which the caller turns
  back into the panic.
\<close>

definition panicked :: "string \<Rightarrow> err" where
  "panicked p = Sentinel ''panic'' p"

definition unwind :: "err option \<Rightarrow> unit gores" where
  "unwind e = (case e of
     Some (Sentinel n p) \<Rightarrow> if n = ''panic'' then Panic p else Err (Sentinel n p)
   | _ \<Rightarrow> of_err e)"

definition object_mutate ::
  "('c, 'w) object_iface \<Rightarrow> ('c, 'w) object_reconciler \<Rightarrow> 'w rctx \<Rightarrow> 'c \<Rightarrow> 'w \<Rightarrow> kobj \<Rightarrow> err + kobj" where
  "object_mutate J r ctx c w obj =
     (if shouldSkipReconciliation obj then Inr obj
      else (case oi_reconcile J ctx c w (SetLabels obj (or_labels r c)) of
              Ok obj' \<Rightarrow> Inr obj'
            | Err e \<Rightarrow> Inl e
            | Panic p \<Rightarrow> Inl (panicked p)))"

definition applyObject ::
  "('c, 'w) object_iface \<Rightarrow> ('c, 'w) object_reconciler \<Rightarrow> 'w rctx \<Rightarrow> 'c \<Rightarrow> 'w \<Rightarrow> unit gores \<times> 'c \<times> 'w" where
  "applyObject J r ctx c w =
     (if \<not> oi_is_object J c then (Err errNotObjectComponent, c, w)
      else
        (case oi_build J ctx c of
           Err e \<Rightarrow> (Err e, c, w)
         | Panic p \<Rightarrow> (Panic p, c, w)
         | Ok (obj, key) \<Rightarrow>
             (case cl_create_or_update (or_remote r) (set_key obj key) (object_mutate J r ctx c w) w of
                (e, w') \<Rightarrow> (unwind e, c, w'))))"

section \<open>Orphaned objects\<close>

text \<open>
  \<^verbatim>\<open>filterOrphanedObjects\<close>: the inner loop sets a flag when some configured component of
  the same type is the same.
\<close>

fun is_configured ::
  "('c, 'w) component_iface \<Rightarrow> ('c \<Rightarrow> 'c \<Rightarrow> bool) \<Rightarrow> 'c list \<Rightarrow> 'c \<Rightarrow> bool \<Rightarrow> bool" where
  "is_configured I same [] possiblyOrphaned found = found"
| "is_configured I same (configured # cs) possiblyOrphaned found =
     (if ci_type I configured \<noteq> ci_type I possiblyOrphaned
      then is_configured I same cs possiblyOrphaned found
      else is_configured I same cs possiblyOrphaned (if same configured possiblyOrphaned then True else found))"

definition filterOrphanedObjects ::
  "('c, 'w) component_iface \<Rightarrow> ('c, 'w) object_reconciler \<Rightarrow> 'c list \<Rightarrow> 'c detector_context \<Rightarrow> 'w
     \<Rightarrow> 'c list gores" where
  "filterOrphanedObjects I r configuredComponents dc w =
     (case cl_list (or_remote r) (dc_list_type dc) (dc_filter dc) w of
        Inl e \<Rightarrow> if IsCRDNotFound (Some e) then Ok [] else Err e
      | Inr items \<Rightarrow>
          Ok (filter (\<lambda>p. \<not> is_configured I (dc_same dc) configuredComponents p False) (dc_convert dc items)))"

fun detect_orphans ::
  "('c, 'w) component_iface \<Rightarrow> ('c, 'w) object_iface \<Rightarrow> ('c, 'w) object_reconciler \<Rightarrow> 'c list \<Rightarrow> 'w
     \<Rightarrow> rtype list \<Rightarrow> 'c list gores" where
  "detect_orphans I J r configured w [] = Ok []"
| "detect_orphans I J r configured w (kt # kts) =
     (case oi_detector J kt of
        None \<Rightarrow> detect_orphans I J r configured w kts
      | Some dc \<Rightarrow>
          bind_go (filterOrphanedObjects I r configured dc w) (\<lambda>filtered.
            bind_go (detect_orphans I J r configured w kts) (\<lambda>rest. Ok (filtered @ rest))))"

definition DetectOrphanedComponents ::
  "('c, 'w) component_iface \<Rightarrow> ('c, 'w) object_iface \<Rightarrow> ('c, 'w) object_reconciler \<Rightarrow> 'w rctx
     \<Rightarrow> 'c list \<Rightarrow> 'w \<Rightarrow> 'c list gores" where
  "DetectOrphanedComponents I J r ctx configured w = detect_orphans I J r configured w (or_known r)"

definition object_KnownTypes :: "('c, 'w) object_reconciler \<Rightarrow> rtype list" where
  "object_KnownTypes r = or_known r"

definition object_Install ::
  "('c, 'w) object_iface \<Rightarrow> ('c, 'w) object_reconciler \<Rightarrow> 'w rctx \<Rightarrow> 'c \<Rightarrow> 'w \<Rightarrow> unit gores \<times> 'c \<times> 'w" where
  "object_Install J r = applyObject J r"

definition object_Update ::
  "('c, 'w) object_iface \<Rightarrow> ('c, 'w) object_reconciler \<Rightarrow> 'w rctx \<Rightarrow> 'c \<Rightarrow> 'w \<Rightarrow> unit gores \<times> 'c \<times> 'w" where
  "object_Update J r = applyObject J r"

lemmas object_stage_defs [simp] = object_KnownTypes_def object_Install_def object_Update_def

definition as_object_reconciler ::
  "('c, 'w) component_iface \<Rightarrow> ('c, 'w) object_iface \<Rightarrow> ('c, 'w) object_reconciler \<Rightarrow> ('c, 'w) reconciler" where
  "as_object_reconciler I J r =
     \<lparr> rk_known_types = object_KnownTypes r,
       rk_observe = object_Observe J r,
       rk_uninstall = object_Uninstall J r,
       rk_update = object_Update J r,
       rk_install = object_Install J r,
       rk_pre_uninstall = (\<lambda>ctx c w. run_hook (hk_pre_uninstall (ci_hooks I c)) (or_remote r) c w),
       rk_pre_install = (\<lambda>ctx c w. run_hook (hk_pre_install (ci_hooks I c)) (or_remote r) c w),
       rk_pre_update = (\<lambda>ctx c w. run_hook (hk_pre_update (ci_hooks I c)) (or_remote r) c w),
       rk_detect_orphans = Some (DetectOrphanedComponents I J r) \<rparr>"

end
