(* ===== verification/KubeStore.thy ===== *)
theory KubeStore
  imports Libs "HOL-Library.AList"
begin

text \<open>
  A concrete API server that follows the documentation: an association list of objects. It
  shows that the laws the properties assume of a client hold together, and it is the world
  the witnesses run on. \<open>wf_view\<close> says that a server files every object under its own kind
  and key.
\<close>

type_synonym store = "((kind \<times> nname) \<times> kobj) list"

definition NotFoundErr :: err where
  "NotFoundErr = ApiStatus ''NotFound'' ''not found''"

definition store_view :: "store kview" where
  "store_view w k n = map_of w (k, n)"

definition st_get :: "kind \<Rightarrow> nname \<Rightarrow> store \<Rightarrow> err + kobj" where
  "st_get k n w = (case map_of w (k, n) of None \<Rightarrow> Inl NotFoundErr | Some ob \<Rightarrow> Inr ob)"

definition st_list :: "kind \<Rightarrow> list_opt list \<Rightarrow> store \<Rightarrow> err + kobj list" where
  "st_list k os w =
     Inr (map snd (filter (\<lambda>(kn, ob). fst kn = k \<and> opts_match os ob) (AList.clearjunk w)))"

definition st_cou :: "kobj \<Rightarrow> (kobj \<Rightarrow> err + kobj) \<Rightarrow> store \<Rightarrow> err option \<times> store" where
  "st_cou ob f w =
     (case f (case map_of w (kind_of ob, key_of ob) of Some cur \<Rightarrow> cur | None \<Rightarrow> ob) of
        Inl e \<Rightarrow> (Some e, w)
      | Inr ob' \<Rightarrow> (None, AList.update (kind_of ob, key_of ob) ob' w))"

definition st_update :: "kobj \<Rightarrow> store \<Rightarrow> err option \<times> store" where
  "st_update ob w =
     (None, case persisted ob of
        Some ob' \<Rightarrow> AList.update (kind_of ob, key_of ob) ob' w
      | None \<Rightarrow> AList.delete (kind_of ob, key_of ob) w)"

text \<open>Deletion times are not observed by the operator: the clock of this server stands still.\<close>

definition st_mark :: "kobj \<Rightarrow> kobj option" where
  "st_mark ob = (if om_finalizers (ko_meta ob) = [] then None
     else Some (ob\<lparr>ko_meta := (ko_meta ob)\<lparr>om_deletion := Some 0\<rparr>\<rparr>))"

definition st_delete :: "kobj \<Rightarrow> store \<Rightarrow> err option \<times> store" where
  "st_delete ob w =
     (case map_of w (kind_of ob, key_of ob) of
        None \<Rightarrow> (Some NotFoundErr, w)
      | Some cur \<Rightarrow>
          (None, case st_mark cur of
             None \<Rightarrow> AList.delete (kind_of ob, key_of ob) w
           | Some cur' \<Rightarrow> AList.update (kind_of ob, key_of ob) cur' w))"

definition st_delete_all_of :: "kind \<Rightarrow> list_opt list \<Rightarrow> store \<Rightarrow> err option \<times> store" where
  "st_delete_all_of k os w =
     (None, map (\<lambda>(kn, ob). (kn, if fst kn = k \<and> opts_match os ob then the (st_mark ob) else ob))
        (filter (\<lambda>(kn, ob). \<not> (fst kn = k \<and> opts_match os ob \<and> st_mark ob = None)) (AList.clearjunk w)))"

definition store_client :: "store client" where
  "store_client = \<lparr> cl_get = st_get, cl_list = st_list, cl_create_or_update = st_cou,
     cl_update = st_update, cl_delete = st_delete, cl_delete_all_of = st_delete_all_of \<rparr>"

lemmas store_defs [go_defs] =
  store_client_def st_get_def st_list_def st_cou_def st_update_def st_delete_def
  st_delete_all_of_def st_mark_def persisted_def store_view_def NotFoundErr_def

lemma is_not_found_NotFoundErr [simp]: "is_not_found NotFoundErr"
  by (simp add: NotFoundErr_def is_not_found_def)

lemma map_of_filter_snd:
  "distinct (map fst w) \<Longrightarrow>
     map_of (filter (\<lambda>(x, y). P x y) w) kn = (case map_of w kn of Some ob \<Rightarrow> if P kn ob then Some ob else None | None \<Rightarrow> None)"
proof (induction w)
  case (Cons a w)
  then show ?case
    by (cases a) (auto split: option.splits simp: image_iff dest: map_of_SomeD)
qed simp

lemma store_get_law: "get_law store_client store_view"
  by (auto simp: get_law_def store_client_def st_get_def store_view_def split: option.splits)

lemma distinct_listing:
  assumes "distinct (map fst w)"
  shows "set (map snd (filter (\<lambda>(kn, ob). fst kn = k \<and> P ob) w)) = {ob. \<exists>n. map_of w (k, n) = Some ob \<and> P ob}"
proof -
  have mem: "map_of w kn = Some ob \<longleftrightarrow> (kn, ob) \<in> set w" for kn ob
    using assms by (simp add: map_of_eq_Some_iff)
  show ?thesis unfolding mem by force
qed

lemma store_list_law: "list_law store_client store_view"
  unfolding list_law_def
  by (auto simp: store_client_def st_list_def store_view_def map_of_clearjunk
           simp del: set_map set_filter simp: distinct_listing)

lemma store_cou_law: "cou_law store_client store_view"
  by (auto simp: cou_law_def store_client_def st_cou_def store_view_def Let_def update_conv fun_eq_iff
           split: sum.splits option.splits)

lemma store_update_law: "update_law store_client store_view"
  by (auto simp: update_law_def store_client_def st_update_def store_view_def Let_def update_conv
                 delete_conv fun_eq_iff split: option.splits)

lemma store_delete_law: "delete_law store_client store_view"
  by (auto simp: delete_law_def store_client_def st_delete_def store_view_def Let_def delete_conv
                 update_conv fun_eq_iff left_behind_def st_mark_def split: option.splits)

lemma map_of_marked:
  "map_of (map (\<lambda>(kn, ob). (kn, g kn ob)) xs) kn = map_option (g kn) (map_of xs kn)"
  by (induction xs) auto

lemma store_delete_all_law: "delete_all_law store_client store_view"
proof -
  have "\<exists>left. (\<forall>n. case store_view w k n of
                 Some ob \<Rightarrow> if opts_match os ob then left_behind (Some ob) (left n) else left n = Some ob
               | None \<Rightarrow> left n = None)
             \<and> store_view (snd (st_delete_all_of k os w)) = (store_view w)(k := left)" for k os w
  proof (intro exI conjI allI)
    let ?left = "\<lambda>n. store_view (snd (st_delete_all_of k os w)) k n"
    have mo: "map_of (snd (st_delete_all_of k os w)) kn =
        (case map_of w kn of None \<Rightarrow> None
         | Some ob \<Rightarrow> if fst kn = k \<and> opts_match os ob then st_mark ob else Some ob)" for kn
      by (auto simp: st_delete_all_of_def map_of_marked map_of_filter_snd distinct_clearjunk
               map_of_clearjunk split: option.splits)
    show "case store_view w k n of
                 Some ob \<Rightarrow> if opts_match os ob then left_behind (Some ob) (?left n) else ?left n = Some ob
               | None \<Rightarrow> ?left n = None" for n
      by (auto simp: store_view_def mo left_behind_def st_mark_def split: option.splits)
    show "store_view (snd (st_delete_all_of k os w)) = (store_view w)(k := ?left)"
      by (auto simp: fun_eq_iff store_view_def mo split: option.splits)
  qed
  moreover have "fst (st_delete_all_of k os w) = None" for k os w by (simp add: st_delete_all_of_def)
  ultimately show ?thesis
    unfolding delete_all_law_def store_client_def Let_def client.select_convs by (simp only: option.case) blast
qed

lemma store_api_laws [simp]:
  "get_law store_client store_view" "list_law store_client store_view" "cou_law store_client store_view"
  "update_law store_client store_view" "delete_law store_client store_view"
  "delete_all_law store_client store_view" "api_laws store_client store_view"
  by (simp_all add: api_laws_def store_get_law store_list_law store_cou_law store_update_law
        store_delete_law store_delete_all_law)

section \<open>Well-filed servers\<close>

definition wf_view :: "'w kview \<Rightarrow> 'w \<Rightarrow> bool" where
  "wf_view view w \<longleftrightarrow> (\<forall>k n ob. view w k n = Some ob \<longrightarrow> kind_of ob = k \<and> key_of ob = n)"

lemma wf_viewD: "wf_view view w \<Longrightarrow> view w k n = Some ob \<Longrightarrow> kind_of ob = k \<and> key_of ob = n"
  by (simp add: wf_view_def)

text \<open>The same for the objects of one kind.\<close>

definition kind_filed :: "'w kview \<Rightarrow> kind \<Rightarrow> 'w \<Rightarrow> bool" where
  "kind_filed view k w \<longleftrightarrow> (\<forall>n ob. view w k n = Some ob \<longrightarrow> kind_of ob = k \<and> key_of ob = n)"

lemma kind_filedD: "kind_filed view k w \<Longrightarrow> view w k n = Some ob \<Longrightarrow> kind_of ob = k \<and> key_of ob = n"
  by (simp add: kind_filed_def)

lemma wf_view_kind_filed: "wf_view view w \<Longrightarrow> kind_filed view k w"
  by (simp add: wf_view_def kind_filed_def)

lemma wf_store_Nil [simp]: "wf_view store_view []"
  by (simp add: wf_view_def store_view_def)

lemma wf_store_Cons [simp]:
  "wf_view store_view w \<Longrightarrow> kind_of ob = k \<Longrightarrow> key_of ob = n \<Longrightarrow> wf_view store_view (((k, n), ob) # w)"
  by (auto simp: wf_view_def store_view_def)

end
