(* ===== verification/FluxLaws.thy ===== *)
theory FluxLaws
  imports FluxCD KubeStore
begin

text \<open>
  Laws of the Flux reconciler. \<open>flux_resource_laws\<close> is the contract of the FluxResource
  interface that the reconciler relies on, interpreted on the adapters; \<open>flux_component_laws\<close>
  is the contract of a FluxComponent, under which the reconciler keeps the Juggler's
  contract. The effect of an install, an uninstall and an observation is stated over the
  objects the API server holds.
\<close>

section \<open>The contract of FluxResource\<close>

fun suspend_of :: "kbody \<Rightarrow> bool" where
  "suspend_of (BHelmRelease s cs) = hs_suspend s"
| "suspend_of (BHelmRepository s cs) = ss_suspend s"
| "suspend_of (BGitRepository s cs) = ss_suspend s"
| "suspend_of (BOCIRepository s cs) = ss_suspend s"
| "suspend_of _ = False"

text \<open>The body an object has after it is reconciled: the desired spec, but its own suspend flag and status.\<close>

definition reconciled_body :: "kbody \<Rightarrow> kbody \<Rightarrow> kbody" where
  "reconciled_body b desired =
     (case b of
        BHelmRelease s cs \<Rightarrow>
          (case desired of BHelmRelease d _ \<Rightarrow> BHelmRelease (d\<lparr>hs_suspend := hs_suspend s\<rparr>) cs | _ \<Rightarrow> b)
      | BHelmRepository s cs \<Rightarrow>
          (case desired of BHelmRepository d _ \<Rightarrow> BHelmRepository (d\<lparr>ss_suspend := ss_suspend s\<rparr>) cs | _ \<Rightarrow> b)
      | BGitRepository s cs \<Rightarrow>
          (case desired of BGitRepository d _ \<Rightarrow> BGitRepository (d\<lparr>ss_suspend := ss_suspend s\<rparr>) cs | _ \<Rightarrow> b)
      | BOCIRepository s cs \<Rightarrow>
          (case desired of BOCIRepository d _ \<Rightarrow> BOCIRepository (d\<lparr>ss_suspend := ss_suspend s\<rparr>) cs | _ \<Rightarrow> b)
      | _ \<Rightarrow> b)"

locale flux_resource_laws =
  fixes empty_of :: "'r \<Rightarrow> 'r"
    and reconcile :: "'r \<Rightarrow> 'r \<Rightarrow> err + 'r"
    and obj :: "'r \<Rightarrow> kobj"
    and load :: "'r \<Rightarrow> kobj \<Rightarrow> 'r"
  assumes empty_kind: "kind_of (obj (empty_of r)) = kind_of (obj r)"
    and empty_key: "key_of (obj (empty_of r)) = key_of (obj r)"
    and load_obj: "kind_of ob = kind_of (obj r) \<Longrightarrow> obj (load r ob) = ob"
    and reconcile_ok: "kind_of (obj a) = kind_of (obj d) \<Longrightarrow>
      \<exists>a'. reconcile a d = Inr a' \<and>
           obj a' = (obj a)\<lparr>ko_body := reconciled_body (ko_body (obj a)) (ko_body (obj d))\<rparr>"
    and reconcile_foreign: "kind_of (obj a) \<noteq> kind_of (obj d) \<Longrightarrow> \<exists>e. reconcile a d = Inl e"
begin

lemma load_empty:
  "kind_of ob = kind_of (obj d) \<Longrightarrow> obj (load (empty_of d) ob) = ob"
  by (simp add: load_obj empty_kind)

lemma reconcile_loaded:
  assumes "kind_of ob = kind_of (obj d)"
  obtains a' where "reconcile (load (empty_of d) ob) d = Inr a'"
    and "obj a' = ob\<lparr>ko_body := reconciled_body (ko_body ob) (ko_body (obj d))\<rparr>"
  using reconcile_ok [of "load (empty_of d) ob" d] assms by (auto simp: load_empty)

end

lemma flux_kind_cases:
  "kind_of (flux_GetObject r) \<in> {KHelmRepository, KGitRepository, KOCIRepository, KHelmRelease}"
  by (cases r) (simp_all add: kind_of_def)

lemma kind_of_body_flux [simp]:
  "kind_of_body b = KHelmRepository \<longleftrightarrow> (\<exists>s cs. b = BHelmRepository s cs)"
  "kind_of_body b = KGitRepository \<longleftrightarrow> (\<exists>s cs. b = BGitRepository s cs)"
  "kind_of_body b = KOCIRepository \<longleftrightarrow> (\<exists>s cs. b = BOCIRepository s cs)"
  "kind_of_body b = KHelmRelease \<longleftrightarrow> (\<exists>s cs. b = BHelmRelease s cs)"
  by (cases b; simp)+

lemma flux_load_obj:
  "kind_of ob = kind_of (flux_GetObject r) \<Longrightarrow> flux_GetObject (flux_load r ob) = ob"
  by (cases r) (auto simp: kind_of_def)

lemma flux_reconcile_ok:
  assumes "kind_of (flux_GetObject a) = kind_of (flux_GetObject d)"
  shows "\<exists>a'. flux_Reconcile a d = Inr a' \<and>
    flux_GetObject a' = (flux_GetObject a)\<lparr>ko_body := reconciled_body (ko_body (flux_GetObject a)) (ko_body (flux_GetObject d))\<rparr>"
  using assms
  by (cases a; cases d) (auto simp: kind_of_def reconciled_body_def reconcile_source_def reconcile_release_def Let_def)

lemma flux_reconcile_foreign:
  assumes "kind_of (flux_GetObject a) \<noteq> kind_of (flux_GetObject d)"
  shows "\<exists>e. flux_Reconcile a d = Inl e"
  using assms by (cases a; cases d) (auto simp: kind_of_def)

interpretation fx: flux_resource_laws flux_Empty flux_Reconcile flux_GetObject flux_load
proof
  show "kind_of (flux_GetObject (flux_Empty r)) = kind_of (flux_GetObject r)" for r
    by (cases r) (simp_all add: kind_of_def empty_source_def empty_release_def)
  show "key_of (flux_GetObject (flux_Empty r)) = key_of (flux_GetObject r)" for r
    by (cases r) (simp_all add: key_of_def empty_source_def empty_release_def empty_meta_def)
qed (fact flux_load_obj flux_reconcile_ok flux_reconcile_foreign)+

lemma flux_empty_frame [simp]:
  "kind_of (flux_GetObject (flux_Empty r)) = kind_of (flux_GetObject r)"
  "key_of (flux_GetObject (flux_Empty r)) = key_of (flux_GetObject r)"
  "flux_GetObjectKey (flux_Empty r) = key_of (flux_GetObject r)"
  by (simp_all add: fx.empty_kind fx.empty_key)

lemma suspend_reconciled:
  "kind_of_body b = kind_of_body d \<Longrightarrow> kind_of_body d \<in> {KHelmRepository, KGitRepository, KOCIRepository, KHelmRelease}
     \<Longrightarrow> suspend_of (reconciled_body b d) = suspend_of b"
  by (auto simp: reconciled_body_def)

lemma kind_reconciled [simp]: "kind_of_body (reconciled_body b d) = kind_of_body b"
  by (cases b; cases d; simp add: reconciled_body_def)

lemma reconciled_idem [simp]: "reconciled_body (reconciled_body b d) d = reconciled_body b d"
  by (cases b; cases d; simp add: reconciled_body_def)

section \<open>Applying a resource\<close>

definition applied_object ::
  "(string \<times> string) list \<Rightarrow> flux_resource \<Rightarrow> kobj option \<Rightarrow> kobj" where
  "applied_object labels desired found =
     (let base = (case found of Some cur \<Rightarrow> cur | None \<Rightarrow> flux_GetObject (flux_Empty desired))
      in SetLabels (base\<lparr>ko_body := reconciled_body (ko_body base) (ko_body (flux_GetObject desired))\<rparr>) labels)"

lemma flux_mutate_ok:
  assumes "kind_of ob = kind_of (flux_GetObject d)"
  shows "flux_mutate r c (flux_Empty d) d ob
       = Inr (SetLabels (ob\<lparr>ko_body := reconciled_body (ko_body ob) (ko_body (flux_GetObject d))\<rparr>) (fr_labels r c))"
proof -
  obtain a where "flux_Reconcile (flux_load (flux_Empty d) ob) d = Inr a"
    and "flux_GetObject a = ob\<lparr>ko_body := reconciled_body (ko_body ob) (ko_body (flux_GetObject d))\<rparr>"
    using fx.reconcile_loaded [OF assms] by blast
  then show ?thesis by (simp add: flux_mutate_def)
qed

lemma applied_object_frame [simp]:
  "kind_of (applied_object ls d found) = (case found of Some cur \<Rightarrow> kind_of cur | None \<Rightarrow> kind_of (flux_GetObject d))"
  "key_of (applied_object ls d found) = (case found of Some cur \<Rightarrow> key_of cur | None \<Rightarrow> key_of (flux_GetObject d))"
proof -
  have k: "kind_of (ob\<lparr>ko_body := reconciled_body (ko_body ob) d\<rparr>) = kind_of ob" for ob d
    by (simp add: kind_of_def)
  have n: "key_of (ob\<lparr>ko_body := b\<rparr>) = key_of ob" for ob b
    by (simp add: key_of_def)
  show "kind_of (applied_object ls d found) = (case found of Some cur \<Rightarrow> kind_of cur | None \<Rightarrow> kind_of (flux_GetObject d))"
    by (simp add: applied_object_def Let_def k split: option.splits)
  show "key_of (applied_object ls d found) = (case found of Some cur \<Rightarrow> key_of cur | None \<Rightarrow> key_of (flux_GetObject d))"
    by (simp add: applied_object_def Let_def n split: option.splits)
qed

lemma apply_resource_ok:
  assumes cou: "cou_law (fr_local r) view" and wf: "wf_view view w"
    and run: "apply_resource r build ctx c w = (res, c', w')"
    and build: "build ctx c w = (Ok d, c'')"
  shows "c' = c'' \<and> (\<forall>u. res = Ok u \<longrightarrow>
      view w' = (view w)(kind_of (flux_GetObject d) := (view w (kind_of (flux_GetObject d)))
        (key_of (flux_GetObject d) \<mapsto> applied_object (fr_labels r c') d (view w (kind_of (flux_GetObject d)) (key_of (flux_GetObject d))))))
    \<and> (\<forall>u. res \<noteq> Ok u \<longrightarrow> view w' = view w) \<and> (\<forall>p. res \<noteq> Panic p)"
proof -
  let ?k = "kind_of (flux_GetObject d)" and ?n = "key_of (flux_GetObject d)"
  obtain e w1 where cl: "cl_create_or_update (fr_local r) (flux_GetObject (flux_Empty d))
      (flux_mutate r c'' (flux_Empty d) d) w = (e, w1)" by fastforce
  have res: "res = of_err e" "c' = c''" "w' = w1"
    using run build cl by (auto simp: apply_resource_def Let_def)
  show ?thesis
  proof (cases e)
    case (Some x)
    with cou_law_err [OF cou] cl res show ?thesis by (simp add: of_err_def)
  next
    case None
    let ?base = "case view w ?k ?n of Some cur \<Rightarrow> cur | None \<Rightarrow> flux_GetObject (flux_Empty d)"
    have kb: "kind_of ?base = ?k" using wf by (auto split: option.splits dest: wf_viewD)
    from cou_law_ok [OF cou cl [unfolded None]] obtain ob' where
      ob': "flux_mutate r c'' (flux_Empty d) d ?base = Inr ob'"
      "view w1 = (view w)(?k := (view w ?k)(?n \<mapsto> ob'))" by auto
    have "ob' = applied_object (fr_labels r c') d (view w ?k ?n)"
      using ob'(1) flux_mutate_ok [OF kb, of r c''] res by (simp add: applied_object_def Let_def)
    with ob'(2) res None show ?thesis by (simp add: of_err_def)
  qed
qed

lemma wf_view_apply:
  assumes "wf_view view w" and "view w' = (view w)(k := (view w k)(n \<mapsto> ob))" "kind_of ob = k" "key_of ob = n"
  shows "wf_view view w'"
  using assms by (auto simp: wf_view_def)

lemma applied_object_filed:
  assumes "wf_view view w"
  shows "kind_of (applied_object ls d (view w (kind_of (flux_GetObject d)) (key_of (flux_GetObject d)))) = kind_of (flux_GetObject d)"
    and "key_of (applied_object ls d (view w (kind_of (flux_GetObject d)) (key_of (flux_GetObject d)))) = key_of (flux_GetObject d)"
  using assms by (auto split: option.splits dest: wf_viewD)

lemma labels_of_om_labels [simp]: "labels_of (ob\<lparr>ko_meta := m\<lparr>om_labels := Some l\<rparr>\<rparr>) = l"
  by (simp add: labels_of_def)

lemma SetLabels_as_map:
  "SetLabels ob kvs = (if kvs = [] then ob
     else ob\<lparr>ko_meta := (ko_meta ob)\<lparr>om_labels := Some (labels_of ob ++ map_of (rev kvs))\<rparr>\<rparr>)"
proof (induction ob kvs rule: SetLabels.induct)
  case (2 ob k v kvs)
  have l: "labels_of ob ++ map_of (rev kvs @ [(k, v)]) = labels_of ob ++ [k \<mapsto> v] ++ map_of (rev kvs)"
    by (simp add: fun_eq_iff map_add_def split: option.splits)
  have s: "SetLabel ob k v = ob\<lparr>ko_meta := (ko_meta ob)\<lparr>om_labels := Some ((labels_of ob)(k \<mapsto> v))\<rparr>\<rparr>"
    by (simp add: SetLabel_def labels_of_def Let_def)
  show ?case using 2 by (cases kvs) (simp_all add: s l)
qed simp

lemma labels_of_meta [simp]: "labels_of (ob\<lparr>ko_body := b\<rparr>) = labels_of ob"
  by (simp add: labels_of_def)

lemma annotations_of_body [simp]: "annotations_of (ob\<lparr>ko_body := b\<rparr>) = annotations_of ob"
  by (simp add: annotations_of_def)

text \<open>Applying what was applied changes nothing.\<close>

lemma applied_object_idem: "applied_object ls d (Some (applied_object ls d found)) = applied_object ls d found"
proof -
  have body: "ko_body (SetLabels ob ls) = ko_body ob" for ob by simp
  have idem: "SetLabels ((SetLabels ob ls)\<lparr>ko_body := b\<rparr>) ls = SetLabels (ob\<lparr>ko_body := b\<rparr>) ls" for ob b
    by (cases "ls = []") (simp_all add: SetLabels_as_map labels_of_def map_add_def fun_eq_iff split: option.splits)
  show ?thesis by (simp add: applied_object_def Let_def idem)
qed

section \<open>Installing and updating\<close>

definition applied_view ::
  "(string \<times> string) list \<Rightarrow> flux_resource \<Rightarrow> (kind \<Rightarrow> nname \<Rightarrow> kobj option) \<Rightarrow> kind \<Rightarrow> nname \<Rightarrow> kobj option" where
  "applied_view ls d v =
     (let k = kind_of (flux_GetObject d); n = key_of (flux_GetObject d)
      in v(k := (v k)(n \<mapsto> applied_object ls d (v k n))))"

lemma apply_resource_effect:
  assumes "cou_law (fr_local r) view" "wf_view view w"
    and "apply_resource r build ctx c w = (res, c', w')"
  shows "(\<forall>u. res = Ok u \<longrightarrow> (\<exists>d. build ctx c w = (Ok d, c') \<and> view w' = applied_view (fr_labels r c') d (view w)))
     \<and> (\<forall>u. res \<noteq> Ok u \<longrightarrow> view w' = view w) \<and> wf_view view w'"
proof (cases "build ctx c w")
  case (Pair rb c'')
  show ?thesis
  proof (cases rb)
    case (Ok d)
    note ok = apply_resource_ok [OF assms Pair [unfolded Ok]]
    have "wf_view view w'"
    proof (cases "\<exists>u. res = Ok u")
      case True
      with ok have "view w' = (view w)(kind_of (flux_GetObject d) := (view w (kind_of (flux_GetObject d)))
        (key_of (flux_GetObject d) \<mapsto> applied_object (fr_labels r c') d (view w (kind_of (flux_GetObject d)) (key_of (flux_GetObject d)))))"
        by blast
      from wf_view_apply [OF assms(2) this] show ?thesis by (simp only: applied_object_filed [OF assms(2)])
    next
      case False
      with ok have "view w' = view w" by auto
      with assms(2) show ?thesis by (simp add: wf_view_def)
    qed
    with ok Pair Ok show ?thesis by (auto simp: applied_view_def Let_def)
  qed (use assms Pair in \<open>auto simp: apply_resource_def\<close>)
qed

text \<open>
  C16. A successful install or update of a Flux component applies the source repository and
  then the manifesto, built after it, and changes no other object. Each of the two objects
  gets the desired spec and the component's labels, and keeps everything else that was
  there: its suspend flag, its status, its other labels, annotations and finalizers.
\<close>

theorem flux_install_applies_both:
  assumes "cou_law (fr_local r) view" "wf_view view w"
    and "flux_installOrUpdate F r ctx c w = (Ok u, c2, w2)"
  shows "\<exists>src c1 w1 man. fi_source F ctx c w = (Ok src, c1)
     \<and> view w1 = applied_view (fr_labels r c1) src (view w)
     \<and> fi_manifesto F ctx c1 w1 = (Ok man, c2)
     \<and> view w2 = applied_view (fr_labels r c2) man (view w1)"
proof -
  obtain r1 c1 w1 where s: "apply_resource r (fi_source F) ctx c w = (r1, c1, w1)" by (rule prod_cases3)
  note e1 = apply_resource_effect [OF assms(1,2) s]
  from assms(3) s have ok: "is_ok r1" and m: "apply_resource r (fi_manifesto F) ctx c1 w1 = (Ok u, c2, w2)"
    by (auto simp: flux_installOrUpdate_stages split: if_splits gores_of.splits)
  from e1 have "wf_view view w1" by simp
  from apply_resource_effect [OF assms(1) this m] e1 ok show ?thesis
    by (auto simp: is_ok_iff)
qed

text \<open>
  When installing or updating fails, no object but the source repository can have
  changed: the manifesto is never touched unless both writes succeed.
\<close>

theorem flux_install_error_spares_manifesto:
  assumes "cou_law (fr_local r) view" "wf_view view w"
    and "flux_installOrUpdate F r ctx c w = (res, c2, w2)" "\<not> is_ok res"
  shows "view w2 = view w \<or>
     (\<exists>src c1. fi_source F ctx c w = (Ok src, c1) \<and> view w2 = applied_view (fr_labels r c1) src (view w))"
proof (cases "fi_is_flux F c")
  case True
  obtain r1 c1 w1 where s: "apply_resource r (fi_source F) ctx c w = (r1, c1, w1)" by (rule prod_cases3)
  note e1 = apply_resource_effect [OF assms(1,2) s]
  show ?thesis
  proof (cases r1)
    case (Ok u)
    obtain r2 c3 w3 where m: "apply_resource r (fi_manifesto F) ctx c1 w1 = (r2, c3, w3)" by (rule prod_cases3)
    from e1 have "wf_view view w1" by simp
    from apply_resource_effect [OF assms(1) this m] True Ok s m e1 assms(3,4) show ?thesis
      by (auto simp: flux_installOrUpdate_stages is_ok_iff)
  qed (use True s e1 assms(3) in \<open>auto simp: flux_installOrUpdate_stages\<close>)
qed (use assms in \<open>auto simp: flux_installOrUpdate_stages\<close>)

text \<open>
  C18. Reconciling a Flux resource never overrides a suspend flag an operator set on the
  cluster, whatever the component desires, and never its status; the desired spec is
  otherwise taken as a whole, and applying it a second time changes nothing.
\<close>

theorem flux_apply_respects_suspend:
  assumes "kind_of cur = kind_of (flux_GetObject d)"
  shows "flux_mutate r c (flux_Empty d) d cur = Inr (applied_object (fr_labels r c) d (Some cur))
    \<and> suspend_of (ko_body (applied_object (fr_labels r c) d (Some cur))) = suspend_of (ko_body cur)
    \<and> annotations_of (applied_object (fr_labels r c) d (Some cur)) = annotations_of cur
    \<and> labels_of (applied_object (fr_labels r c) d (Some cur)) = labels_of cur ++ map_of (rev (fr_labels r c))
    \<and> flux_mutate r c (flux_Empty d) d (applied_object (fr_labels r c) d (Some cur))
        = Inr (applied_object (fr_labels r c) d (Some cur))"
proof -
  have "kind_of (applied_object (fr_labels r c) d (Some cur)) = kind_of (flux_GetObject d)"
    using assms by simp
  from flux_mutate_ok [OF this, of r c] have again:
    "flux_mutate r c (flux_Empty d) d (applied_object (fr_labels r c) d (Some cur))
       = Inr (applied_object (fr_labels r c) d (Some (applied_object (fr_labels r c) d (Some cur))))"
    by (simp add: applied_object_def Let_def)
  have k: "kind_of_body (ko_body cur) = kind_of_body (ko_body (flux_GetObject d))"
    using assms by (simp add: kind_of_def)
  have f: "kind_of_body (ko_body (flux_GetObject d)) \<in> {KHelmRepository, KGitRepository, KOCIRepository, KHelmRelease}"
    using flux_kind_cases [of d] by (simp add: kind_of_def)
  have lab: "labels_of (SetLabels ob ls) = labels_of ob ++ map_of (rev ls)" for ob ls
    by (cases "ls = []") (simp_all add: SetLabels_as_map labels_of_def)
  show ?thesis
    using flux_mutate_ok [OF assms, of r c] suspend_reconciled [OF k f]
    unfolding again applied_object_idem
    by (simp add: applied_object_def Let_def lab)
qed

section \<open>Observing and uninstalling\<close>

lemma aggregate_fold:
  "he_healthy (fold (\<lambda>rh r. if he_healthy rh then r
       else \<lparr> he_healthy = False, he_message = he_message r @ [CHR 10] @ he_message rh \<rparr>) hs r0)
   \<longleftrightarrow> he_healthy r0 \<and> list_all he_healthy hs"
  by (induction hs arbitrary: r0) auto

lemma aggregate_healthy [simp]: "he_healthy (aggregateHealthiness hs) \<longleftrightarrow> list_all he_healthy hs"
  by (simp add: aggregateHealthiness_def Let_def aggregate_fold)

fun body_conditions :: "kbody \<Rightarrow> condition list" where
  "body_conditions (BHelmRelease s cs) = cs"
| "body_conditions (BHelmRepository s cs) = cs"
| "body_conditions (BGitRepository s cs) = cs"
| "body_conditions (BOCIRepository s cs) = cs"
| "body_conditions _ = []"

definition is_ready :: "kobj \<Rightarrow> bool" where
  "is_ready ob \<longleftrightarrow> (\<exists>cond. find (\<lambda>x. cond_type x = ''Ready'') (body_conditions (ko_body ob)) = Some cond
     \<and> cond_stat cond = CTrue)"

lemma flux_conditions_object: "flux_conditions r = body_conditions (ko_body (flux_GetObject r))"
  by (cases r) simp_all

lemma flux_conditions_empty [simp]: "flux_conditions (flux_Empty r) = []"
  by (cases r) (simp_all add: empty_source_def empty_release_def)

lemma flux_GetHealthiness_ready:
  assumes "find_law L"
  shows "he_healthy (flux_GetHealthiness L r) \<longleftrightarrow> is_ready (flux_GetObject r)"
  using assms
  by (auto simp: flux_GetHealthiness_conditions ready_healthiness_def find_law_def is_ready_def
                 flux_conditions_object split: option.splits)

lemma observe_resource_truthful:
  assumes "get_law (fr_local r) view" "find_law L"
    and filed: "\<And>d. build ctx c w = (Ok d, c') \<Longrightarrow> kind_filed view (kind_of (flux_GetObject d)) w"
    and "observe_resource L r build ctx c w = (Ok ob, c')"
  shows "\<exists>d. build ctx c w = (Ok d, c')
     \<and> (\<not> ob_exists ob \<longrightarrow> view w (kind_of (flux_GetObject d)) (key_of (flux_GetObject d)) = None)
     \<and> (he_healthy (ob_health ob) \<longrightarrow>
          (\<exists>cur. view w (kind_of (flux_GetObject d)) (key_of (flux_GetObject d)) = Some cur \<and> is_ready cur))"
proof -
  obtain d where d: "build ctx c w = (Ok d, c')"
    using assms(4) by (auto simp: observe_resource_def Let_def split: prod.splits gores_of.splits sum.splits if_splits)
  let ?k = "kind_of (flux_GetObject d)" and ?n = "key_of (flux_GetObject d)"
  show ?thesis
  proof (cases "cl_get (fr_local r) ?k ?n w")
    case (Inl e)
    have "\<not> he_healthy (flux_GetHealthiness L (flux_Empty d))"
      using assms(2) by (simp add: flux_GetHealthiness_conditions ready_healthiness_def find_law_def)
    with assms(1,4) d Inl show ?thesis
      by (auto simp: observe_resource_def Let_def get_law_def zero_observation_def zero_healthiness_def split: if_splits)
  next
    case (Inr cur)
    with assms(1) have v: "view w ?k ?n = Some cur" by (simp add: get_law_def)
    with filed [OF d] have "kind_of cur = ?k" by (simp add: kind_filed_def)
    then have "flux_GetObject (flux_load (flux_Empty d) cur) = cur" by (simp add: fx.load_empty)
    with assms(2,4) d Inr v show ?thesis
      by (auto simp: observe_resource_def Let_def flux_GetHealthiness_ready)
  qed
qed

text \<open>That nothing exists is reported truthfully whatever the server has filed.\<close>

lemma observe_resource_missing:
  assumes "get_law (fr_local r) view" "observe_resource L r build ctx c w = (Ok ob, c')" "\<not> ob_exists ob"
  shows "\<exists>d. build ctx c w = (Ok d, c') \<and> view w (kind_of (flux_GetObject d)) (key_of (flux_GetObject d)) = None"
proof -
  obtain d where d: "build ctx c w = (Ok d, c')"
    using assms(2) by (auto simp: observe_resource_def Let_def split: prod.splits gores_of.splits sum.splits if_splits)
  with assms(2,3) obtain e where "cl_get (fr_local r) (kind_of (flux_GetObject d)) (key_of (flux_GetObject d)) w = Inl e"
    "is_not_found e" by (auto simp: observe_resource_def Let_def split: sum.splits if_splits)
  with assms(1) d show ?thesis unfolding get_law_def by blast
qed

text \<open>
  C17. What a successful observation of a Flux component says is true of the cluster: when it
  reports that nothing exists, neither the source repository nor the manifesto does, so an
  install follows only when both are absent; when it reports the component healthy, both
  objects exist and carry a Ready condition that is True.
\<close>

theorem flux_Observe_truthful:
  assumes "get_law (fr_local r) view" "find_law L" "wf_view view w"
    and "flux_Observe L F r ctx c w = (Ok ob, c2, w2)"
  shows "w2 = w \<and> (\<exists>src c1 man. fi_source F ctx c w = (Ok src, c1) \<and> fi_manifesto F ctx c1 w = (Ok man, c2)
     \<and> (\<not> ob_exists ob \<longrightarrow> (\<forall>d \<in> {src, man}. view w (kind_of (flux_GetObject d)) (key_of (flux_GetObject d)) = None))
     \<and> (he_healthy (ob_health ob) \<longrightarrow>
          (\<forall>d \<in> {src, man}. \<exists>cur. view w (kind_of (flux_GetObject d)) (key_of (flux_GetObject d)) = Some cur \<and> is_ready cur)))"
proof -
  obtain rs c1 where s: "observe_resource L r (fi_source F) ctx c w = (rs, c1)" by fastforce
  obtain rm c3 where m: "observe_resource L r (fi_manifesto F) ctx c1 w = (rm, c3)" by fastforce
  from assms(4) s m obtain os om where ok: "rs = Ok os" "rm = Ok om" and out: "c3 = c2" "w2 = w"
    "ob_exists ob \<longleftrightarrow> ob_exists os \<or> ob_exists om"
    "ob_health ob = aggregateHealthiness [ob_health om, ob_health os]"
    by (auto simp: flux_Observe_stages split: if_splits gores_of.splits)
  note filed = wf_view_kind_filed [OF assms(3)]
  from observe_resource_truthful [OF assms(1,2) filed s [unfolded ok]]
       observe_resource_truthful [OF assms(1,2) filed m [unfolded ok]] out
  show ?thesis by auto
qed

text \<open>
  A server error while reading is not reported: when both reads fail with an error other
  than not-found, the observation succeeds, says that the component exists, and that it is
  unhealthy because no Ready condition is present.
\<close>

theorem flux_Observe_hides_read_errors:
  assumes "find_law L" "fi_is_flux F c"
    and "fi_source F ctx c w = (Ok src, c1)" "fi_manifesto F ctx c1 w = (Ok man, c2)"
    and "cl_get (fr_local r) (kind_of (flux_GetObject src)) (key_of (flux_GetObject src)) w = Inl e1" "\<not> is_not_found e1"
    and "cl_get (fr_local r) (kind_of (flux_GetObject man)) (key_of (flux_GetObject man)) w = Inl e2" "\<not> is_not_found e2"
  shows "\<exists>ob. flux_Observe L F r ctx c w = (Ok ob, c2, w) \<and> ob_exists ob \<and> \<not> he_healthy (ob_health ob)"
proof -
  have "\<not> he_healthy (flux_GetHealthiness L (flux_Empty d))" for d
    using assms(1) by (simp add: flux_GetHealthiness_conditions ready_healthiness_def find_law_def)
  with assms(2-) show ?thesis
    by (simp add: flux_Observe_stages observe_resource_def Let_def)
qed

lemma delete_resource_effect:
  assumes "delete_law (fr_local r) view"
    and "delete_resource r build ctx c w = (Ok u, c', w')"
  shows "\<exists>d new. build ctx c w = (Ok d, c')
     \<and> left_behind (view w (kind_of (flux_GetObject d)) (key_of (flux_GetObject d))) new
     \<and> view w' = (view w)(kind_of (flux_GetObject d) := (view w (kind_of (flux_GetObject d)))(key_of (flux_GetObject d) := new))"
proof -
  obtain d where d: "build ctx c w = (Ok d, c')"
    using assms(2) by (auto simp: delete_resource_def split: prod.splits gores_of.splits)
  obtain e w1 where e: "cl_delete (fr_local r) (flux_GetObject d) w = (e, w1)" by fastforce
  note law = assms(1)[unfolded delete_law_def, rule_format, where ob = "flux_GetObject d" and w = w]
  show ?thesis
  proof (cases e)
    case None
    with assms(2) d e have "w' = w1" by (auto simp: delete_resource_def)
    with None law e d show ?thesis by (auto simp: Let_def)
  next
    case (Some x)
    with assms(2) d e have "w' = w1" "is_not_found x" by (auto simp: delete_resource_def of_err_def split: if_splits)
    with Some law e d show ?thesis by (intro exI [of _ d] exI [of _ None]) (auto simp: Let_def fun_eq_iff)
  qed
qed

text \<open>
  After a successful uninstall neither the source repository nor the manifesto is left,
  except that one with finalizers stays marked for deletion (already being gone is a success);
  every other object is as it was.
\<close>

theorem flux_Uninstall_removes_both:
  assumes "delete_law (fr_local r) view"
    and "flux_Uninstall F r ctx c w = (Ok u, c2, w2)"
  shows "\<exists>src c1 w1 man. fi_source F ctx c w = (Ok src, c1) \<and> fi_manifesto F ctx c1 w1 = (Ok man, c2)
     \<and> (\<forall>k n.
          (if (k, n) = (kind_of (flux_GetObject src), key_of (flux_GetObject src))
              \<or> (k, n) = (kind_of (flux_GetObject man), key_of (flux_GetObject man))
           then left_behind (view w k n) (view w2 k n) else view w2 k n = view w k n))"
proof -
  obtain r1 c1 w1 where s: "delete_resource r (fi_source F) ctx c w = (r1, c1, w1)" by (rule prod_cases3)
  from assms(2) s obtain u1 where ok: "r1 = Ok u1" and m: "delete_resource r (fi_manifesto F) ctx c1 w1 = (Ok u, c2, w2)"
    by (auto simp: flux_Uninstall_stages split: if_splits gores_of.splits)
  from delete_resource_effect [OF assms(1) s [unfolded ok]] obtain src new1 where
    a: "fi_source F ctx c w = (Ok src, c1)"
       "left_behind (view w (kind_of (flux_GetObject src)) (key_of (flux_GetObject src))) new1"
       "view w1 = (view w)(kind_of (flux_GetObject src) := (view w (kind_of (flux_GetObject src)))(key_of (flux_GetObject src) := new1))"
    by blast
  from delete_resource_effect [OF assms(1) m] obtain man new2 where
    b: "fi_manifesto F ctx c1 w1 = (Ok man, c2)"
       "left_behind (view w1 (kind_of (flux_GetObject man)) (key_of (flux_GetObject man))) new2"
       "view w2 = (view w1)(kind_of (flux_GetObject man) := (view w1 (kind_of (flux_GetObject man)))(key_of (flux_GetObject man) := new2))"
    by blast
  let ?s = "(kind_of (flux_GetObject src), key_of (flux_GetObject src))"
  let ?m = "(kind_of (flux_GetObject man), key_of (flux_GetObject man))"
  have 1: "if (k, n) = ?s then left_behind (view w k n) (view w1 k n) else view w1 k n = view w k n" for k n
    using a(2,3) by simp
  have 2: "if (k, n) = ?m then left_behind (view w1 k n) (view w2 k n) else view w2 k n = view w1 k n" for k n
    using b(2,3) by simp
  have 3: "if (k, n) = ?s \<or> (k, n) = ?m then left_behind (view w k n) (view w2 k n) else view w2 k n = view w k n" for k n
    using 1 [of k n] 2 [of k n] left_behind_trans [of "view w k n" "view w1 k n" "view w2 k n"]
    by (cases "(k, n) = ?s"; cases "(k, n) = ?m") (simp_all only: if_True if_False simp_thms)
  show ?thesis
    by (rule exI [of _ src], rule exI [of _ c1], rule exI [of _ w1], rule exI [of _ man],
        intro conjI allI a(1) b(1) 3)
qed

section \<open>The contract of a Flux component\<close>

definition pure_hook :: "'w hook option \<Rightarrow> bool" where
  "pure_hook h \<longleftrightarrow> (case h of None \<Rightarrow> True | Some f \<Rightarrow> \<forall>cl w. snd (f cl w) = w)"

definition pure_hooks :: "'w component_hooks \<Rightarrow> bool" where
  "pure_hooks h \<longleftrightarrow> pure_hook (hk_pre_uninstall h) \<and> pure_hook (hk_pre_install h) \<and> pure_hook (hk_pre_update h)"

lemma run_hook_pure:
  "pure_hook h \<Longrightarrow> run_hook h cl c w = (r, c', w') \<Longrightarrow> c' = c \<and> w' = w"
  by (auto simp: pure_hook_def run_hook_def split: option.splits prod.splits) (metis snd_conv)+

locale flux_component_laws =
  fixes I :: "('c, 'w) component_iface"
    and F :: "('c, 'w) flux_iface"
  assumes source_keeps: "fi_source F ctx c w = (rs, c') \<Longrightarrow> same_component I c c'"
    and manifesto_keeps: "fi_manifesto F ctx c w = (rs, c') \<Longrightarrow> same_component I c c'"
    and flux_hooks_pure: "pure_hooks (ci_hooks I c)"
begin

lemma observe_resource_keeps:
  assumes "\<And>ctx c w rs c'. build ctx c w = (rs, c') \<Longrightarrow> same_component I c c'"
    and "observe_resource L r build ctx c w = (res, c')"
  shows "same_component I c c'"
  using assms(2) assms(1) [of ctx c w]
  by (auto simp: observe_resource_def Let_def split: prod.splits gores_of.splits sum.splits if_splits)

lemma flux_Observe_keeps:
  assumes "flux_Observe L F r ctx c w = (res, c', w')"
  shows "same_component I c c' \<and> w' = w"
proof -
  obtain rs c1 where s: "observe_resource L r (fi_source F) ctx c w = (rs, c1)" by fastforce
  obtain rm c2 where m: "observe_resource L r (fi_manifesto F) ctx c1 w = (rm, c2)" by fastforce
  have "same_component I c c1" by (rule observe_resource_keeps [OF source_keeps s])
  moreover have "same_component I c1 c2" by (rule observe_resource_keeps [OF manifesto_keeps m])
  then have "same_component I c c2" by (rule same_component_trans [OF calculation])
  ultimately show ?thesis using assms s m
    by (auto simp: flux_Observe_stages split: if_splits gores_of.splits)
qed

lemma two_step_keeps:
  assumes "\<And>b c w r c' w'. (b = fi_source F \<or> b = fi_manifesto F) \<Longrightarrow> step b c w = (r, c', w') \<Longrightarrow> same_component I c c'"
    and "(case step (fi_source F) c w of
           (Ok _, c1, w1) \<Rightarrow> step (fi_manifesto F) c1 w1
         | (Err e, c1, w1) \<Rightarrow> (Err e, c1, w1)
         | (Panic p, c1, w1) \<Rightarrow> (Panic p, c1, w1)) = (res, c', w')"
  shows "same_component I c c'"
proof -
  obtain r1 c1 w1 where s: "step (fi_source F) c w = (r1, c1, w1)" by (rule prod_cases3)
  have k: "same_component I c c1" using assms(1) s by blast
  with assms(2) s assms(1) [of "fi_manifesto F" c1 w1] show ?thesis
    by (cases r1) (auto intro: same_component_trans)
qed

lemma delete_resource_keeps:
  assumes "b = fi_source F \<or> b = fi_manifesto F" "delete_resource r b ctx c w = (res, c', w')"
  shows "same_component I c c'"
  using assms source_keeps manifesto_keeps
  by (fastforce simp: delete_resource_def split: prod.splits gores_of.splits)

lemma apply_resource_keeps:
  assumes "b = fi_source F \<or> b = fi_manifesto F" "apply_resource r b ctx c w = (res, c', w')"
  shows "same_component I c c'"
  using assms source_keeps manifesto_keeps
  by (fastforce simp: apply_resource_def Let_def split: prod.splits gores_of.splits)

lemma flux_Uninstall_keeps:
  assumes "flux_Uninstall F r ctx c w = (res, c', w')"
  shows "same_component I c c'"
  using assms two_step_keeps [where step = "\<lambda>b c w. delete_resource r b ctx c w", OF delete_resource_keeps]
  by (auto simp: flux_Uninstall_stages split: if_splits)

lemma flux_installOrUpdate_keeps:
  assumes "flux_installOrUpdate F r ctx c w = (res, c', w')"
  shows "same_component I c c'"
  using assms two_step_keeps [where step = "\<lambda>b c w. apply_resource r b ctx c w", OF apply_resource_keeps]
  by (auto simp: flux_installOrUpdate_stages split: if_splits)

lemma flux_hook_keeps:
  assumes "run_hook h cl c w = (res, c', w')"
    "h \<in> {hk_pre_uninstall (ci_hooks I c), hk_pre_install (ci_hooks I c), hk_pre_update (ci_hooks I c)}"
  shows "same_component I c c' \<and> w' = w"
proof -
  have "pure_hook h" using flux_hooks_pure [of c] assms(2) by (auto simp: pure_hooks_def)
  from run_hook_pure [OF this assms(1)] show ?thesis by simp
qed

end

section \<open>The properties at work\<close>

text \<open>A component without state that installs a Helm chart, on the concrete API server.\<close>

definition demo_source :: flux_resource where
  "demo_source = HelmRepositoryAdapter \<lparr> so_meta = empty_meta ''ns'' ''demo'',
     so_spec = zero_source_spec\<lparr>ss_url := ''https://charts''\<rparr>, so_conds = [] \<rparr>"

definition demo_manifesto :: flux_resource where
  "demo_manifesto = HelmReleaseManifesto \<lparr> hr_meta = empty_meta ''ns'' ''demo'',
     hr_spec = zero_release_spec\<lparr>hs_release_name := ''demo''\<rparr>, hr_conds = [] \<rparr>"

definition demo_flux :: "(unit, store) flux_iface" where
  "demo_flux = \<lparr> fi_is_flux = (\<lambda>c. True), fi_source = (\<lambda>ctx c w. (Ok demo_source, c)),
     fi_manifesto = (\<lambda>ctx c w. (Ok demo_manifesto, c)) \<rparr>"

definition demo_reconciler :: "store client \<Rightarrow> (unit, store) flux_reconciler" where
  "demo_reconciler cl = \<lparr> fr_local = cl, fr_remote = cl, fr_known = [],
     fr_labels = (\<lambda>c. [(LabelManagedBy, LabelManagedByValue)]) \<rparr>"

definition failing_reads :: "store client" where
  "failing_reads = store_client\<lparr>cl_get := (\<lambda>k n w. Inl (OtherErr ''connection refused''))\<rparr>"

lemmas demo_defs = demo_source_def demo_manifesto_def demo_flux_def demo_reconciler_def
  failing_reads_def store_client_def

lemma demo_cou [simp]: "cou_law (fr_local (demo_reconciler store_client)) store_view"
  and demo_get [simp]: "get_law (fr_local (demo_reconciler store_client)) store_view"
  and demo_delete [simp]: "delete_law (fr_local (demo_reconciler store_client)) store_view"
  and doc_libs_find [simp]: "find_law doc_libs"
  using doc_libs_laws by (simp_all add: demo_reconciler_def conditions_laws_def)

lemma demo_install_runs:
  "\<exists>w2. flux_installOrUpdate demo_flux (demo_reconciler store_client) background () [] = (Ok (), (), w2)"
  by (simp add: flux_installOrUpdate_stages apply_resource_def demo_defs st_cou_def flux_mutate_def of_err_def
        empty_source_def empty_release_def Let_def kind_of_def key_of_def empty_meta_def)

lemma flux_install_applies_both_witness:
  "\<exists>w2 src c1 w1 man. flux_installOrUpdate demo_flux (demo_reconciler store_client) background () [] = (Ok (), (), w2)
     \<and> fi_source demo_flux background () [] = (Ok src, c1)
     \<and> store_view w1 = applied_view (fr_labels (demo_reconciler store_client) c1) src (store_view [])
     \<and> store_view w2 = applied_view (fr_labels (demo_reconciler store_client) ()) man (store_view w1)"
proof -
  obtain w2 where run: "flux_installOrUpdate demo_flux (demo_reconciler store_client) background () [] = (Ok (), (), w2)"
    using demo_install_runs by blast
  from flux_install_applies_both [OF demo_cou wf_store_Nil run] run show ?thesis by blast
qed

text \<open>A component whose manifesto cannot be built.\<close>

definition broken_flux :: "(unit, store) flux_iface" where
  "broken_flux = demo_flux\<lparr>fi_manifesto := (\<lambda>ctx c w. (Err (OtherErr ''no version''), c))\<rparr>"

lemma flux_install_error_spares_manifesto_witness:
  "\<exists>w2. flux_installOrUpdate broken_flux (demo_reconciler store_client) background () [] = (Err (OtherErr ''no version''), (), w2)
     \<and> (store_view w2 = store_view [] \<or>
     (\<exists>src c1. fi_source broken_flux background () [] = (Ok src, c1)
        \<and> store_view w2 = applied_view (fr_labels (demo_reconciler store_client) c1) src (store_view [])))"
proof -
  obtain w2 where run: "flux_installOrUpdate broken_flux (demo_reconciler store_client) background () []
      = (Err (OtherErr ''no version''), (), w2)"
    by (simp add: broken_flux_def flux_installOrUpdate_stages apply_resource_def demo_defs st_cou_def flux_mutate_def
          of_err_def empty_source_def Let_def kind_of_def key_of_def empty_meta_def)
  from flux_install_error_spares_manifesto [OF demo_cou wf_store_Nil run] run show ?thesis by auto
qed

definition suspended_release :: kobj where
  "suspended_release = new_obj ''ns'' ''demo'' (BHelmRelease (zero_release_spec\<lparr>hs_suspend := True\<rparr>) [])"

lemma flux_apply_respects_suspend_witness:
  "\<exists>ob. flux_mutate (demo_reconciler store_client) () (flux_Empty demo_manifesto) demo_manifesto suspended_release = Inr ob
     \<and> suspend_of (ko_body ob)"
proof -
  have k: "kind_of suspended_release = kind_of (flux_GetObject demo_manifesto)"
    by (simp add: suspended_release_def demo_manifesto_def kind_of_def new_obj_def)
  have s: "suspend_of (ko_body suspended_release)"
    by (simp add: suspended_release_def new_obj_def)
  from flux_apply_respects_suspend [OF k, of "demo_reconciler store_client" "()"] s show ?thesis by blast
qed

definition ready_condition :: condition where
  "ready_condition = \<lparr> cond_type = ''Ready'', cond_stat = CTrue, cond_reason = ''Ok'', cond_message = [], cond_time = 0 \<rparr>"

definition ready_store :: store where
  "ready_store =
     [((KHelmRepository, \<lparr> nn_namespace = ''ns'', nn_name = ''demo'' \<rparr>),
         new_obj ''ns'' ''demo'' (BHelmRepository zero_source_spec [ready_condition])),
      ((KHelmRelease, \<lparr> nn_namespace = ''ns'', nn_name = ''demo'' \<rparr>),
         new_obj ''ns'' ''demo'' (BHelmRelease zero_release_spec [ready_condition]))]"

lemma wf_ready_store [simp]: "wf_view store_view ready_store"
  by (simp add: ready_store_def)

lemma flux_Observe_truthful_witness:
  "\<exists>ob. flux_Observe doc_libs demo_flux (demo_reconciler store_client) background () ready_store = (Ok ob, (), ready_store)
     \<and> he_healthy (ob_health ob)
     \<and> (\<exists>cur. store_view ready_store KHelmRelease \<lparr> nn_namespace = ''ns'', nn_name = ''demo'' \<rparr> = Some cur \<and> is_ready cur)"
proof -
  obtain ob where run: "flux_Observe doc_libs demo_flux (demo_reconciler store_client) background () ready_store = (Ok ob, (), ready_store)"
    and h: "he_healthy (ob_health ob)"
    by (simp add: flux_Observe_stages observe_resource_def demo_defs st_get_def ready_store_def new_obj_def
          empty_source_def empty_release_def Let_def kind_of_def key_of_def empty_meta_def
          flux_GetHealthiness_conditions ready_healthiness_def doc_libs_def ready_condition_def)
  from flux_Observe_truthful [OF demo_get doc_libs_find wf_ready_store run] run h show ?thesis
    by (simp add: demo_flux_def demo_manifesto_def kind_of_def key_of_def empty_meta_def)
qed

lemma flux_Observe_hides_read_errors_witness:
  "\<exists>ob. flux_Observe doc_libs demo_flux (demo_reconciler failing_reads) background () [] = (Ok ob, (), [])
     \<and> ob_exists ob \<and> \<not> he_healthy (ob_health ob)"
  by (rule flux_Observe_hides_read_errors
        [where src = demo_source and man = demo_manifesto and ?c1.0 = "()"
           and ?e1.0 = "OtherErr ''connection refused''" and ?e2.0 = "OtherErr ''connection refused''"])
     (simp_all add: demo_flux_def demo_reconciler_def failing_reads_def)

lemma flux_Uninstall_removes_both_witness:
  "\<exists>w2. flux_Uninstall demo_flux (demo_reconciler store_client) background () ready_store = (Ok (), (), w2)
     \<and> store_view w2 KHelmRelease \<lparr> nn_namespace = ''ns'', nn_name = ''demo'' \<rparr> = None"
proof -
  obtain w2 where run: "flux_Uninstall demo_flux (demo_reconciler store_client) background () ready_store = (Ok (), (), w2)"
    by (simp add: flux_Uninstall_stages delete_resource_def demo_defs st_delete_def st_mark_def new_obj_def ready_store_def of_err_def
          Let_def kind_of_def key_of_def empty_meta_def)
  have v: "store_view ready_store KHelmRelease \<lparr> nn_namespace = ''ns'', nn_name = ''demo'' \<rparr>
      = Some (new_obj ''ns'' ''demo'' (BHelmRelease zero_release_spec [ready_condition]))"
    by (simp add: ready_store_def store_view_def)
  from flux_Uninstall_removes_both [OF demo_delete run]
  have "left_behind (store_view ready_store KHelmRelease \<lparr> nn_namespace = ''ns'', nn_name = ''demo'' \<rparr>)
      (store_view w2 KHelmRelease \<lparr> nn_namespace = ''ns'', nn_name = ''demo'' \<rparr>)"
    by (simp add: demo_flux_def demo_manifesto_def demo_source_def kind_of_def key_of_def empty_meta_def)
  with v run show ?thesis by (simp add: left_behind_def new_obj_def empty_meta_def)
qed

end
