(* ===== verification/ObjectLaws.thy ===== *)
theory ObjectLaws
  imports ObjectRec FluxLaws
begin

text \<open>
  Laws of the object reconciler: what applying, observing and uninstalling do to the objects
  of the target cluster, and the detection of orphaned objects. \<open>orphan_detector\<close> is the
  contract between a component type's BuildObjectToReconcile and its ConvertFunc and
  SameFunc; the component types are interpreted in the theory that defines them.
\<close>

section \<open>Applying an object\<close>

lemma key_of_set_key [simp]: "key_of (set_key obj key) = key"
  by (simp add: key_of_def set_key_def)

lemma kind_of_set_key [simp]: "kind_of (set_key obj key) = kind_of obj"
  by (simp add: kind_of_def set_key_def)

definition found_object :: "(kind \<Rightarrow> nname \<Rightarrow> kobj option) \<Rightarrow> kobj \<Rightarrow> nname \<Rightarrow> kobj" where
  "found_object v obj key = (case v (kind_of obj) key of Some cur \<Rightarrow> cur | None \<Rightarrow> set_key obj key)"

lemma unwind_Ok_iff: "unwind e = Ok u \<longleftrightarrow> e = None"
  by (auto simp: unwind_def of_err_def split: option.splits err.splits if_splits)

lemma applyObject_cases:
  assumes "cou_law (or_remote r) view" "applyObject J r ctx c w = (res, c', w')"
  shows "c' = c \<and>
    (if is_ok res
     then \<exists>obj key ob'. oi_build J ctx c = Ok (obj, key)
            \<and> object_mutate J r ctx c w (found_object (view w) obj key) = Inr ob'
            \<and> view w' = (view w)(kind_of obj := (view w (kind_of obj))(key \<mapsto> ob'))
     else view w' = view w)"
proof (cases "oi_is_object J c \<and> is_ok (oi_build J ctx c)")
  case True
  then obtain obj key where b: "oi_is_object J c" "oi_build J ctx c = Ok (obj, key)"
    by (auto simp: is_ok_iff)
  obtain e w1 where cl: "cl_create_or_update (or_remote r) (set_key obj key) (object_mutate J r ctx c w) w = (e, w1)"
    by fastforce
  with assms(2) b have out: "res = unwind e" "c' = c" "w' = w1" by (auto simp: applyObject_def)
  show ?thesis
  proof (cases e)
    case None
    from cou_law_ok [OF assms(1) cl [unfolded None]] out b None show ?thesis
      by (auto simp: found_object_def unwind_Ok_iff is_ok_iff)
  next
    case (Some x)
    with cou_law_err [OF assms(1)] cl out show ?thesis by (simp add: is_ok_iff unwind_Ok_iff)
  qed
next
  case False
  with assms(2) show ?thesis by (auto simp: applyObject_def is_ok_iff split: gores_of.splits if_splits)
qed

text \<open>
  The skip-reconciliation annotation protects an object from being applied: when the
  object on the cluster carries it, installing or updating the component, whatever its
  outcome, leaves every object of the cluster as it was.
\<close>

theorem applyObject_respects_skip:
  assumes "cou_law (or_remote r) view"
    and "oi_build J ctx c = Ok (obj, key)"
    and "view w (kind_of obj) key = Some cur" "shouldSkipReconciliation cur"
    and "applyObject J r ctx c w = (res, c', w')"
  shows "view w' = view w"
  using applyObject_cases [OF assms(1,5)] assms(2-4)
  by (auto simp: found_object_def object_mutate_def fun_eq_iff split: if_splits)

text \<open>
  A successful install or update of an object component that is not annotated to be
  skipped stores, at the component's key, what ReconcileObject makes of the object found
  there (or of the empty one), after the component's labels were set on it; no other object
  changes, and on an error or a panic none does.
\<close>

theorem applyObject_effect:
  assumes "cou_law (or_remote r) view"
    and "oi_build J ctx c = Ok (obj, key)"
    and "\<not> shouldSkipReconciliation (found_object (view w) obj key)"
    and "applyObject J r ctx c w = (res, c', w')"
  shows "if is_ok res
    then \<exists>ob'. oi_reconcile J ctx c w (SetLabels (found_object (view w) obj key) (or_labels r c)) = Ok ob'
          \<and> view w' = (view w)(kind_of obj := (view w (kind_of obj))(key \<mapsto> ob'))
    else view w' = view w"
  using applyObject_cases [OF assms(1,4)] assms(2,3)
  by (auto simp: object_mutate_def split: gores_of.splits if_splits)

text \<open>A server that does not know a kind holds no objects of it.\<close>

definition missing_kind_law :: "'w client \<Rightarrow> 'w kview \<Rightarrow> bool" where
  "missing_kind_law cl view \<longleftrightarrow> (\<forall>k w.
     (\<forall>n e. cl_get cl k n w = Inl e \<longrightarrow> IsCRDNotFound (Some e) \<longrightarrow> view w k n = None)
     \<and> (\<forall>os e. cl_list cl k os w = Inl e \<longrightarrow> IsCRDNotFound (Some e) \<longrightarrow> (\<forall>n. view w k n = None)))"

text \<open>
  What an observation of an object component says is true of the target cluster: it never
  changes the world; when it reports that nothing exists, no object is stored under the
  component's key; otherwise the reported health and skip flag are those of the stored object.
\<close>

theorem object_Observe_truthful:
  assumes "get_law (or_remote r) view" "missing_kind_law (or_remote r) view"
    and "object_Observe J r ctx c w = (Ok ob, c', w')"
  shows "w' = w \<and> (\<exists>obj key. oi_build J ctx c = Ok (obj, key)
     \<and> (case view w (kind_of obj) key of
          None \<Rightarrow> \<not> ob_exists ob
        | Some cur \<Rightarrow> ob_exists ob \<and> ob_skipped ob = shouldSkipReconciliation cur
                      \<and> ob_health ob = oi_healthy J c cur))"
proof -
  obtain obj key where b: "oi_build J ctx c = Ok (obj, key)" "oi_is_object J c"
    using assms(3) by (auto simp: object_Observe_def split: if_splits gores_of.splits)
  show ?thesis
  proof (cases "cl_get (or_remote r) (kind_of obj) key w")
    case (Inl e)
    with assms b have "view w (kind_of obj) key = None"
      by (auto simp: object_Observe_def get_law_def missing_kind_law_def split: if_splits)
    with assms(3) b Inl show ?thesis
      by (auto simp: object_Observe_def zero_observation_def split: if_splits)
  next
    case (Inr cur)
    with assms(1) have "view w (kind_of obj) key = Some cur" by (simp add: get_law_def)
    with assms(3) b Inr show ?thesis by (auto simp: object_Observe_def)
  qed
qed

lemma object_Uninstall_cases:
  assumes "delete_law (or_remote r) view" "object_Uninstall J r ctx c w = (res, c', w')"
  shows "c' = c \<and> (if is_ok res
     then \<exists>obj key. oi_build J ctx c = Ok (obj, key)
            \<and> (\<exists>new. left_behind (view w (kind_of obj) key) new
                 \<and> view w' = (view w)(kind_of obj := (view w (kind_of obj))(key := new)))
     else view w' = view w)"
proof (cases "oi_is_object J c \<and> is_ok (oi_build J ctx c)")
  case True
  then obtain obj key where b: "oi_is_object J c" "oi_build J ctx c = Ok (obj, key)"
    by (auto simp: is_ok_iff)
  obtain e w1 where e: "cl_delete (or_remote r) (set_key obj key) w = (e, w1)" by fastforce
  note law = assms(1)[unfolded delete_law_def, rule_format, where ob = "set_key obj key" and w = w]
  show ?thesis
  proof (cases e)
    case None
    with assms(2) b e have "w' = w1" "c' = c" "res = Ok ()" by (auto simp: object_Uninstall_def of_err_def)
    with None law e b show ?thesis by (auto simp: Let_def)
  next
    case (Some x)
    with assms(2) b e have r: "w' = w1" "c' = c" "res = (if is_not_found x then Ok () else Err x)"
      by (auto simp: object_Uninstall_def of_err_def)
    have "(view w)(kind_of obj := (view w (kind_of obj))(key := None)) = view w" if "view w (kind_of obj) key = None"
      using that by (auto simp: fun_eq_iff)
    with r Some law e b show ?thesis by (auto simp: Let_def split: if_splits)
  qed
next
  case False
  with assms(2) show ?thesis by (auto simp: object_Uninstall_def is_ok_iff split: gores_of.splits if_splits)
qed

section \<open>Detecting orphans\<close>

lemma is_configured_iff:
  "is_configured I same cs p found \<longleftrightarrow> found \<or> (\<exists>c \<in> set cs. ci_type I c = ci_type I p \<and> same c p)"
  by (induction cs arbitrary: found) auto

text \<open>A detector that converts the listed objects one by one.\<close>

definition converts_each :: "'c detector_context \<Rightarrow> (kobj \<Rightarrow> 'c) \<Rightarrow> bool" where
  "converts_each dc conv \<longleftrightarrow> dc_convert dc = map conv"

definition orphan_of ::
  "('c, 'w) component_iface \<Rightarrow> 'c list \<Rightarrow> 'c detector_context \<Rightarrow> (kind \<Rightarrow> nname \<Rightarrow> kobj option) \<Rightarrow> 'c \<Rightarrow> bool" where
  "orphan_of I configured dc v p \<longleftrightarrow>
     (\<exists>n ob. v (dc_list_type dc) n = Some ob \<and> opts_match (dc_filter dc) ob \<and> dc_convert dc [ob] = [p])
     \<and> (\<forall>c \<in> set configured. ci_type I c = ci_type I p \<longrightarrow> \<not> dc_same dc c p)"

definition plain_detector :: "'c detector_context \<Rightarrow> bool" where
  "plain_detector dc \<longleftrightarrow> (\<exists>conv. converts_each dc conv) \<and> \<not> list_ex is_limit (dc_filter dc)"

lemma filterOrphanedObjects_exact:
  assumes "list_law (or_remote r) view" "missing_kind_law (or_remote r) view" "plain_detector dc"
    and "filterOrphanedObjects I r configured dc w = Ok os"
  shows "set os = {p. orphan_of I configured dc (view w) p}"
proof -
  obtain conv where conv: "dc_convert dc = map conv" and lim: "\<not> list_ex is_limit (dc_filter dc)"
    using assms(3) by (auto simp: plain_detector_def converts_each_def)
  show ?thesis
  proof (cases "cl_list (or_remote r) (dc_list_type dc) (dc_filter dc) w")
    case (Inl e)
    with assms(2,4) have "\<forall>n. view w (dc_list_type dc) n = None" "os = []"
      by (auto simp: filterOrphanedObjects_def missing_kind_law_def split: if_splits)
    then show ?thesis by (simp add: orphan_of_def)
  next
    case (Inr items)
    with assms(1) lim have "set items = {ob. \<exists>n. view w (dc_list_type dc) n = Some ob \<and> opts_match (dc_filter dc) ob}"
      by (simp add: list_law_def)
    moreover have "os = filter (\<lambda>p. \<not> is_configured I (dc_same dc) configured p False) (map conv items)"
      using assms(4) Inr conv by (simp add: filterOrphanedObjects_def)
    ultimately show ?thesis by (auto simp: orphan_of_def is_configured_iff conv image_iff)
  qed
qed

lemma detect_orphans_exact:
  assumes "list_law (or_remote r) view" "missing_kind_law (or_remote r) view"
    and "\<And>kt dc. oi_detector J kt = Some dc \<Longrightarrow> plain_detector dc"
    and "detect_orphans I J r configured w kts = Ok os"
  shows "set os = {p. \<exists>kt \<in> set kts. \<exists>dc. oi_detector J kt = Some dc \<and> orphan_of I configured dc (view w) p}"
  using assms(4)
proof (induction kts arbitrary: os)
  case (Cons kt kts)
  show ?case
  proof (cases "oi_detector J kt")
    case None
    with Cons show ?thesis by auto
  next
    case (Some dc)
    with Cons.prems obtain os1 os2 where parts: "filterOrphanedObjects I r configured dc w = Ok os1"
      "detect_orphans I J r configured w kts = Ok os2" "os = os1 @ os2"
      by (auto simp: bind_go_Ok_iff)
    from filterOrphanedObjects_exact [OF assms(1,2,3) parts(1)] Some Cons.IH [OF parts(2)] parts(3)
    show ?thesis by auto
  qed
qed simp

text \<open>
  C19. Orphan detection is exact: the components it returns are those, and only those, that a
  detecting type's conversion makes of an object on the target cluster that carries the
  operator's labels and that no configured component of the same type claims. A kind the
  cluster does not know contributes nothing and is no error.
\<close>

theorem DetectOrphanedComponents_exact:
  assumes "list_law (or_remote r) view" "missing_kind_law (or_remote r) view"
    and "\<And>kt dc. oi_detector J kt = Some dc \<Longrightarrow> plain_detector dc"
    and "DetectOrphanedComponents I J r ctx configured w = Ok os"
  shows "set os = {p. \<exists>kt \<in> set (or_known r). \<exists>dc. oi_detector J kt = Some dc \<and> orphan_of I configured dc (view w) p}"
  by (rule detect_orphans_exact [OF assms(1-3) assms(4)[unfolded DetectOrphanedComponents_def]])

text \<open>
  The contract between building, converting and comparing the components of one type.
  \<open>valid\<close> are the components the operator is configured with, \<open>key\<close> the name their object
  has on the cluster.
\<close>

locale orphan_detector =
  fixes valid :: "'c \<Rightarrow> bool"
    and key :: "'c \<Rightarrow> nname"
    and conv :: "kobj \<Rightarrow> 'c"
    and same :: "'c \<Rightarrow> 'c \<Rightarrow> bool"
  assumes conv_same: "valid c \<Longrightarrow> key_of ob = key c \<Longrightarrow> same c (conv ob)"
    and conv_key: "valid c \<Longrightarrow> key_of ob = key c \<Longrightarrow> key (conv ob) = key_of ob"
    and same_key: "valid c \<Longrightarrow> valid c' \<Longrightarrow> key_of ob = key c' \<Longrightarrow> same c (conv ob) \<Longrightarrow> key c = key c'"
begin

text \<open>An object the operator created is an orphan exactly when no configured component has its name.\<close>

lemma claimed_iff:
  assumes "valid c'" "key_of ob = key c'" "\<forall>c \<in> set configured. valid c"
  shows "(\<exists>c \<in> set configured. same c (conv ob)) \<longleftrightarrow> (\<exists>c \<in> set configured. key c = key c')"
proof
  assume "\<exists>c \<in> set configured. same c (conv ob)"
  then show "\<exists>c \<in> set configured. key c = key c'" using assms same_key by blast
next
  assume "\<exists>c \<in> set configured. key c = key c'"
  then obtain c where "c \<in> set configured" "key c = key c'" by blast
  with assms conv_same [of c ob] show "\<exists>c \<in> set configured. same c (conv ob)" by auto
qed

lemma orphan_key:
  assumes "valid c'" "key_of ob = key c'"
  shows "key (conv ob) = key c'"
  using conv_key [OF assms] assms(2) by simp

end

section \<open>The properties at work\<close>

definition demo_object :: "(string, store) object_iface" where
  "demo_object = \<lparr> oi_is_object = (\<lambda>c. True),
     oi_build = (\<lambda>ctx c. Ok (new_obj [] [] BNamespace, \<lparr> nn_namespace = [], nn_name = c \<rparr>)),
     oi_reconcile = (\<lambda>ctx c w ob. Ok ob),
     oi_healthy = (\<lambda>c ob. \<lparr> he_healthy = True, he_message = [] \<rparr>),
     oi_detector = (\<lambda>kt. Some \<lparr> dc_filter = [IsManaged, HasComponentLabel],
        dc_convert = map (\<lambda>ob. om_name (ko_meta ob)), dc_same = (\<lambda>c d. c = d), dc_list_type = KNamespace \<rparr>) \<rparr>"

definition demo_object_rec :: "(string, store) object_reconciler" where
  "demo_object_rec = \<lparr> or_remote = store_client, or_known = [''Demo''],
     or_labels = (\<lambda>c. [(LabelManagedBy, LabelManagedByValue), (LabelComponentName, c)]) \<rparr>"

definition demo_iface :: "(string, store) component_iface" where
  "demo_iface = \<lparr> ci_type = (\<lambda>c. ''Demo''), ci_name = (\<lambda>c. c), ci_dependencies = (\<lambda>c. []),
     ci_enabled = (\<lambda>c. True), ci_hooks = (\<lambda>c. no_hooks), ci_installable = (\<lambda>ctx c w. Ok True),
     ci_status_internal = (\<lambda>c. None), ci_keep_on_uninstall = (\<lambda>c. None), ci_available_versions = (\<lambda>c. None) \<rparr>"

definition demo_key :: "string \<Rightarrow> nname" where
  "demo_key c = \<lparr> nn_namespace = [], nn_name = c \<rparr>"

definition skipped_object :: kobj where
  "skipped_object = SetLabels (new_obj [] ''a'' BNamespace\<lparr>ko_meta := (empty_meta [] ''a'')
     \<lparr>om_annotations := Some [AnnotationSkipReconciliation \<mapsto> ''true'']\<rparr>\<rparr>)
     [(LabelManagedBy, LabelManagedByValue), (LabelComponentName, ''a'')]"

definition skipped_store :: store where
  "skipped_store = [((KNamespace, demo_key ''a''), skipped_object)]"

lemmas demo_object_defs = demo_object_def demo_object_rec_def demo_key_def skipped_store_def

lemma demo_object_laws [simp]:
  "cou_law (or_remote demo_object_rec) store_view" "get_law (or_remote demo_object_rec) store_view"
  "list_law (or_remote demo_object_rec) store_view"
  by (simp_all add: demo_object_rec_def)

lemma store_missing_kind [simp]: "missing_kind_law store_client store_view"
  by (auto simp: missing_kind_law_def store_client_def st_get_def st_list_def NotFoundErr_def split: option.splits)

lemma skipped_object_skips [simp]: "shouldSkipReconciliation skipped_object"
  by (simp add: shouldSkipReconciliation_def skipped_object_def SetLabels_as_map annotations_of_def new_obj_def)

lemma skipped_object_facts [simp]:
  "labels_of skipped_object = [LabelManagedBy \<mapsto> LabelManagedByValue, LabelComponentName \<mapsto> ''a'']"
  "om_name (ko_meta skipped_object) = ''a''"
  by (simp_all add: skipped_object_def SetLabels_as_map labels_of_def new_obj_def empty_meta_def)

lemma applyObject_respects_skip_witness:
  "\<exists>w'. applyObject demo_object demo_object_rec background ''a'' skipped_store = (Ok (), ''a'', w')
     \<and> store_view w' = store_view skipped_store"
proof -
  obtain w' where run: "applyObject demo_object demo_object_rec background ''a'' skipped_store = (Ok (), ''a'', w')"
    by (simp add: applyObject_def demo_object_defs store_client_def st_cou_def object_mutate_def unwind_def of_err_def
          kind_of_def set_key_def new_obj_def key_of_def)
  have "oi_build demo_object background ''a'' = Ok (new_obj [] [] BNamespace, demo_key ''a'')"
    by (simp add: demo_object_defs)
  moreover have "store_view skipped_store (kind_of (new_obj [] [] BNamespace)) (demo_key ''a'') = Some skipped_object"
    by (simp add: store_view_def skipped_store_def)
  ultimately show ?thesis
    using applyObject_respects_skip [OF demo_object_laws(1) _ _ skipped_object_skips run] run by blast
qed

lemma applyObject_effect_witness:
  "\<exists>w' ob'. applyObject demo_object demo_object_rec background ''a'' [] = (Ok (), ''a'', w')
     \<and> store_view w' KNamespace (demo_key ''a'') = Some ob'"
proof -
  obtain w' where run: "applyObject demo_object demo_object_rec background ''a'' [] = (Ok (), ''a'', w')"
    by (simp add: applyObject_def demo_object_defs store_client_def st_cou_def object_mutate_def unwind_def of_err_def
          kind_of_def set_key_def new_obj_def key_of_def shouldSkipReconciliation_def annotations_of_def empty_meta_def)
  have b: "oi_build demo_object background ''a'' = Ok (new_obj [] [] BNamespace, demo_key ''a'')"
    by (simp add: demo_object_defs)
  have n: "\<not> shouldSkipReconciliation (found_object (store_view []) (new_obj [] [] BNamespace) (demo_key ''a''))"
    by (simp add: found_object_def store_view_def shouldSkipReconciliation_def annotations_of_def set_key_def new_obj_def empty_meta_def)
  from applyObject_effect [OF demo_object_laws(1) b n run] run show ?thesis by auto
qed

lemma object_Observe_truthful_witness:
  "\<exists>ob. object_Observe demo_object demo_object_rec background ''a'' skipped_store = (Ok ob, ''a'', skipped_store)
     \<and> ob_exists ob \<and> ob_skipped ob"
proof -
  obtain ob where run: "object_Observe demo_object demo_object_rec background ''a'' skipped_store = (Ok ob, ''a'', skipped_store)"
    by (simp add: object_Observe_def demo_object_defs store_client_def st_get_def)
  have "missing_kind_law (or_remote demo_object_rec) store_view" by (simp add: demo_object_rec_def)
  from object_Observe_truthful [OF demo_object_laws(2) this run] run show ?thesis
    by (auto simp: demo_object_defs store_view_def)
qed

lemma DetectOrphanedComponents_exact_witness:
  "DetectOrphanedComponents demo_iface demo_object demo_object_rec background [''b''] skipped_store = Ok [''a'']
   \<and> orphan_of demo_iface [''b''] (the (oi_detector demo_object ''Demo'')) (store_view skipped_store) ''a''"
proof -
  have run: "DetectOrphanedComponents demo_iface demo_object demo_object_rec background [''b''] skipped_store = Ok [''a'']"
    by (simp add: DetectOrphanedComponents_def demo_object_defs filterOrphanedObjects_def store_client_def st_list_def
          opts_match_def IsManaged_def HasComponentLabel_def LabelManagedBy_def LabelComponentName_def demo_iface_def)
  have mk: "missing_kind_law (or_remote demo_object_rec) store_view" by (simp add: demo_object_rec_def)
  have pd: "plain_detector dc" if "oi_detector demo_object kt = Some dc" for kt dc
    using that by (auto simp: demo_object_def plain_detector_def converts_each_def IsManaged_def HasComponentLabel_def)
  have "{''a''} = {p. \<exists>kt \<in> set (or_known demo_object_rec). \<exists>dc. oi_detector demo_object kt = Some dc
      \<and> orphan_of demo_iface [''b''] dc (store_view skipped_store) p}" (is "_ = ?S")
    using DetectOrphanedComponents_exact [OF demo_object_laws(3) mk pd run] by simp
  then have "orphan_of demo_iface [''b''] (the (oi_detector demo_object ''Demo'')) (store_view skipped_store) ''a''"
  proof -
    assume eq: "{''a''} = ?S"
    have "''a'' \<in> ?S" by (simp only: eq [symmetric] insertI1)
    then obtain kt dc where "kt \<in> set (or_known demo_object_rec)" "oi_detector demo_object kt = Some dc"
      "orphan_of demo_iface [''b''] dc (store_view skipped_store) ''a''" by blast
    then show ?thesis by (simp add: demo_object_rec_def)
  qed
  with run show ?thesis by simp
qed

end
