(* ===== verification/Crossplane.thy ===== *)
theory Crossplane
  imports ObjectLaws
begin

text \<open>
  \<^verbatim>\<open>pkg/controlplane/crossplane\<close>: the Crossplane provider objects (\<^verbatim>\<open>providers.go\<close>)
  and the admission policies that restrict packages and runtime configurations
  (\<^verbatim>\<open>policies.go\<close>), with their laws; and \<^verbatim>\<open>pkg/juggler/hooks/orphans.go\<close>.
\<close>

section \<open>Providers (providers.go)\<close>

definition GroupName :: string where
  "GroupName = ''core.orchestrate.cloud.sap''"
definition GroupVersionString :: string where
  "GroupVersionString = GroupName @ ''/v1beta1''"

definition providerPrefix :: string where
  "providerPrefix = ''provider-''"

record provider_config =
  pc_name :: string
  pc_version :: string
  pc_package :: string
  pc_pull_policy :: "string option"
  pc_pull_secrets :: "string list"

definition AddProviderPrefix :: "string \<Rightarrow> string" where
  "AddProviderPrefix providerName =
     (if prefix providerPrefix providerName then providerName else providerPrefix @ providerName)"

definition TrimProviderPrefix :: "string \<Rightarrow> string" where
  "TrimProviderPrefix providerName = trim_prefix providerName providerPrefix"

definition ProviderNameForProviderConfig :: "provider_config \<Rightarrow> string" where
  "ProviderNameForProviderConfig p = AddProviderPrefix (pc_name p)"

definition DeploymentRuntimeNameForProviderConfig :: "provider_config \<Rightarrow> string" where
  "DeploymentRuntimeNameForProviderConfig p = ProviderNameForProviderConfig p"

definition empty_provider :: provider_body where
  "empty_provider = \<lparr> pv_package = [], pv_pull_policy = None, pv_pull_secrets = [],
     pv_runtime_ref = None, pv_conditions = [] \<rparr>"

definition EmptyFromConfig :: "provider_config \<Rightarrow> kobj \<times> nname" where
  "EmptyFromConfig c = (new_obj [] [] (BProvider empty_provider),
     \<lparr> nn_namespace = [], nn_name = ProviderNameForProviderConfig c \<rparr>)"

text \<open>\<open>ReconcileProvider\<close> takes the object and its provider body: the assertion is the caller's.\<close>

definition ReconcileProvider :: "kobj \<Rightarrow> provider_body \<Rightarrow> provider_config \<Rightarrow> kobj" where
  "ReconcileProvider ob provider config =
     (SetManagedBy ob)\<lparr>ko_body := BProvider (provider
        \<lparr>pv_package := pc_package config, pv_pull_policy := pc_pull_policy config,
         pv_pull_secrets := pc_pull_secrets config,
         pv_runtime_ref := Some (DeploymentRuntimeNameForProviderConfig config)\<rparr>)\<rparr>"

lemma AddProviderPrefix_prefix [simp]: "prefix providerPrefix (AddProviderPrefix n)"
  by (simp add: AddProviderPrefix_def)

lemma Trim_Add [simp]: "TrimProviderPrefix (AddProviderPrefix n) = TrimProviderPrefix n"
  by (auto simp: AddProviderPrefix_def TrimProviderPrefix_def trim_prefix_def)

lemma Add_Add: "AddProviderPrefix (AddProviderPrefix n) = AddProviderPrefix n"
  by (auto simp: AddProviderPrefix_def)

lemma Add_Trim:
  "AddProviderPrefix (TrimProviderPrefix n) =
     (if prefix providerPrefix (TrimProviderPrefix n) then TrimProviderPrefix n else AddProviderPrefix n)"
  by (auto simp: AddProviderPrefix_def TrimProviderPrefix_def trim_prefix_def elim: prefixE)

text \<open>
  Adding the provider prefix is idempotent, its result always carries the prefix, two
  names get the same provider object exactly when they agree up to the prefix, and trimming
  it and adding it again restores a prefixed name unless the prefix stands in it twice.
\<close>

theorem provider_prefix_laws:
  "AddProviderPrefix (AddProviderPrefix n) = AddProviderPrefix n
   \<and> prefix providerPrefix (AddProviderPrefix n)
   \<and> (AddProviderPrefix n = AddProviderPrefix m \<longleftrightarrow> TrimProviderPrefix n = TrimProviderPrefix m)
   \<and> (AddProviderPrefix (TrimProviderPrefix (AddProviderPrefix n)) = AddProviderPrefix n
        \<longleftrightarrow> \<not> prefix providerPrefix (TrimProviderPrefix n))"
proof -
  have inj: "AddProviderPrefix n = AddProviderPrefix m \<longleftrightarrow> TrimProviderPrefix n = TrimProviderPrefix m"
  proof
    assume "AddProviderPrefix n = AddProviderPrefix m"
    then have "TrimProviderPrefix (AddProviderPrefix n) = TrimProviderPrefix (AddProviderPrefix m)" by simp
    then show "TrimProviderPrefix n = TrimProviderPrefix m" by simp
  next
    have add: "AddProviderPrefix n = providerPrefix @ TrimProviderPrefix n" for n
      by (auto simp: AddProviderPrefix_def TrimProviderPrefix_def trim_prefix_def elim: prefixE)
    assume "TrimProviderPrefix n = TrimProviderPrefix m"
    then show "AddProviderPrefix n = AddProviderPrefix m" by (simp add: add)
  qed
  have neq: "TrimProviderPrefix n \<noteq> AddProviderPrefix n"
    by (auto simp: AddProviderPrefix_def TrimProviderPrefix_def trim_prefix_def providerPrefix_def elim: prefixE)
  show ?thesis using inj neq by (simp add: Add_Add Add_Trim)
qed

section \<open>Package policies (policies.go)\<close>

type_synonym package_type = string

definition Providers :: package_type where "Providers = ''providers''"
definition Configurations :: package_type where "Configurations = ''configurations''"
definition Functions :: package_type where "Functions = ''functions''"

definition PackageTypes :: "package_type list" where
  "PackageTypes = [Providers, Configurations, Functions]"

definition ErrPolicyNotFound :: err where
  "ErrPolicyNotFound = Sentinel ''ErrPolicyNotFound'' ''policy is not installed yet''"
definition ErrFailedToGetPolicy :: err where
  "ErrFailedToGetPolicy = Sentinel ''ErrFailedToGetPolicy'' ''failed to get policy''"
definition ErrPolicyUnhealthy :: err where
  "ErrPolicyUnhealthy = Sentinel ''ErrPolicyUnhealthy'' ''policy is unhealthy''"
definition ErrPolicyBindingNotFound :: err where
  "ErrPolicyBindingNotFound = Sentinel ''ErrPolicyBindingNotFound'' ''policy binding is not installed yet''"
definition ErrFailedToGetPolicyBinding :: err where
  "ErrFailedToGetPolicyBinding = Sentinel ''ErrFailedToGetPolicyBinding'' ''failed to get policy binding''"
definition ErrPolicyBindingUnhealthy :: err where
  "ErrPolicyBindingUnhealthy = Sentinel ''ErrPolicyBindingUnhealthy'' ''policy binding is unhealthy''"

definition crossplane_pkg_group :: string where
  "crossplane_pkg_group = ''pkg.crossplane.io''"

definition ReconcilePolicy :: "package_type \<Rightarrow> vap_spec \<Rightarrow> vap_spec" where
  "ReconcilePolicy pt policy = policy\<lparr>
     vs_failure_policy := Some ''Fail'',
     vs_param_kind := Some (GroupVersionString, ''CrossplanePackageRestriction''),
     vs_match_constraints := Some [\<lparr> ro_operations = [''CREATE'', ''UPDATE''],
       ro_groups = [crossplane_pkg_group], ro_versions = [''*''], ro_resources = [to_lower pt] \<rparr>],
     vs_variables := [
       (''allPackagesAllowed'', '''*' in params.spec.'' @ pt @ ''.packages''),
       (''allRegistriesAllowed'', '''*' in params.spec.'' @ pt @ ''.registries''),
       (''packageAllowed'', ''object.spec.package in params.spec.'' @ pt
          @ ''.packages || object.spec.package.split(':', 2)[0] in params.spec.'' @ pt @ ''.packages''),
       (''registryAllowed'', ''params.spec.'' @ pt
          @ ''.registries.exists(registry, object.spec.package.startsWith(registry + '/'))'')],
     vs_validations := [\<lparr>
       va_expression = ''variables.allPackagesAllowed || variables.allRegistriesAllowed || variables.packageAllowed || variables.registryAllowed'',
       va_message = ''Package or registry not allowed'', va_reason = Some ''Forbidden'' \<rparr>]\<rparr>"

definition ReconcilePolicyBinding :: "string \<Rightarrow> string \<Rightarrow> vapb_spec \<Rightarrow> vapb_spec" where
  "ReconcilePolicyBinding cprName policyName binding = binding\<lparr>
     vb_policy_name := policyName,
     vb_param_ref := Some (cprName, Some ''Deny''),
     vb_actions := [''Deny'']\<rparr>"

text \<open>\<open>observed\<close> is the status' observed generation.\<close>

definition IsPolicyHealthy :: "objmeta \<Rightarrow> int \<Rightarrow> bool" where
  "IsPolicyHealthy meta observed \<longleftrightarrow>
     observed > 0 \<and> om_generation meta > 0 \<and> om_generation meta = observed \<and> om_deletion meta = None"

definition IsPolicyBindingHealthy :: "objmeta \<Rightarrow> bool" where
  "IsPolicyBindingHealthy meta \<longleftrightarrow> om_generation meta > 0 \<and> om_deletion meta = None"

definition GetPolicyName :: "package_type \<Rightarrow> string" where
  "GetPolicyName pt = ''restrict-crossplane-'' @ to_lower pt"

fun policy_healthy :: "kobj \<Rightarrow> bool" where
  "policy_healthy ob = (case ko_body ob of BPolicy s observed \<Rightarrow> IsPolicyHealthy (ko_meta ob) observed | _ \<Rightarrow> False)"

definition CheckIfPolicyIsInstalled :: "package_type \<Rightarrow> 'w hook" where
  "CheckIfPolicyIsInstalled pt = (\<lambda>c w.
     (let key = \<lparr> nn_namespace = [], nn_name = GetPolicyName pt \<rparr>
      in (case cl_get c KPolicy key w of
            Inl e \<Rightarrow> Some (if is_not_found e then ErrPolicyNotFound else Join [ErrFailedToGetPolicy, e])
          | Inr policy \<Rightarrow>
              if \<not> policy_healthy policy then Some ErrPolicyUnhealthy
              else (case cl_get c KPolicyBinding key w of
                      Inl e \<Rightarrow> Some (if is_not_found e then ErrPolicyBindingNotFound
                                     else Join [ErrFailedToGetPolicyBinding, e])
                    | Inr binding \<Rightarrow>
                        if \<not> IsPolicyBindingHealthy (ko_meta binding) then Some ErrPolicyBindingUnhealthy
                        else None), w)))"

definition policy_enforced :: "(kind \<Rightarrow> nname \<Rightarrow> kobj option) \<Rightarrow> package_type \<Rightarrow> bool" where
  "policy_enforced v pt \<longleftrightarrow> (let key = \<lparr> nn_namespace = [], nn_name = GetPolicyName pt \<rparr> in
     (\<exists>policy binding. v KPolicy key = Some policy \<and> policy_healthy policy
        \<and> v KPolicyBinding key = Some binding \<and> IsPolicyBindingHealthy (ko_meta binding)))"

lemma CheckIfPolicyIsInstalled_pure [simp]: "snd (CheckIfPolicyIsInstalled pt cl w) = w"
  by (simp add: CheckIfPolicyIsInstalled_def Let_def)



section \<open>Protection of DeploymentRuntimeConfigs (policies.go)\<close>

text \<open>\<^verbatim>\<open>%q\<close> of a string of printable ASCII characters.\<close>

definition go_quote :: "string \<Rightarrow> string" where
  "go_quote s = [CHR 34] @ concat (map (\<lambda>c. if c = CHR 34 \<or> c = CHR 92 then [CHR 92, c] else [c]) s) @ [CHR 34]"

record grouped_fields =
  gf_prefix :: string
  gf_fields :: "string list"

record compare_builder =
  cb_groups :: "grouped_fields list"
  cb_additional :: "validation list"

definition compare_validation :: "string \<Rightarrow> string \<Rightarrow> validation" where
  "compare_validation path field =
     (let prefix = replace_char (CHR ''.'') ''.?'' path
      in \<lparr> va_expression = ''oldObject.?'' @ prefix @ ''.?'' @ field @ '' == object.?'' @ prefix @ ''.?'' @ field,
           va_message = ''field '' @ [CHR 34] @ path @ ''.'' @ field @ [CHR 34] @ '' is not allowed to be modified'',
           va_reason = None \<rparr>)"

definition compare_Build :: "compare_builder \<Rightarrow> validation list" where
  "compare_Build om = cb_additional om @
     concat (map (\<lambda>expr. map (compare_validation (gf_prefix expr)) (gf_fields expr)) (cb_groups om))"

definition getDeploymentRuntimeConfigExpressionBuilder :: compare_builder where
  "getDeploymentRuntimeConfigExpressionBuilder = \<lparr>
     cb_groups = [
       \<lparr> gf_prefix = ''spec.serviceAccountTemplate.metadata'',
         gf_fields = [
          ''annotations'', ''labels''] \<rparr>,
       \<lparr> gf_prefix = ''spec.deploymentTemplate.spec'',
         gf_fields = [
          ''selector'', ''replicas'', ''minReadySeconds'', ''strategy'', ''revisionHistoryLimit'',
          ''progressDeadlineSeconds'', ''paused''] \<rparr>,
       \<lparr> gf_prefix = ''spec.deploymentTemplate.spec.template'',
         gf_fields = [
          ''metadata''] \<rparr>,
       \<lparr> gf_prefix = ''spec.deploymentTemplate.spec.template.spec'',
         gf_fields = [
          ''volumes'', ''nodeSelector'', ''nodeName'', ''affinity'', ''tolerations'',
          ''schedulerName'', ''runtimeClassName'', ''priorityClassName'', ''priority'',
          ''preemptionPolicy'', ''topologySpreadConstraints'', ''overhead'', ''restartPolicy'',
          ''terminationGracePeriodSeconds'', ''activeDeadlineSeconds'', ''readinessGates'',
          ''hostname'', ''setHostnameAsFQDN'', ''subdomain'', ''hostAliases'', ''dnsConfig'',
          ''dnsPolicy'', ''hostNetwork'', ''hostPID'', ''hostIPC'', ''shareProcessNamespace'',
          ''serviceAccountName'', ''automountServiceAccountToken'', ''securityContext''] \<rparr>,
       \<lparr> gf_prefix = ''spec.deploymentTemplate.spec.template.spec.containers[0]'',
         gf_fields = [
          ''command'', ''env'', ''envFrom'', ''image'', ''imagePullPolicy'', ''lifecycle'',
          ''livenessProbe'', ''name'', ''ports'', ''readinessProbe'', ''resizePolicy'', ''resources'',
          ''restartPolicy'', ''securityContext'', ''startupProbe'', ''stdin'', ''stdinOnce'',
          ''terminationMessagePath'', ''terminationMessagePolicy'', ''tty'', ''volumeDevices'',
          ''volumeMounts'', ''workingDir''] \<rparr>],
     cb_additional = [\<lparr>
       va_expression = ''size(object.spec.deploymentTemplate.spec.template.spec.containers) == 1'',
       va_message = ''The number of containers is not allowed to be changed'', va_reason = None \<rparr>] \<rparr>"

definition ReconcileDeploymentConfigRuntimeProtectionPolicy :: "(string \<Rightarrow> string) \<Rightarrow> vap_spec" where
  "ReconcileDeploymentConfigRuntimeProtectionPolicy env =
     (let serviceAccountName = ''system:serviceaccount:'' @ env ''POD_NAMESPACE'' @ '':'' @ env ''POD_SERVICE_ACCOUNT''
      in \<lparr> vs_failure_policy = Some ''Fail'', vs_param_kind = None,
           vs_match_constraints = Some [\<lparr> ro_operations = [''UPDATE''], ro_groups = [crossplane_pkg_group],
              ro_versions = [''v1beta1''], ro_resources = [''deploymentruntimeconfigs''] \<rparr>],
           vs_match_conditions = [(''exclude-co-operator'',
              ''request.userInfo.username != '' @ go_quote serviceAccountName)],
           vs_variables = [],
           vs_validations = compare_Build getDeploymentRuntimeConfigExpressionBuilder \<rparr>)"

definition ReconcileDeploymentConfigRuntimeProtectionPolicyBinding :: "string \<Rightarrow> kobj \<Rightarrow> kobj" where
  "ReconcileDeploymentConfigRuntimeProtectionPolicyBinding policyName avpd =
     avpd\<lparr>ko_meta := (ko_meta avpd)\<lparr>om_name := policyName\<rparr>,
          ko_body := BPolicyBinding \<lparr> vb_policy_name = policyName, vb_param_ref = None, vb_actions = [''Deny''] \<rparr>\<rparr>"

text \<open>
  The (path, field) pairs the policy compares with the old object; a path of the object is
  protected when it, or something above it, is compared.
\<close>

definition protected_pairs :: "compare_builder \<Rightarrow> (string \<times> string) list" where
  "protected_pairs b = concat (map (\<lambda>g. map (Pair (gf_prefix g)) (gf_fields g)) (cb_groups b))"

definition protects :: "compare_builder \<Rightarrow> string \<Rightarrow> bool" where
  "protects b path \<longleftrightarrow> list_ex (\<lambda>(p, f). prefix (p @ ''.'' @ f) path) (protected_pairs b)"

lemma compare_Build_pairs:
  "compare_Build b = cb_additional b @ map (\<lambda>(p, f). compare_validation p f) (protected_pairs b)"
  by (simp add: compare_Build_def protected_pairs_def map_concat comp_def)

text \<open>
  The validations of the DeploymentRuntimeConfig protection policy are the container count
  check and one comparison with the old object per protected pair. The image, command and
  environment of the container, the volumes, the service account and the replica count are
  protected, the container's arguments and the service account template's name are left
  editable, as the comments intend. Init containers, ephemeral containers and image pull
  secrets of the pod are not protected: a user who may update the object can add an init
  container of any image although the policy is enforced.
\<close>

theorem drc_protection_fields:
  "vs_validations (ReconcileDeploymentConfigRuntimeProtectionPolicy env)
     = cb_additional getDeploymentRuntimeConfigExpressionBuilder
       @ map (\<lambda>(p, f). compare_validation p f) (protected_pairs getDeploymentRuntimeConfigExpressionBuilder)
   \<and> list_all (\<lambda>f. protects getDeploymentRuntimeConfigExpressionBuilder (''spec.deploymentTemplate.spec.'' @ f))
       [''template.spec.containers[0].image'', ''template.spec.containers[0].command'',
        ''template.spec.containers[0].env'', ''template.spec.volumes'',
        ''template.spec.serviceAccountName'', ''replicas'']
   \<and> list_all (\<lambda>f. \<not> protects getDeploymentRuntimeConfigExpressionBuilder f)
       [''spec.deploymentTemplate.spec.template.spec.containers[0].args'',
        ''spec.serviceAccountTemplate.metadata.name'']
   \<and> list_all (\<lambda>f. \<not> protects getDeploymentRuntimeConfigExpressionBuilder (''spec.deploymentTemplate.spec.template.spec.'' @ f))
       [''initContainers'', ''ephemeralContainers'', ''imagePullSecrets'']"
  by (simp add: ReconcileDeploymentConfigRuntimeProtectionPolicy_def compare_Build_pairs Let_def)
     (simp add: protects_def protected_pairs_def getDeploymentRuntimeConfigExpressionBuilder_def)

section \<open>Uninstall hooks (hooks/orphans.go)\<close>

text \<open>A GroupVersionKind as group, version and kind.\<close>

type_synonym gvk = "string \<times> string \<times> string"

definition gvk_kind :: "gvk \<Rightarrow> kind" where
  "gvk_kind g = (case g of (grp, version, k) \<Rightarrow> KUnstructured grp version k)"

definition gvk_string :: "gvk \<Rightarrow> string" where
  "gvk_string g = (case g of (grp, version, k) \<Rightarrow> grp @ ''/'' @ version @ '', Kind='' @ k)"

definition checkForResources :: "gvk \<Rightarrow> 'w client \<Rightarrow> 'w \<Rightarrow> err option" where
  "checkForResources g c w =
     (case cl_list c (gvk_kind g) [Limit 1] w of
        Inl e \<Rightarrow> if IsCRDNotFound (Some e) then None else Some e
      | Inr items \<Rightarrow>
          if length items > 0
          then Some (OtherErr (''cannot uninstall because there is a least one object of '' @ gvk_string g @ '' remaining''))
          else None)"

fun check_all :: "gvk list \<Rightarrow> 'w client \<Rightarrow> 'w \<Rightarrow> err option" where
  "check_all [] c w = None"
| "check_all (g # gs) c w =
     (case checkForResources g c w of Some e \<Rightarrow> Some e | None \<Rightarrow> check_all gs c w)"

definition PreventOrphanedResources :: "gvk list \<Rightarrow> 'w hook" where
  "PreventOrphanedResources gs = (\<lambda>c w. (check_all gs c w, w))"

lemma PreventOrphanedResources_pure [simp]: "snd (PreventOrphanedResources gs cl w) = w"
  by (simp add: PreventOrphanedResources_def)

lemma check_all_None: "check_all gs c w = None \<longleftrightarrow> (\<forall>g \<in> set gs. checkForResources g c w = None)"
  by (induction gs) (auto split: option.splits)

text \<open>
  A list that is limited returns nothing only when nothing matches.
\<close>

definition limit_law :: "'w client \<Rightarrow> 'w kview \<Rightarrow> bool" where
  "limit_law cl view \<longleftrightarrow> (\<forall>k m w. cl_list cl k [Limit (Suc m)] w = Inr [] \<longrightarrow> (\<forall>n. view w k n = None))"

text \<open>
  C38. The pre-uninstall gate of a chart component: the hook passes only if no object of any
  of the component's own resource kinds is left on the cluster (a kind whose definition is
  gone counts as empty), so the chart that serves them is never removed under them; one
  remaining object of any of the kinds blocks the uninstall. The hook never changes the
  cluster.
\<close>

theorem PreventOrphanedResources_sound:
  assumes "missing_kind_law cl view" "limit_law cl view"
    and "g \<in> set gs" "view w (gvk_kind g) n = Some ob"
  shows "fst (PreventOrphanedResources gs cl w) \<noteq> None \<and> snd (PreventOrphanedResources gs cl w) = w"
proof -
  have "checkForResources g cl w \<noteq> None"
  proof (cases "cl_list cl (gvk_kind g) [Limit 1] w")
    case (Inl e)
    with assms(1,4) have "\<not> IsCRDNotFound (Some e)" by (auto simp: missing_kind_law_def)
    with Inl show ?thesis by (simp add: checkForResources_def)
  next
    case (Inr items)
    with assms(2,4) have "items \<noteq> []" by (auto simp: limit_law_def)
    with Inr show ?thesis by (simp add: checkForResources_def)
  qed
  with assms(3) show ?thesis by (simp add: PreventOrphanedResources_def check_all_None) blast
qed

lemma store_limit [simp]: "limit_law store_client store_view"
  unfolding limit_law_def
proof (intro allI impI)
  fix k m n and w :: store
  assume "cl_list store_client k [Limit (Suc m)] w = Inr []"
  then have "set (map snd (filter (\<lambda>(kn, ob). fst kn = k \<and> opts_match [Limit (Suc m)] ob) (AList.clearjunk w))) = {}"
    by (simp add: store_client_def st_list_def)
  then have "{ob. \<exists>n. map_of w (k, n) = Some ob \<and> opts_match [Limit (Suc m)] ob} = {}"
    by (simp only: distinct_listing [OF distinct_clearjunk] map_of_clearjunk)
  then show "store_view w k n = None"
    by (cases "map_of w (k, n)") (auto simp: opts_match_def store_view_def)
qed

lemma PreventOrphanedResources_sound_witness:
  "fst (PreventOrphanedResources [(''pkg.crossplane.io'', ''v1'', ''Provider'')] store_client
      [((KUnstructured ''pkg.crossplane.io'' ''v1'' ''Provider'', \<lparr> nn_namespace = [], nn_name = ''p'' \<rparr>),
        new_obj [] ''p'' (BUnstructured ''pkg.crossplane.io'' ''v1'' ''Provider''))]) \<noteq> None"
  using PreventOrphanedResources_sound
    [OF store_missing_kind store_limit,
     where g = "(''pkg.crossplane.io'', ''v1'', ''Provider'')" and gs = "[(''pkg.crossplane.io'', ''v1'', ''Provider'')]"
       and n = "\<lparr> nn_namespace = [], nn_name = ''p'' \<rparr>"
       and w = "[((KUnstructured ''pkg.crossplane.io'' ''v1'' ''Provider'', \<lparr> nn_namespace = [], nn_name = ''p'' \<rparr>),
        new_obj [] ''p'' (BUnstructured ''pkg.crossplane.io'' ''v1'' ''Provider''))]"]
  by (simp add: gvk_kind_def store_view_def)

end
