(* ===== verification/ChartComponents.thy ===== *)
theory ChartComponents
  imports Crossplane
begin

text \<open>
  \<^verbatim>\<open>pkg/controlplane/components\<close>: the six components that are installed as Helm charts,
  and the policy rules of \<^verbatim>\<open>common.go\<close>. Each Go type holds a pointer to its configuration,
  which building the source repository and the manifesto may allocate and default: the model
  passes the configuration (\<open>None\<close> for the nil pointer) and returns it. What the six files
  repeat word by word is written once, with the constants of the file as arguments.
\<close>

section \<open>Configuration (api/v1beta1)\<close>

record chart_spec =
  ch_repository :: string
  ch_url :: string
  ch_name :: string
  ch_version :: string

record chart_config =
  cc_version :: string
  cc_chart :: "chart_spec option"
  cc_values :: "string option"

record crossplane_config = chart_config +
  xc_providers :: "provider_config list"

definition zero_chart_config :: chart_config where
  "zero_chart_config = \<lparr> cc_version = [], cc_chart = None, cc_values = None \<rparr>"

definition zero_crossplane_config :: crossplane_config where
  "zero_crossplane_config = \<lparr> cc_version = [], cc_chart = None, cc_values = None, xc_providers = [] \<rparr>"

section \<open>Policy rules (common.go)\<close>

record policy_rules =
  ps_admin :: "policy_rule list"
  ps_view :: "policy_rule list"

definition VerbsAdmin :: "string list" where "VerbsAdmin = [''*'']"
definition VerbsView :: "string list" where "VerbsView = [''get'', ''watch'', ''list'']"
definition VerbsModify :: "string list" where
  "VerbsModify = [''get'', ''watch'', ''list'', ''update'', ''patch'']"

definition ErrVersionResolverNotConfigured :: err where
  "ErrVersionResolverNotConfigured =
     Sentinel ''ErrVersionResolverNotConfigured'' ''version resolver is not configured in context''"

section \<open>What the chart components share\<close>

definition chart_installable :: "string \<Rightarrow> 'a chart_config_scheme option \<Rightarrow> 'w rctx \<Rightarrow> 'w \<Rightarrow> bool gores" where
  "chart_installable release cfg ctx w =
     (case VersionResolver ctx of
        None \<Rightarrow> Err ErrVersionResolverNotConfigured
      | Some rfn \<Rightarrow>
          (case cfg of
             None \<Rightarrow> Panic nil_pointer
           | Some c \<Rightarrow> (case rfn release (cc_version c) w of Inl e \<Rightarrow> Err e | Inr _ \<Rightarrow> Ok True)))"

definition chart_available :: "string \<Rightarrow> 'w rctx \<Rightarrow> 'w \<Rightarrow> string list gores" where
  "chart_available release ctx w =
     (case AvailableVersionsResolver ctx of
        None \<Rightarrow> Panic nil_pointer
      | Some resolve \<Rightarrow> (case resolve release w of Inl e \<Rightarrow> Err e | Inr vs \<Rightarrow> Ok vs))"

text \<open>
  \<^verbatim>\<open>applyDefaultChartSpec\<close>: the resolver's error is dropped, and with an error it returns
  the zero component version.
\<close>

definition default_chart_spec ::
  "'a chart_config_scheme \<Rightarrow> string \<Rightarrow> (component_version \<Rightarrow> chart_spec) \<Rightarrow> 'w version_resolver option
     \<Rightarrow> 'a chart_config_scheme option \<Rightarrow> 'w \<Rightarrow> unit gores \<times> 'a chart_config_scheme option" where
  "default_chart_spec zero release chart_for rfn cfg w =
     (let config = (case cfg of None \<Rightarrow> zero | Some c \<Rightarrow> c)
      in case rfn of
           None \<Rightarrow> (Panic nil_pointer, Some config)
         | Some resolve \<Rightarrow>
             (let comp = (case resolve release (cc_version config) w of
                            Inl _ \<Rightarrow> zero_component_version | Inr cv \<Rightarrow> cv)
              in case cc_chart config of
                   None \<Rightarrow> (Ok (), Some (config\<lparr>cc_chart := Some (chart_for comp)\<rparr>))
                 | Some _ \<Rightarrow> (Ok (), Some config)))"

definition build_source ::
  "libs \<Rightarrow> string \<Rightarrow> int option \<Rightarrow> 'w rctx \<Rightarrow> unit gores \<times> 'a chart_config_scheme option
     \<Rightarrow> flux_resource gores \<times> 'a chart_config_scheme option" where
  "build_source L name timeout ctx defaulted =
     (case defaulted of (r, cfg) \<Rightarrow>
       (bind_go r (\<lambda>_.
        bind_go (TenantNamespace ctx) (\<lambda>ns.
          case cfg of
            None \<Rightarrow> Panic nil_pointer
          | Some c \<Rightarrow>
              (case cc_chart c of
                 None \<Rightarrow> Panic nil_pointer
               | Some chart \<Rightarrow>
                   Ok (flux_ApplyDefaults L (HelmRepositoryAdapter
                     \<lparr> so_meta = empty_meta ns (to_lower name),
                       so_spec = \<lparr> ss_url = ch_repository chart, ss_timeout = timeout,
                                   ss_interval = 0, ss_suspend = False \<rparr>,
                       so_conds = [] \<rparr>))))), cfg))"

fun set_defaults :: "anymap \<Rightarrow> (any \<times> string list) list \<Rightarrow> err option \<times> anymap" where
  "set_defaults m [] = (None, m)"
| "set_defaults m ((v, path) # ds) =
     (case SetNestedDefault m v path of
        (Some e, m') \<Rightarrow> (Some e, m')
      | (None, m') \<Rightarrow> set_defaults m' ds)"

text \<open>
  \<^verbatim>\<open>applyDefaultValues\<close>. The values are written back even when encoding them fails (the
  raw bytes are then empty).
\<close>

definition default_values ::
  "libs \<Rightarrow> (any \<times> string list) list \<Rightarrow> 'a chart_config_scheme option
     \<Rightarrow> err option \<times> 'a chart_config_scheme option" where
  "default_values L ds cfg =
     (case cfg of
        None \<Rightarrow> (None, None)
      | Some c \<Rightarrow>
          (case (case cc_values c of None \<Rightarrow> Inr (Some Map.empty) | Some raw \<Rightarrow> lib_unmarshal L raw) of
             Inl e \<Rightarrow> (Some e, Some c)
           | Inr values \<Rightarrow>
               (case set_defaults values ds of
                  (Some e, _) \<Rightarrow> (Some e, Some c)
                | (None, values') \<Rightarrow>
                    (case lib_marshal L values' of
                       Inl e \<Rightarrow> (Some e, Some (c\<lparr>cc_values := Some []\<rparr>))
                     | Inr raw \<Rightarrow> (None, Some (c\<lparr>cc_values := Some raw\<rparr>))))))"

definition build_manifesto ::
  "libs \<Rightarrow> string \<Rightarrow> string \<Rightarrow> string \<Rightarrow> 'w rctx \<Rightarrow> err option \<times> 'a chart_config_scheme option
     \<Rightarrow> flux_resource gores \<times> 'a chart_config_scheme option" where
  "build_manifesto L name release namespace ctx defaulted =
     (case defaulted of
        (Some e, cfg) \<Rightarrow> (Err e, cfg)
      | (None, cfg) \<Rightarrow>
         (bind_go (TenantNamespace ctx) (\<lambda>ns.
            case cfg of
              None \<Rightarrow> Panic nil_pointer
            | Some c \<Rightarrow>
                (case cc_chart c of
                   None \<Rightarrow> Panic nil_pointer
                 | Some chart \<Rightarrow>
                     bind_go (FluxKubeconfigRef ctx) (\<lambda>kubeconfig.
                       Ok (flux_ApplyDefaults L (HelmReleaseManifesto
                         \<lparr> hr_meta = empty_meta ns (to_lower name),
                           hr_spec = zero_release_spec
                             \<lparr>hs_chart := Some \<lparr> ht_chart = ch_name chart, ht_version = ch_version chart,
                                 ht_source_kind = ''HelmRepository'', ht_source_name = to_lower name \<rparr>,
                              hs_release_name := release, hs_target_namespace := namespace,
                              hs_storage_namespace := namespace, hs_kubeconfig := Some kubeconfig,
                              hs_values := cc_values c\<rparr>,
                           hr_conds = [] \<rparr>))))), cfg))"

section \<open>BTPServiceOperator (btpso_component.go)\<close>

definition btp_GetPolicyRules :: policy_rules where
  "btp_GetPolicyRules = \<lparr>
     ps_admin = [
       \<lparr> pr_groups = [''services.cloud.sap.com''],
         pr_resources = [''servicebindings'', ''serviceinstances''],
         pr_verbs = VerbsAdmin \<rparr>],
     ps_view = [
       \<lparr> pr_groups = [''services.cloud.sap.com''],
         pr_resources = [''servicebindings'', ''serviceinstances''],
         pr_verbs = VerbsView \<rparr>] \<rparr>"

definition btp_IsInstallable ::
  "chart_config option \<Rightarrow> 'w rctx \<Rightarrow> 'w \<Rightarrow> bool gores" where
  "btp_IsInstallable cfg ctx w = chart_installable ''sap-btp-service-operator'' cfg ctx w"

definition btp_GetAvailableVersions :: "'w rctx \<Rightarrow> 'w \<Rightarrow> string list gores" where
  "btp_GetAvailableVersions ctx w = chart_available ''sap-btp-service-operator'' ctx w"

definition btp_IsEnabled :: "chart_config option \<Rightarrow> bool" where
  "btp_IsEnabled cfg \<longleftrightarrow> (case cfg of None \<Rightarrow> False | Some c \<Rightarrow> cc_version c \<noteq> [])"

definition btp_applyDefaultChartSpec ::
  "'w version_resolver option \<Rightarrow> chart_config option \<Rightarrow> 'w \<Rightarrow> unit gores \<times> chart_config option" where
  "btp_applyDefaultChartSpec rfn cfg w =
     default_chart_spec zero_chart_config ''sap-btp-service-operator''
       (\<lambda>comp. \<lparr> ch_repository = ''https://sap.github.io/sap-btp-service-operator'', ch_url = [],
                 ch_name = ''sap-btp-operator'', ch_version = cv_version comp \<rparr>) rfn cfg w"

definition btp_applyDefaultValues :: "libs \<Rightarrow> chart_config option \<Rightarrow> err option \<times> chart_config option" where
  "btp_applyDefaultValues L cfg =
     default_values L
       [(AStr ''sap-btp-service-operator'', [''cluster'', ''id'']),
        (AInt 1, [''manager'', ''replica_count''])] cfg"

definition btp_BuildSourceRepository ::
  "libs \<Rightarrow> 'w rctx \<Rightarrow> chart_config option \<Rightarrow> 'w \<Rightarrow> flux_resource gores \<times> chart_config option" where
  "btp_BuildSourceRepository L ctx cfg w =
     build_source L ''BTPServiceOperator'' None ctx
       (btp_applyDefaultChartSpec (VersionResolver ctx) cfg w)"

definition btp_BuildManifesto ::
  "libs \<Rightarrow> 'w rctx \<Rightarrow> chart_config option \<Rightarrow> flux_resource gores \<times> chart_config option" where
  "btp_BuildManifesto L ctx cfg =
     build_manifesto L ''BTPServiceOperator'' ''sap-btp-service-operator''
       ''sap-btp-service-operator'' ctx (btp_applyDefaultValues L cfg)"

definition btp_Hooks :: "'w component_hooks" where
  "btp_Hooks = no_hooks\<lparr>hk_pre_uninstall := Some (PreventOrphanedResources
       [(''services.cloud.sap.com'', ''v1'', ''ServiceBinding''),
        (''services.cloud.sap.com'', ''v1'', ''ServiceInstance'')])\<rparr>"

section \<open>CertManager (cert_manager_component.go)\<close>

definition certmanager_IsInstallable ::
  "chart_config option \<Rightarrow> 'w rctx \<Rightarrow> 'w \<Rightarrow> bool gores" where
  "certmanager_IsInstallable cfg ctx w = chart_installable ''cert-manager'' cfg ctx w"

definition certmanager_GetAvailableVersions :: "'w rctx \<Rightarrow> 'w \<Rightarrow> string list gores" where
  "certmanager_GetAvailableVersions ctx w = chart_available ''cert-manager'' ctx w"

definition certmanager_IsEnabled :: "chart_config option \<Rightarrow> bool" where
  "certmanager_IsEnabled cfg \<longleftrightarrow> (case cfg of None \<Rightarrow> False | Some c \<Rightarrow> cc_version c \<noteq> [])"

definition certmanager_applyDefaultChartSpec ::
  "'w version_resolver option \<Rightarrow> chart_config option \<Rightarrow> 'w \<Rightarrow> unit gores \<times> chart_config option" where
  "certmanager_applyDefaultChartSpec rfn cfg w =
     default_chart_spec zero_chart_config ''cert-manager''
       (\<lambda>comp. \<lparr> ch_repository = ''https://charts.jetstack.io'', ch_url = [],
                 ch_name = ''cert-manager'', ch_version = cv_version comp \<rparr>) rfn cfg w"

definition certmanager_applyDefaultValues :: "libs \<Rightarrow> chart_config option \<Rightarrow> err option \<times> chart_config option" where
  "certmanager_applyDefaultValues L cfg =
     default_values L
       [(ABool True, [''installCRDs''])] cfg"

definition certmanager_BuildSourceRepository ::
  "libs \<Rightarrow> 'w rctx \<Rightarrow> chart_config option \<Rightarrow> 'w \<Rightarrow> flux_resource gores \<times> chart_config option" where
  "certmanager_BuildSourceRepository L ctx cfg w =
     build_source L ''CertManager'' None ctx
       (certmanager_applyDefaultChartSpec (VersionResolver ctx) cfg w)"

definition certmanager_BuildManifesto ::
  "libs \<Rightarrow> 'w rctx \<Rightarrow> chart_config option \<Rightarrow> flux_resource gores \<times> chart_config option" where
  "certmanager_BuildManifesto L ctx cfg =
     build_manifesto L ''CertManager'' ''cert-manager''
       ''cert-manager'' ctx (certmanager_applyDefaultValues L cfg)"

definition certmanager_Hooks :: "'w component_hooks" where
  "certmanager_Hooks = no_hooks\<lparr>hk_pre_uninstall := Some (PreventOrphanedResources
       [(''cert-manager.io'', ''v1'', ''Certificate''),
        (''cert-manager.io'', ''v1'', ''Issuer''),
        (''cert-manager.io'', ''v1'', ''ClusterIssuer'')])\<rparr>"

section \<open>Crossplane (crossplane_component.go)\<close>

definition crossplane_GetPolicyRules :: policy_rules where
  "crossplane_GetPolicyRules = \<lparr>
     ps_admin = [
       \<lparr> pr_groups = [''pkg.crossplane.io''],
         pr_resources = [''configurations'', ''functions'', ''providers''],
         pr_verbs = VerbsAdmin \<rparr>,
       \<lparr> pr_groups = [''apiextensions.crossplane.io''],
         pr_resources = [''compositeresourcedefinitions'', ''compositions'',
                          ''environmentconfigs'', ''usages''],
         pr_verbs = VerbsAdmin \<rparr>,
       \<lparr> pr_groups = [''pkg.crossplane.io''],
         pr_resources = [''*''],
         pr_verbs = VerbsView \<rparr>,
       \<lparr> pr_groups = [''apiextensions.crossplane.io''],
         pr_resources = [''*''],
         pr_verbs = VerbsView \<rparr>] @ [
       \<lparr> pr_groups = [''pkg.crossplane.io''],
         pr_resources = [''deploymentruntimeconfigs''],
         pr_verbs = VerbsModify \<rparr>],
     ps_view = [
       \<lparr> pr_groups = [''pkg.crossplane.io''],
         pr_resources = [''*''],
         pr_verbs = VerbsView \<rparr>,
       \<lparr> pr_groups = [''apiextensions.crossplane.io''],
         pr_resources = [''*''],
         pr_verbs = VerbsView \<rparr>] \<rparr>"

definition crossplane_IsInstallable ::
  "crossplane_config option \<Rightarrow> 'w rctx \<Rightarrow> 'w \<Rightarrow> bool gores" where
  "crossplane_IsInstallable cfg ctx w = chart_installable ''crossplane'' cfg ctx w"

definition crossplane_GetAvailableVersions :: "'w rctx \<Rightarrow> 'w \<Rightarrow> string list gores" where
  "crossplane_GetAvailableVersions ctx w = chart_available ''crossplane'' ctx w"

definition crossplane_IsEnabled :: "crossplane_config option \<Rightarrow> bool" where
  "crossplane_IsEnabled cfg \<longleftrightarrow> (case cfg of None \<Rightarrow> False | Some c \<Rightarrow> cc_version c \<noteq> [])"

definition crossplane_applyDefaultChartSpec ::
  "'w version_resolver option \<Rightarrow> crossplane_config option \<Rightarrow> 'w \<Rightarrow> unit gores \<times> crossplane_config option" where
  "crossplane_applyDefaultChartSpec rfn cfg w =
     default_chart_spec zero_crossplane_config ''crossplane''
       (\<lambda>comp. \<lparr> ch_repository = cv_helm_repo comp, ch_url = [],
                 ch_name = cv_helm_chart comp, ch_version = cv_version comp \<rparr>) rfn cfg w"

definition crossplane_applyDefaultValues :: "libs \<Rightarrow> crossplane_config option \<Rightarrow> err option \<times> crossplane_config option" where
  "crossplane_applyDefaultValues L cfg =
     default_values L
       [(ABool True, [''rbacManager'', ''skipAggregatedClusterRoles''])] cfg"

definition crossplane_BuildSourceRepository ::
  "libs \<Rightarrow> 'w rctx \<Rightarrow> crossplane_config option \<Rightarrow> 'w \<Rightarrow> flux_resource gores \<times> crossplane_config option" where
  "crossplane_BuildSourceRepository L ctx cfg w =
     build_source L ''Crossplane'' (Some (1 * minute)) ctx
       (crossplane_applyDefaultChartSpec (VersionResolver ctx) cfg w)"

definition crossplane_BuildManifesto ::
  "libs \<Rightarrow> 'w rctx \<Rightarrow> crossplane_config option \<Rightarrow> flux_resource gores \<times> crossplane_config option" where
  "crossplane_BuildManifesto L ctx cfg =
     build_manifesto L ''Crossplane'' ''crossplane''
       ''crossplane-system'' ctx (crossplane_applyDefaultValues L cfg)"

definition crossplane_Hooks :: "'w component_hooks" where
  "crossplane_Hooks = no_hooks\<lparr>hk_pre_uninstall := Some (PreventOrphanedResources
       [(''pkg.crossplane.io'', ''v1'', ''Provider''),
        (''pkg.crossplane.io'', ''v1'', ''ProviderRevision'')])\<rparr>"

section \<open>ExternalSecretsOperator (eso_component.go)\<close>

definition eso_GetPolicyRules :: policy_rules where
  "eso_GetPolicyRules = \<lparr>
     ps_admin = [
       \<lparr> pr_groups = [''external-secrets.io''],
         pr_resources = [''clusterexternalsecrets'', ''clusterpushsecrets'',
                          ''clustersecretstores'', ''externalsecrets'', ''pushsecrets'',
                          ''secretstores''],
         pr_verbs = VerbsAdmin \<rparr>,
       \<lparr> pr_groups = [''generators.external-secrets.io''],
         pr_resources = [''acraccesstokens'', ''clustergenerators'', ''ecrauthorizationtokens'',
                          ''fakes'', ''gcraccesstokens'', ''generatorstates'',
                          ''githubaccesstokens'', ''grafanas'', ''passwords'',
                          ''quayaccesstokens'', ''stssessiontokens'', ''uuids'',
                          ''vaultdynamicsecrets'', ''webhooks''],
         pr_verbs = VerbsAdmin \<rparr>],
     ps_view = [
       \<lparr> pr_groups = [''external-secrets.io''],
         pr_resources = [''clusterexternalsecrets'', ''clusterpushsecrets'',
                          ''clustersecretstores'', ''externalsecrets'', ''pushsecrets'',
                          ''secretstores''],
         pr_verbs = VerbsView \<rparr>,
       \<lparr> pr_groups = [''generators.external-secrets.io''],
         pr_resources = [''acraccesstokens'', ''clustergenerators'', ''ecrauthorizationtokens'',
                          ''fakes'', ''gcraccesstokens'', ''generatorstates'',
                          ''githubaccesstokens'', ''grafanas'', ''passwords'',
                          ''quayaccesstokens'', ''stssessiontokens'', ''uuids'',
                          ''vaultdynamicsecrets'', ''webhooks''],
         pr_verbs = VerbsView \<rparr>] \<rparr>"

definition eso_IsInstallable ::
  "chart_config option \<Rightarrow> 'w rctx \<Rightarrow> 'w \<Rightarrow> bool gores" where
  "eso_IsInstallable cfg ctx w = chart_installable ''external-secrets'' cfg ctx w"

definition eso_GetAvailableVersions :: "'w rctx \<Rightarrow> 'w \<Rightarrow> string list gores" where
  "eso_GetAvailableVersions ctx w = chart_available ''external-secrets'' ctx w"

definition eso_IsEnabled :: "chart_config option \<Rightarrow> bool" where
  "eso_IsEnabled cfg \<longleftrightarrow> (case cfg of None \<Rightarrow> False | Some c \<Rightarrow> cc_version c \<noteq> [])"

definition eso_applyDefaultChartSpec ::
  "'w version_resolver option \<Rightarrow> chart_config option \<Rightarrow> 'w \<Rightarrow> unit gores \<times> chart_config option" where
  "eso_applyDefaultChartSpec rfn cfg w =
     default_chart_spec zero_chart_config ''external-secrets''
       (\<lambda>comp. \<lparr> ch_repository = ''https://charts.external-secrets.io'', ch_url = [],
                 ch_name = ''external-secrets'', ch_version = cv_version comp \<rparr>) rfn cfg w"

definition eso_BuildSourceRepository ::
  "libs \<Rightarrow> 'w rctx \<Rightarrow> chart_config option \<Rightarrow> 'w \<Rightarrow> flux_resource gores \<times> chart_config option" where
  "eso_BuildSourceRepository L ctx cfg w =
     build_source L ''ExternalSecretsOperator'' None ctx
       (eso_applyDefaultChartSpec (VersionResolver ctx) cfg w)"

definition eso_BuildManifesto ::
  "libs \<Rightarrow> 'w rctx \<Rightarrow> chart_config option \<Rightarrow> flux_resource gores \<times> chart_config option" where
  "eso_BuildManifesto L ctx cfg =
     build_manifesto L ''ExternalSecretsOperator'' ''external-secrets''
       ''external-secrets'' ctx (None, cfg)"

definition eso_Hooks :: "'w component_hooks" where
  "eso_Hooks = no_hooks\<lparr>hk_pre_uninstall := Some (PreventOrphanedResources
       [(''external-secrets.io'', ''v1beta1'', ''ExternalSecret''),
        (''external-secrets.io'', ''v1beta1'', ''SecretStore''),
        (''external-secrets.io'', ''v1beta1'', ''ClusterSecretStore'')])\<rparr>"

section \<open>Kyverno (kyverno_component.go)\<close>

definition kyverno_GetPolicyRules :: policy_rules where
  "kyverno_GetPolicyRules = \<lparr>
     ps_admin = [
       \<lparr> pr_groups = [''kyverno.io''],
         pr_resources = [''cleanuppolicies'', ''clustercleanuppolicies'', ''policies'',
                          ''clusterpolicies'', ''admissionreports'', ''clusteradmissionreports'',
                          ''backgroundscanreports'', ''clusterbackgroundscanreports'',
                          ''updaterequests''],
         pr_verbs = VerbsAdmin \<rparr>,
       \<lparr> pr_groups = [''wgpolicyk8s.io''],
         pr_resources = [''policyreports'', ''clusterpolicyreports''],
         pr_verbs = VerbsAdmin \<rparr>,
       \<lparr> pr_groups = [''reports.kyverno.io''],
         pr_resources = [''ephemeralreports'', ''clusterephemeralreports''],
         pr_verbs = VerbsAdmin \<rparr>,
       \<lparr> pr_groups = [''policies.kyverno.io''],
         pr_resources = [''validatingpolicies'', ''mutatingpolicies'', ''generatingpolicies'',
                          ''deletingpolicies'', ''imagevalidatingpolicies''],
         pr_verbs = VerbsAdmin \<rparr>],
     ps_view = [
       \<lparr> pr_groups = [''kyverno.io''],
         pr_resources = [''cleanuppolicies'', ''clustercleanuppolicies'', ''policies'',
                          ''clusterpolicies'', ''admissionreports'', ''clusteradmissionreports'',
                          ''backgroundscanreports'', ''clusterbackgroundscanreports'',
                          ''updaterequests''],
         pr_verbs = VerbsView \<rparr>,
       \<lparr> pr_groups = [''wgpolicyk8s.io''],
         pr_resources = [''policyreports'', ''clusterpolicyreports''],
         pr_verbs = VerbsView \<rparr>,
       \<lparr> pr_groups = [''reports.kyverno.io''],
         pr_resources = [''ephemeralreports'', ''clusterephemeralreports''],
         pr_verbs = VerbsView \<rparr>,
       \<lparr> pr_groups = [''policies.kyverno.io''],
         pr_resources = [''validatingpolicies'', ''mutatingpolicies'', ''generatingpolicies'',
                          ''deletingpolicies'', ''imagevalidatingpolicies''],
         pr_verbs = VerbsView \<rparr>] \<rparr>"

definition kyverno_IsInstallable ::
  "chart_config option \<Rightarrow> 'w rctx \<Rightarrow> 'w \<Rightarrow> bool gores" where
  "kyverno_IsInstallable cfg ctx w = chart_installable ''kyverno'' cfg ctx w"

definition kyverno_GetAvailableVersions :: "'w rctx \<Rightarrow> 'w \<Rightarrow> string list gores" where
  "kyverno_GetAvailableVersions ctx w = chart_available ''kyverno'' ctx w"

definition kyverno_IsEnabled :: "chart_config option \<Rightarrow> bool" where
  "kyverno_IsEnabled cfg \<longleftrightarrow> (case cfg of None \<Rightarrow> False | Some c \<Rightarrow> cc_version c \<noteq> [])"

definition kyverno_applyDefaultChartSpec ::
  "'w version_resolver option \<Rightarrow> chart_config option \<Rightarrow> 'w \<Rightarrow> unit gores \<times> chart_config option" where
  "kyverno_applyDefaultChartSpec rfn cfg w =
     default_chart_spec zero_chart_config ''kyverno''
       (\<lambda>comp. \<lparr> ch_repository = ''https://kyverno.github.io/kyverno'', ch_url = [],
                 ch_name = ''kyverno'', ch_version = cv_version comp \<rparr>) rfn cfg w"

definition kyverno_BuildSourceRepository ::
  "libs \<Rightarrow> 'w rctx \<Rightarrow> chart_config option \<Rightarrow> 'w \<Rightarrow> flux_resource gores \<times> chart_config option" where
  "kyverno_BuildSourceRepository L ctx cfg w =
     build_source L ''Kyverno'' None ctx
       (kyverno_applyDefaultChartSpec (VersionResolver ctx) cfg w)"

definition kyverno_BuildManifesto ::
  "libs \<Rightarrow> 'w rctx \<Rightarrow> chart_config option \<Rightarrow> flux_resource gores \<times> chart_config option" where
  "kyverno_BuildManifesto L ctx cfg =
     build_manifesto L ''Kyverno'' ''kyverno''
       ''kyverno-system'' ctx (None, cfg)"

definition kyverno_Hooks :: "'w component_hooks" where
  "kyverno_Hooks = no_hooks\<lparr>hk_pre_uninstall := Some (PreventOrphanedResources
       [(''kyverno.io'', ''v1'', ''ClusterPolicy''),
        (''kyverno.io'', ''v1'', ''Policy''),
        (''policies.kyverno.io'', ''v1'', ''ValidatingPolicy''),
        (''policies.kyverno.io'', ''v1'', ''MutatingPolicy''),
        (''policies.kyverno.io'', ''v1'', ''GeneratingPolicy''),
        (''policies.kyverno.io'', ''v1'', ''DeletingPolicy''),
        (''policies.kyverno.io'', ''v1'', ''ImageValidatingPolicy'')])\<rparr>"

section \<open>Flux (flux_component.go)\<close>

definition flux_GetPolicyRules :: policy_rules where
  "flux_GetPolicyRules = \<lparr>
     ps_admin = [
       \<lparr> pr_groups = [''notification.toolkit.fluxcd.io'', ''source.toolkit.fluxcd.io'',
                       ''helm.toolkit.fluxcd.io'', ''image.toolkit.fluxcd.io'',
                       ''kustomize.toolkit.fluxcd.io''],
         pr_resources = [''*''],
         pr_verbs = VerbsAdmin \<rparr>],
     ps_view = [
       \<lparr> pr_groups = [''notification.toolkit.fluxcd.io'', ''source.toolkit.fluxcd.io'',
                       ''helm.toolkit.fluxcd.io'', ''image.toolkit.fluxcd.io'',
                       ''kustomize.toolkit.fluxcd.io''],
         pr_resources = [''*''],
         pr_verbs = VerbsView \<rparr>] \<rparr>"

definition flux_IsInstallable ::
  "chart_config option \<Rightarrow> 'w rctx \<Rightarrow> 'w \<Rightarrow> bool gores" where
  "flux_IsInstallable cfg ctx w = chart_installable ''flux'' cfg ctx w"

definition flux_GetAvailableVersions :: "'w rctx \<Rightarrow> 'w \<Rightarrow> string list gores" where
  "flux_GetAvailableVersions ctx w = chart_available ''flux'' ctx w"

definition flux_IsEnabled :: "chart_config option \<Rightarrow> bool" where
  "flux_IsEnabled cfg \<longleftrightarrow> (case cfg of None \<Rightarrow> False | Some c \<Rightarrow> cc_version c \<noteq> [])"

definition flux_applyDefaultChartSpec ::
  "'w version_resolver option \<Rightarrow> chart_config option \<Rightarrow> 'w \<Rightarrow> unit gores \<times> chart_config option" where
  "flux_applyDefaultChartSpec rfn cfg w =
     default_chart_spec zero_chart_config ''flux''
       (\<lambda>comp. \<lparr> ch_repository = ''https://fluxcd-community.github.io/helm-charts'', ch_url = [],
                 ch_name = ''flux2'', ch_version = cv_version comp \<rparr>) rfn cfg w"

definition flux_BuildSourceRepository ::
  "libs \<Rightarrow> 'w rctx \<Rightarrow> chart_config option \<Rightarrow> 'w \<Rightarrow> flux_resource gores \<times> chart_config option" where
  "flux_BuildSourceRepository L ctx cfg w =
     build_source L ''Flux'' None ctx
       (flux_applyDefaultChartSpec (VersionResolver ctx) cfg w)"

definition flux_BuildManifesto ::
  "libs \<Rightarrow> 'w rctx \<Rightarrow> chart_config option \<Rightarrow> flux_resource gores \<times> chart_config option" where
  "flux_BuildManifesto L ctx cfg =
     build_manifesto L ''Flux'' ''flux''
       ''flux-system'' ctx (None, cfg)"

definition flux_Hooks :: "'w component_hooks" where
  "flux_Hooks = no_hooks\<lparr>hk_pre_uninstall := Some (PreventOrphanedResources
       [(''helm.toolkit.fluxcd.io'', ''v2'', ''HelmRelease''),
        (''kustomize.toolkit.fluxcd.io'', ''v1'', ''Kustomization'')])\<rparr>"

end
