(* ===== verification/ObjectComponents.thy ===== *)
theory ObjectComponents
  imports ChartComponents
begin

text \<open>
  \<^verbatim>\<open>pkg/controlplane/components\<close>: the components that are one object on the target
  cluster (ClusterRole, Secret, CrossplaneProvider, CrossplaneDeploymentRuntimeConfig and
  GenericObjectComponent), one group of definitions per file, prefixed with the type. A type
  assertion \<^verbatim>\<open>obj.(*T)\<close> that cannot hold is a panic.
\<close>

definition bad_assertion :: string where "bad_assertion = ''interface conversion''"

text \<open>The deletion timestamp is what decides the health of objects without a status.\<close>

definition not_deleted :: "kobj \<Rightarrow> healthiness" where
  "not_deleted ob = \<lparr> he_healthy = (om_deletion (ko_meta ob) = None), he_message = [] \<rparr>"

definition title_parts :: "libs \<Rightarrow> string \<Rightarrow> string list" where
  "title_parts L name = map (lib_title L) (split_on (CHR ''-'') name)"

section \<open>ClusterRole (clusterrole_component.go)\<close>

record cluster_role_comp =
  cro_name :: string
  cro_rules :: "policy_rule list"
  cro_enabled :: bool
  cro_keep :: bool

definition clusterrole_BuildObjectToReconcile :: "cluster_role_comp \<Rightarrow> (kobj \<times> nname) gores" where
  "clusterrole_BuildObjectToReconcile c = Ok (new_obj [] [] (BClusterRole []),
     \<lparr> nn_namespace = [], nn_name = GroupName @ '':'' @ to_lower (cro_name c) \<rparr>)"

definition clusterrole_ReconcileObject :: "libs \<Rightarrow> cluster_role_comp \<Rightarrow> kobj \<Rightarrow> kobj gores" where
  "clusterrole_ReconcileObject L c obj =
     (case ko_body obj of
        BClusterRole _ \<Rightarrow>
          (let aggregateLabel = GroupName @ ''/aggregate-to-'' @ to_lower (cro_name c)
           in Ok ((lib_set_meta_label L obj aggregateLabel ''true'')\<lparr>ko_body := BClusterRole (cro_rules c)\<rparr>))
      | _ \<Rightarrow> Panic bad_assertion)"

definition clusterrole_convert :: "kobj \<Rightarrow> cluster_role_comp" where
  "clusterrole_convert role =
     \<lparr> cro_name = trim_prefix (om_name (ko_meta role)) (GroupName @ '':''),
       cro_rules = (case ko_body role of BClusterRole rs \<Rightarrow> rs | _ \<Rightarrow> []),
       cro_enabled = False, cro_keep = False \<rparr>"

definition clusterrole_same :: "cluster_role_comp \<Rightarrow> cluster_role_comp \<Rightarrow> bool" where
  "clusterrole_same configured detected \<longleftrightarrow> equal_fold (cro_name configured) (cro_name detected)"

definition clusterrole_GetName :: "libs \<Rightarrow> cluster_role_comp \<Rightarrow> string" where
  "clusterrole_GetName L c = ''ClusterRole'' @ lib_title L (cro_name c)"

section \<open>Secret (secret_component.go)\<close>

text \<open>The source client is nil in a component that was made from a detected secret.\<close>

record 'w secret_comp =
  sc_client :: "'w client option"
  sc_source :: nname
  sc_target :: nname
  sc_enabled :: bool

definition ErrSecretTargetNamespaceEmpty :: err where
  "ErrSecretTargetNamespaceEmpty =
     Sentinel ''ErrSecretTargetNamespaceEmpty'' ''secret target namespace must not be empty''"

definition LabelCopyToCP :: string where
  "LabelCopyToCP = ''core.orchestrate.cloud.sap/copy-to-cp''"
definition LabelCopyToCPNamespace :: string where
  "LabelCopyToCPNamespace = ''core.orchestrate.cloud.sap/copy-to-cp-namespaces''"
definition LabelCopySourceName :: string where
  "LabelCopySourceName = ''core.orchestrate.cloud.sap/copy-source-name''"
definition LabelCopySourceNamespace :: string where
  "LabelCopySourceNamespace = ''core.orchestrate.cloud.sap/copy-source-namespace''"

definition empty_secret :: secret_body where
  "empty_secret = \<lparr> se_type = [], se_data = None \<rparr>"

definition zero_nname :: nname where
  "zero_nname = \<lparr> nn_namespace = [], nn_name = [] \<rparr>"

definition secret_BuildObjectToReconcile :: "'w secret_comp \<Rightarrow> (kobj \<times> nname) gores" where
  "secret_BuildObjectToReconcile s =
     (if nn_namespace (sc_target s) = [] then Err ErrSecretTargetNamespaceEmpty
      else Ok (new_obj [] [] (BSecret empty_secret),
               \<lparr> nn_namespace = nn_namespace (sc_target s), nn_name = nn_name (sc_target s) \<rparr>))"

definition secret_fill :: "libs \<Rightarrow> 'w secret_comp \<Rightarrow> secret_body \<Rightarrow> kobj \<Rightarrow> kobj gores" where
  "secret_fill L s source obj =
     (case ko_body obj of
        BSecret _ \<Rightarrow>
          (let o1 = lib_set_meta_label L obj LabelCopySourceName (nn_name (sc_source s));
               o2 = lib_set_meta_label L o1 LabelCopySourceNamespace (nn_namespace (sc_source s))
           in Ok (o2\<lparr>ko_body := BSecret \<lparr> se_type = se_type source, se_data = se_data source \<rparr>\<rparr>))
      | _ \<Rightarrow> Panic bad_assertion)"

definition secret_ReconcileObject :: "libs \<Rightarrow> 'w secret_comp \<Rightarrow> 'w \<Rightarrow> kobj \<Rightarrow> kobj gores" where
  "secret_ReconcileObject L s w obj =
     (if sc_enabled s
      then (case sc_client s of
              None \<Rightarrow> Panic nil_pointer
            | Some cl \<Rightarrow>
                (case cl_get cl KSecret (sc_source s) w of
                   Inl e \<Rightarrow> Err e
                 | Inr src \<Rightarrow>
                     (case ko_body src of
                        BSecret source \<Rightarrow> secret_fill L s source obj
                      | _ \<Rightarrow> secret_fill L s empty_secret obj)))
      else secret_fill L s empty_secret obj)"

definition secret_convert :: "kobj \<Rightarrow> 'w secret_comp" where
  "secret_convert secret = \<lparr> sc_client = None, sc_source = zero_nname, sc_target = key_of secret, sc_enabled = False \<rparr>"

definition secret_same :: "'w secret_comp \<Rightarrow> 'w secret_comp \<Rightarrow> bool" where
  "secret_same configured detected \<longleftrightarrow> sc_target configured = sc_target detected"

definition formatSecretName :: "libs \<Rightarrow> string \<Rightarrow> string" where
  "formatSecretName L name = join_with [] (''Secret'' # title_parts L name)"

section \<open>CrossplaneProvider (crossplaneprovider_component.go)\<close>

text \<open>The field PullSecrets of the Go type is never read or written.\<close>

record provider_comp =
  pvc_config :: provider_config
  pvc_enabled :: bool

definition provider_BuildObjectToReconcile :: "provider_comp \<Rightarrow> (kobj \<times> nname) gores" where
  "provider_BuildObjectToReconcile c = Ok (EmptyFromConfig (pvc_config c))"

definition provider_ReconcileObject :: "'w rctx \<Rightarrow> provider_comp \<Rightarrow> 'w \<Rightarrow> kobj \<Rightarrow> kobj gores" where
  "provider_ReconcileObject ctx c w obj =
     bind_go
       (if pvc_enabled c
        then (case VersionResolver ctx of
                None \<Rightarrow> Panic nil_pointer
              | Some versionResolveFn \<Rightarrow>
                  (case versionResolveFn (ProviderNameForProviderConfig (pvc_config c)) (pc_version (pvc_config c)) w of
                     Inl e \<Rightarrow> Err e
                   | Inr cv \<Rightarrow> Ok ((pvc_config c)\<lparr>pc_package := cv_docker_ref cv, pc_version := cv_version cv\<rparr>)))
        else Ok (pvc_config c))
       (\<lambda>copy. case ko_body obj of
                 BProvider objProvider \<Rightarrow> Ok (ReconcileProvider obj objProvider copy)
               | _ \<Rightarrow> Panic bad_assertion)"

definition zero_provider_config :: provider_config where
  "zero_provider_config = \<lparr> pc_name = [], pc_version = [], pc_package = [], pc_pull_policy = None, pc_pull_secrets = [] \<rparr>"

definition provider_convert :: "kobj \<Rightarrow> provider_comp" where
  "provider_convert provider =
     \<lparr> pvc_config = zero_provider_config\<lparr>pc_name := TrimProviderPrefix (om_name (ko_meta provider))\<rparr>,
       pvc_enabled = False \<rparr>"

definition provider_same :: "provider_comp \<Rightarrow> provider_comp \<Rightarrow> bool" where
  "provider_same configured detected \<longleftrightarrow>
     TrimProviderPrefix (pc_name (pvc_config configured)) = pc_name (pvc_config detected)"

definition provider_IsObjectHealthy :: "libs \<Rightarrow> kobj \<Rightarrow> healthiness" where
  "provider_IsObjectHealthy L obj =
     (let conds = (case ko_body obj of BProvider p \<Rightarrow> pv_conditions p | _ \<Rightarrow> []);
          installed = lib_get_condition L conds ''Installed''
      in if cond_stat installed \<noteq> CTrue
         then \<lparr> he_healthy = False,
                he_message = ''Provider installation is pending ('' @ cond_reason installed @ ''). '' @ cond_message installed \<rparr>
         else (let healthy = lib_get_condition L conds ''Healthy''
               in \<lparr> he_healthy = (cond_stat healthy = CTrue),
                    he_message = cond_reason healthy @ '': '' @ cond_message healthy \<rparr>))"

definition provider_IsInstallable :: "'w rctx \<Rightarrow> provider_comp \<Rightarrow> 'w \<Rightarrow> bool gores" where
  "provider_IsInstallable ctx c w =
     (case VersionResolver ctx of
        None \<Rightarrow> Err ErrVersionResolverNotConfigured
      | Some rfn \<Rightarrow>
          (case rfn (ProviderNameForProviderConfig (pvc_config c)) (pc_version (pvc_config c)) w of
             Inl e \<Rightarrow> Err e | Inr _ \<Rightarrow> Ok True))"

definition provider_GetAvailableVersions :: "provider_comp \<Rightarrow> 'w rctx \<Rightarrow> 'w \<Rightarrow> string list gores" where
  "provider_GetAvailableVersions c ctx w = chart_available (ProviderNameForProviderConfig (pvc_config c)) ctx w"

definition formatProviderName :: "libs \<Rightarrow> string \<Rightarrow> string" where
  "formatProviderName L providerName = join_with [] (title_parts L (AddProviderPrefix providerName))"

definition provider_Hooks :: "'w component_hooks" where
  "provider_Hooks = no_hooks\<lparr>hk_pre_install := Some (CheckIfPolicyIsInstalled Providers),
     hk_pre_update := Some (CheckIfPolicyIsInstalled Providers)\<rparr>"

section \<open>CrossplaneDeploymentRuntimeConfig (crossplanedeploymentruntimeconfig_component.go)\<close>

record drc_comp =
  dc_name :: string
  dc_enabled :: bool

definition zero_deployment_spec :: deployment_spec where
  "zero_deployment_spec = \<lparr> ds_selector = None, ds_containers = [], ds_rest = [] \<rparr>"

text \<open>An empty label selector is written as the empty string.\<close>

definition applyDeploymentTemplateDefaults :: "deployment_spec option option \<Rightarrow> deployment_spec option option" where
  "applyDeploymentTemplateDefaults input =
     (let out = (case input of None \<Rightarrow> None | Some t \<Rightarrow> t);
          spec = (case out of None \<Rightarrow> zero_deployment_spec | Some sp \<Rightarrow> sp);
          spec1 = (case ds_selector spec of None \<Rightarrow> spec\<lparr>ds_selector := Some []\<rparr> | Some _ \<Rightarrow> spec);
          spec2 = (if length (ds_containers spec1) = 0
                   then spec1\<lparr>ds_containers := [\<lparr> ct_name = ''package-runtime'', ct_args = [] \<rparr>]\<rparr> else spec1)
      in Some (Some spec2))"

definition applyServiceAccountTemplateDefaults ::
  "string option option option \<Rightarrow> string \<Rightarrow> string option option option" where
  "applyServiceAccountTemplateDefaults input providerName =
     (let out = (case input of None \<Rightarrow> None | Some t \<Rightarrow> t);
          metadata = (case out of None \<Rightarrow> None | Some m \<Rightarrow> m);
          name = (case metadata of None \<Rightarrow> Some providerName | Some n \<Rightarrow> Some n)
      in Some (Some name))"

definition drc_BuildObjectToReconcile :: "drc_comp \<Rightarrow> (kobj \<times> nname) gores" where
  "drc_BuildObjectToReconcile c =
     Ok (new_obj [] [] (BDeploymentRuntimeConfig \<lparr> dr_deployment = None, dr_service_account = None \<rparr>),
         \<lparr> nn_namespace = [], nn_name = dc_name c \<rparr>)"

definition drc_ReconcileObject :: "drc_comp \<Rightarrow> kobj \<Rightarrow> kobj gores" where
  "drc_ReconcileObject c obj =
     (case ko_body obj of
        BDeploymentRuntimeConfig d \<Rightarrow>
          Ok (obj\<lparr>ko_body := BDeploymentRuntimeConfig
            (d\<lparr>dr_service_account := applyServiceAccountTemplateDefaults (dr_service_account d) (dc_name c),
               dr_deployment := applyDeploymentTemplateDefaults (dr_deployment d)\<rparr>)\<rparr>)
      | _ \<Rightarrow> Panic bad_assertion)"

definition drc_convert :: "kobj \<Rightarrow> drc_comp" where
  "drc_convert role = \<lparr> dc_name = trim_prefix (om_name (ko_meta role)) (GroupName @ '':''), dc_enabled = False \<rparr>"

definition drc_same :: "drc_comp \<Rightarrow> drc_comp \<Rightarrow> bool" where
  "drc_same configured detected \<longleftrightarrow> equal_fold (dc_name configured) (dc_name detected)"

definition drc_GetName :: "libs \<Rightarrow> drc_comp \<Rightarrow> string" where
  "drc_GetName L c = ''DeploymentRuntimeConfig'' @ formatProviderName L (dc_name c)"

section \<open>GenericObjectComponent (generic_object_component.go)\<close>

text \<open>The function fields are closures over the source client, which reads the world.\<close>

record 'w generic_comp =
  gc_key :: nname
  gc_name_override :: string
  gc_type_override :: string
  gc_enabled :: bool
  gc_type :: kobj
  gc_healthy :: "kobj \<Rightarrow> healthiness"
  gc_reconcile :: "'w \<Rightarrow> kobj \<Rightarrow> kobj gores"
  gc_keep :: bool

fun go_type_name :: "kind \<Rightarrow> string" where
  "go_type_name KSecret = ''Secret''"
| "go_type_name KNamespace = ''Namespace''"
| "go_type_name KServiceAccount = ''ServiceAccount''"
| "go_type_name KClusterRole = ''ClusterRole''"
| "go_type_name KClusterRoleBinding = ''ClusterRoleBinding''"
| "go_type_name KProvider = ''Provider''"
| "go_type_name KDeploymentRuntimeConfig = ''DeploymentRuntimeConfig''"
| "go_type_name KPolicy = ''ValidatingAdmissionPolicy''"
| "go_type_name KPolicyBinding = ''ValidatingAdmissionPolicyBinding''"
| "go_type_name KPackageRestriction = ''CrossplanePackageRestriction''"
| "go_type_name KCRD = ''CustomResourceDefinition''"
| "go_type_name KHelmRelease = ''HelmRelease''"
| "go_type_name KHelmRepository = ''HelmRepository''"
| "go_type_name KGitRepository = ''GitRepository''"
| "go_type_name KOCIRepository = ''OCIRepository''"
| "go_type_name (KUnstructured g v k) = ''Unstructured''"

definition generic_BuildObjectToReconcile :: "'w generic_comp \<Rightarrow> (kobj \<times> nname) gores" where
  "generic_BuildObjectToReconcile g = Ok (gc_type g, gc_key g)"

definition generic_GetName :: "libs \<Rightarrow> 'w generic_comp \<Rightarrow> string" where
  "generic_GetName L g =
     (if gc_name_override g \<noteq> [] then gc_name_override g
      else (let parts = title_parts L (nn_name (gc_key g));
                typeName = (if gc_type_override g \<noteq> [] then gc_type_override g
                            else go_type_name (kind_of (gc_type g)))
            in typeName @ join_with [] parts))"

end
