(* ===== verification/Components.thy ===== *)
theory Components
  imports ObjectComponents
begin

text \<open>
  The components the operator registers, as one datatype with a constructor per Go type, and
  their implementations of the interfaces Component, FluxComponent, ObjectComponent and
  OrphanedObjectsDetector; the contracts of the frameworks are interpreted on them.
\<close>

section \<open>The component types\<close>

text \<open>The dependencies field of a generic component holds samples of component types.\<close>

datatype 'w comp =
    CBTPServiceOperator "chart_config option"
  | CCertManager "chart_config option"
  | CCrossplane "crossplane_config option"
  | CExternalSecretsOperator "chart_config option"
  | CKyverno "chart_config option"
  | CFlux "chart_config option"
  | CClusterRole cluster_role_comp
  | CSecret "'w secret_comp"
  | CProvider provider_comp
  | CDrc drc_comp
  | CGeneric "'w generic_comp" "'w comp list"

definition tBTPServiceOperator :: rtype where "tBTPServiceOperator = ''*components.BTPServiceOperator''"
definition tCertManager :: rtype where "tCertManager = ''*components.CertManager''"
definition tCrossplane :: rtype where "tCrossplane = ''*components.Crossplane''"
definition tExternalSecretsOperator :: rtype where "tExternalSecretsOperator = ''*components.ExternalSecretsOperator''"
definition tKyverno :: rtype where "tKyverno = ''*components.Kyverno''"
definition tFlux :: rtype where "tFlux = ''*components.Flux''"
definition tClusterRole :: rtype where "tClusterRole = ''*components.ClusterRole''"
definition tSecret :: rtype where "tSecret = ''*components.Secret''"
definition tProvider :: rtype where "tProvider = ''*components.CrossplaneProvider''"
definition tDrc :: rtype where "tDrc = ''*components.CrossplaneDeploymentRuntimeConfig''"
definition tGeneric :: rtype where "tGeneric = ''*components.GenericObjectComponent''"

lemmas rtype_defs [go_defs] = tBTPServiceOperator_def tCertManager_def tCrossplane_def
  tExternalSecretsOperator_def tKyverno_def tFlux_def tClusterRole_def tSecret_def
  tProvider_def tDrc_def tGeneric_def

fun comp_type :: "'w comp \<Rightarrow> rtype" where
  "comp_type (CBTPServiceOperator _) = tBTPServiceOperator"
| "comp_type (CCertManager _) = tCertManager"
| "comp_type (CCrossplane _) = tCrossplane"
| "comp_type (CExternalSecretsOperator _) = tExternalSecretsOperator"
| "comp_type (CKyverno _) = tKyverno"
| "comp_type (CFlux _) = tFlux"
| "comp_type (CClusterRole _) = tClusterRole"
| "comp_type (CSecret _) = tSecret"
| "comp_type (CProvider _) = tProvider"
| "comp_type (CDrc _) = tDrc"
| "comp_type (CGeneric _ _) = tGeneric"

section \<open>The methods that are one line\<close>

text \<open>The charts; the other methods are in \<open>ChartComponents\<close>.\<close>

definition btp_GetNamespace :: "string" where
  "btp_GetNamespace = ''sap-btp-service-operator''"

definition btp_GetName :: "string" where
  "btp_GetName = ''BTPServiceOperator''"

definition btp_GetDependencies :: "'w comp list" where
  "btp_GetDependencies = [CCertManager None]"

definition certmanager_GetNamespace :: "string" where
  "certmanager_GetNamespace = ''cert-manager''"

definition certmanager_GetName :: "string" where
  "certmanager_GetName = ''CertManager''"

definition certmanager_GetDependencies :: "'w comp list" where
  "certmanager_GetDependencies = []"

definition crossplane_GetNamespace :: "string" where
  "crossplane_GetNamespace = ''crossplane-system''"

definition crossplane_GetName :: "string" where
  "crossplane_GetName = ''Crossplane''"

definition crossplane_GetDependencies :: "'w comp list" where
  "crossplane_GetDependencies = []"

definition eso_GetNamespace :: "string" where
  "eso_GetNamespace = ''external-secrets''"

definition eso_GetName :: "string" where
  "eso_GetName = ''ExternalSecretsOperator''"

definition eso_GetDependencies :: "'w comp list" where
  "eso_GetDependencies = []"

definition kyverno_GetNamespace :: "string" where
  "kyverno_GetNamespace = ''kyverno-system''"

definition kyverno_GetName :: "string" where
  "kyverno_GetName = ''Kyverno''"

definition kyverno_GetDependencies :: "'w comp list" where
  "kyverno_GetDependencies = []"

definition flux_GetNamespace :: "string" where
  "flux_GetNamespace = ''flux-system''"

definition flux_GetName :: "string" where
  "flux_GetName = ''Flux''"

definition flux_GetDependencies :: "'w comp list" where
  "flux_GetDependencies = []"

text \<open>ClusterRole (\<^verbatim>\<open>clusterrole_component.go\<close>).\<close>

definition clusterrole_KeepOnUninstall :: "cluster_role_comp \<Rightarrow> bool" where
  "clusterrole_KeepOnUninstall c = cro_keep c"

definition clusterrole_GetDependencies :: "'w comp list" where
  "clusterrole_GetDependencies = []"

definition clusterrole_Hooks :: "'w component_hooks" where
  "clusterrole_Hooks = no_hooks"

definition clusterrole_IsInstallable :: "bool gores" where
  "clusterrole_IsInstallable = Ok True"

definition clusterrole_IsEnabled :: "cluster_role_comp \<Rightarrow> bool" where
  "clusterrole_IsEnabled c = cro_enabled c"

definition clusterrole_IsObjectHealthy :: "kobj \<Rightarrow> healthiness" where
  "clusterrole_IsObjectHealthy ob = not_deleted ob"

definition clusterrole_GetNamespace :: "string" where
  "clusterrole_GetNamespace = []"

definition clusterrole_IsStatusInternal :: "bool" where
  "clusterrole_IsStatusInternal = True"

text \<open>Secret (\<^verbatim>\<open>secret_component.go\<close>).\<close>

definition secret_GetName :: "libs \<Rightarrow> 'w secret_comp \<Rightarrow> string" where
  "secret_GetName L s = formatSecretName L (nn_name (sc_target s))"

definition secret_GetDependencies :: "'w comp list" where
  "secret_GetDependencies = []"

definition secret_Hooks :: "'w component_hooks" where
  "secret_Hooks = no_hooks"

definition secret_IsInstallable :: "bool gores" where
  "secret_IsInstallable = Ok True"

definition secret_IsEnabled :: "'w secret_comp \<Rightarrow> bool" where
  "secret_IsEnabled s = sc_enabled s"

definition secret_IsObjectHealthy :: "kobj \<Rightarrow> healthiness" where
  "secret_IsObjectHealthy ob = not_deleted ob"

definition secret_GetNamespace :: "'w secret_comp \<Rightarrow> string" where
  "secret_GetNamespace s = nn_namespace (sc_target s)"

definition secret_IsStatusInternal :: "bool" where
  "secret_IsStatusInternal = True"

text \<open>CrossplaneProvider (\<^verbatim>\<open>crossplaneprovider_component.go\<close>).\<close>

definition provider_GetName :: "libs \<Rightarrow> provider_comp \<Rightarrow> string" where
  "provider_GetName L c = formatProviderName L (pc_name (pvc_config c))"

definition provider_GetDependencies :: "'w comp list" where
  "provider_GetDependencies = [CCrossplane None]"

definition provider_IsEnabled :: "provider_comp \<Rightarrow> bool" where
  "provider_IsEnabled c = pvc_enabled c"

definition provider_GetNamespace :: "string" where
  "provider_GetNamespace = ''crossplane-system''"

text \<open>CrossplaneDeploymentRuntimeConfig (\<^verbatim>\<open>crossplanedeploymentruntimeconfig_component.go\<close>).\<close>

definition drc_GetDependencies :: "'w comp list" where
  "drc_GetDependencies = [CCrossplane None]"

definition drc_Hooks :: "'w component_hooks" where
  "drc_Hooks = no_hooks\<lparr>hk_pre_install := Some (CheckIfPolicyIsInstalled Providers),
     hk_pre_update := Some (CheckIfPolicyIsInstalled Providers)\<rparr>"

definition drc_IsInstallable :: "bool gores" where
  "drc_IsInstallable = Ok True"

definition drc_IsEnabled :: "drc_comp \<Rightarrow> bool" where
  "drc_IsEnabled c = dc_enabled c"

definition drc_IsObjectHealthy :: "kobj \<Rightarrow> healthiness" where
  "drc_IsObjectHealthy ob = \<lparr> he_healthy = True, he_message = ''DeploymentRuntimeConfig applied'' \<rparr>"

definition drc_GetNamespace :: "string" where
  "drc_GetNamespace = []"

definition drc_IsStatusInternal :: "bool" where
  "drc_IsStatusInternal = True"

text \<open>GenericObjectComponent (\<^verbatim>\<open>generic_object_component.go\<close>).\<close>

definition generic_GetDependencies :: "'w comp list \<Rightarrow> 'w comp list" where
  "generic_GetDependencies deps = deps"

definition generic_ReconcileObject :: "'w generic_comp \<Rightarrow> 'w \<Rightarrow> kobj \<Rightarrow> kobj gores" where
  "generic_ReconcileObject g w ob = gc_reconcile g w ob"

definition generic_IsObjectHealthy :: "'w generic_comp \<Rightarrow> kobj \<Rightarrow> healthiness" where
  "generic_IsObjectHealthy g ob = gc_healthy g ob"

definition generic_KeepOnUninstall :: "'w generic_comp \<Rightarrow> bool" where
  "generic_KeepOnUninstall g = gc_keep g"

definition generic_Hooks :: "'w component_hooks" where
  "generic_Hooks = no_hooks"

definition generic_IsInstallable :: "bool gores" where
  "generic_IsInstallable = Ok True"

definition generic_IsEnabled :: "'w generic_comp \<Rightarrow> bool" where
  "generic_IsEnabled g = gc_enabled g"

definition generic_GetNamespace :: "'w generic_comp \<Rightarrow> string" where
  "generic_GetNamespace g = nn_namespace (gc_key g)"

definition generic_IsStatusInternal :: "bool" where
  "generic_IsStatusInternal = True"

lemmas comp_method_defs [simp] =
  btp_GetNamespace_def btp_GetName_def btp_GetDependencies_def certmanager_GetNamespace_def
  certmanager_GetName_def certmanager_GetDependencies_def crossplane_GetNamespace_def
  crossplane_GetName_def crossplane_GetDependencies_def eso_GetNamespace_def eso_GetName_def
  eso_GetDependencies_def kyverno_GetNamespace_def kyverno_GetName_def kyverno_GetDependencies_def
  flux_GetNamespace_def flux_GetName_def flux_GetDependencies_def clusterrole_KeepOnUninstall_def
  clusterrole_GetDependencies_def clusterrole_Hooks_def clusterrole_IsInstallable_def
  clusterrole_IsEnabled_def clusterrole_IsObjectHealthy_def clusterrole_GetNamespace_def
  clusterrole_IsStatusInternal_def secret_GetName_def secret_GetDependencies_def secret_Hooks_def
  secret_IsInstallable_def secret_IsEnabled_def secret_IsObjectHealthy_def secret_GetNamespace_def
  secret_IsStatusInternal_def provider_GetName_def provider_GetDependencies_def
  provider_IsEnabled_def provider_GetNamespace_def drc_GetDependencies_def drc_Hooks_def
  drc_IsInstallable_def drc_IsEnabled_def drc_IsObjectHealthy_def drc_GetNamespace_def
  drc_IsStatusInternal_def generic_GetDependencies_def generic_ReconcileObject_def
  generic_IsObjectHealthy_def generic_KeepOnUninstall_def generic_Hooks_def
  generic_IsInstallable_def generic_IsEnabled_def generic_GetNamespace_def
  generic_IsStatusInternal_def

section \<open>Component\<close>

fun comp_name :: "libs \<Rightarrow> 'w comp \<Rightarrow> string" where
  "comp_name L (CBTPServiceOperator _) = btp_GetName"
| "comp_name L (CCertManager _) = certmanager_GetName"
| "comp_name L (CCrossplane _) = crossplane_GetName"
| "comp_name L (CExternalSecretsOperator _) = eso_GetName"
| "comp_name L (CKyverno _) = kyverno_GetName"
| "comp_name L (CFlux _) = flux_GetName"
| "comp_name L (CClusterRole c) = clusterrole_GetName L c"
| "comp_name L (CSecret s) = secret_GetName L s"
| "comp_name L (CProvider c) = provider_GetName L c"
| "comp_name L (CDrc c) = drc_GetName L c"
| "comp_name L (CGeneric g _) = generic_GetName L g"

fun comp_dependencies :: "'w comp \<Rightarrow> 'w comp list" where
  "comp_dependencies (CBTPServiceOperator _) = btp_GetDependencies"
| "comp_dependencies (CCertManager _) = certmanager_GetDependencies"
| "comp_dependencies (CCrossplane _) = crossplane_GetDependencies"
| "comp_dependencies (CExternalSecretsOperator _) = eso_GetDependencies"
| "comp_dependencies (CKyverno _) = kyverno_GetDependencies"
| "comp_dependencies (CFlux _) = flux_GetDependencies"
| "comp_dependencies (CClusterRole _) = clusterrole_GetDependencies"
| "comp_dependencies (CSecret _) = secret_GetDependencies"
| "comp_dependencies (CProvider _) = provider_GetDependencies"
| "comp_dependencies (CDrc _) = drc_GetDependencies"
| "comp_dependencies (CGeneric _ deps) = generic_GetDependencies deps"

fun comp_enabled :: "'w comp \<Rightarrow> bool" where
  "comp_enabled (CBTPServiceOperator c) = btp_IsEnabled c"
| "comp_enabled (CCertManager c) = certmanager_IsEnabled c"
| "comp_enabled (CCrossplane c) = crossplane_IsEnabled c"
| "comp_enabled (CExternalSecretsOperator c) = eso_IsEnabled c"
| "comp_enabled (CKyverno c) = kyverno_IsEnabled c"
| "comp_enabled (CFlux c) = flux_IsEnabled c"
| "comp_enabled (CClusterRole c) = clusterrole_IsEnabled c"
| "comp_enabled (CSecret s) = secret_IsEnabled s"
| "comp_enabled (CProvider c) = provider_IsEnabled c"
| "comp_enabled (CDrc c) = drc_IsEnabled c"
| "comp_enabled (CGeneric g _) = generic_IsEnabled g"

fun comp_hooks :: "'w comp \<Rightarrow> 'w component_hooks" where
  "comp_hooks (CBTPServiceOperator _) = btp_Hooks"
| "comp_hooks (CCertManager _) = certmanager_Hooks"
| "comp_hooks (CCrossplane _) = crossplane_Hooks"
| "comp_hooks (CExternalSecretsOperator _) = eso_Hooks"
| "comp_hooks (CKyverno _) = kyverno_Hooks"
| "comp_hooks (CFlux _) = flux_Hooks"
| "comp_hooks (CClusterRole _) = clusterrole_Hooks"
| "comp_hooks (CSecret _) = secret_Hooks"
| "comp_hooks (CProvider _) = provider_Hooks"
| "comp_hooks (CDrc _) = drc_Hooks"
| "comp_hooks (CGeneric _ _) = generic_Hooks"

fun comp_installable :: "'w rctx \<Rightarrow> 'w comp \<Rightarrow> 'w \<Rightarrow> bool gores" where
  "comp_installable ctx (CBTPServiceOperator c) w = btp_IsInstallable c ctx w"
| "comp_installable ctx (CCertManager c) w = certmanager_IsInstallable c ctx w"
| "comp_installable ctx (CCrossplane c) w = crossplane_IsInstallable c ctx w"
| "comp_installable ctx (CExternalSecretsOperator c) w = eso_IsInstallable c ctx w"
| "comp_installable ctx (CKyverno c) w = kyverno_IsInstallable c ctx w"
| "comp_installable ctx (CFlux c) w = flux_IsInstallable c ctx w"
| "comp_installable ctx (CClusterRole _) w = clusterrole_IsInstallable"
| "comp_installable ctx (CSecret _) w = secret_IsInstallable"
| "comp_installable ctx (CProvider c) w = provider_IsInstallable ctx c w"
| "comp_installable ctx (CDrc _) w = drc_IsInstallable"
| "comp_installable ctx (CGeneric _ _) w = generic_IsInstallable"

text \<open>StatusVisibility, KeepOnUninstall and VersionedComponent are optional interfaces.\<close>

fun comp_internal :: "'w comp \<Rightarrow> bool option" where
  "comp_internal (CClusterRole _) = Some clusterrole_IsStatusInternal"
| "comp_internal (CSecret _) = Some secret_IsStatusInternal"
| "comp_internal (CDrc _) = Some drc_IsStatusInternal"
| "comp_internal (CGeneric _ _) = Some generic_IsStatusInternal"
| "comp_internal _ = None"

fun comp_keep :: "'w comp \<Rightarrow> bool option" where
  "comp_keep (CClusterRole c) = Some (clusterrole_KeepOnUninstall c)"
| "comp_keep (CGeneric g _) = Some (generic_KeepOnUninstall g)"
| "comp_keep _ = None"

fun comp_versions :: "'w comp \<Rightarrow> ('w rctx \<Rightarrow> 'w \<Rightarrow> string list gores) option" where
  "comp_versions (CBTPServiceOperator _) = Some btp_GetAvailableVersions"
| "comp_versions (CCertManager _) = Some certmanager_GetAvailableVersions"
| "comp_versions (CCrossplane _) = Some crossplane_GetAvailableVersions"
| "comp_versions (CExternalSecretsOperator _) = Some eso_GetAvailableVersions"
| "comp_versions (CKyverno _) = Some kyverno_GetAvailableVersions"
| "comp_versions (CFlux _) = Some flux_GetAvailableVersions"
| "comp_versions (CProvider c) = Some (provider_GetAvailableVersions c)"
| "comp_versions _ = None"

definition operator_iface :: "libs \<Rightarrow> ('w comp, 'w) component_iface" where
  "operator_iface L = \<lparr> ci_type = comp_type, ci_name = comp_name L, ci_dependencies = comp_dependencies,
     ci_enabled = comp_enabled, ci_hooks = comp_hooks, ci_installable = comp_installable,
     ci_status_internal = comp_internal, ci_keep_on_uninstall = comp_keep,
     ci_available_versions = comp_versions \<rparr>"

text \<open>TargetComponent: where a component says it lives on the target.\<close>

fun comp_namespace :: "'w comp \<Rightarrow> string" where
  "comp_namespace (CBTPServiceOperator _) = btp_GetNamespace"
| "comp_namespace (CCertManager _) = certmanager_GetNamespace"
| "comp_namespace (CCrossplane _) = crossplane_GetNamespace"
| "comp_namespace (CExternalSecretsOperator _) = eso_GetNamespace"
| "comp_namespace (CKyverno _) = kyverno_GetNamespace"
| "comp_namespace (CFlux _) = flux_GetNamespace"
| "comp_namespace (CClusterRole _) = clusterrole_GetNamespace"
| "comp_namespace (CSecret s) = secret_GetNamespace s"
| "comp_namespace (CProvider _) = provider_GetNamespace"
| "comp_namespace (CDrc _) = drc_GetNamespace"
| "comp_namespace (CGeneric g _) = generic_GetNamespace g"

section \<open>FluxComponent\<close>

fun comp_is_flux :: "'w comp \<Rightarrow> bool" where
  "comp_is_flux (CBTPServiceOperator _) = True"
| "comp_is_flux (CCertManager _) = True"
| "comp_is_flux (CCrossplane _) = True"
| "comp_is_flux (CExternalSecretsOperator _) = True"
| "comp_is_flux (CKyverno _) = True"
| "comp_is_flux (CFlux _) = True"
| "comp_is_flux _ = False"

fun comp_source :: "libs \<Rightarrow> ('w comp, 'w) builder" where
  "comp_source L ctx (CBTPServiceOperator c) w = map_prod id CBTPServiceOperator (btp_BuildSourceRepository L ctx c w)"
| "comp_source L ctx (CCertManager c) w = map_prod id CCertManager (certmanager_BuildSourceRepository L ctx c w)"
| "comp_source L ctx (CCrossplane c) w = map_prod id CCrossplane (crossplane_BuildSourceRepository L ctx c w)"
| "comp_source L ctx (CExternalSecretsOperator c) w = map_prod id CExternalSecretsOperator (eso_BuildSourceRepository L ctx c w)"
| "comp_source L ctx (CKyverno c) w = map_prod id CKyverno (kyverno_BuildSourceRepository L ctx c w)"
| "comp_source L ctx (CFlux c) w = map_prod id CFlux (flux_BuildSourceRepository L ctx c w)"
| "comp_source L ctx c w = (Panic bad_assertion, c)"

fun comp_manifesto :: "libs \<Rightarrow> ('w comp, 'w) builder" where
  "comp_manifesto L ctx (CBTPServiceOperator c) w = map_prod id CBTPServiceOperator (btp_BuildManifesto L ctx c)"
| "comp_manifesto L ctx (CCertManager c) w = map_prod id CCertManager (certmanager_BuildManifesto L ctx c)"
| "comp_manifesto L ctx (CCrossplane c) w = map_prod id CCrossplane (crossplane_BuildManifesto L ctx c)"
| "comp_manifesto L ctx (CExternalSecretsOperator c) w = map_prod id CExternalSecretsOperator (eso_BuildManifesto L ctx c)"
| "comp_manifesto L ctx (CKyverno c) w = map_prod id CKyverno (kyverno_BuildManifesto L ctx c)"
| "comp_manifesto L ctx (CFlux c) w = map_prod id CFlux (flux_BuildManifesto L ctx c)"
| "comp_manifesto L ctx c w = (Panic bad_assertion, c)"

definition operator_flux :: "libs \<Rightarrow> ('w comp, 'w) flux_iface" where
  "operator_flux L = \<lparr> fi_is_flux = comp_is_flux, fi_source = comp_source L, fi_manifesto = comp_manifesto L \<rparr>"

section \<open>ObjectComponent and OrphanedObjectsDetector\<close>

fun comp_is_object :: "'w comp \<Rightarrow> bool" where
  "comp_is_object (CClusterRole _) = True"
| "comp_is_object (CSecret _) = True"
| "comp_is_object (CProvider _) = True"
| "comp_is_object (CDrc _) = True"
| "comp_is_object (CGeneric _ _) = True"
| "comp_is_object _ = False"

fun comp_build :: "'w rctx \<Rightarrow> 'w comp \<Rightarrow> (kobj \<times> nname) gores" where
  "comp_build ctx (CClusterRole c) = clusterrole_BuildObjectToReconcile c"
| "comp_build ctx (CSecret s) = secret_BuildObjectToReconcile s"
| "comp_build ctx (CProvider c) = provider_BuildObjectToReconcile c"
| "comp_build ctx (CDrc c) = drc_BuildObjectToReconcile c"
| "comp_build ctx (CGeneric g _) = generic_BuildObjectToReconcile g"
| "comp_build ctx _ = Panic bad_assertion"

fun comp_reconcile :: "libs \<Rightarrow> 'w rctx \<Rightarrow> 'w comp \<Rightarrow> 'w \<Rightarrow> kobj \<Rightarrow> kobj gores" where
  "comp_reconcile L ctx (CClusterRole c) w ob = clusterrole_ReconcileObject L c ob"
| "comp_reconcile L ctx (CSecret s) w ob = secret_ReconcileObject L s w ob"
| "comp_reconcile L ctx (CProvider c) w ob = provider_ReconcileObject ctx c w ob"
| "comp_reconcile L ctx (CDrc c) w ob = drc_ReconcileObject c ob"
| "comp_reconcile L ctx (CGeneric g _) w ob = generic_ReconcileObject g w ob"
| "comp_reconcile L ctx _ w ob = Panic bad_assertion"

fun comp_healthy :: "libs \<Rightarrow> 'w comp \<Rightarrow> kobj \<Rightarrow> healthiness" where
  "comp_healthy L (CClusterRole _) ob = clusterrole_IsObjectHealthy ob"
| "comp_healthy L (CSecret _) ob = secret_IsObjectHealthy ob"
| "comp_healthy L (CProvider c) ob = provider_IsObjectHealthy L ob"
| "comp_healthy L (CDrc _) ob = drc_IsObjectHealthy ob"
| "comp_healthy L (CGeneric g _) ob = generic_IsObjectHealthy g ob"
| "comp_healthy L _ ob = zero_healthiness"

fun comp_same :: "'w comp \<Rightarrow> 'w comp \<Rightarrow> bool" where
  "comp_same (CClusterRole c) (CClusterRole d) = clusterrole_same c d"
| "comp_same (CSecret c) (CSecret d) = secret_same c d"
| "comp_same (CProvider c) (CProvider d) = provider_same c d"
| "comp_same (CDrc c) (CDrc d) = drc_same c d"
| "comp_same _ _ = False"

text \<open>
  \<^verbatim>\<open>OrphanDetectorContext\<close> is called on the nil value of a type; the generic component
  does not implement it.
\<close>

definition detector_for :: "kind \<Rightarrow> (kobj \<Rightarrow> 'w comp) \<Rightarrow> 'w comp detector_context" where
  "detector_for k convert = \<lparr> dc_filter = [IsManaged, HasComponentLabel], dc_convert = map convert,
     dc_same = comp_same, dc_list_type = k \<rparr>"

definition comp_detector :: "rtype \<Rightarrow> 'w comp detector_context option" where
  "comp_detector t =
     (if t = tClusterRole then Some (detector_for KClusterRole (\<lambda>ob. CClusterRole (clusterrole_convert ob)))
      else if t = tSecret then Some (detector_for KSecret (\<lambda>ob. CSecret (secret_convert ob)))
      else if t = tProvider then Some (detector_for KProvider (\<lambda>ob. CProvider (provider_convert ob)))
      else if t = tDrc then Some (detector_for KDeploymentRuntimeConfig (\<lambda>ob. CDrc (drc_convert ob)))
      else None)"

definition operator_object :: "libs \<Rightarrow> ('w comp, 'w) object_iface" where
  "operator_object L = \<lparr> oi_is_object = comp_is_object, oi_build = comp_build,
     oi_reconcile = comp_reconcile L, oi_healthy = comp_healthy L, oi_detector = comp_detector \<rparr>"

lemma operator_iface_simps [simp]:
  "ci_type (operator_iface L) = comp_type" "ci_name (operator_iface L) = comp_name L"
  "ci_dependencies (operator_iface L) = comp_dependencies" "ci_enabled (operator_iface L) = comp_enabled"
  "ci_hooks (operator_iface L) = comp_hooks" "ci_installable (operator_iface L) = comp_installable"
  "ci_status_internal (operator_iface L) = comp_internal" "ci_keep_on_uninstall (operator_iface L) = comp_keep"
  "ci_available_versions (operator_iface L) = comp_versions"
  "fi_is_flux (operator_flux L) = comp_is_flux" "fi_source (operator_flux L) = comp_source L"
  "fi_manifesto (operator_flux L) = comp_manifesto L"
  "oi_is_object (operator_object L) = comp_is_object" "oi_build (operator_object L) = comp_build"
  "oi_reconcile (operator_object L) = comp_reconcile L" "oi_healthy (operator_object L) = comp_healthy L"
  "oi_detector (operator_object L) = comp_detector"
  by (simp_all add: operator_iface_def operator_flux_def operator_object_def)

end
