(* ===== verification/ComponentLaws.thy ===== *)
theory ComponentLaws
  imports Components
begin

text \<open>
  Laws of the components: the frameworks' contracts interpreted on the operator's component
  types and reconcilers, the charts that are built, the policy rules, the defaults of runtime
  configurations and the detection of orphans per type.
\<close>

section \<open>Building keeps a component's identity\<close>

definition chart_on :: "'a chart_config_scheme option \<Rightarrow> bool" where
  "chart_on cfg \<longleftrightarrow> (case cfg of None \<Rightarrow> False | Some c \<Rightarrow> cc_version c \<noteq> [])"

lemma IsEnabled_chart_on:
  "btp_IsEnabled = chart_on" "certmanager_IsEnabled = chart_on" "crossplane_IsEnabled = chart_on"
  "eso_IsEnabled = chart_on" "kyverno_IsEnabled = chart_on" "flux_IsEnabled = chart_on"
  by (simp_all add: fun_eq_iff chart_on_def btp_IsEnabled_def certmanager_IsEnabled_def
        crossplane_IsEnabled_def eso_IsEnabled_def kyverno_IsEnabled_def flux_IsEnabled_def)

lemma chart_on_default_spec:
  "cc_version zero = [] \<Longrightarrow> chart_on (snd (default_chart_spec zero release f rfn cfg w)) = chart_on cfg"
  by (auto simp: default_chart_spec_def Let_def chart_on_def split: option.splits)

lemma chart_on_default_values: "chart_on (snd (default_values L ds cfg)) = chart_on cfg"
  by (auto simp: default_values_def chart_on_def split: option.splits sum.splits prod.splits)

lemma snd_build_source [simp]: "snd (build_source L name t ctx d) = snd d"
  by (simp add: build_source_def split: prod.splits)

lemma snd_build_manifesto [simp]: "snd (build_manifesto L name rel ns ctx d) = snd d"
  by (simp add: build_manifesto_def split: prod.splits option.splits)

lemma zero_versions [simp]: "cc_version zero_chart_config = []" "cc_version zero_crossplane_config = []"
  by (simp_all add: zero_chart_config_def zero_crossplane_config_def)

lemmas source_defs =
  btp_BuildSourceRepository_def certmanager_BuildSourceRepository_def crossplane_BuildSourceRepository_def
  eso_BuildSourceRepository_def kyverno_BuildSourceRepository_def flux_BuildSourceRepository_def

lemmas chart_spec_defs =
  btp_applyDefaultChartSpec_def certmanager_applyDefaultChartSpec_def crossplane_applyDefaultChartSpec_def
  eso_applyDefaultChartSpec_def kyverno_applyDefaultChartSpec_def flux_applyDefaultChartSpec_def

lemmas manifesto_defs =
  btp_BuildManifesto_def certmanager_BuildManifesto_def crossplane_BuildManifesto_def
  eso_BuildManifesto_def kyverno_BuildManifesto_def flux_BuildManifesto_def

lemmas chart_values_defs =
  btp_applyDefaultValues_def certmanager_applyDefaultValues_def crossplane_applyDefaultValues_def

lemma chart_on_source:
  "chart_on (snd (btp_BuildSourceRepository L ctx c w)) = chart_on c"
  "chart_on (snd (certmanager_BuildSourceRepository L ctx c w)) = chart_on c"
  "chart_on (snd (crossplane_BuildSourceRepository L ctx xc w)) = chart_on xc"
  "chart_on (snd (eso_BuildSourceRepository L ctx c w)) = chart_on c"
  "chart_on (snd (kyverno_BuildSourceRepository L ctx c w)) = chart_on c"
  "chart_on (snd (flux_BuildSourceRepository L ctx c w)) = chart_on c"
  by (simp_all add: source_defs chart_spec_defs chart_on_default_spec)

lemma chart_on_manifesto:
  "chart_on (snd (btp_BuildManifesto L ctx c)) = chart_on c"
  "chart_on (snd (certmanager_BuildManifesto L ctx c)) = chart_on c"
  "chart_on (snd (crossplane_BuildManifesto L ctx xc)) = chart_on xc"
  "chart_on (snd (eso_BuildManifesto L ctx c)) = chart_on c"
  "chart_on (snd (kyverno_BuildManifesto L ctx c)) = chart_on c"
  "chart_on (snd (flux_BuildManifesto L ctx c)) = chart_on c"
  by (simp_all add: manifesto_defs chart_values_defs chart_on_default_values)

lemmas same_chart = same_component_def IsEnabled_chart_on chart_on_source chart_on_manifesto

lemma comp_source_same: "same_component (operator_iface L) c (snd (comp_source L ctx c w))"
  by (cases c) (simp_all add: same_chart)

lemma comp_manifesto_same: "same_component (operator_iface L) c (snd (comp_manifesto L ctx c w))"
  by (cases c) (simp_all add: same_chart)

lemma no_hooks_pure [simp]: "pure_hooks no_hooks"
  by (simp add: pure_hooks_def pure_hook_def no_hooks_def)

lemma uninstall_hooks_pure [simp]: "pure_hooks (no_hooks\<lparr>hk_pre_uninstall := Some (PreventOrphanedResources gs)\<rparr>)"
  by (simp add: pure_hooks_def pure_hook_def no_hooks_def)

lemma comp_hooks_pure: "pure_hooks (comp_hooks c)"
  by (cases c)
     (simp_all add: btp_Hooks_def certmanager_Hooks_def crossplane_Hooks_def eso_Hooks_def kyverno_Hooks_def
        flux_Hooks_def, simp_all add: provider_Hooks_def pure_hooks_def pure_hook_def no_hooks_def)

interpretation chart: flux_component_laws "operator_iface L" "operator_flux L" for L
proof
  show "fi_source (operator_flux L) ctx c w = (rs, c') \<Longrightarrow> same_component (operator_iface L) c c'" for ctx c w rs c'
    using comp_source_same [of L c ctx w] by simp
  show "fi_manifesto (operator_flux L) ctx c w = (rs, c') \<Longrightarrow> same_component (operator_iface L) c c'" for ctx c w rs c'
    using comp_manifesto_same [of L c ctx w] by simp
  show "pure_hooks (ci_hooks (operator_iface L) c)" for c
    by (simp add: comp_hooks_pure)
qed

section \<open>The operator's reconcilers\<close>

text \<open>
  The two reconcilers of \<^verbatim>\<open>registerReconcilers\<close> (controlplane_controller.go) with the types
  registered with them. The sample components are nil-valued in Go; only their type is read.
\<close>

definition flux_samples :: "'w comp list" where
  "flux_samples = [CBTPServiceOperator None, CCertManager None, CCrossplane None,
     CExternalSecretsOperator None, CFlux None, CKyverno None]"

definition zero_generic :: "'w generic_comp" where
  "zero_generic = \<lparr> gc_key = zero_nname, gc_name_override = [], gc_type_override = [], gc_enabled = False,
     gc_type = new_obj [] [] BNamespace, gc_healthy = (\<lambda>_. zero_healthiness),
     gc_reconcile = (\<lambda>_ _. Panic nil_pointer), gc_keep = False \<rparr>"

definition object_samples :: "'w comp list" where
  "object_samples = [
     CClusterRole \<lparr> cro_name = [], cro_rules = [], cro_enabled = False, cro_keep = False \<rparr>,
     CProvider \<lparr> pvc_config = zero_provider_config, pvc_enabled = False \<rparr>,
     CDrc \<lparr> dc_name = [], dc_enabled = False \<rparr>,
     CSecret \<lparr> sc_client = None, sc_source = zero_nname, sc_target = zero_nname, sc_enabled = False \<rparr>,
     CGeneric zero_generic []]"

definition operator_flux_reconciler :: "libs \<Rightarrow> 'w client \<Rightarrow> 'w client \<Rightarrow> ('w comp, 'w) reconciler" where
  "operator_flux_reconciler L localClient remoteClient =
     (let I = operator_iface L
      in as_flux_reconciler L I (operator_flux L)
           (flux_RegisterType I (NewFluxReconciler I localClient remoteClient LabelComponentName) flux_samples))"

definition operator_object_reconciler :: "libs \<Rightarrow> 'w client \<Rightarrow> ('w comp, 'w) reconciler" where
  "operator_object_reconciler L remoteClient =
     (let I = operator_iface L
      in as_object_reconciler I (operator_object L)
           (object_RegisterType I (NewReconciler I remoteClient LabelComponentName) object_samples))"

definition registerReconcilers ::
  "libs \<Rightarrow> 'w client \<Rightarrow> 'w client \<Rightarrow> ('w comp, 'w) juggler \<Rightarrow> ('w comp, 'w) juggler" where
  "registerReconcilers L localClient remoteClient j =
     RegisterReconciler
       (RegisterReconciler j [operator_flux_reconciler L localClient remoteClient])
       [operator_object_reconciler L remoteClient]"

definition operator_reconcilers :: "libs \<Rightarrow> 'w client \<Rightarrow> 'w client \<Rightarrow> ('w comp, 'w) reconciler list" where
  "operator_reconcilers L lc rc = [operator_flux_reconciler L lc rc, operator_object_reconciler L rc]"

lemma flux_known:
  "rk_known_types (operator_flux_reconciler L lc rc)
     = [tKyverno, tFlux, tExternalSecretsOperator, tCrossplane, tCertManager, tBTPServiceOperator]"
  by (simp add: operator_flux_reconciler_def as_flux_reconciler_def flux_RegisterType_def flux_samples_def
        NewFluxReconciler_def Let_def rtype_defs)

lemma object_known:
  "rk_known_types (operator_object_reconciler L rc) = [tGeneric, tSecret, tDrc, tProvider, tClusterRole]"
  by (simp add: operator_object_reconciler_def as_object_reconciler_def object_RegisterType_def object_samples_def
        NewReconciler_def Let_def rtype_defs)

lemma findReconcilerFor_operator:
  "findReconcilerFor (operator_iface L) (operator_reconcilers L lc rc) c
     = Inr (if comp_is_flux c then operator_flux_reconciler L lc rc else operator_object_reconciler L rc)"
  by (cases c)
     (simp_all add: findReconcilerFor_ref reconciler_matches_def operator_reconcilers_def flux_known object_known rtype_defs)

lemma registered_reconcilers [simp]:
  "jg_reconcilers (registerReconcilers L lc rc \<lparr> jg_components = cs, jg_reconcilers = [] \<rparr>) = operator_reconcilers L lc rc"
  "jg_components (registerReconcilers L lc rc j) = jg_components j"
  by (simp_all add: registerReconcilers_def RegisterReconciler_def operator_reconcilers_def)

text \<open>
  Every component the operator can register is served by exactly one of its two
  reconcilers: the chart components by the Flux reconciler, all others by the object
  reconciler; the no-reconciler and the too-many-reconcilers errors cannot occur.
\<close>

theorem operator_reconciler_total:
  "findReconcilerFor (operator_iface L)
      (jg_reconcilers (registerReconcilers L lc rc \<lparr> jg_components = cs, jg_reconcilers = [] \<rparr>)) c
     = Inr (if comp_is_flux c then operator_flux_reconciler L lc rc else operator_object_reconciler L rc)"
  by (simp add: findReconcilerFor_operator)

lemma object_Observe_keeps: "object_Observe J r ctx c w = (res, c', w') \<Longrightarrow> c' = c \<and> w' = w"
  by (auto simp: object_Observe_def split: gores_of.splits sum.splits if_splits)

lemma object_ops_keep:
  "object_Uninstall J r ctx c w = (res, c', w') \<Longrightarrow> c' = c"
  "applyObject J r ctx c w = (res, c', w') \<Longrightarrow> c' = c"
  by (auto simp: object_Uninstall_def applyObject_def split: gores_of.splits if_splits prod.splits)

lemma hook_keeps:
  assumes "run_hook h cl c w = (res, c', w')"
    "h \<in> {hk_pre_uninstall (comp_hooks c), hk_pre_install (comp_hooks c), hk_pre_update (comp_hooks c)}"
  shows "same_component (operator_iface L) c c' \<and> w' = w"
  using chart.flux_hook_keeps [OF assms(1)] assms(2) by simp

lemma reconciler_fields:
  "rk_observe (as_flux_reconciler L I F r) = flux_Observe L F r"
  "rk_uninstall (as_flux_reconciler L I F r) = flux_Uninstall F r"
  "rk_install (as_flux_reconciler L I F r) = flux_installOrUpdate F r"
  "rk_update (as_flux_reconciler L I F r) = flux_installOrUpdate F r"
  "rk_observe (as_object_reconciler I J ro) = object_Observe J ro"
  "rk_uninstall (as_object_reconciler I J ro) = object_Uninstall J ro"
  "rk_install (as_object_reconciler I J ro) = applyObject J ro"
  "rk_update (as_object_reconciler I J ro) = applyObject J ro"
  "rk_pre_uninstall (as_flux_reconciler L I F r) ctx c w = run_hook (hk_pre_uninstall (ci_hooks I c)) (fr_remote r) c w"
  "rk_pre_install (as_flux_reconciler L I F r) ctx c w = run_hook (hk_pre_install (ci_hooks I c)) (fr_remote r) c w"
  "rk_pre_update (as_flux_reconciler L I F r) ctx c w = run_hook (hk_pre_update (ci_hooks I c)) (fr_remote r) c w"
  "rk_pre_uninstall (as_object_reconciler I J ro) ctx c w = run_hook (hk_pre_uninstall (ci_hooks I c)) (or_remote ro) c w"
  "rk_pre_install (as_object_reconciler I J ro) ctx c w = run_hook (hk_pre_install (ci_hooks I c)) (or_remote ro) c w"
  "rk_pre_update (as_object_reconciler I J ro) ctx c w = run_hook (hk_pre_update (ci_hooks I c)) (or_remote ro) c w"
  by (simp_all add: as_flux_reconciler_def as_object_reconciler_def)

interpretation op: reconciler_contract "operator_iface L" "operator_reconcilers L lc rc" for L lc rc
  by (standard; clarsimp simp: operator_reconcilers_def operator_flux_reconciler_def operator_object_reconciler_def Let_def;
      elim disjE; simp add: reconciler_fields;
      auto dest: chart.flux_Observe_keeps chart.flux_Uninstall_keeps chart.flux_installOrUpdate_keeps
                 object_Observe_keeps object_ops_keep hook_keeps)

text \<open>
  C15. A reconcile round of the operator keeps the registered components (type, name,
  enablement, visibility, keep flag and dependencies, whatever the builders write into their
  configurations), never ends in an error, and returns exactly one result per component, in
  order of registration, with a status that fits the component's enablement: a disabled
  component never counts as healthy and an enabled one is never reported disabled or
  uninstalled; the events recorded are those of the results, in that order.
\<close>

theorem operator_round:
  assumes "Reconcile (operator_iface L) (registerReconcilers L lc rc \<lparr> jg_components = cs, jg_reconcilers = [] \<rparr>) ctx w
    = (rs, comps, evs, w')"
  shows "list_all2 (same_component (operator_iface L)) cs comps \<and> (\<forall>e. rs \<noteq> Err e)
    \<and> (\<forall>crs. rs = Ok crs \<longrightarrow> map cr_component crs = comps
         \<and> (\<forall>cr \<in> set crs. if comp_enabled (cr_component cr) then cr_result cr \<in> enabled_statuses
                            else cr_result cr \<in> disabled_statuses)
         \<and> evs = concat (map (\<lambda>cr. emitted_event (operator_iface L) (cr_component cr) (cr_result cr) (cr_message cr)) crs))"
proof -
  have "reconcile_loop (operator_iface L) (operator_reconcilers L lc rc) ctx [] cs w = (rs, comps, evs, w')"
    using assms by (simp add: Reconcile_def)
  from op.reconcile_loop_contract [OF this] show ?thesis
    by (force simp: allowed_statuses_def split: if_splits)
qed

definition sample_role :: "bool \<Rightarrow> 'w comp" where
  "sample_role enabled = CClusterRole \<lparr> cro_name = ''Admin'', cro_rules = [], cro_enabled = enabled, cro_keep = True \<rparr>"

lemma operator_round_witness:
  "\<exists>crs comps evs w'.
     Reconcile (operator_iface doc_libs)
       (registerReconcilers doc_libs store_client store_client \<lparr> jg_components = [sample_role False], jg_reconcilers = [] \<rparr>)
       background ([] :: store) = (Ok crs, comps, evs, w')
     \<and> map cr_component crs = comps \<and> (\<forall>cr \<in> set crs. cr_result cr \<in> disabled_statuses)" (is "\<exists>crs comps evs w'. ?run = _ \<and> _")
proof -
  let ?c = "sample_role False :: store comp"
  have obs: "rk_observe (operator_object_reconciler doc_libs store_client) background ?c [] = (Ok zero_observation, ?c, [])"
    by (simp add: operator_object_reconciler_def Let_def reconciler_fields object_Observe_def sample_role_def
        clusterrole_BuildObjectToReconcile_def object_RegisterType_def NewReconciler_def object_samples_def
        store_client_def st_get_def)
  have flags: "\<not> comp_is_flux ?c" "\<not> comp_enabled ?c" "comp_name doc_libs ?c = ''ClusterRoleAdmin''"
    by (simp_all add: sample_role_def clusterrole_GetName_def doc_libs_def)
  have run: "?run = (Ok [\<lparr> cr_component = ?c, cr_result = StatusDisabled,
      cr_message = ''ClusterRoleAdmin is not enabled.'' \<rparr>], [?c], [], [])"
    by (simp add: Reconcile_def reconcileComponent_def findReconcilerFor_operator flags obs zero_observation_def
        result_of_def emitted_event_def status_defs)
  from operator_round [OF run] run show ?thesis
    by (auto simp: sample_role_def)
qed

section \<open>What a chart component installs\<close>

lemma resource_eta [simp]:
  "\<lparr> so_meta = so_meta s, so_spec = so_spec s, so_conds = so_conds s \<rparr> = s"
  "\<lparr> hr_meta = hr_meta h, hr_spec = hr_spec h, hr_conds = hr_conds h \<rparr> = h"
  by (cases s, simp) (cases h, simp)

lemma ApplyDefaults_doc:
  "default_law L \<Longrightarrow> flux_ApplyDefaults L r = apply_own_defaults r"
  by (cases r) (simp_all add: default_law_def flux_ApplyDefaults.simps)

text \<open>The name, release name and namespace constants of a chart component.\<close>

fun chart_constants :: "'w comp \<Rightarrow> (string \<times> string \<times> string) option" where
  "chart_constants (CBTPServiceOperator _) = Some (''btpserviceoperator'', ''sap-btp-service-operator'', ''sap-btp-service-operator'')"
| "chart_constants (CCertManager _) = Some (''certmanager'', ''cert-manager'', ''cert-manager'')"
| "chart_constants (CCrossplane _) = Some (''crossplane'', ''crossplane'', ''crossplane-system'')"
| "chart_constants (CExternalSecretsOperator _) = Some (''externalsecretsoperator'', ''external-secrets'', ''external-secrets'')"
| "chart_constants (CKyverno _) = Some (''kyverno'', ''kyverno'', ''kyverno-system'')"
| "chart_constants (CFlux _) = Some (''flux'', ''flux'', ''flux-system'')"
| "chart_constants _ = None"

fun chart_of :: "'w comp \<Rightarrow> chart_spec option" where
  "chart_of (CBTPServiceOperator c) = Option.bind c cc_chart"
| "chart_of (CCertManager c) = Option.bind c cc_chart"
| "chart_of (CCrossplane c) = Option.bind c cc_chart"
| "chart_of (CExternalSecretsOperator c) = Option.bind c cc_chart"
| "chart_of (CKyverno c) = Option.bind c cc_chart"
| "chart_of (CFlux c) = Option.bind c cc_chart"
| "chart_of _ = None"

definition chart_release_ok :: "string \<times> string \<times> string \<Rightarrow> string \<Rightarrow> string \<times> string \<Rightarrow> chart_spec \<Rightarrow> kobj \<Rightarrow> bool" where
  "chart_release_ok k ns kubeconfig chart man \<longleftrightarrow>
     (case k of (name, release, target) \<Rightarrow>
        key_of man = \<lparr> nn_namespace = ns, nn_name = name \<rparr>
        \<and> (\<exists>sp. ko_body man = BHelmRelease sp []
             \<and> hs_chart sp = Some \<lparr> ht_chart = ch_name chart, ht_version = ch_version chart,
                  ht_source_kind = ''HelmRepository'', ht_source_name = name \<rparr>
             \<and> hs_release_name sp = release \<and> hs_target_namespace sp = target
             \<and> hs_storage_namespace sp = target \<and> hs_kubeconfig sp = Some kubeconfig
             \<and> hs_interval sp = 5 * minute \<and> \<not> hs_suspend sp))"

definition chart_source_ok :: "string \<times> string \<times> string \<Rightarrow> string \<Rightarrow> chart_spec \<Rightarrow> kobj \<Rightarrow> bool" where
  "chart_source_ok k ns chart src \<longleftrightarrow>
     key_of src = \<lparr> nn_namespace = ns, nn_name = fst k \<rparr>
     \<and> (\<exists>sp. ko_body src = BHelmRepository sp [] \<and> ss_url sp = ch_repository chart
           \<and> ss_interval sp = 1 * hour \<and> \<not> ss_suspend sp)"

lemma build_source_ok:
  assumes "default_law L" "build_source L name t ctx d = (Ok src, cfg')"
  shows "\<exists>ns chart. TenantNamespace ctx = Ok ns \<and> cfg' = snd d \<and> Option.bind cfg' cc_chart = Some chart
     \<and> (\<forall>rel tns. chart_source_ok (to_lower name, rel, tns) ns chart (flux_GetObject src))"
  using assms
  by (cases d; cases "snd d"; cases "Option.bind (snd d) cc_chart")
     (auto simp: build_source_def bind_go_Ok_iff ApplyDefaults_doc chart_source_ok_def key_of_def default_source_def
        empty_meta_def)

lemma build_manifesto_ok:
  assumes "default_law L" "build_manifesto L name rel tns ctx d = (Ok man, cfg')"
  shows "\<exists>ns chart kubeconfig. TenantNamespace ctx = Ok ns \<and> FluxKubeconfigRef ctx = Ok kubeconfig
     \<and> cfg' = snd d \<and> Option.bind (snd d) cc_chart = Some chart
     \<and> chart_release_ok (to_lower name, rel, tns) ns kubeconfig chart (flux_GetObject man)"
  using assms
  by (cases d; cases "fst d"; cases "snd d"; cases "Option.bind (snd d) cc_chart")
     (auto simp: build_manifesto_def bind_go_Ok_iff ApplyDefaults_doc chart_release_ok_def key_of_def default_release_def
        empty_meta_def zero_release_spec_def Let_def)

lemma default_values_chart:
  "Option.bind (snd (default_values L ds cfg)) cc_chart = Option.bind cfg cc_chart"
  by (auto simp: default_values_def split: option.splits sum.splits prod.splits)

lemma lower_names:
  "to_lower ''BTPServiceOperator'' = ''btpserviceoperator''" "to_lower ''CertManager'' = ''certmanager''"
  "to_lower ''Crossplane'' = ''crossplane''" "to_lower ''ExternalSecretsOperator'' = ''externalsecretsoperator''"
  "to_lower ''Kyverno'' = ''kyverno''" "to_lower ''Flux'' = ''flux''"
  by code_simp+

lemma comp_source_ok:
  assumes "default_law L" "comp_source L ctx c w = (Ok src, c1)"
  shows "\<exists>k ns chart. chart_constants c = Some k \<and> chart_constants c1 = Some k \<and> TenantNamespace ctx = Ok ns
     \<and> chart_of c1 = Some chart \<and> chart_source_ok k ns chart (flux_GetObject src)"
  using assms(2)
  by (cases c)
     (auto simp: source_defs map_prod_def lower_names simp del: split_paired_Ex split: prod.splits
           dest!: build_source_ok [OF assms(1)])

lemma comp_manifesto_ok:
  assumes "default_law L" "comp_manifesto L ctx c w = (Ok man, c1)"
  shows "\<exists>k ns chart kubeconfig. chart_constants c = Some k \<and> TenantNamespace ctx = Ok ns
     \<and> FluxKubeconfigRef ctx = Ok kubeconfig \<and> chart_of c = Some chart \<and> chart_of c1 = Some chart
     \<and> chart_release_ok k ns kubeconfig chart (flux_GetObject man)"
  using assms(2)
  by (cases c)
     (auto simp: manifesto_defs map_prod_def lower_names chart_values_defs default_values_chart simp del: split_paired_Ex
           split: prod.splits dest!: build_manifesto_ok [OF assms(1)])

text \<open>
  What a chart component builds fits together: the source repository and the release lie
  in the tenant namespace under the component's name, the release takes the chart that was
  chosen (the configured one, or the resolved default) from exactly that repository, installs
  it as the component's release into its namespace, and reaches the target cluster through
  the Flux kubeconfig of the context.
\<close>

theorem chart_release_uses_source:
  assumes "default_law L"
    and "fi_source (operator_flux L) ctx c w = (Ok src, c1)"
    and "fi_manifesto (operator_flux L) ctx c1 w' = (Ok man, c2)"
  shows "\<exists>k ns chart kubeconfig. chart_constants c = Some k \<and> TenantNamespace ctx = Ok ns
     \<and> FluxKubeconfigRef ctx = Ok kubeconfig \<and> chart_of c1 = Some chart
     \<and> chart_source_ok k ns chart (flux_GetObject src)
     \<and> chart_release_ok k ns kubeconfig chart (flux_GetObject man)"
  using comp_source_ok [OF assms(1)] comp_manifesto_ok [OF assms(1)] assms(2,3) by fastforce

definition demo_ctx :: "'w rctx" where
  "demo_ctx = WithVersionResolver (WithFluxKubeconfigRef (WithTenantNamespace background ''tenant'') ''flux-kubeconfig'')
     (\<lambda>name version w. if version = ''1.2.3'' then Inr (zero_component_version\<lparr>cv_version := ''v1.2.3''\<rparr>)
                       else Inl ErrComponentVersionNotFound)"

definition demo_chart_config :: chart_config where
  "demo_chart_config = zero_chart_config\<lparr>cc_version := ''1.2.3''\<rparr>"

lemma demo_ctx_simps [simp]:
  "TenantNamespace demo_ctx = Ok ''tenant''" "FluxKubeconfigRef demo_ctx = Ok (''flux-kubeconfig'', ''kubeconfig'')"
  "VersionResolver demo_ctx = Some (\<lambda>name version w. if version = ''1.2.3''
     then Inr (zero_component_version\<lparr>cv_version := ''v1.2.3''\<rparr>) else Inl ErrComponentVersionNotFound)"
  by (simp_all add: demo_ctx_def)

lemma chart_release_uses_source_witness:
  "\<exists>src man. fst (comp_source doc_libs demo_ctx (CKyverno (Some demo_chart_config)) (0 :: nat)) = Ok src
     \<and> chart_source_ok (''kyverno'', ''kyverno'', ''kyverno-system'') ''tenant''
         \<lparr> ch_repository = ''https://kyverno.github.io/kyverno'', ch_url = [], ch_name = ''kyverno'', ch_version = ''v1.2.3'' \<rparr>
         (flux_GetObject src)
     \<and> chart_release_ok (''kyverno'', ''kyverno'', ''kyverno-system'') ''tenant'' (''flux-kubeconfig'', ''kubeconfig'')
         \<lparr> ch_repository = ''https://kyverno.github.io/kyverno'', ch_url = [], ch_name = ''kyverno'', ch_version = ''v1.2.3'' \<rparr>
         (flux_GetObject man)"
proof -
  let ?c = "CKyverno (Some demo_chart_config) :: nat comp"
  obtain src c1 where s: "fi_source (operator_flux doc_libs) demo_ctx ?c 0 = (Ok src, c1)"
    and c1: "c1 = CKyverno (Some (demo_chart_config\<lparr>cc_chart := Some
      \<lparr> ch_repository = ''https://kyverno.github.io/kyverno'', ch_url = [], ch_name = ''kyverno'', ch_version = ''v1.2.3'' \<rparr>\<rparr>))"
    by (simp add: kyverno_BuildSourceRepository_def kyverno_applyDefaultChartSpec_def default_chart_spec_def
        demo_chart_config_def zero_chart_config_def build_source_def Let_def)
  obtain man c2 where m: "fi_manifesto (operator_flux doc_libs) demo_ctx c1 0 = (Ok man, c2)"
    unfolding c1 by (simp add: kyverno_BuildManifesto_def build_manifesto_def demo_chart_config_def zero_chart_config_def)
  from chart_release_uses_source [OF doc_libs_laws(2) s m] s c1 show ?thesis by auto
qed

fun version_of :: "'w comp \<Rightarrow> string" where
  "version_of (CBTPServiceOperator c) = (case c of None \<Rightarrow> [] | Some x \<Rightarrow> cc_version x)"
| "version_of (CCertManager c) = (case c of None \<Rightarrow> [] | Some x \<Rightarrow> cc_version x)"
| "version_of (CCrossplane c) = (case c of None \<Rightarrow> [] | Some x \<Rightarrow> cc_version x)"
| "version_of (CExternalSecretsOperator c) = (case c of None \<Rightarrow> [] | Some x \<Rightarrow> cc_version x)"
| "version_of (CKyverno c) = (case c of None \<Rightarrow> [] | Some x \<Rightarrow> cc_version x)"
| "version_of (CFlux c) = (case c of None \<Rightarrow> [] | Some x \<Rightarrow> cc_version x)"
| "version_of _ = []"

definition resolved_version :: "'w version_resolver \<Rightarrow> string \<Rightarrow> string \<Rightarrow> 'w \<Rightarrow> string" where
  "resolved_version rfn release version w =
     (case rfn release version w of Inl _ \<Rightarrow> [] | Inr cv \<Rightarrow> cv_version cv)"

lemma default_chart_spec_chart:
  assumes "cc_version zero = []" "cc_chart zero = None"
    and "\<And>cv. ch_version (f cv) = cv_version cv"
  shows "Option.bind (snd (default_chart_spec zero release f (Some rfn) cfg w)) cc_chart =
     (case Option.bind cfg cc_chart of
        Some ch \<Rightarrow> Some ch
      | None \<Rightarrow> Some (f (case rfn release (case cfg of None \<Rightarrow> [] | Some x \<Rightarrow> cc_version x) w of
                           Inl _ \<Rightarrow> zero_component_version | Inr cv \<Rightarrow> cv)))"
  using assms by (cases cfg) (auto simp: default_chart_spec_def Let_def split: option.splits)

lemma zero_charts [simp]: "cc_chart zero_chart_config = None" "cc_chart zero_crossplane_config = None"
  by (simp_all add: zero_chart_config_def zero_crossplane_config_def)

text \<open>
  The chart a component installs: a chart the user configured is taken as it is; without
  one, building the source repository fixes the chart at the version the release channels
  resolve for the component's release name and the configured version (none when they do not
  know it).
\<close>

theorem chart_version_is_resolved:
  assumes "VersionResolver ctx = Some rfn" "chart_constants c = Some (name, release, target)"
  shows "case chart_of c of
      Some ch \<Rightarrow> chart_of (snd (comp_source L ctx c w)) = Some ch
    | None \<Rightarrow> (\<exists>ch. chart_of (snd (comp_source L ctx c w)) = Some ch
         \<and> ch_version ch = resolved_version rfn release (version_of c) w)"
  using assms
  by (cases c)
     (auto simp: source_defs chart_spec_defs default_chart_spec_chart resolved_version_def zero_component_version_def
           split: option.splits sum.splits)

lemma chart_version_is_resolved_witness:
  "\<exists>ch. chart_of (snd (comp_source doc_libs demo_ctx (CFlux (Some demo_chart_config)) (0 :: nat))) = Some ch
     \<and> ch_version ch = ''v1.2.3''"
  using chart_version_is_resolved [OF demo_ctx_simps(3), of "CFlux (Some demo_chart_config)" "''flux''" "''flux''"
      "''flux-system''" doc_libs "0 :: nat"]
  by (simp add: demo_chart_config_def zero_chart_config_def resolved_version_def)

section \<open>Default values of a chart\<close>

text \<open>Paths none of which lies on the way to another: their defaults do not interfere.\<close>

definition apart :: "string list list \<Rightarrow> bool" where
  "apart ps \<longleftrightarrow> (\<forall>i < length ps. \<forall>j < length ps. i \<noteq> j \<longrightarrow> \<not> prefix (ps ! i) (ps ! j))"

lemma apart_Cons: "apart (p # ps) \<longleftrightarrow> apart ps \<and> (\<forall>q \<in> set ps. \<not> prefix p q \<and> \<not> prefix q p)"
proof
  assume a: "apart (p # ps)"
  have "apart ps" unfolding apart_def
  proof (intro allI impI)
    fix i j assume "i < length ps" "j < length ps" "i \<noteq> j"
    with a[unfolded apart_def, rule_format, of "Suc i" "Suc j"] show "\<not> prefix (ps ! i) (ps ! j)" by simp
  qed
  moreover have "\<not> prefix p q \<and> \<not> prefix q p" if "q \<in> set ps" for q
  proof -
    from that obtain j where j: "j < length ps" "ps ! j = q" by (auto simp: in_set_conv_nth)
    with a[unfolded apart_def, rule_format, of 0 "Suc j"] a[unfolded apart_def, rule_format, of "Suc j" 0]
    show ?thesis by simp
  qed
  ultimately show "apart ps \<and> (\<forall>q \<in> set ps. \<not> prefix p q \<and> \<not> prefix q p)" by blast
next
  assume a: "apart ps \<and> (\<forall>q \<in> set ps. \<not> prefix p q \<and> \<not> prefix q p)"
  show "apart (p # ps)" unfolding apart_def
  proof (intro allI impI)
    fix i j assume "i < length (p # ps)" "j < length (p # ps)" "i \<noteq> j"
    with a show "\<not> prefix ((p # ps) ! i) ((p # ps) ! j)"
      by (cases i; cases j) (auto simp: apart_def)
  qed
qed

lemma set_defaults_off:
  "fst (set_defaults m ds) = None \<Longrightarrow> (\<And>p. p \<in> snd ` set ds \<Longrightarrow> \<not> prefix q p \<and> \<not> prefix p q) \<Longrightarrow>
     GetNestedValue (snd (set_defaults m ds)) q = GetNestedValue m q"
proof (induction m ds rule: set_defaults.induct)
  case (2 m v p ds)
  obtain e m' where s: "SetNestedDefault m v p = (e, m')" by fastforce
  show ?case
  proof (cases e)
    case None
    with 2 s have "GetNestedValue (snd (set_defaults m' ds)) q = GetNestedValue m' q" by auto
    also have "\<dots> = GetNestedValue m q"
      using set_frame [of q p m v] 2(3) [of p] s by simp
    finally show ?thesis using s None by simp
  qed (use 2 s in simp)
qed simp

lemma set_defaults_on:
  "fst (set_defaults m ds) = None \<Longrightarrow> apart (map snd ds) \<Longrightarrow> (v, p) \<in> set ds \<Longrightarrow>
     GetNestedValue (snd (set_defaults m ds)) p = (case GetNestedValue m p of Ok x \<Rightarrow> Ok x | _ \<Rightarrow> Ok v)"
proof (induction m ds rule: set_defaults.induct)
  case (2 m v' p' ds)
  obtain e m' where s: "SetNestedDefault m v' p' = (e, m')" by fastforce
  with 2 have e: "e = None" by (cases e) auto
  have rest: "fst (set_defaults m' ds) = None" using 2 s e by simp
  have off: "\<not> prefix p' q \<and> \<not> prefix q p'" if "q \<in> snd ` set ds" for q
    using 2(3) that by (auto simp: apart_Cons)
  show ?case
  proof (cases "(v, p) = (v', p')")
    case True
    have "GetNestedValue (snd (set_defaults m' ds)) p' = GetNestedValue m' p'"
      by (rule set_defaults_off [OF rest]) (use off in blast)
    with True s e set_then_get [of m v' p'] show ?thesis by (auto split: gores_of.splits)
  next
    case False
    with 2(4) have mem: "(v, p) \<in> set ds" by auto
    with off have "GetNestedValue m' p = GetNestedValue m p"
      using set_frame [of p p' m v'] s by force
    with 2 s e mem rest show ?thesis by (simp add: apart_Cons)
  qed
qed simp

lemma set_defaults_again:
  "fst (set_defaults m ds) = None \<Longrightarrow> apart (map snd ds) \<Longrightarrow>
     set_defaults (snd (set_defaults m ds)) ds = (None, snd (set_defaults m ds))"
proof -
  assume a: "fst (set_defaults m ds) = None" "apart (map snd ds)"
  have "set_defaults m' ds' = (None, m')" if "\<forall>(v, p) \<in> set ds'. \<exists>x. GetNestedValue m' p = Ok x" for m' ds'
    using that by (induction ds') (auto simp: set_present_noop)
  moreover have "\<forall>(v, p) \<in> set ds. \<exists>x. GetNestedValue (snd (set_defaults m ds)) p = Ok x"
    using set_defaults_on [OF a] by (auto split: gores_of.splits)
  ultimately show ?thesis by blast
qed

definition values_of :: "libs \<Rightarrow> 'a chart_config_scheme \<Rightarrow> err + anymap" where
  "values_of L c = (case cc_values c of None \<Rightarrow> Inr (Some Map.empty) | Some raw \<Rightarrow> lib_unmarshal L raw)"

lemma default_values_effect:
  assumes "codec_law L" "apart (map snd ds)" "default_values L ds (Some c) = (None, Some c')"
  shows "\<exists>m m'. values_of L c = Inr m \<and> values_of L c' = Inr m'
     \<and> (\<forall>(v, p) \<in> set ds. GetNestedValue m' p = (case GetNestedValue m p of Ok x \<Rightarrow> Ok x | _ \<Rightarrow> Ok v))
     \<and> (\<forall>q. (\<forall>p \<in> snd ` set ds. \<not> prefix q p \<and> \<not> prefix p q) \<longrightarrow> GetNestedValue m' q = GetNestedValue m q)
     \<and> default_values L ds (Some c') = (None, Some c')"
proof -
  obtain m where m: "values_of L c = Inr m"
    using assms(3) by (auto simp: default_values_def values_of_def split: sum.splits)
  obtain m' raw where sd: "set_defaults m ds = (None, m')" "lib_marshal L m' = Inr raw" "c' = c\<lparr>cc_values := Some raw\<rparr>"
    using assms(3) m unfolding default_values_def values_of_def [symmetric]
    by (auto split: prod.splits sum.splits option.splits)
  have m': "values_of L c' = Inr m'" using assms(1) sd by (simp add: values_of_def codec_law_def)
  have ok: "fst (set_defaults m ds) = None" using sd by simp
  have again: "default_values L ds (Some c') = (None, Some c')"
    using set_defaults_again [OF ok assms(2)] sd m' by (simp add: default_values_def values_of_def)
  have on: "\<forall>(v, p) \<in> set ds. GetNestedValue m' p = (case GetNestedValue m p of Ok x \<Rightarrow> Ok x | _ \<Rightarrow> Ok v)"
    using set_defaults_on [OF ok assms(2)] sd(1) by auto
  have off: "\<forall>q. (\<forall>p \<in> snd ` set ds. \<not> prefix q p \<and> \<not> prefix p q) \<longrightarrow> GetNestedValue m' q = GetNestedValue m q"
    using set_defaults_off [OF ok] unfolding sd(1) snd_conv by blast
  show ?thesis by (intro exI conjI) (fact m m' on off again)+
qed

text \<open>
  The operator's default chart values never override the user's: when the BTP service
  operator's values are defaulted without an error, each of the two defaults reads back as
  the user's value where there was one and as the default otherwise, every value on a path
  apart from the two is what the user gave, and defaulting once more changes nothing.
\<close>

theorem btp_values_respect_user:
  assumes "codec_law L" "btp_applyDefaultValues L (Some c) = (None, Some c')"
  shows "\<exists>m m'. values_of L c = Inr m \<and> values_of L c' = Inr m'
     \<and> GetNestedValue m' [''cluster'', ''id''] =
         (case GetNestedValue m [''cluster'', ''id''] of Ok x \<Rightarrow> Ok x | _ \<Rightarrow> Ok (AStr ''sap-btp-service-operator''))
     \<and> GetNestedValue m' [''manager'', ''replica_count''] =
         (case GetNestedValue m [''manager'', ''replica_count''] of Ok x \<Rightarrow> Ok x | _ \<Rightarrow> Ok (AInt 1))
     \<and> (\<forall>q. apart [q, [''cluster'', ''id''], [''manager'', ''replica_count'']] \<longrightarrow> GetNestedValue m' q = GetNestedValue m q)
     \<and> btp_applyDefaultValues L (Some c') = (None, Some c')"
proof -
  let ?ds = "[(AStr ''sap-btp-service-operator'', [''cluster'', ''id'']), (AInt 1, [''manager'', ''replica_count''])]"
  have ap: "apart (map snd ?ds)" by (simp add: apart_Cons) (simp add: apart_def)
  from default_values_effect [OF assms(1) ap] assms(2) show ?thesis
    unfolding btp_applyDefaultValues_def by (fastforce simp: apart_Cons)
qed

text \<open>A codec that keeps one map, for the witness.\<close>

definition one_map_codec :: "anymap \<Rightarrow> libs" where
  "one_map_codec m = doc_libs\<lparr>lib_unmarshal := (\<lambda>s. if s = ''m'' then Inr m else Inr (Some [''cluster'' \<mapsto> AMap (Some [''id'' \<mapsto> AStr ''mine''])])),
     lib_marshal := (\<lambda>x. if x = m then Inr ''m'' else Inl (OtherErr ''other''))\<rparr>"

definition user_values :: anymap where
  "user_values = Some [''cluster'' \<mapsto> AMap (Some [''id'' \<mapsto> AStr ''mine'']), ''manager'' \<mapsto> AMap (Some [''replica_count'' \<mapsto> AInt 1])]"

lemma btp_values_respect_user_witness:
  "\<exists>c' m'. btp_applyDefaultValues (one_map_codec user_values) (Some (demo_chart_config\<lparr>cc_values := Some ''u''\<rparr>)) = (None, Some c')
     \<and> values_of (one_map_codec user_values) c' = Inr m'
     \<and> GetNestedValue m' [''cluster'', ''id''] = Ok (AStr ''mine'')
     \<and> GetNestedValue m' [''manager'', ''replica_count''] = Ok (AInt 1)"
proof -
  have law: "codec_law (one_map_codec user_values)"
    by (simp add: codec_law_def one_map_codec_def)
  have sd: "set_defaults (Some [''cluster'' \<mapsto> AMap (Some [''id'' \<mapsto> AStr ''mine''])])
      [(AStr ''sap-btp-service-operator'', [''cluster'', ''id'']), (AInt 1, [''manager'', ''replica_count''])] = (None, user_values)"
    by (simp add: SetNestedDefault_steps user_values_def)
  obtain c' where run: "btp_applyDefaultValues (one_map_codec user_values) (Some (demo_chart_config\<lparr>cc_values := Some ''u''\<rparr>)) = (None, Some c')"
    using sd by (simp add: btp_applyDefaultValues_def default_values_def one_map_codec_def)
  have vals: "values_of (one_map_codec user_values) (demo_chart_config\<lparr>cc_values := Some ''u''\<rparr>)
      = Inr (Some [''cluster'' \<mapsto> AMap (Some [''id'' \<mapsto> AStr ''mine''])])"
    by (simp add: values_of_def one_map_codec_def)
  from btp_values_respect_user [OF law run] vals run show ?thesis by auto
qed

section \<open>Policy rules\<close>

fun comp_rules :: "'w comp \<Rightarrow> policy_rules option" where
  "comp_rules (CBTPServiceOperator _) = Some btp_GetPolicyRules"
| "comp_rules (CCrossplane _) = Some crossplane_GetPolicyRules"
| "comp_rules (CExternalSecretsOperator _) = Some eso_GetPolicyRules"
| "comp_rules (CKyverno _) = Some kyverno_GetPolicyRules"
| "comp_rules (CFlux _) = Some flux_GetPolicyRules"
| "comp_rules _ = None"

definition AggregatePolicyRules :: "'w comp list \<Rightarrow> policy_rules" where
  "AggregatePolicyRules comps =
     fold (\<lambda>c result. case comp_rules c of
             None \<Rightarrow> result
           | Some r \<Rightarrow> result\<lparr>ps_admin := ps_admin result @ ps_admin r, ps_view := ps_view result @ ps_view r\<rparr>)
          comps \<lparr> ps_admin = [], ps_view = [] \<rparr>"

lemma fold_rules:
  "ps_view (fold (\<lambda>c result. case comp_rules c of None \<Rightarrow> result
       | Some r \<Rightarrow> result\<lparr>ps_admin := ps_admin result @ ps_admin r, ps_view := ps_view result @ ps_view r\<rparr>) comps acc)
     = ps_view acc @ concat (map (\<lambda>c. case comp_rules c of None \<Rightarrow> [] | Some r \<Rightarrow> ps_view r) comps)
   \<and> ps_admin (fold (\<lambda>c result. case comp_rules c of None \<Rightarrow> result
       | Some r \<Rightarrow> result\<lparr>ps_admin := ps_admin result @ ps_admin r, ps_view := ps_view result @ ps_view r\<rparr>) comps acc)
     = ps_admin acc @ concat (map (\<lambda>c. case comp_rules c of None \<Rightarrow> [] | Some r \<Rightarrow> ps_admin r) comps)"
  by (induction comps arbitrary: acc) (auto split: option.splits)

lemma AggregatePolicyRules_as_concat:
  "ps_view (AggregatePolicyRules comps) = concat (map (\<lambda>c. case comp_rules c of None \<Rightarrow> [] | Some r \<Rightarrow> ps_view r) comps)"
  "ps_admin (AggregatePolicyRules comps) = concat (map (\<lambda>c. case comp_rules c of None \<Rightarrow> [] | Some r \<Rightarrow> ps_admin r) comps)"
  using fold_rules [of comps "\<lparr> ps_admin = [], ps_view = [] \<rparr>"] by (simp_all add: AggregatePolicyRules_def)

definition rule_covers :: "policy_rule \<Rightarrow> policy_rule \<Rightarrow> bool" where
  "rule_covers admin view \<longleftrightarrow>
     list_all (\<lambda>g. g \<in> set (pr_groups admin)) (pr_groups view)
     \<and> list_all (\<lambda>r. r \<in> set (pr_resources admin)) (pr_resources view)
     \<and> (''*'' \<in> set (pr_verbs admin) \<or> list_all (\<lambda>v. v \<in> set (pr_verbs admin)) (pr_verbs view))"

lemmas policy_rules_defs =
  btp_GetPolicyRules_def crossplane_GetPolicyRules_def eso_GetPolicyRules_def
  kyverno_GetPolicyRules_def flux_GetPolicyRules_def

lemma component_rules_sound:
  "comp_rules c = Some r \<Longrightarrow>
     list_all (\<lambda>v. pr_verbs v = VerbsView \<and> list_ex (\<lambda>a. rule_covers a v) (ps_admin r)) (ps_view r)"
  by (cases c) (auto simp: policy_rules_defs rule_covers_def VerbsView_def VerbsAdmin_def)

text \<open>
  The view cluster role is read-only: every rule it aggregates, from whatever components
  are registered, has the verbs get, watch and list and no other; and the admin role can do
  at least as much, each view rule being covered by a rule of the admin role for the same
  groups and resources.
\<close>

theorem view_role_read_only:
  "list_all (\<lambda>v. pr_verbs v = VerbsView
       \<and> list_ex (\<lambda>a. rule_covers a v) (ps_admin (AggregatePolicyRules comps)))
     (ps_view (AggregatePolicyRules comps))"
proof -
  have "pr_verbs v = VerbsView \<and> list_ex (\<lambda>a. rule_covers a v) (ps_admin (AggregatePolicyRules comps))"
    if c: "c \<in> set comps" and r: "comp_rules c = Some r" and v: "v \<in> set (ps_view r)" for c r v
  proof -
    from component_rules_sound [OF r] v obtain a where a: "pr_verbs v = VerbsView" "a \<in> set (ps_admin r)" "rule_covers a v"
      by (auto simp: list_all_iff list_ex_iff)
    have "a \<in> set (ps_admin (AggregatePolicyRules comps))"
      unfolding AggregatePolicyRules_as_concat using c r a(2) by force
    with a show ?thesis by (auto simp: list_ex_iff)
  qed
  moreover have "\<exists>c r. c \<in> set comps \<and> comp_rules c = Some r \<and> v \<in> set (ps_view r)"
    if "v \<in> set (ps_view (AggregatePolicyRules comps))" for v
  proof -
    from that obtain c where "c \<in> set comps" "v \<in> set (case comp_rules c of None \<Rightarrow> [] | Some r \<Rightarrow> ps_view r)"
      by (auto simp: AggregatePolicyRules_as_concat(1))
    then show ?thesis by (cases "comp_rules c") auto
  qed
  ultimately show ?thesis unfolding list_all_iff by blast
qed

definition drc_modify_rule :: policy_rule where
  "drc_modify_rule = \<lparr> pr_groups = [''pkg.crossplane.io''], pr_resources = [''deploymentruntimeconfigs''], pr_verbs = VerbsModify \<rparr>"

text \<open>
  Whenever the Crossplane component is registered, configured or not and whatever the
  DeploymentRuntimeConfig protection option says, the admin role may update and patch
  DeploymentRuntimeConfigs. (The option's comment promises that without the protection users
  do not gain this permission.)
\<close>

theorem admin_always_modifies_runtime_configs:
  "drc_modify_rule \<in> set (ps_admin (AggregatePolicyRules (comps @ CCrossplane cfg # comps')))"
  by (simp add: AggregatePolicyRules_as_concat(2) crossplane_GetPolicyRules_def drc_modify_rule_def)

section \<open>Defaults of a DeploymentRuntimeConfig\<close>

definition template_complete :: "deployment_spec option option \<Rightarrow> bool" where
  "template_complete t \<longleftrightarrow> (\<exists>sp. t = Some (Some sp) \<and> ds_selector sp \<noteq> None \<and> ds_containers sp \<noteq> [])"

text \<open>
  Reconciling a DeploymentRuntimeConfig makes it pass the API server's validation
  without taking anything from the user: afterwards the deployment template has a spec with a
  selector and at least one container and the service account template has a name, what was
  already set (selector, containers, the rest of the template, the service account name) is
  unchanged, and reconciling a second time changes nothing.
\<close>

theorem drc_defaults_complete_and_keep:
  "template_complete (applyDeploymentTemplateDefaults t)
   \<and> (template_complete t \<longrightarrow> applyDeploymentTemplateDefaults t = t)
   \<and> (case t of Some (Some sp) \<Rightarrow>
        (\<exists>sp'. applyDeploymentTemplateDefaults t = Some (Some sp') \<and> ds_rest sp' = ds_rest sp
           \<and> (ds_selector sp \<noteq> None \<longrightarrow> ds_selector sp' = ds_selector sp)
           \<and> (ds_containers sp \<noteq> [] \<longrightarrow> ds_containers sp' = ds_containers sp)) | _ \<Rightarrow> True)
   \<and> applyDeploymentTemplateDefaults (applyDeploymentTemplateDefaults t) = applyDeploymentTemplateDefaults t
   \<and> applyServiceAccountTemplateDefaults sa n =
       (case sa of Some (Some (Some m)) \<Rightarrow> Some (Some (Some m)) | _ \<Rightarrow> Some (Some (Some n)))"
  by (auto simp: template_complete_def applyDeploymentTemplateDefaults_def applyServiceAccountTemplateDefaults_def
        zero_deployment_spec_def Let_def split: option.splits)

lemma drc_defaults_complete_and_keep_witness:
  "applyDeploymentTemplateDefaults (Some (Some \<lparr> ds_selector = Some ''app'', ds_containers = [], ds_rest = ''replicas: 2'' \<rparr>))
     = Some (Some \<lparr> ds_selector = Some ''app'',
         ds_containers = [\<lparr> ct_name = ''package-runtime'', ct_args = [] \<rparr>], ds_rest = ''replicas: 2'' \<rparr>)
   \<and> template_complete (applyDeploymentTemplateDefaults None)"
  using drc_defaults_complete_and_keep [of None]
  by (simp add: applyDeploymentTemplateDefaults_def)

section \<open>Orphans per component type\<close>

definition clusterrole_key :: "cluster_role_comp \<Rightarrow> nname" where
  "clusterrole_key c = \<lparr> nn_namespace = [], nn_name = GroupName @ '':'' @ to_lower (cro_name c) \<rparr>"

definition provider_key :: "provider_comp \<Rightarrow> nname" where
  "provider_key c = \<lparr> nn_namespace = [], nn_name = ProviderNameForProviderConfig (pvc_config c) \<rparr>"

definition drc_key :: "drc_comp \<Rightarrow> nname" where
  "drc_key c = \<lparr> nn_namespace = [], nn_name = dc_name c \<rparr>"

lemma om_name_key: "key_of ob = k \<Longrightarrow> om_name (ko_meta ob) = nn_name k"
  by (auto simp: key_of_def)

lemma trim_group [simp]: "trim_prefix (''core.orchestrate.cloud.sap'' @ '':'' @ n) ''core.orchestrate.cloud.sap:'' = n"
  using trim_prefix_append [of "''core.orchestrate.cloud.sap:''" n] by simp

interpretation role_orphans: orphan_detector "\<lambda>_. True" clusterrole_key clusterrole_convert clusterrole_same
proof
  show "key_of ob = clusterrole_key c \<Longrightarrow> clusterrole_same c (clusterrole_convert ob)" for ob c
    using trim_group [of "to_lower (cro_name c)"]
    by (auto dest: om_name_key simp: clusterrole_key_def clusterrole_same_def clusterrole_convert_def GroupName_def equal_fold_def)
  show "key_of ob = clusterrole_key c \<Longrightarrow> clusterrole_key (clusterrole_convert ob) = key_of ob" for ob c
    using trim_group [of "to_lower (cro_name c)"]
    by (auto dest: om_name_key simp: clusterrole_key_def clusterrole_convert_def GroupName_def)
  show "key_of ob = clusterrole_key c' \<Longrightarrow> clusterrole_same c (clusterrole_convert ob) \<Longrightarrow> clusterrole_key c = clusterrole_key c'" for ob c c'
    using trim_group [of "to_lower (cro_name c')"]
    by (auto dest: om_name_key simp: clusterrole_key_def clusterrole_same_def clusterrole_convert_def GroupName_def equal_fold_def)
qed

interpretation secret_orphans: orphan_detector "\<lambda>_. True" "sc_target :: 'w secret_comp \<Rightarrow> nname" secret_convert secret_same
  by standard (auto simp: secret_same_def secret_convert_def)

definition single_prefix :: "provider_comp \<Rightarrow> bool" where
  "single_prefix c \<longleftrightarrow> \<not> prefix providerPrefix (TrimProviderPrefix (pc_name (pvc_config c)))"

interpretation provider_orphans: orphan_detector single_prefix provider_key provider_convert provider_same
  by standard
    (auto dest!: om_name_key simp: provider_key_def provider_same_def provider_convert_def single_prefix_def
       ProviderNameForProviderConfig_def Add_Trim,
     auto dest!: om_name_key simp: AddProviderPrefix_def TrimProviderPrefix_def trim_prefix_def elim!: prefixE split: if_splits)

definition kube_name :: "drc_comp \<Rightarrow> bool" where
  "kube_name c \<longleftrightarrow> to_lower (dc_name c) = dc_name c \<and> \<not> prefix (GroupName @ '':'') (dc_name c)"

interpretation drc_orphans: orphan_detector kube_name drc_key drc_convert drc_same
  by standard
    (auto dest!: om_name_key simp: drc_key_def drc_same_def drc_convert_def kube_name_def equal_fold_def trim_prefix_id)

text \<open>
  Orphans of the operator's own kinds are found exactly: for an object the operator
  created for a cluster role, a copied secret, or a runtime configuration with a Kubernetes
  name, some configured component of the type claims it exactly when one with the same object
  name is configured, and uninstalling the component that is made from an unclaimed object
  addresses that very object.
\<close>

theorem orphans_matched_by_name:
  "(key_of ob = clusterrole_key r0 \<longrightarrow>
      ((\<exists>r \<in> set roles. clusterrole_same r (clusterrole_convert ob)) \<longleftrightarrow> (\<exists>r \<in> set roles. clusterrole_key r = clusterrole_key r0))
      \<and> clusterrole_key (clusterrole_convert ob) = clusterrole_key r0)
   \<and> (key_of ob = sc_target (s0 :: 'w secret_comp) \<longrightarrow>
      ((\<exists>s \<in> set (secrets :: 'w secret_comp list). secret_same s (secret_convert ob)) \<longleftrightarrow> (\<exists>s \<in> set secrets. sc_target s = sc_target s0))
      \<and> sc_target (secret_convert ob :: 'w secret_comp) = sc_target s0)
   \<and> (key_of ob = drc_key d0 \<and> kube_name d0 \<and> (\<forall>d \<in> set drcs. kube_name d) \<longrightarrow>
      ((\<exists>d \<in> set drcs. drc_same d (drc_convert ob)) \<longleftrightarrow> (\<exists>d \<in> set drcs. drc_key d = drc_key d0))
      \<and> drc_key (drc_convert ob) = drc_key d0)"
proof -
  note role = role_orphans.claimed_iff [where ob = ob and c' = r0 and configured = roles]
    role_orphans.orphan_key [where ob = ob and c' = r0]
  note secret = secret_orphans.claimed_iff [where ob = ob and c' = s0 and configured = secrets]
    secret_orphans.orphan_key [where ob = ob and c' = s0]
  note drc = drc_orphans.claimed_iff [where ob = ob and c' = d0 and configured = drcs]
    drc_orphans.orphan_key [where ob = ob and c' = d0]
  show ?thesis using role secret drc by simp
qed

definition named_provider :: "string \<Rightarrow> provider_comp" where
  "named_provider n = \<lparr> pvc_config = zero_provider_config\<lparr>pc_name := n\<rparr>, pvc_enabled = True \<rparr>"

definition named_drc :: "string \<Rightarrow> drc_comp" where
  "named_drc n = \<lparr> dc_name = n, dc_enabled = True \<rparr>"

lemma orphans_matched_by_name_witness:
  "drc_key (drc_convert (new_obj [] ''provider-aws'' BNamespace)) = drc_key (named_drc ''provider-aws'')
   \<and> \<not> (\<exists>d \<in> set [named_drc ''provider-gcp'']. drc_same d (drc_convert (new_obj [] ''provider-aws'' BNamespace)))"
proof -
  have k: "key_of (new_obj [] ''provider-aws'' BNamespace) = drc_key (named_drc ''provider-aws'')"
    by (simp add: drc_key_def named_drc_def)
  have lower: "to_lower ''provider-aws'' = ''provider-aws''" "to_lower ''provider-gcp'' = ''provider-gcp''"
    by code_simp+
  have v: "kube_name (named_drc ''provider-aws'')" "\<forall>d \<in> set [named_drc ''provider-gcp'']. kube_name d"
    by (simp_all add: kube_name_def named_drc_def lower GroupName_def)
  have "\<not> (\<exists>d \<in> set [named_drc ''provider-gcp'']. drc_key d = drc_key (named_drc ''provider-aws''))"
    by (simp add: drc_key_def named_drc_def)
  with orphans_matched_by_name [of "new_obj [] ''provider-aws'' BNamespace" _ "[]" _ "[]" "named_drc ''provider-aws''" "[named_drc ''provider-gcp'']"] k v
  show ?thesis by blast
qed

text \<open>
  Orphaned providers: as long as the configured names carry the provider prefix at most
  once, an object the operator created is claimed exactly when a provider with the same object
  name is configured, and the component made from it addresses that object. For a name with
  the prefix twice it does not: removing it from the configuration makes the operator
  uninstall a provider of another name, and the orphan stays.
\<close>

theorem provider_orphans_by_name:
  "(key_of ob = provider_key p0 \<and> single_prefix p0 \<and> (\<forall>p \<in> set providers. single_prefix p) \<longrightarrow>
      ((\<exists>p \<in> set providers. provider_same p (provider_convert ob)) \<longleftrightarrow> (\<exists>p \<in> set providers. provider_key p = provider_key p0))
      \<and> provider_key (provider_convert ob) = provider_key p0)
   \<and> (let bad = new_obj [] ''provider-provider-aws'' (BProvider empty_provider)
      in key_of bad = provider_key (named_provider ''provider-provider-aws'')
         \<and> provider_key (provider_convert bad) = provider_key (named_provider ''aws''))"
proof -
  have "provider_key (provider_convert (new_obj [] ''provider-provider-aws'' (BProvider empty_provider)))
      = provider_key (named_provider ''aws'')"
    by (simp add: provider_key_def provider_convert_def named_provider_def ProviderNameForProviderConfig_def
        AddProviderPrefix_def TrimProviderPrefix_def trim_prefix_def providerPrefix_def new_obj_def empty_meta_def)
  moreover have "key_of (new_obj [] ''provider-provider-aws'' (BProvider empty_provider))
      = provider_key (named_provider ''provider-provider-aws'')"
    by (simp add: provider_key_def named_provider_def ProviderNameForProviderConfig_def AddProviderPrefix_def providerPrefix_def)
  ultimately show ?thesis
    using provider_orphans.claimed_iff [where ob = ob and c' = p0 and configured = providers]
      provider_orphans.orphan_key [where ob = ob and c' = p0] by simp
qed

lemma provider_orphans_by_name_witness:
  "provider_key (provider_convert (new_obj [] ''provider-aws'' (BProvider empty_provider))) = provider_key (named_provider ''aws'')
   \<and> (\<exists>p \<in> set [named_provider ''provider-aws'']. provider_same p (provider_convert (new_obj [] ''provider-aws'' (BProvider empty_provider))))"
proof -
  have k: "key_of (new_obj [] ''provider-aws'' (BProvider empty_provider)) = provider_key (named_provider ''aws'')"
    "provider_key (named_provider ''provider-aws'') = provider_key (named_provider ''aws'')"
    by (simp_all add: provider_key_def named_provider_def ProviderNameForProviderConfig_def AddProviderPrefix_def providerPrefix_def)
  have v: "single_prefix (named_provider ''aws'')" "\<forall>p \<in> set [named_provider ''provider-aws'']. single_prefix p"
    by (simp_all add: single_prefix_def named_provider_def TrimProviderPrefix_def trim_prefix_def providerPrefix_def)
  from provider_orphans_by_name [of "new_obj [] ''provider-aws'' (BProvider empty_provider)" "named_provider ''aws''" "[named_provider ''provider-aws'']"] k v
  show ?thesis by simp
qed

end
