(* ===== verification/Registry.thy ===== *)
theory Registry
  imports ComponentLaws
begin

text \<open>
  The packages that register components with the Juggler: \<^verbatim>\<open>components/clusterroles\<close>,
  \<^verbatim>\<open>components/crds\<close> and \<^verbatim>\<open>components/policies\<close>, and their laws.
\<close>

type_synonym 'w op_juggler = "('w comp, 'w) juggler"

section \<open>Cluster roles (clusterroles.go)\<close>

definition clusterroles_RegisterAsComponents :: "'w op_juggler \<Rightarrow> 'w comp list \<Rightarrow> bool \<Rightarrow> 'w op_juggler" where
  "clusterroles_RegisterAsComponents jug cpComponents enabled =
     (let policyRules = AggregatePolicyRules cpComponents;
          j1 = RegisterComponent jug [CClusterRole
            \<lparr> cro_name = ''Admin'', cro_rules = ps_admin policyRules, cro_enabled = enabled, cro_keep = True \<rparr>]
      in RegisterComponent j1 [CClusterRole
            \<lparr> cro_name = ''View'', cro_rules = ps_view policyRules, cro_enabled = enabled, cro_keep = True \<rparr>])"

section \<open>Embedded CRDs (crds.go)\<close>

text \<open>
  The embedded file system is a tree; reading a directory or file that is in it does not
  fail. The YAML decoder is a parameter.
\<close>

datatype fs_entry = FsFile string string | FsDir string "fs_entry list"

fun readAllFiles :: "fs_entry list \<Rightarrow> string list" where
  "readAllFiles [] = []"
| "readAllFiles (FsDir name sub # entries) = readAllFiles sub @ readAllFiles entries"
| "readAllFiles (FsFile name content # entries) = content # readAllFiles entries"

record crd =
  crd_name :: string
  crd_spec :: crd_spec

type_synonym crd_decoder = "string \<Rightarrow> err + crd"

fun decode_all :: "crd_decoder \<Rightarrow> string list \<Rightarrow> err + crd list" where
  "decode_all decodeCRD [] = Inr []"
| "decode_all decodeCRD (y # ys) =
     (case decodeCRD y of
        Inl e \<Rightarrow> Inl e
      | Inr c \<Rightarrow> (case decode_all decodeCRD ys of Inl e \<Rightarrow> Inl e | Inr cs \<Rightarrow> Inr (c # cs)))"

definition readAllCRDs :: "crd_decoder \<Rightarrow> fs_entry list \<Rightarrow> err + crd list" where
  "readAllCRDs decodeCRD crdFiles = decode_all decodeCRD (readAllFiles crdFiles)"

definition filterCRDs :: "crd list \<Rightarrow> string list \<Rightarrow> crd list" where
  "filterCRDs input names =
     concat (map (\<lambda>c. concat (map (\<lambda>name. if crd_name c = name then [c] else []) names)) input)"

definition crd_component :: "bool \<Rightarrow> crd \<Rightarrow> 'w comp" where
  "crd_component enabled c = CGeneric \<lparr>
     gc_key = \<lparr> nn_namespace = [], nn_name = crd_name c \<rparr>,
     gc_name_override = ''CRD'' @ xs_kind (crd_spec c), gc_type_override = [], gc_enabled = enabled,
     gc_type = new_obj [] [] (BCRD \<lparr> xs_kind = [], xs_rest = [] \<rparr> []),
     gc_healthy = (\<lambda>obj. \<lparr> he_healthy = (case ko_body obj of BCRD _ stored \<Rightarrow> length stored > 0 | _ \<Rightarrow> False),
                          he_message = [] \<rparr>),
     gc_reconcile = (\<lambda>w obj. case ko_body obj of
         BCRD _ stored \<Rightarrow> Ok (obj\<lparr>ko_body := BCRD (crd_spec c) stored\<rparr>)
       | _ \<Rightarrow> Panic bad_assertion),
     gc_keep = True \<rparr> []"

definition crds_RegisterAsComponents ::
  "crd_decoder \<Rightarrow> 'w op_juggler \<Rightarrow> fs_entry list \<Rightarrow> bool \<Rightarrow> string list \<Rightarrow> err option \<times> 'w op_juggler" where
  "crds_RegisterAsComponents decodeCRD jug crdFiles enabled names =
     (case readAllCRDs decodeCRD crdFiles of
        Inl e \<Rightarrow> (Some e, jug)
      | Inr allCRDs \<Rightarrow>
          (None, fold (\<lambda>c j. RegisterComponent j [crd_component enabled c]) (filterCRDs allCRDs names) jug))"

section \<open>Policies (policies.go)\<close>

definition CrossplanePackageRestrictionName :: string where
  "CrossplanePackageRestrictionName = ''default''"

definition empty_restriction :: package_restriction where
  "empty_restriction = \<lparr> rs_registries = [], rs_packages = [] \<rparr>"

definition empty_cpr :: cpr_spec where
  "empty_cpr = \<lparr> cs_providers = empty_restriction, cs_configurations = empty_restriction,
     cs_functions = empty_restriction \<rparr>"

definition empty_vap :: vap_spec where
  "empty_vap = \<lparr> vs_failure_policy = None, vs_param_kind = None, vs_match_constraints = None,
     vs_match_conditions = [], vs_variables = [], vs_validations = [] \<rparr>"

definition empty_vapb :: vapb_spec where
  "empty_vapb = \<lparr> vb_policy_name = [], vb_param_ref = None, vb_actions = [] \<rparr>"

definition cpr_component :: "'w client \<Rightarrow> bool \<Rightarrow> 'w comp" where
  "cpr_component sourceClient enabled = CGeneric \<lparr>
     gc_key = \<lparr> nn_namespace = [], nn_name = CrossplanePackageRestrictionName \<rparr>,
     gc_name_override = [], gc_type_override = [], gc_enabled = enabled,
     gc_type = new_obj [] [] (BPackageRestriction empty_cpr),
     gc_healthy = not_deleted,
     gc_reconcile = (\<lambda>w obj.
       case cl_get sourceClient KPackageRestriction \<lparr> nn_namespace = [], nn_name = CrossplanePackageRestrictionName \<rparr> w of
         Inl e \<Rightarrow> Err e
       | Inr sourceCPR \<Rightarrow>
           (case (ko_body obj, ko_body sourceCPR) of
              (BPackageRestriction _, BPackageRestriction spec) \<Rightarrow> Ok (obj\<lparr>ko_body := BPackageRestriction spec\<rparr>)
            | _ \<Rightarrow> Panic bad_assertion)),
     gc_keep = False \<rparr> []"

text \<open>A policy component: its key, and what it makes of the policy's spec.\<close>

definition policy_component :: "string \<Rightarrow> bool \<Rightarrow> (vap_spec \<Rightarrow> vap_spec) \<Rightarrow> 'w comp" where
  "policy_component name enabled reconcile = CGeneric \<lparr>
     gc_key = \<lparr> nn_namespace = [], nn_name = name \<rparr>,
     gc_name_override = [], gc_type_override = ''Policy'', gc_enabled = enabled,
     gc_type = new_obj [] [] (BPolicy empty_vap 0),
     gc_healthy = (\<lambda>obj. \<lparr> he_healthy = policy_healthy obj, he_message = [] \<rparr>),
     gc_reconcile = (\<lambda>w obj. case ko_body obj of
         BPolicy spec observed \<Rightarrow> Ok (obj\<lparr>ko_body := BPolicy (reconcile spec) observed\<rparr>)
       | _ \<Rightarrow> Panic bad_assertion),
     gc_keep = False \<rparr> []"

definition binding_component :: "string \<Rightarrow> bool \<Rightarrow> (kobj \<Rightarrow> vapb_spec \<Rightarrow> kobj) \<Rightarrow> 'w comp" where
  "binding_component name enabled reconcile = CGeneric \<lparr>
     gc_key = \<lparr> nn_namespace = [], nn_name = name \<rparr>,
     gc_name_override = [], gc_type_override = ''PolicyBinding'', gc_enabled = enabled,
     gc_type = new_obj [] [] (BPolicyBinding empty_vapb),
     gc_healthy = (\<lambda>obj. \<lparr> he_healthy = IsPolicyBindingHealthy (ko_meta obj), he_message = [] \<rparr>),
     gc_reconcile = (\<lambda>w obj. case ko_body obj of
         BPolicyBinding spec \<Rightarrow> Ok (reconcile obj spec)
       | _ \<Rightarrow> Panic bad_assertion),
     gc_keep = False \<rparr> []"

definition policies_RegisterAsComponents :: "'w op_juggler \<Rightarrow> 'w client \<Rightarrow> bool \<Rightarrow> 'w op_juggler" where
  "policies_RegisterAsComponents jug sourceClient enabled =
     fold (\<lambda>pt j.
        RegisterComponent
          (RegisterComponent j [policy_component (GetPolicyName pt) enabled (ReconcilePolicy pt)])
          [binding_component (GetPolicyName pt) enabled
             (\<lambda>obj spec. obj\<lparr>ko_body := BPolicyBinding
                (ReconcilePolicyBinding CrossplanePackageRestrictionName (GetPolicyName pt) spec)\<rparr>)])
       PackageTypes (RegisterComponent jug [cpr_component sourceClient enabled])"

definition drc_policy_name :: string where
  "drc_policy_name = ''restrict-crossplane-deploymentruntimeconfig''"

definition RegisterDeploymentRuntimeConfigProtection ::
  "(string \<Rightarrow> string) \<Rightarrow> 'w op_juggler \<Rightarrow> bool \<Rightarrow> 'w op_juggler" where
  "RegisterDeploymentRuntimeConfigProtection env jug enabled =
     RegisterComponent
       (RegisterComponent jug [policy_component drc_policy_name enabled
          (\<lambda>spec. ReconcileDeploymentConfigRuntimeProtectionPolicy env)])
       [binding_component drc_policy_name enabled
          (\<lambda>obj spec. ReconcileDeploymentConfigRuntimeProtectionPolicyBinding drc_policy_name obj)]"

section \<open>Laws\<close>

lemma jg_RegisterComponent [simp]:
  "jg_components (RegisterComponent j cs) = jg_components j @ cs"
  "jg_reconcilers (RegisterComponent j cs) = jg_reconcilers j"
  by (simp_all add: RegisterComponent_def)

lemma fold_RegisterComponent:
  "jg_components (fold (\<lambda>c j. RegisterComponent j [f c]) cs j) = jg_components j @ map f cs"
  "jg_reconcilers (fold (\<lambda>c j. RegisterComponent j [f c]) cs j) = jg_reconcilers j"
  by (induction cs arbitrary: j) simp_all

lemma filterCRDs_distinct:
  "distinct names \<Longrightarrow> filterCRDs input names = filter (\<lambda>c. crd_name c \<in> set names) input"
proof -
  assume d: "distinct names"
  have one: "concat (map (\<lambda>name. if crd_name c = name then [c] else []) names)
      = (if crd_name c \<in> set names then [c] else [])" for c
    using d by (induction names) auto
  show ?thesis unfolding filterCRDs_def one by (induction input) auto
qed

text \<open>
  Registering the embedded CRDs: when every embedded file decodes, exactly the CRDs whose
  name is asked for become components, in the order of the files, all to be kept on
  uninstall; when one does not, nothing is registered and the error is returned.
\<close>

theorem crds_registered:
  assumes "distinct names"
  shows "case readAllCRDs decodeCRD files of
      Inl e \<Rightarrow> crds_RegisterAsComponents decodeCRD jug files enabled names = (Some e, jug)
    | Inr crds \<Rightarrow> fst (crds_RegisterAsComponents decodeCRD jug files enabled names) = None
        \<and> jg_components (snd (crds_RegisterAsComponents decodeCRD jug files enabled names))
            = jg_components jug @ map (crd_component enabled) (filter (\<lambda>c. crd_name c \<in> set names) crds)
        \<and> list_all (keeps_on_uninstall (operator_iface L)) (map (crd_component enabled) crds)"
  using assms
  by (auto simp: crds_RegisterAsComponents_def fold_RegisterComponent filterCRDs_distinct list_all_iff
        keeps_on_uninstall_def crd_component_def split: sum.splits)

lemma crds_registered_witness:
  "fst (crds_RegisterAsComponents (\<lambda>y. Inr \<lparr> crd_name = y, crd_spec = \<lparr> xs_kind = ''K'', xs_rest = [] \<rparr> \<rparr>)
      (NewJuggler :: store op_juggler) [FsDir ''d'' [FsFile ''f'' ''a''], FsFile ''g'' ''b''] True [''b'']) = None
   \<and> length (jg_components (snd (crds_RegisterAsComponents (\<lambda>y. Inr \<lparr> crd_name = y, crd_spec = \<lparr> xs_kind = ''K'', xs_rest = [] \<rparr> \<rparr>)
      (NewJuggler :: store op_juggler) [FsDir ''d'' [FsFile ''f'' ''a''], FsFile ''g'' ''b''] True [''b'']))) = 1"
proof -
  let ?dec = "\<lambda>y. Inr \<lparr> crd_name = y, crd_spec = \<lparr> xs_kind = ''K'', xs_rest = [] \<rparr> \<rparr>"
  have d: "distinct [''b'']" by simp
  from crds_registered [OF d, where decodeCRD = ?dec and files = "[FsDir ''d'' [FsFile ''f'' ''a''], FsFile ''g'' ''b'']"
      and jug = "NewJuggler :: store op_juggler" and enabled = True and L = doc_libs]
  show ?thesis by (simp add: readAllCRDs_def NewJuggler_def) (auto simp: NewJuggler_def)
qed

definition enforcing_policy :: "package_type \<Rightarrow> kobj \<Rightarrow> bool" where
  "enforcing_policy pt ob \<longleftrightarrow> (\<exists>spec observed. ko_body ob = BPolicy spec observed
     \<and> vs_failure_policy spec = Some ''Fail''
     \<and> vs_match_constraints spec = Some [\<lparr> ro_operations = [''CREATE'', ''UPDATE''],
          ro_groups = [crossplane_pkg_group], ro_versions = [''*''], ro_resources = [to_lower pt] \<rparr>])"

definition denying_binding :: "package_type \<Rightarrow> kobj \<Rightarrow> bool" where
  "denying_binding pt ob \<longleftrightarrow> (\<exists>spec. ko_body ob = BPolicyBinding spec
     \<and> vb_policy_name spec = GetPolicyName pt \<and> vb_actions spec = [''Deny'']
     \<and> vb_param_ref spec = Some (CrossplanePackageRestrictionName, Some ''Deny''))"

definition builds :: "'w comp \<Rightarrow> kind \<Rightarrow> string \<Rightarrow> bool" where
  "builds c k name \<longleftrightarrow> (case comp_build background c of
     Ok (obj, key) \<Rightarrow> kind_of obj = k \<and> key = \<lparr> nn_namespace = [], nn_name = name \<rparr> | _ \<Rightarrow> False)"

definition enforces :: "libs \<Rightarrow> package_type \<Rightarrow> 'w comp \<Rightarrow> bool" where
  "enforces L pt c \<longleftrightarrow> builds c KPolicy (GetPolicyName pt) \<and>
     (\<forall>w ctx m spec observed. \<exists>ob'. comp_reconcile L ctx c w \<lparr> ko_meta = m, ko_body = BPolicy spec observed \<rparr> = Ok ob'
        \<and> enforcing_policy pt ob')"

definition binds :: "libs \<Rightarrow> package_type \<Rightarrow> 'w comp \<Rightarrow> bool" where
  "binds L pt c \<longleftrightarrow> builds c KPolicyBinding (GetPolicyName pt) \<and>
     (\<forall>w ctx m spec. \<exists>ob'. comp_reconcile L ctx c w \<lparr> ko_meta = m, ko_body = BPolicyBinding spec \<rparr> = Ok ob'
        \<and> denying_binding pt ob')"

lemma policy_component_enforces: "enforces L pt (policy_component (GetPolicyName pt) enabled (ReconcilePolicy pt))"
  by (simp add: enforces_def builds_def policy_component_def generic_BuildObjectToReconcile_def
        enforcing_policy_def ReconcilePolicy_def)

lemma binding_component_binds:
  "binds L pt (binding_component (GetPolicyName pt) enabled
     (\<lambda>obj spec. obj\<lparr>ko_body := BPolicyBinding
        (ReconcilePolicyBinding CrossplanePackageRestrictionName (GetPolicyName pt) spec)\<rparr>))"
  by (simp add: binds_def builds_def binding_component_def generic_BuildObjectToReconcile_def
        denying_binding_def ReconcilePolicyBinding_def)

text \<open>
  The gate and the policy agree: registering the policies registers, for every package
  type, a component that builds exactly the admission policy and one that builds exactly the
  binding that the pre-install hook of that package type looks for; reconciling them makes
  the policy deny packages on create and update of that resource and binds it, with the
  action Deny and a denial when the parameter is missing, to the restriction object
  registered beside it.
\<close>

theorem policy_gate_registered:
  "let cs = jg_components (policies_RegisterAsComponents jug sourceClient enabled)
   in list_all (\<lambda>pt. list_ex (\<lambda>c. enforces L pt c \<and> comp_enabled c = enabled) cs
                     \<and> list_ex (\<lambda>c. binds L pt c \<and> comp_enabled c = enabled) cs) PackageTypes
      \<and> list_ex (\<lambda>c. builds c KPackageRestriction CrossplanePackageRestrictionName \<and> comp_enabled c = enabled) cs"
proof -
  have en: "comp_enabled (policy_component n e f) = e" "comp_enabled (binding_component n e g) = e"
    "comp_enabled (cpr_component sc e) = e" for n e f g sc
    by (simp_all add: policy_component_def binding_component_def cpr_component_def)
  have cpr: "builds (cpr_component sourceClient enabled) KPackageRestriction CrossplanePackageRestrictionName"
    by (simp add: builds_def cpr_component_def generic_BuildObjectToReconcile_def)
  show ?thesis
    by (simp add: policies_RegisterAsComponents_def PackageTypes_def en cpr policy_component_enforces binding_component_binds Let_def)
qed

end
