(* ===== verification/Names.thy ===== *)
theory Names
  imports Prelude "HOL-Library.Word"
begin

text \<open>
  Shortened names (\<^verbatim>\<open>internal/controller/utils.go\<close>): a name that is too long for Kubernetes is
  cut and completed with a 32-bit hash of the whole name.
\<close>

unbundle bit_operations_syntax

section \<open>Shortened names (utils.go)\<close>

text \<open>FNV-1a of 32 bits, as \<^verbatim>\<open>hash/fnv\<close> computes it, and \<^verbatim>\<open>%x\<close> of a number.\<close>

definition fnv32a :: "string \<Rightarrow> 32 word" where
  "fnv32a s = foldl (\<lambda>h c. (h XOR word_of_nat (of_char c)) * 16777619) 2166136261 s"

definition hex_digit :: "nat \<Rightarrow> char" where
  "hex_digit d = ''0123456789abcdef'' ! d"

fun to_hex :: "nat \<Rightarrow> string" where
  "to_hex n = (if n < 16 then [hex_digit n] else to_hex (n div 16) @ [hex_digit (n mod 16)])"

declare to_hex.simps [simp del]

definition shortenToXCharacters :: "string \<Rightarrow> int \<Rightarrow> string gores" where
  "shortenToXCharacters input maxLen =
     (if int (length input) \<le> maxLen then Ok input
      else (let suffix = ''--'' @ to_hex (unat (fnv32a input));
                trimLength = maxLen - int (length suffix)
            in if trimLength < 0 then Panic ''slice bounds out of range''
               else Ok (take (nat trimLength) input @ suffix)))"

definition cpNamespacePrefix :: string where "cpNamespacePrefix = ''cp-''"
definition cpNamespaceMaxLen :: int where "cpNamespaceMaxLen = 63"

lemma length_to_hex: "n < 16 ^ k \<Longrightarrow> 0 < k \<Longrightarrow> length (to_hex n) \<le> k"
proof (induction n arbitrary: k rule: to_hex.induct)
  case (1 n)
  show ?case
  proof (cases "n < 16")
    case False
    with 1(2,3) obtain k' where k: "k = Suc k'" "0 < k'" by (cases k; cases "k - 1") auto
    with 1(2) have "n div 16 < 16 ^ k'" by (simp add: less_mult_imp_div_less)
    with 1(1) [OF False _ k(2)] False k(1) show ?thesis by (subst to_hex.simps) simp
  qed (use 1 in \<open>subst to_hex.simps, simp\<close>)
qed

lemma length_suffix: "length (to_hex (unat (h :: 32 word))) \<le> 8"
proof -
  have "unat h < 2 ^ 32" using unsigned_less [of h] by simp
  also have "(2 :: nat) ^ 32 = 16 ^ 8" by simp
  finally show ?thesis by (intro length_to_hex) auto
qed

lemma shorten_fits:
  assumes "10 \<le> maxLen"
  shows "\<exists>s. shortenToXCharacters input maxLen = Ok s \<and> int (length s) \<le> maxLen
     \<and> (if int (length input) \<le> maxLen then s = input
        else int (length s) = maxLen
          \<and> (\<exists>n. s = take n input @ ''--'' @ to_hex (unat (fnv32a input)) \<and> maxLen - 10 \<le> int n))"
proof (cases "int (length input) \<le> maxLen")
  case True
  then show ?thesis by (simp add: shortenToXCharacters_def)
next
  case False
  define n where "n = nat (maxLen - (2 + int (length (to_hex (unat (fnv32a input))))))"
  have l: "int (length (to_hex (unat (fnv32a input)))) \<le> 8"
    using length_suffix [of "fnv32a input"] by simp
  with assms have n: "int n = maxLen - (2 + int (length (to_hex (unat (fnv32a input)))))"
    by (simp add: n_def)
  with False have "min (length input) n = n" by linarith
  with n l False show ?thesis
    by (auto simp: shortenToXCharacters_def Let_def n_def [symmetric])
qed

text \<open>
  Shortening never panics for a limit of at least ten characters, its result never
  exceeds the limit, a name within the limit is left alone, and a longer one becomes exactly
  as long as the limit: its own beginning followed by the hash of the whole name.
\<close>

theorem shortenToXCharacters_fits:
  assumes "10 \<le> maxLen"
  shows "\<exists>s. shortenToXCharacters input maxLen = Ok s \<and> int (length s) \<le> maxLen
     \<and> (if int (length input) \<le> maxLen then s = input
        else int (length s) = maxLen
          \<and> (\<exists>n. s = take n input @ ''--'' @ to_hex (unat (fnv32a input)) \<and> maxLen - 10 \<le> int n))"
  using assms by (rule shorten_fits)

text \<open>What is prefixed stays prefixed: at least the first 53 characters of a namespace name are kept.\<close>

lemma shorten_keeps_prefix:
  assumes "shortenToXCharacters input cpNamespaceMaxLen = Ok s" "length p \<le> 53" "prefix p input"
  shows "length s \<le> 63 \<and> prefix p s"
proof -
  have "10 \<le> cpNamespaceMaxLen" by (simp add: cpNamespaceMaxLen_def)
  from shorten_fits [OF this, of input] assms(1) show ?thesis
    using assms(2,3)
    by (auto simp: cpNamespaceMaxLen_def prefix_def split: if_splits) 
qed

lemma to_hex_small: "n < 16 \<Longrightarrow> to_hex n = [hex_digit n]"
  and to_hex_large: "\<not> n < 16 \<Longrightarrow> to_hex n = to_hex (n div 16) @ [hex_digit (n mod 16)]"
  by (subst to_hex.simps; simp)+

text \<open>The test vector of the repository's own unit test.\<close>

lemma fnv32a_test_vector:
  "unat (fnv32a ''this-is-a-very-a-very-a-very-long-string-that-is-over-63-characters'') = 0x4b610537"
  by (simp add: fnv32a_def of_char_def)

lemma shorten_test_vector:
  "shortenToXCharacters ''this-is-a-very-a-very-a-very-long-string-that-is-over-63-characters'' 63
     = Ok ''this-is-a-very-a-very-a-very-long-string-that-is-over--4b610537''"
  by (simp add: shortenToXCharacters_def fnv32a_test_vector to_hex_small to_hex_large
      hex_digit_def)

lemma shortenToXCharacters_fits_witness:
  "int (length ''this-is-a-very-a-very-a-very-long-string-that-is-over--4b610537'') = 63"
  using shortenToXCharacters_fits [of 63 "''this-is-a-very-a-very-a-very-long-string-that-is-over-63-characters''"]
  by (simp add: shorten_test_vector)

end
