(* ===== verification/Writes.thy ===== *)
theory Writes
  imports KubeStore
begin

text \<open>
  Sequences of writes. The controllers delete or apply one object after the other and stop at
  the first error; the lemmas say which objects such a loop can have changed, and what holds
  when it ends without an error.
\<close>

section \<open>Deleting\<close>

fun delete_each :: "'w client \<Rightarrow> kobj list \<Rightarrow> 'w \<Rightarrow> err option \<times> 'w" where
  "delete_each cl [] w = (None, w)"
| "delete_each cl (ob # obs) w =
     (case cl_delete cl ob w of
        (Some e, w') \<Rightarrow> (Some e, w')
      | (None, w') \<Rightarrow> delete_each cl obs w')"

definition named_in :: "kobj list \<Rightarrow> kind \<Rightarrow> nname \<Rightarrow> bool" where
  "named_in obs k n \<longleftrightarrow> list_ex (\<lambda>ob. kind_of ob = k \<and> key_of ob = n) obs"

lemma named_in_iff: "named_in obs k n \<longleftrightarrow> (\<exists>ob\<in>set obs. kind_of ob = k \<and> key_of ob = n)"
  by (induction obs) (auto simp: named_in_def)

lemma named_in_simps [simp]:
  "\<not> named_in [] k n"
  "named_in (ob # obs) k n \<longleftrightarrow> (kind_of ob = k \<and> key_of ob = n) \<or> named_in obs k n"
  by (auto simp: named_in_def)

lemma delete_law_ok:
  assumes "delete_law cl view" "cl_delete cl ob w = (None, w')"
  shows "if kind_of ob = k \<and> key_of ob = n then left_behind (view w k n) (view w' k n) else view w' k n = view w k n"
  using assms(1)[unfolded delete_law_def, rule_format, where ob = ob and w = w] assms(2)
  by (auto simp: Let_def)

lemma delete_law_err:
  assumes "delete_law cl view" "cl_delete cl ob w = (Some e, w')"
  shows "view w' = view w"
  using assms(1)[unfolded delete_law_def, rule_format, where ob = ob and w = w] assms(2)
  by (auto simp: Let_def)

lemma delete_each_ok:
  assumes "delete_law cl view" "delete_each cl obs w = (None, w')"
  shows "if named_in obs k n then left_behind (view w k n) (view w' k n) else view w' k n = view w k n"
  using assms(2)
proof (induction obs arbitrary: w)
  case (Cons ob obs)
  then obtain w1 where w1: "cl_delete cl ob w = (None, w1)" "delete_each cl obs w1 = (None, w')"
    by (auto split: prod.splits option.splits)
  from Cons.IH [OF w1(2)] delete_law_ok [OF assms(1) w1(1), of k n] show ?case
    by (auto split: if_splits intro: left_behind_trans)
qed simp

lemma delete_each_only:
  assumes "delete_law cl view" "delete_each cl obs w = (res, w')" "\<not> named_in obs k n"
  shows "view w' k n = view w k n"
  using assms(2,3)
proof (induction obs arbitrary: w)
  case (Cons ob obs)
  obtain e w1 where w1: "cl_delete cl ob w = (e, w1)" by force
  show ?case
  proof (cases e)
    case None
    with w1 Cons delete_law_ok [OF assms(1), of ob w w1 k n] show ?thesis by auto
  next
    case (Some x)
    with w1 Cons delete_law_err [OF assms(1), of ob w x w1] show ?thesis by simp
  qed
qed simp

section \<open>Applying\<close>

fun apply_each :: "'w client \<Rightarrow> (kobj \<times> (kobj \<Rightarrow> err + kobj)) list \<Rightarrow> 'w \<Rightarrow> err option \<times> 'w" where
  "apply_each cl [] w = (None, w)"
| "apply_each cl ((ob, f) # obs) w =
     (case cl_create_or_update cl ob f w of
        (Some e, w') \<Rightarrow> (Some e, w')
      | (None, w') \<Rightarrow> apply_each cl obs w')"

lemma apply_each_only:
  assumes "cou_law cl view" "apply_each cl obs w = (res, w')" "\<not> named_in (map fst obs) k n"
  shows "view w' k n = view w k n"
  using assms(2,3)
proof (induction obs arbitrary: w)
  case (Cons x obs)
  obtain ob f where x: "x = (ob, f)" by force
  obtain e w1 where w1: "cl_create_or_update cl ob f w = (e, w1)" by force
  show ?case
  proof (cases e)
    case None
    with w1 obtain ob' where "view w1 = (view w)(kind_of ob := (view w (kind_of ob))(key_of ob \<mapsto> ob'))"
      using cou_law_ok [OF assms(1)] by blast
    with x None w1 Cons show ?thesis by auto
  next
    case (Some y)
    with x w1 Cons cou_law_err [OF assms(1), of ob f w y w1] show ?thesis by simp
  qed
qed simp

lemma apply_each_ok:
  assumes "cou_law cl view" "apply_each cl obs w = (None, w')"
    and "\<And>ob f b ob'. (ob, f) \<in> set obs \<Longrightarrow> f b = Inr ob' \<Longrightarrow> Q (kind_of ob) (key_of ob) ob'"
    and "named_in (map fst obs) k n"
  shows "\<exists>ob'. view w' k n = Some ob' \<and> Q k n ob'"
  using assms(2,3,4)
proof (induction obs arbitrary: w)
  case (Cons x obs)
  obtain ob f where x: "x = (ob, f)" by force
  with Cons.prems obtain w1 where w1: "cl_create_or_update cl ob f w = (None, w1)"
      "apply_each cl obs w1 = (None, w')"
    by (auto split: prod.splits option.splits)
  from cou_law_ok [OF assms(1) w1(1)] obtain ob' where ob': 
      "f (case view w (kind_of ob) (key_of ob) of Some cur \<Rightarrow> cur | None \<Rightarrow> ob) = Inr ob'"
      "view w1 = (view w)(kind_of ob := (view w (kind_of ob))(key_of ob \<mapsto> ob'))" by blast
  from ob'(1) x Cons.prems(2) have q: "Q (kind_of ob) (key_of ob) ob'" by auto
  show ?case
  proof (cases "named_in (map fst obs) k n")
    case True
    show ?thesis by (rule Cons.IH [OF w1(2) _ True]) (use Cons.prems(2) in auto)
  next
    case False
    with Cons.prems(3) x have "kind_of ob = k" "key_of ob = n" by auto
    with apply_each_only [OF assms(1) w1(2) False] ob'(2) q show ?thesis by simp
  qed
qed simp

text \<open>What every mutate function keeps of an object survives the loop.\<close>

lemma apply_each_keeps:
  assumes "cou_law cl view" "apply_each cl obs w = (res, w')"
    and "\<And>ob f b b'. (ob, f) \<in> set obs \<Longrightarrow> f b = Inr b' \<Longrightarrow> P b \<Longrightarrow> P b'"
    and "view w k n = Some ob" "P ob"
  shows "\<exists>ob'. view w' k n = Some ob' \<and> P ob'"
  using assms(2,3,4,5)
proof (induction obs arbitrary: w ob)
  case (Cons x obs)
  obtain o1 f where x: "x = (o1, f)" by force
  obtain e w1 where w1: "cl_create_or_update cl o1 f w = (e, w1)" by force
  show ?case
  proof (cases e)
    case None
    with w1 obtain b' where b': 
      "f (case view w (kind_of o1) (key_of o1) of Some cur \<Rightarrow> cur | None \<Rightarrow> o1) = Inr b'"
      "view w1 = (view w)(kind_of o1 := (view w (kind_of o1))(key_of o1 \<mapsto> b'))"
      using cou_law_ok [OF assms(1)] by blast
    have "\<exists>ob1. view w1 k n = Some ob1 \<and> P ob1"
    proof (cases "kind_of o1 = k \<and> key_of o1 = n")
      case True
      with b' Cons.prems(2) [of o1 f ob b'] x Cons.prems(3,4) show ?thesis by auto
    next
      case False
      with b'(2) Cons.prems(3,4) show ?thesis by auto
    qed
    then obtain ob1 where ob1: "view w1 k n = Some ob1" "P ob1" by blast
    from x w1 None Cons.prems(1) have run: "apply_each cl obs w1 = (res, w')" by simp
    show ?thesis by (rule Cons.IH [OF run _ ob1]) (use Cons.prems(2) in auto)
  next
    case (Some y)
    with x w1 Cons.prems cou_law_err [OF assms(1), of o1 f w y w1] show ?thesis by auto
  qed
qed auto

text \<open>
  The same for deletions: an object of the loop is gone or marked, but otherwise as it was.
\<close>

definition mark_only :: "kobj \<Rightarrow> kobj \<Rightarrow> bool" where
  "mark_only ob ob' \<longleftrightarrow> ko_body ob' = ko_body ob \<and> labels_of ob' = labels_of ob
     \<and> om_finalizers (ko_meta ob') = om_finalizers (ko_meta ob)"

lemma mark_only_refl [simp]: "mark_only ob ob"
  by (simp add: mark_only_def)

lemma left_behind_mark_only:
  "left_behind (Some ob) (Some ob') \<Longrightarrow> mark_only ob ob'"
  by (auto simp: left_behind_def mark_only_def labels_of_def split: if_splits)

lemma delete_each_marks:
  assumes "delete_law cl view" "delete_each cl obs w = (res, w')" "view w' k n = Some ob'"
  shows "\<exists>ob. view w k n = Some ob \<and> mark_only ob ob'"
  using assms(2,3)
proof (induction obs arbitrary: w)
  case (Cons x obs)
  obtain e w1 where w1: "cl_delete cl x w = (e, w1)" by force
  show ?case
  proof (cases e)
    case None
    with w1 Cons obtain ob1 where ob1: "view w1 k n = Some ob1" "mark_only ob1 ob'" by auto
    from None w1 have "if kind_of x = k \<and> key_of x = n then left_behind (view w k n) (view w1 k n)
        else view w1 k n = view w k n" by (intro delete_law_ok [OF assms(1)]) simp
    with ob1 have "left_behind (view w k n) (Some ob1) \<or> view w k n = Some ob1" by (auto split: if_splits)
    then obtain ob where "view w k n = Some ob" "mark_only ob ob1"
      by (cases "view w k n") (auto dest: left_behind_mark_only)
    with ob1(2) show ?thesis by (auto simp: mark_only_def)
  next
    case (Some y)
    with w1 Cons delete_law_err [OF assms(1), of x w y w1] show ?thesis by auto
  qed
qed auto

text \<open>An object with finalizers stays through any deletions.\<close>

lemma delete_each_finalized:
  assumes "delete_law cl view" "delete_each cl obs w = (res, w')"
    and "view w k n = Some ob" "om_finalizers (ko_meta ob) \<noteq> []"
  shows "\<exists>ob'. view w' k n = Some ob' \<and> mark_only ob ob'"
  using assms(2,3,4)
proof (induction obs arbitrary: w ob)
  case (Cons x obs)
  obtain e w1 where w1: "cl_delete cl x w = (e, w1)" by force
  show ?case
  proof (cases e)
    case None
    with w1 have "if kind_of x = k \<and> key_of x = n then left_behind (view w k n) (view w1 k n)
        else view w1 k n = view w k n" by (intro delete_law_ok [OF assms(1)]) simp
    with Cons.prems(2,3) have "\<exists>ob1. view w1 k n = Some ob1 \<and> mark_only ob ob1"
      by (auto simp: left_behind_def mark_only_def labels_of_def split: if_splits)
    then obtain ob1 where ob1: "view w1 k n = Some ob1" "mark_only ob ob1" by blast
    with Cons.prems None w1 Cons.IH [of w1 ob1] show ?thesis by (auto simp: mark_only_def)
  next
    case (Some y)
    with w1 Cons.prems delete_law_err [OF assms(1), of x w y w1] show ?thesis by auto
  qed
qed auto

end
