(* ===== verification/TargetAccess.thy ===== *)
theory TargetAccess
  imports Writes "HOL-Library.Signed_Division"
begin

text \<open>
  How Flux reaches the target cluster: the service account and its cluster role binding
  (\<^verbatim>\<open>pkg/controlplane/targetrbac\<close>), the kubeconfig made for it
  (\<^verbatim>\<open>pkg/controlplane/kubeconfiggen\<close>), and the secret that keeps the kubeconfig
  (\<^verbatim>\<open>internal/controller/kubeconfigs.go\<close>). The token request, the CA file, the clock, the time
  format and the kubeconfig writer are parameters.
\<close>

record sa_ref =
  sf_name :: string
  sf_namespace :: string
  sf_host :: string

section \<open>RBAC on the target cluster (rbac.go)\<close>

definition errSANameOrNamespaceEmpty :: err where
  "errSANameOrNamespaceEmpty = Sentinel ''targetrbac.errSANameOrNamespaceEmpty''
     ''name or namespace in service account reference must not be empty''"

definition checkServiceAccountReference :: "sa_ref \<Rightarrow> err option" where
  "checkServiceAccountReference ref =
     (if sf_name ref = [] \<or> sf_namespace ref = [] then Some errSANameOrNamespaceEmpty else None)"

definition serviceAccount :: "sa_ref \<Rightarrow> kobj" where
  "serviceAccount ref = new_obj (sf_namespace ref) (sf_name ref) (BServiceAccount (Some False))"

definition admin_role_ref :: role_ref where
  "admin_role_ref = \<lparr> rr_group = ''rbac.authorization.k8s.io'', rr_kind = ''ClusterRole'',
     rr_name = ''cluster-admin'' \<rparr>"

definition sa_subject :: "sa_ref \<Rightarrow> subject" where
  "sa_subject ref = \<lparr> sj_kind = ''ServiceAccount'', sj_name = sf_name ref, sj_namespace = sf_namespace ref \<rparr>"

definition clusterRoleBinding :: "sa_ref \<Rightarrow> kobj" where
  "clusterRoleBinding ref = new_obj [] (sf_namespace ref @ '':'' @ sf_name ref)
     (BClusterRoleBinding admin_role_ref [sa_subject ref])"

definition rbac_Apply :: "'w client \<Rightarrow> sa_ref \<Rightarrow> 'w \<Rightarrow> err option \<times> 'w" where
  "rbac_Apply c ref w =
     (case checkServiceAccountReference ref of
        Some e \<Rightarrow> (Some e, w)
      | None \<Rightarrow>
          (case cl_create_or_update c (serviceAccount ref)
                  (\<lambda>sa. Inr (SetManagedBy (sa\<lparr>ko_body := ko_body (serviceAccount ref)\<rparr>))) w of
             (Some e, w1) \<Rightarrow> (Some e, w1)
           | (None, w1) \<Rightarrow>
               cl_create_or_update c (clusterRoleBinding ref)
                 (\<lambda>crb. Inr (SetManagedBy (crb\<lparr>ko_body := ko_body (clusterRoleBinding ref)\<rparr>))) w1))"

definition rbac_Delete :: "'w client \<Rightarrow> 'w \<Rightarrow> err option \<times> 'w" where
  "rbac_Delete c w =
     (case cl_delete_all_of c KClusterRoleBinding [IsManaged] w of
        (Some e, w1) \<Rightarrow> (Some e, w1)
      | (None, w1) \<Rightarrow>
          (case cl_list c KServiceAccount [IsManaged] w1 of
             Inl e \<Rightarrow> (Some e, w1)
           | Inr svcAccs \<Rightarrow> delete_each c svcAccs w1))"

definition managed :: "kobj \<Rightarrow> bool" where
  "managed ob \<longleftrightarrow> labels_of ob LabelManagedBy = Some LabelManagedByValue"

lemma managed_SetManagedBy [simp]: "managed (SetManagedBy ob)"
  by (simp add: managed_def)

lemma opts_match_IsManaged [simp]: "opts_match [IsManaged] ob \<longleftrightarrow> managed ob"
  by (simp add: opts_match_def IsManaged_def managed_def)

lemma sa_kind_key [simp]:
  "kind_of (serviceAccount ref) = KServiceAccount"
  "key_of (serviceAccount ref) = \<lparr> nn_namespace = sf_namespace ref, nn_name = sf_name ref \<rparr>"
  "ko_body (serviceAccount ref) = BServiceAccount (Some False)"
  "kind_of (clusterRoleBinding ref) = KClusterRoleBinding"
  "key_of (clusterRoleBinding ref) = \<lparr> nn_namespace = [], nn_name = sf_namespace ref @ '':'' @ sf_name ref \<rparr>"
  "ko_body (clusterRoleBinding ref) = BClusterRoleBinding admin_role_ref [sa_subject ref]"
  by (simp_all add: serviceAccount_def clusterRoleBinding_def) (simp_all add: new_obj_def)

text \<open>What applying grants: the two objects, by key, and what they must contain.\<close>

definition flux_access :: "sa_ref \<Rightarrow> (kind \<times> nname \<times> kbody) list" where
  "flux_access ref =
     [(KServiceAccount, \<lparr> nn_namespace = sf_namespace ref, nn_name = sf_name ref \<rparr>, BServiceAccount (Some False)),
      (KClusterRoleBinding, \<lparr> nn_namespace = [], nn_name = sf_namespace ref @ '':'' @ sf_name ref \<rparr>,
       BClusterRoleBinding admin_role_ref [sa_subject ref])]"

text \<open>
  C31. Applying the Flux RBAC: an incomplete service account reference is refused and nothing
  changes; otherwise only the service account and its cluster role binding can change, and
  after success both are on the target cluster, managed by the operator, the account without
  an automounted token and bound, alone, to the cluster-admin role.
\<close>

theorem rbac_Apply_grants:
  assumes "cou_law c view" "rbac_Apply c ref w = (res, w')"
  shows "(sf_name ref = [] \<or> sf_namespace ref = [] \<longrightarrow> res = Some errSANameOrNamespaceEmpty \<and> w' = w)
    \<and> (\<forall>k n. (\<forall>b. (k, n, b) \<notin> set (flux_access ref)) \<longrightarrow> view w' k n = view w k n)
    \<and> (res = None \<longrightarrow>
         (\<forall>(k, n, b)\<in>set (flux_access ref). \<exists>ob. view w' k n = Some ob \<and> ko_body ob = b \<and> managed ob))"
proof (cases "sf_name ref = [] \<or> sf_namespace ref = []")
  case True
  with assms(2) show ?thesis
    by (auto simp: rbac_Apply_def checkServiceAccountReference_def)
next
  case False
  let ?f = "\<lambda>b ob. Inr (SetManagedBy (ob\<lparr>ko_body := b\<rparr>)) :: err + kobj"
  let ?obs = "[(serviceAccount ref, ?f (ko_body (serviceAccount ref))),
               (clusterRoleBinding ref, ?f (ko_body (clusterRoleBinding ref)))]"
  from False assms(2) have run: "apply_each c ?obs w = (res, w')"
    by (auto simp: rbac_Apply_def checkServiceAccountReference_def split: prod.splits option.splits)
  have frame: "view w' k n = view w k n" if "\<forall>b. (k, n, b) \<notin> set (flux_access ref)" for k n
    by (rule apply_each_only [OF assms(1) run]) (use that in \<open>auto simp: flux_access_def\<close>)
  have post: "\<exists>ob. view w' k n = Some ob \<and> ko_body ob = b \<and> managed ob"
    if "res = None" "(k, n, b) \<in> set (flux_access ref)" for k n b
  proof -
    let ?Q = "\<lambda>k n ob. managed ob \<and> (\<forall>b. (k, n, b) \<in> set (flux_access ref) \<longrightarrow> ko_body ob = b)"
    from run that(1) have "apply_each c ?obs w = (None, w')" by simp
    then have "\<exists>ob. view w' k n = Some ob \<and> ?Q k n ob"
      by (rule apply_each_ok [OF assms(1)]) (use that(2) in \<open>auto simp: flux_access_def\<close>)
    with that(2) show ?thesis by blast
  qed
  from False frame post show ?thesis by blast
qed

definition demo_ref :: sa_ref where
  "demo_ref = \<lparr> sf_name = ''flux'', sf_namespace = ''default'', sf_host = [] \<rparr>"

theorem rbac_Apply_grants_witness:
  "\<exists>w'. rbac_Apply store_client demo_ref [] = (None, w')
     \<and> (\<exists>ob. store_view w' KServiceAccount \<lparr> nn_namespace = ''default'', nn_name = ''flux'' \<rparr> = Some ob \<and> managed ob)"
proof -
  obtain res w' where r: "rbac_Apply store_client demo_ref [] = (res, w')" by force
  then have ok: "res = None"
    by (auto simp: rbac_Apply_def checkServiceAccountReference_def demo_ref_def store_defs)
  from rbac_Apply_grants [OF store_api_laws(3) r] ok r show ?thesis
    by (auto simp: flux_access_def demo_ref_def)
qed

text \<open>
  C32. Removing the Flux RBAC: after success exactly the managed cluster role bindings and the
  managed service accounts are gone from the target cluster (or, with finalizers, marked for
  deletion), so that what Apply created no longer grants access; every other object is untouched.
\<close>

theorem rbac_Delete_revokes:
  assumes "delete_law c view" "delete_all_law c view" "list_law c view"
    and "wf_view view w" "rbac_Delete c w = (None, w')"
  shows "if (k = KClusterRoleBinding \<or> k = KServiceAccount) \<and> (\<exists>ob. view w k n = Some ob \<and> managed ob)
     then left_behind (view w k n) (view w' k n) else view w' k n = view w k n"
proof -
  from assms(5) obtain w1 obs where w1: "cl_delete_all_of c KClusterRoleBinding [IsManaged] w = (None, w1)"
      "cl_list c KServiceAccount [IsManaged] w1 = Inr obs" "delete_each c obs w1 = (None, w')"
    by (auto simp: rbac_Delete_def split: prod.splits option.splits sum.splits)
  have "\<exists>left. (\<forall>n. case view w KClusterRoleBinding n of
         Some ob \<Rightarrow> if managed ob then left_behind (Some ob) (left n) else left n = Some ob
       | None \<Rightarrow> left n = None) \<and> view w1 = (view w)(KClusterRoleBinding := left)"
    using assms(2)[unfolded delete_all_law_def, rule_format, where k = KClusterRoleBinding and os = "[IsManaged]" and w = w] w1(1)
    by (simp add: Let_def cong: option.case_cong)
  then obtain left where left: "view w1 = (view w)(KClusterRoleBinding := left)"
      "case view w KClusterRoleBinding n of
         Some ob \<Rightarrow> if managed ob then left_behind (Some ob) (left n) else left n = Some ob
       | None \<Rightarrow> left n = None" for n
    by blast
  have "\<not> list_ex is_limit [IsManaged]" by (simp add: IsManaged_def)
  with assms(3)[unfolded list_law_def, rule_format, OF w1(2)]
  have "set obs = {ob. \<exists>n. view w1 KServiceAccount n = Some ob \<and> managed ob}"
    by (simp only: if_False opts_match_IsManaged)
  with left(1) have mem: "ob \<in> set obs \<longleftrightarrow> (\<exists>n. view w KServiceAccount n = Some ob \<and> managed ob)" for ob
    by simp
  have nm: "named_in obs k n \<longleftrightarrow> k = KServiceAccount \<and> (\<exists>ob. view w k n = Some ob \<and> managed ob)"
  proof
    assume "named_in obs k n"
    then obtain ob n' where "kind_of ob = k" "key_of ob = n" "view w KServiceAccount n' = Some ob" "managed ob"
      by (auto simp: named_in_iff mem)
    with wf_viewD [OF assms(4), of KServiceAccount n' ob] 
    show "k = KServiceAccount \<and> (\<exists>ob. view w k n = Some ob \<and> managed ob)" by auto
  next
    assume "k = KServiceAccount \<and> (\<exists>ob. view w k n = Some ob \<and> managed ob)"
    then obtain ob where "k = KServiceAccount" "view w k n = Some ob" "managed ob" by auto
    with wf_viewD [OF assms(4), of k n ob] have "kind_of ob = k" "key_of ob = n" "ob \<in> set obs"
      by (auto simp: mem)
    then show "named_in obs k n" by (auto simp: named_in_iff)
  qed
  from delete_each_ok [OF assms(1) w1(3), of k n] left(1) left(2) [of n] nm show ?thesis
    by (cases "view w k n"; cases "k = KClusterRoleBinding"; auto split: if_splits)
qed

definition demo_access :: store where
  "demo_access = [((KServiceAccount, key_of (serviceAccount demo_ref)), SetManagedBy (serviceAccount demo_ref))]"

theorem rbac_Delete_revokes_witness:
  "\<exists>w'. rbac_Delete store_client demo_access = (None, w')
     \<and> store_view w' KServiceAccount (key_of (serviceAccount demo_ref)) = None"
proof -
  obtain res w' where r: "rbac_Delete store_client demo_access = (res, w')" by force
  then have ok: "res = None"
    by (auto simp: rbac_Delete_def demo_access_def store_defs opts_match_def IsManaged_def split: option.splits)
  have v: "store_view demo_access KServiceAccount (key_of (serviceAccount demo_ref))
      = Some (SetManagedBy (serviceAccount demo_ref))"
    by (simp add: demo_access_def store_view_def)
  have "wf_view store_view demo_access" by (simp add: demo_access_def del: sa_kind_key(2))
  with r ok have "left_behind (Some (SetManagedBy (serviceAccount demo_ref)))
      (store_view w' KServiceAccount (key_of (serviceAccount demo_ref)))"
    using rbac_Delete_revokes [OF store_api_laws(5,6,2), where w = demo_access and w' = w'
        and k = KServiceAccount and n = "key_of (serviceAccount demo_ref)"] v
    by (simp del: sa_kind_key(2))
  then have "store_view w' KServiceAccount (key_of (serviceAccount demo_ref)) = None"
    by (simp del: sa_kind_key(2) add: left_behind_def SetManagedBy_def SetLabel_def)
       (simp add: serviceAccount_def new_obj_def empty_meta_def)
  with r ok show ?thesis by auto
qed

section \<open>Generating a kubeconfig (generate.go)\<close>

record rest_config =
  rst_host :: string
  rst_ca_data :: string
  rst_ca_file :: string

text \<open>\<^verbatim>\<open>clientcmdapi.Config\<close>: clusters with server and CA, users with a token, contexts with
  the names of a cluster and a user.\<close>

record kubeconfig =
  kcf_current :: string
  kcf_clusters :: "string \<Rightarrow> (string \<times> string) option"
  kcf_users :: "string \<Rightarrow> string option"
  kcf_contexts :: "string \<Rightarrow> (string \<times> string) option"

record 'w token_env =
  te_new_client :: "rest_config \<Rightarrow> err + 'w client"
  te_create_token :: "rest_config \<Rightarrow> kobj \<Rightarrow> int \<Rightarrow> 'w \<Rightarrow> (err + string \<times> int) \<times> 'w"
  te_read_file :: "string \<Rightarrow> 'w \<Rightarrow> err + string"

definition ErrSANameOrNamespaceEmpty :: err where
  "ErrSANameOrNamespaceEmpty = Sentinel ''ErrSANameOrNamespaceEmpty''
     ''name or namespace in service account reference must not be empty''"
definition ErrRestConfigNil :: err where
  "ErrRestConfigNil = Sentinel ''ErrRestConfigNil'' ''rest config must not be nil''"
definition ErrExpirationInvalid :: err where
  "ErrExpirationInvalid = Sentinel ''ErrExpirationInvalid''
     ''must not specify a duration less than 10 minutes''"

definition nanoseconds :: int where "nanoseconds = 1000000000"

definition ForServiceAccount ::
  "'w token_env \<Rightarrow> rest_config option \<Rightarrow> sa_ref \<Rightarrow> int \<Rightarrow> 'w \<Rightarrow> (err + kubeconfig \<times> int) \<times> 'w" where
  "ForServiceAccount T cfg svcAccRef expiration w =
     (if sf_name svcAccRef = [] \<or> sf_namespace svcAccRef = [] then (Inl ErrSANameOrNamespaceEmpty, w)
      else
        (case cfg of
           None \<Rightarrow> (Inl ErrRestConfigNil, w)
         | Some c \<Rightarrow>
             if expiration < 10 * 60 * nanoseconds then (Inl ErrExpirationInvalid, w)
             else
               (case te_new_client T c of
                  Inl e \<Rightarrow> (Inl e, w)
                | Inr client \<Rightarrow>
                    (case cl_get client KServiceAccount
                            \<lparr> nn_namespace = sf_namespace svcAccRef, nn_name = sf_name svcAccRef \<rparr> w of
                       Inl e \<Rightarrow> (Inl e, w)
                     | Inr sa \<Rightarrow>
                         (case te_create_token T c sa (expiration sdiv nanoseconds) w of
                            (Inl e, w1) \<Rightarrow> (Inl e, w1)
                          | (Inr (token, expiry), w1) \<Rightarrow>
                              (let host = (if sf_host svcAccRef \<noteq> [] then sf_host svcAccRef else rst_host c);
                                   ctxName = om_name (ko_meta sa) @ ''--'' @ om_namespace (ko_meta sa);
                                   config = \<lambda>ca. \<lparr> kcf_current = ctxName,
                                     kcf_clusters = [ctxName \<mapsto> (host, ca)],
                                     kcf_users = [ctxName \<mapsto> token],
                                     kcf_contexts = [ctxName \<mapsto> (ctxName, ctxName)] \<rparr>
                               in if rst_ca_file c \<noteq> []
                                  then (case te_read_file T (rst_ca_file c) w1 of
                                          Inl e \<Rightarrow> (Inl e, w1)
                                        | Inr caBytes \<Rightarrow> (Inr (config caBytes, expiry), w1))
                                  else (Inr (config (rst_ca_data c), expiry), w1)))))))"

text \<open>What a client reads from a kubeconfig: the server, the CA and the token of the current context.\<close>

definition resolve_current :: "kubeconfig \<Rightarrow> (string \<times> string \<times> string) option" where
  "resolve_current kc =
     (case kcf_contexts kc (kcf_current kc) of
        None \<Rightarrow> None
      | Some (cluster, user) \<Rightarrow>
          (case (kcf_clusters kc cluster, kcf_users kc user) of
             (Some (server, ca), Some token) \<Rightarrow> Some (server, ca, token)
           | _ \<Rightarrow> None))"

text \<open>
  A generated kubeconfig is complete and belongs to the service account: its current
  context resolves to the overridden host (the configuration's own without an override), the
  CA of the CA file (the CA data without a file), and the token that was minted, for at least
  ten minutes, for the existing service account the reference names.
\<close>

theorem ForServiceAccount_resolves:
  assumes "te_new_client T c = Inr client" "get_law client view"
    and "ForServiceAccount T (Some c) ref expiration w = (Inr (kc, expiry), w')"
  shows "\<exists>sa token ca.
       view w KServiceAccount \<lparr> nn_namespace = sf_namespace ref, nn_name = sf_name ref \<rparr> = Some sa
     \<and> te_create_token T c sa (expiration sdiv nanoseconds) w = (Inr (token, expiry), w')
     \<and> 600 \<le> expiration sdiv nanoseconds
     \<and> (if rst_ca_file c = [] then ca = rst_ca_data c else te_read_file T (rst_ca_file c) w' = Inr ca)
     \<and> resolve_current kc = Some (if sf_host ref = [] then rst_host c else sf_host ref, ca, token)"
proof -
  let ?key = "\<lparr> nn_namespace = sf_namespace ref, nn_name = sf_name ref \<rparr>"
  from assms(1,3) obtain sa where sa: "cl_get client KServiceAccount ?key w = Inr sa"
    by (auto simp: ForServiceAccount_def split: if_splits sum.splits)
  with assms(2) have v: "view w KServiceAccount ?key = Some sa" by (simp add: get_law_def)
  from assms(1,3) sa obtain token e w1 where t: "te_create_token T c sa (expiration sdiv nanoseconds) w = (Inr (token, e), w1)"
    by (auto simp: ForServiceAccount_def split: if_splits sum.splits prod.splits)
  have "600 * nanoseconds \<le> expiration"
    using assms(3) by (auto simp: ForServiceAccount_def nanoseconds_def split: if_splits)
  then have x: "600 \<le> expiration sdiv nanoseconds"
    by (simp add: signed_divide_int_def nanoseconds_def sgn_if)
  from assms(1,3) sa t v x show ?thesis
    by (auto simp: ForServiceAccount_def Let_def resolve_current_def split: if_splits sum.splits)
qed

definition demo_env :: "store token_env" where
  "demo_env = \<lparr> te_new_client = (\<lambda>_. Inr store_client), te_create_token = (\<lambda>_ _ s w. (Inr (''tok'', s), w)),
     te_read_file = (\<lambda>_ _. Inl (OtherErr ''no file'')) \<rparr>"

definition demo_cfg :: rest_config where
  "demo_cfg = \<lparr> rst_host = ''https://api'', rst_ca_data = ''CA'', rst_ca_file = [] \<rparr>"

theorem ForServiceAccount_resolves_witness:
  "\<exists>kc. ForServiceAccount demo_env (Some demo_cfg) demo_ref (600 * nanoseconds) demo_access
          = (Inr (kc, 600), demo_access)
     \<and> resolve_current kc = Some (''https://api'', ''CA'', ''tok'')"
proof -
  have "\<exists>kc. ForServiceAccount demo_env (Some demo_cfg) demo_ref (600 * nanoseconds) demo_access
          = (Inr (kc, 600), demo_access)"
    by (simp add: ForServiceAccount_def demo_env_def demo_cfg_def demo_ref_def demo_access_def store_defs
        nanoseconds_def signed_divide_int_def Let_def)
  then obtain kc where kc: "ForServiceAccount demo_env (Some demo_cfg) demo_ref (600 * nanoseconds) demo_access
          = (Inr (kc, 600), demo_access)" ..
  have "te_new_client demo_env demo_cfg = Inr store_client" by (simp add: demo_env_def)
  from ForServiceAccount_resolves [OF this store_api_laws(1) kc] kc show ?thesis
    by (auto simp: demo_env_def demo_cfg_def demo_ref_def)
qed

section \<open>The kubeconfig secret (kubeconfigs.go)\<close>

definition keyKubeconfig :: string where "keyKubeconfig = ''kubeconfig''"
definition keyExpiration :: string where "keyExpiration = ''expiresAt''"

text \<open>
  What the reconciler holds: the clock, RFC 3339 times, the kubeconfig writer, the
  generator, and the two durations (in nanoseconds).
\<close>

record 'w kubeconfig_env =
  ke_now :: "'w \<Rightarrow> int"
  ke_parse :: "string \<Rightarrow> err + int"
  ke_format :: "int \<Rightarrow> string"
  ke_write :: "kubeconfig \<Rightarrow> err + string"
  ke_generate :: "rest_config option \<Rightarrow> sa_ref \<Rightarrow> int \<Rightarrow> 'w \<Rightarrow> (err + kubeconfig \<times> int) \<times> 'w"
  ke_period :: int
  ke_lifetime :: int

definition secret_of :: "kobj \<Rightarrow> secret_body" where
  "secret_of ob = (case ko_body ob of BSecret b \<Rightarrow> b | _ \<Rightarrow> \<lparr> se_type = [], se_data = None \<rparr>)"

definition secret_data :: "kobj \<Rightarrow> string \<Rightarrow> string option" where
  "secret_data ob = (case se_data (secret_of ob) of None \<Rightarrow> Map.empty | Some d \<Rightarrow> d)"

definition with_data :: "kobj \<Rightarrow> (string \<Rightarrow> string option) \<Rightarrow> kobj" where
  "with_data ob d = ob\<lparr>ko_body := BSecret ((secret_of ob)\<lparr>se_data := Some d\<rparr>)\<rparr>"

definition expired :: "'w kubeconfig_env \<Rightarrow> int \<Rightarrow> 'w \<Rightarrow> bool" where
  "expired K expiration w =
     (let remainingLifetime = expiration - ke_now K w
      in remainingLifetime < ke_period K \<or> remainingLifetime < ke_lifetime K sdiv 3)"

definition renew_kubeconfig ::
  "'w kubeconfig_env \<Rightarrow> 'w client \<Rightarrow> rest_config option \<Rightarrow> sa_ref \<Rightarrow> kobj \<Rightarrow> 'w \<Rightarrow> (err + nname) \<times> 'w" where
  "renew_kubeconfig K r remoteCfg svcaccountRef secret w =
     (case ke_generate K remoteCfg svcaccountRef (ke_lifetime K) w of
        (Inl e, w1) \<Rightarrow> (Inl e, w1)
      | (Inr (kc, expiration), w1) \<Rightarrow>
          (case ke_write K kc of
             Inl e \<Rightarrow> (Inl e, w1)
           | Inr kubeconfigBytes \<Rightarrow>
               (case cl_create_or_update r secret
                       (\<lambda>ob. let ob1 = SetManagedBy ob
                             in Inr (with_data ob1 ((secret_data ob1)(keyKubeconfig \<mapsto> kubeconfigBytes,
                                                                    keyExpiration \<mapsto> ke_format K expiration)))) w1 of
                  (Some e, w2) \<Rightarrow> (Inl e, w2)
                | (None, w2) \<Rightarrow> (Inr (key_of secret), w2))))"

definition ensureKubeconfig ::
  "'w kubeconfig_env \<Rightarrow> 'w client \<Rightarrow> rest_config option \<Rightarrow> string \<Rightarrow> string \<Rightarrow> sa_ref \<Rightarrow> 'w
     \<Rightarrow> (err + nname) \<times> 'w" where
  "ensureKubeconfig K r remoteCfg namespace secretName svcaccountRef w =
     (let secret = new_obj namespace secretName (BSecret \<lparr> se_type = [], se_data = None \<rparr>)
      in case (case cl_get r KSecret (key_of secret) w of
                 Inl e \<Rightarrow> if is_not_found e then Inr secret else Inl e
               | Inr found \<Rightarrow> Inr found) of
           Inl e \<Rightarrow> (Inl e, w)
         | Inr secret0 \<Rightarrow>
             (let secret1 = with_data secret0 (secret_data secret0)
              in case secret_data secret1 keyExpiration of
                   None \<Rightarrow> renew_kubeconfig K r remoteCfg svcaccountRef secret1 w
                 | Some expirationStr \<Rightarrow>
                     (case ke_parse K expirationStr of
                        Inl e \<Rightarrow> (Inl e, w)
                      | Inr expiration \<Rightarrow>
                          if \<not> expired K expiration w then (Inr (key_of secret1), w)
                          else renew_kubeconfig K r remoteCfg svcaccountRef secret1 w)))"

lemma secret_of_with_data [simp]:
  "secret_data (with_data ob d) = d" "kind_of (with_data ob d) = KSecret"
  "key_of (with_data ob d) = key_of ob" "managed (with_data ob d) = managed ob"
  by (simp_all add: secret_data_def with_data_def secret_of_def kind_of_def key_of_def managed_def labels_of_def)

lemma secret_data_SetManagedBy [simp]: "secret_data (SetManagedBy ob) = secret_data ob"
  by (simp add: secret_data_def secret_of_def)

text \<open>A stored kubeconfig is good when it lives at least until the next planned round, and for at
  least a third of the desired lifetime.\<close>

definition still_good :: "'w kubeconfig_env \<Rightarrow> kobj \<Rightarrow> 'w \<Rightarrow> bool" where
  "still_good K ob w \<longleftrightarrow> (\<exists>s t. secret_data ob keyExpiration = Some s \<and> ke_parse K s = Inr t
     \<and> ke_now K w + ke_period K \<le> t \<and> ke_now K w + ke_lifetime K sdiv 3 \<le> t)"

lemma still_good_iff:
  "still_good K ob w = (case secret_data ob keyExpiration of
     None \<Rightarrow> False
   | Some s \<Rightarrow> (case ke_parse K s of Inl e \<Rightarrow> False | Inr t \<Rightarrow> \<not> expired K t w))"
  by (auto simp: still_good_def expired_def Let_def split: option.splits sum.splits)

lemma renew_kubeconfig_ok:
  assumes "cou_law r view" "renew_kubeconfig K r cfg ref secret w = (Inr key, w')" "kind_of secret = KSecret"
  shows "key = key_of secret \<and> (\<exists>kc t raw w1 ob. ke_generate K cfg ref (ke_lifetime K) w = (Inr (kc, t), w1)
     \<and> ke_write K kc = Inr raw
     \<and> view w' = (view w1)(KSecret := (view w1 KSecret)(key \<mapsto> ob))
     \<and> secret_data ob keyKubeconfig = Some raw \<and> secret_data ob keyExpiration = Some (ke_format K t) \<and> managed ob)"
proof -
  from assms(2) obtain kc t w1 where g: "ke_generate K cfg ref (ke_lifetime K) w = (Inr (kc, t), w1)"
    by (auto simp: renew_kubeconfig_def split: prod.splits sum.splits)
  from assms(2) g obtain raw where raw: "ke_write K kc = Inr raw"
    by (auto simp: renew_kubeconfig_def split: prod.splits sum.splits)
  let ?f = "\<lambda>ob. let ob1 = SetManagedBy ob in Inr (with_data ob1 ((secret_data ob1)(keyKubeconfig \<mapsto> raw,
                  keyExpiration \<mapsto> ke_format K t))) :: err + kobj"
  from assms(2) g raw have k: "key = key_of secret" and c: "cl_create_or_update r secret ?f w1 = (None, w')"
    by (auto simp: renew_kubeconfig_def split: prod.splits option.splits)
  from cou_law_ok [OF assms(1) c] assms(3) obtain ob where
    "?f (case view w1 KSecret (key_of secret) of Some cur \<Rightarrow> cur | None \<Rightarrow> secret) = Inr ob"
    "view w' = (view w1)(KSecret := (view w1 KSecret)(key_of secret \<mapsto> ob))" by auto
  then show ?thesis using k g raw
    by (intro conjI exI) (auto simp: keyKubeconfig_def keyExpiration_def Let_def)
qed

text \<open>
  C30. The kubeconfig secret: success means that either the stored kubeconfig lives at least for
  the reconcile period and for a third of the desired lifetime, and then nothing was changed and no
  token minted, or one was generated now for the desired lifetime and stored, with its expiry
  and the managed-by label, under the secret's key, no other object of the cluster being written
  after the generation. A good kubeconfig is never renewed.
\<close>

theorem ensureKubeconfig_fresh:
  assumes "cou_law r view" "get_law r view" "wf_view view w"
    and "ensureKubeconfig K r cfg ns name ref w = (Inr key, w')"
  shows "key = \<lparr> nn_namespace = ns, nn_name = name \<rparr>
    \<and> (if \<exists>ob. view w KSecret key = Some ob \<and> still_good K ob w then w' = w
       else \<exists>kc t raw w1 ob. ke_generate K cfg ref (ke_lifetime K) w = (Inr (kc, t), w1)
            \<and> ke_write K kc = Inr raw \<and> view w' = (view w1)(KSecret := (view w1 KSecret)(key \<mapsto> ob))
            \<and> secret_data ob keyKubeconfig = Some raw \<and> secret_data ob keyExpiration = Some (ke_format K t)
            \<and> managed ob)"
proof -
  let ?key = "\<lparr> nn_namespace = ns, nn_name = name \<rparr>"
  let ?new = "new_obj ns name (BSecret \<lparr> se_type = [], se_data = None \<rparr>)"
  have fin: ?thesis
    if s0: "key_of s0 = ?key" and good: "(\<exists>ob. view w KSecret ?key = Some ob \<and> still_good K ob w) \<longleftrightarrow> still_good K s0 w"
      and run: "ensureKubeconfig K r cfg ns name ref w =
        (case secret_data s0 keyExpiration of
           None \<Rightarrow> renew_kubeconfig K r cfg ref (with_data s0 (secret_data s0)) w
         | Some str \<Rightarrow> (case ke_parse K str of Inl e \<Rightarrow> (Inl e, w)
             | Inr t \<Rightarrow> if \<not> expired K t w then (Inr ?key, w)
                        else renew_kubeconfig K r cfg ref (with_data s0 (secret_data s0)) w))" for s0
  proof (cases "still_good K s0 w")
    case True
    with run assms(4) have "key = ?key" "w' = w"
      by (auto simp: still_good_iff split: option.splits sum.splits)
    with True good show ?thesis by simp
  next
    case False
    with run assms(4) have "renew_kubeconfig K r cfg ref (with_data s0 (secret_data s0)) w = (Inr key, w')"
      by (auto simp: still_good_iff split: option.splits sum.splits)
    note renewed = renew_kubeconfig_ok [OF assms(1) this, simplified]
    with s0 have k: "key = ?key" by simp
    with False good have "\<not> (\<exists>ob. view w KSecret key = Some ob \<and> still_good K ob w)" by blast
    with k renewed show ?thesis by (simp only: if_False) blast
  qed
  show ?thesis
  proof (cases "cl_get r KSecret ?key w")
    case (Inr found)
    with assms(2) have v: "view w KSecret ?key = Some found" by (simp add: get_law_def)
    with wf_viewD [OF assms(3)] have k: "key_of found = ?key" by blast
    show ?thesis
      by (rule fin [of found]) (use Inr v k in \<open>simp_all add: ensureKubeconfig_def Let_def split: option.splits sum.splits\<close>)
  next
    case (Inl e)
    with assms(4) have nf: "is_not_found e" by (auto simp: ensureKubeconfig_def split: if_splits)
    with Inl assms(2) have v: "view w KSecret ?key = None" by (simp add: get_law_def)
    have d: "secret_data ?new = Map.empty" by (simp add: secret_data_def secret_of_def new_obj_def)
    show ?thesis
      by (rule fin [of ?new]) (use Inl v nf d in \<open>simp_all add: ensureKubeconfig_def still_good_iff\<close>)
  qed
qed

definition demo_kenv :: "store kubeconfig_env" where
  "demo_kenv = \<lparr> ke_now = (\<lambda>_. 0), ke_parse = (\<lambda>s. Inr (int (length s))), ke_format = (\<lambda>t. replicate (nat t) (CHR ''x'')),
     ke_write = (\<lambda>_. Inr ''raw''), ke_generate = (\<lambda>c ref d w. (Inr (\<lparr> kcf_current = [], kcf_clusters = Map.empty,
        kcf_users = Map.empty, kcf_contexts = Map.empty \<rparr>, d), w)), ke_period = 2, ke_lifetime = 3 \<rparr>"

theorem ensureKubeconfig_fresh_witness:
  "\<exists>key w' ob. ensureKubeconfig demo_kenv store_client None ''cp-a'' ''flux-kubeconfig'' demo_ref [] = (Inr key, w')
     \<and> store_view w' KSecret key = Some ob \<and> secret_data ob keyKubeconfig = Some ''raw''"
proof -
  have "\<exists>key w'. ensureKubeconfig demo_kenv store_client None ''cp-a'' ''flux-kubeconfig'' demo_ref [] = (Inr key, w')"
    by (simp add: ensureKubeconfig_def renew_kubeconfig_def demo_kenv_def store_defs Let_def new_obj_def
        secret_data_def secret_of_def with_data_def)
  then obtain key w' where r: "ensureKubeconfig demo_kenv store_client None ''cp-a'' ''flux-kubeconfig'' demo_ref [] = (Inr key, w')"
    by blast
  have n: "store_view [] KSecret key = None" by (simp add: store_view_def)
  from ensureKubeconfig_fresh [OF store_api_laws(3,1) wf_store_Nil r] n obtain kc t raw w1 ob where
    "ke_write demo_kenv kc = Inr raw" "store_view w' = (store_view w1)(KSecret := (store_view w1 KSecret)(key \<mapsto> ob))"
    "secret_data ob keyKubeconfig = Some raw" by auto
  with r show ?thesis by (auto simp: demo_kenv_def)
qed

text \<open>
  The decision looks at the expiry only: a secret that has an expiry but lost its kubeconfig is
  taken for good until then.
\<close>

lemma missing_kubeconfig_not_repaired:
  assumes "cl_get r KSecret \<lparr> nn_namespace = ns, nn_name = name \<rparr> w = Inr found"
    and "key_of found = \<lparr> nn_namespace = ns, nn_name = name \<rparr>"
    and "secret_data found keyKubeconfig = None" "still_good K found w"
  shows "ensureKubeconfig K r cfg ns name ref w = (Inr \<lparr> nn_namespace = ns, nn_name = name \<rparr>, w)"
  using assms by (auto simp: ensureKubeconfig_def still_good_iff Let_def split: option.splits sum.splits)

end
