(* ===== verification/SecretSync.thy ===== *)
theory SecretSync
  imports ObjectComponents Names TargetAccess
begin

text \<open>
  Secrets that are copied: pull secrets for target clusters
  (\<^verbatim>\<open>pkg/controlplane/secrets/pullsecrets.go\<close>), credentials looked up by URL
  (\<^verbatim>\<open>pkg/controlplane/secretresolver\<close>), and the controller that copies labelled secrets to
  the namespaces of the control planes (\<^verbatim>\<open>internal/controller/secret_controller.go\<close>).
\<close>

definition AnnotationCredentialsForUrl :: string where
  "AnnotationCredentialsForUrl = ''core.orchestrate.cloud.sap/credentials-for-url''"

lemma label_distinct [simp]:
  "LabelCopySourceName \<noteq> LabelManagedBy" "LabelCopySourceNamespace \<noteq> LabelManagedBy"
  "LabelCopySourceName \<noteq> LabelCopySourceNamespace" "LabelCopySourceNamespace \<noteq> LabelCopySourceName"
  "LabelManagedBy \<noteq> LabelCopySourceName" "LabelManagedBy \<noteq> LabelCopySourceNamespace"
  "LabelManagedBy \<noteq> LabelCopyToCPNamespace" "LabelCopyToCPNamespace \<noteq> LabelManagedBy"
  "LabelCopyToCPNamespace \<noteq> LabelCopySourceName" "LabelCopyToCPNamespace \<noteq> LabelCopySourceNamespace"
  by (simp_all add: LabelCopySourceName_def LabelCopySourceNamespace_def LabelManagedBy_def LabelCopyToCPNamespace_def)

section \<open>Pull secrets (pullsecrets.go)\<close>

definition SecretTypeDockerConfigJson :: string where
  "SecretTypeDockerConfigJson = ''kubernetes.io/dockerconfigjson''"

definition AvailablePullSecrets :: "'w client \<Rightarrow> 'w \<Rightarrow> err + nname list" where
  "AvailablePullSecrets c w =
     (case cl_list c KSecret [MatchingLabels [(LabelCopyToCP, ''true'')]] w of
        Inl e \<Rightarrow> Inl e
      | Inr items \<Rightarrow>
          Inr (map key_of (filter (\<lambda>secret. se_type (secret_of secret) = SecretTypeDockerConfigJson) items)))"

section \<open>Credentials by URL (secretresolver.go)\<close>

text \<open>The map of the resolver; \<open>NewFluxSecretResolver\<close> starts with the empty one.\<close>

type_synonym url_secrets = "url_secret_type \<Rightarrow> string option"

definition NewFluxSecretResolver :: url_secrets where
  "NewFluxSecretResolver = Map.empty"

definition secret_urls :: "kobj \<Rightarrow> string list" where
  "secret_urls secret =
     (case annotations_of secret AnnotationCredentialsForUrl of
        None \<Rightarrow> []
      | Some joinedURLs \<Rightarrow> split_on (CHR '','') joinedURLs)"

definition resolver_add :: "kobj \<Rightarrow> url_secrets \<Rightarrow> url_secrets" where
  "resolver_add secret m =
     fold (\<lambda>url m. m(\<lparr> us_url = url, us_type = se_type (secret_of secret) \<rparr> \<mapsto> om_name (ko_meta secret)))
       (secret_urls secret) m"

definition resolver_Start :: "'w client \<Rightarrow> 'w \<Rightarrow> url_secrets \<Rightarrow> err option \<times> url_secrets" where
  "resolver_Start c w secrets =
     (case cl_list c KSecret [MatchingLabels [(LabelCopyToCPNamespace, ''true'')]] w of
        Inl e \<Rightarrow> (Some e, secrets)
      | Inr items \<Rightarrow> (None, fold resolver_add items secrets))"

definition resolver_Resolve :: "url_secrets \<Rightarrow> secret_resolver" where
  "resolver_Resolve secrets urlType = secrets urlType"

definition offers :: "kobj \<Rightarrow> url_secret_type \<Rightarrow> bool" where
  "offers secret u \<longleftrightarrow> us_url u \<in> set (secret_urls secret) \<and> us_type u = se_type (secret_of secret)"

lemma fold_map_upd:
  "fold (\<lambda>url m. m(\<lparr> us_url = url, us_type = t \<rparr> \<mapsto> v)) urls m u
     = (if us_url u \<in> set urls \<and> us_type u = t then Some v else m u)"
  by (induction urls arbitrary: m) auto

lemma resolver_add_apply:
  "resolver_add secret m u = (if offers secret u then Some (om_name (ko_meta secret)) else m u)"
  by (simp add: resolver_add_def offers_def fold_map_upd)

lemma fold_resolver_add:
  "fold resolver_add items m u =
     (case find (\<lambda>s. offers s u) (rev items) of Some s \<Rightarrow> Some (om_name (ko_meta s)) | None \<Rightarrow> m u)"
proof (induction items rule: rev_induct)
  case (snoc s items)
  then show ?case by (simp add: resolver_add_apply)
qed simp

text \<open>
  C36. After the initial scan the resolver answers exactly what the cluster holds: a name it
  returns for a URL and a secret type is that of a secret that is labelled for copying, has
  that type and lists that URL in its annotation, and when it returns none there is no such
  secret. (Of several, one is returned.)
\<close>

theorem resolver_answers_cluster:
  assumes "list_law c view" "wf_view view w" "resolver_Start c w NewFluxSecretResolver = (None, m)"
  shows "case resolver_Resolve m u of
       Some name \<Rightarrow> \<exists>n ob. view w KSecret n = Some ob \<and> labels_of ob LabelCopyToCPNamespace = Some ''true''
                        \<and> offers ob u \<and> nn_name n = name
     | None \<Rightarrow> \<forall>n ob. view w KSecret n = Some ob \<longrightarrow> labels_of ob LabelCopyToCPNamespace = Some ''true'' \<longrightarrow> \<not> offers ob u"
proof -
  let ?os = "[MatchingLabels [(LabelCopyToCPNamespace, ''true'')]]"
  from assms(3) obtain items where i: "cl_list c KSecret ?os w = Inr items" "m = fold resolver_add items Map.empty"
    by (auto simp: resolver_Start_def NewFluxSecretResolver_def split: sum.splits)
  have s: "set items = {ob. \<exists>n. view w KSecret n = Some ob \<and> labels_of ob LabelCopyToCPNamespace = Some ''true''}"
    using assms(1)[unfolded list_law_def, rule_format, OF i(1)] by (simp add: opts_match_def)
  show ?thesis
  proof (cases "find (\<lambda>s. offers s u) (rev items)")
    case None
    then have "\<forall>ob\<in>set items. \<not> offers ob u" by (simp add: find_None_iff_all)
    with s i(2) None show ?thesis by (auto simp: resolver_Resolve_def fold_resolver_add)
  next
    case (Some ob)
    then have "ob \<in> set items" "offers ob u" by (auto dest: find_Some_mem)
    with s obtain n where n: "view w KSecret n = Some ob" "labels_of ob LabelCopyToCPNamespace = Some ''true''" by auto
    from wf_viewD [OF assms(2) n(1)] have "nn_name n = om_name (ko_meta ob)" by (auto simp: key_of_def)
    with n Some i(2) \<open>offers ob u\<close> show ?thesis by (auto simp: resolver_Resolve_def fold_resolver_add)
  qed
qed

definition credentials :: kobj where
  "credentials = (let ob = SetLabel (new_obj ''ns'' ''cred'' (BSecret \<lparr> se_type = ''t'', se_data = None \<rparr>))
       LabelCopyToCPNamespace ''true''
     in ob\<lparr>ko_meta := (ko_meta ob)\<lparr>om_annotations := Some [AnnotationCredentialsForUrl \<mapsto> ''a,b'']\<rparr>\<rparr>)"

lemma credentials_simps [simp]:
  "labels_of credentials LabelCopyToCPNamespace = Some ''true''" "kind_of credentials = KSecret"
  "key_of credentials = \<lparr> nn_namespace = ''ns'', nn_name = ''cred'' \<rparr>" "secret_urls credentials = [''a'', ''b'']"
  "secret_of credentials = \<lparr> se_type = ''t'', se_data = None \<rparr>" "om_name (ko_meta credentials) = ''cred''"
  by (simp_all add: credentials_def Let_def labels_of_def kind_of_def key_of_def secret_urls_def annotations_of_def
      secret_of_def SetLabel_def new_obj_def empty_meta_def)

definition credential_store :: store where
  "credential_store = [((KSecret, \<lparr> nn_namespace = ''ns'', nn_name = ''cred'' \<rparr>), credentials)]"

theorem resolver_answers_cluster_witness:
  "\<exists>m. resolver_Start store_client credential_store NewFluxSecretResolver = (None, m)
     \<and> resolver_Resolve m \<lparr> us_url = ''b'', us_type = ''t'' \<rparr> = Some ''cred''"
proof -
  let ?m = "resolver_add credentials Map.empty"
  have r: "resolver_Start store_client credential_store NewFluxSecretResolver = (None, ?m)"
    by (simp add: resolver_Start_def credential_store_def store_defs opts_match_def NewFluxSecretResolver_def)
  have wf: "wf_view store_view credential_store" by (simp add: credential_store_def)
  from resolver_answers_cluster [OF store_api_laws(2) wf r, of "\<lparr> us_url = ''b'', us_type = ''t'' \<rparr>"] r
  show ?thesis
    by (auto simp: resolver_Resolve_def resolver_add_apply offers_def)
qed

section \<open>Copying secrets to the control planes (secret_controller.go)\<close>

text \<open>The result of a reconciliation: the delay of the next one (0 for none) and the error.\<close>

type_synonym 'w ctrl_result = "(int \<times> err option) \<times> 'w"

definition Finalizer :: string where "Finalizer = ''core.orchestrate.cloud.sap''"
definition finalizerOrphan :: string where "finalizerOrphan = Finalizer @ ''/orphan''"
definition requeueAfterError :: int where "requeueAfterError = 10 * nanoseconds"

definition errFailedToCopySecret :: err where
  "errFailedToCopySecret = Sentinel ''errFailedToCopySecret'' ''failed to copy secret''"
definition errFailedToDeleteCopy :: err where
  "errFailedToDeleteCopy = Sentinel ''errFailedToDeleteCopy'' ''failed to delete secret copy''"

definition with_finalizers :: "kobj \<Rightarrow> string list \<Rightarrow> kobj" where
  "with_finalizers ob fs = ob\<lparr>ko_meta := (ko_meta ob)\<lparr>om_finalizers := fs\<rparr>\<rparr>"

definition secret_hasFinalizer :: "libs \<Rightarrow> kobj \<Rightarrow> bool" where
  "secret_hasFinalizer L ob = lib_contains_finalizer L (om_finalizers (ko_meta ob)) finalizerOrphan"

definition secret_shouldReconcile :: "libs \<Rightarrow> kobj \<Rightarrow> bool" where
  "secret_shouldReconcile L ob \<longleftrightarrow> labels_of ob LabelCopyToCPNamespace \<noteq> None \<or> secret_hasFinalizer L ob"

definition secret_ensureFinalizer :: "libs \<Rightarrow> 'w client \<Rightarrow> kobj \<Rightarrow> 'w \<Rightarrow> err option \<times> 'w" where
  "secret_ensureFinalizer L r ob w =
     (case lib_add_finalizer L (om_finalizers (ko_meta ob)) finalizerOrphan of
        (updated, fs) \<Rightarrow> if updated then cl_update r (with_finalizers ob fs) w else (None, w))"

definition secret_removeFinalizer :: "libs \<Rightarrow> 'w client \<Rightarrow> kobj \<Rightarrow> 'w \<Rightarrow> err option \<times> 'w" where
  "secret_removeFinalizer L r ob w =
     (case lib_remove_finalizer L (om_finalizers (ko_meta ob)) finalizerOrphan of
        (updated, fs) \<Rightarrow> if updated then cl_update r (with_finalizers ob fs) w else (None, w))"

definition copy_labels :: "kobj \<Rightarrow> (string \<times> string) list" where
  "copy_labels secret = [(LabelCopySourceName, om_name (ko_meta secret)),
     (LabelCopySourceNamespace, om_namespace (ko_meta secret))]"

definition handleDeletion :: "libs \<Rightarrow> 'w client \<Rightarrow> kobj \<Rightarrow> 'w \<Rightarrow> 'w ctrl_result" where
  "handleDeletion L r secret w =
     (case cl_list r KSecret [MatchingLabels (copy_labels secret)] w of
        Inl e \<Rightarrow> ((0, Some e), w)
      | Inr copies \<Rightarrow>
          if length copies = 0
          then (case secret_removeFinalizer L r secret w of (e, w1) \<Rightarrow> ((0, e), w1))
          else (case delete_each r copies w of
                  (Some e, w1) \<Rightarrow> ((0, Some (Join [errFailedToDeleteCopy, e])), w1)
                | (None, w1) \<Rightarrow> ((requeueAfterError, None), w1)))"

definition copy_mutate :: "libs \<Rightarrow> kobj \<Rightarrow> kobj \<Rightarrow> err + kobj" where
  "copy_mutate L secret copy =
     (let copy1 = copy\<lparr>ko_body := BSecret (secret_of secret)\<rparr>;
          copy2 = lib_set_meta_label L copy1 LabelCopySourceName (om_name (ko_meta secret));
          copy3 = lib_set_meta_label L copy2 LabelCopySourceNamespace (om_namespace (ko_meta secret))
      in Inr (SetManagedBy copy3))"

definition copies_for :: "libs \<Rightarrow> kobj \<Rightarrow> kobj list \<Rightarrow> (kobj \<times> (kobj \<Rightarrow> err + kobj)) list" where
  "copies_for L secret namespaces =
     map (\<lambda>ns. (new_obj (om_name (ko_meta ns)) (om_name (ko_meta secret)) (BSecret \<lparr> se_type = [], se_data = None \<rparr>),
               copy_mutate L secret))
       (filter (\<lambda>ns. prefix cpNamespacePrefix (om_name (ko_meta ns))) namespaces)"

definition handleSync :: "libs \<Rightarrow> int \<Rightarrow> 'w client \<Rightarrow> kobj \<Rightarrow> 'w \<Rightarrow> 'w ctrl_result" where
  "handleSync L reconcilePeriod r secret w =
     (case cl_list r KNamespace [] w of
        Inl e \<Rightarrow> ((0, Some e), w)
      | Inr namespaces \<Rightarrow>
          (case apply_each r (copies_for L secret namespaces) w of
             (Some e, w1) \<Rightarrow> ((0, Some (Join [errFailedToCopySecret, e])), w1)
           | (None, w1) \<Rightarrow> ((reconcilePeriod, None), w1)))"

definition with_labels :: "kobj \<Rightarrow> kobj" where
  "with_labels ob =
     (case om_labels (ko_meta ob) of
        None \<Rightarrow> ob\<lparr>ko_meta := (ko_meta ob)\<lparr>om_labels := Some Map.empty\<rparr>\<rparr>
      | Some _ \<Rightarrow> ob)"

definition SecretReconcile :: "libs \<Rightarrow> int \<Rightarrow> 'w client \<Rightarrow> nname \<Rightarrow> 'w \<Rightarrow> 'w ctrl_result" where
  "SecretReconcile L reconcilePeriod r req w =
     (case cl_get r KSecret req w of
        Inl e \<Rightarrow> if is_not_found e then ((0, None), w) else ((0, Some e), w)
      | Inr found \<Rightarrow>
          (let secret = with_labels found
           in if \<not> secret_shouldReconcile L secret then ((0, None), w)
              else if om_deletion (ko_meta secret) \<noteq> None \<or> labels_of secret LabelCopyToCPNamespace \<noteq> Some ''true''
              then handleDeletion L r secret w
              else (case secret_ensureFinalizer L r secret w of
                      (Some e, w1) \<Rightarrow> ((0, Some e), w1)
                    | (None, w1) \<Rightarrow> handleSync L reconcilePeriod r secret w1)))"

subsection \<open>What a round does\<close>

definition copy_of :: "kobj \<Rightarrow> kobj \<Rightarrow> bool" where
  "copy_of secret copy \<longleftrightarrow> secret_of copy = secret_of secret \<and> managed copy
     \<and> (\<forall>(k, v)\<in>set (copy_labels secret). labels_of copy k = Some v)"

lemma copy_mutate_ok:
  assumes "meta_label_law L" "copy_mutate L secret b = Inr copy"
  shows "copy_of secret copy" and "om_finalizers (ko_meta copy) = om_finalizers (ko_meta b)"
  using assms
  by (auto simp: copy_mutate_def meta_label_law_def copy_of_def copy_labels_def Let_def secret_of_def managed_def
      SetManagedBy_def)

lemma with_labels_frame [simp]:
  "om_name (ko_meta (with_labels ob)) = om_name (ko_meta ob)"
  "om_namespace (ko_meta (with_labels ob)) = om_namespace (ko_meta ob)"
  "om_finalizers (ko_meta (with_labels ob)) = om_finalizers (ko_meta ob)"
  "om_deletion (ko_meta (with_labels ob)) = om_deletion (ko_meta ob)"
  "labels_of (with_labels ob) = labels_of ob" "secret_of (with_labels ob) = secret_of ob"
  "key_of (with_labels ob) = key_of ob" "kind_of (with_labels ob) = kind_of ob"
  by (simp_all add: with_labels_def labels_of_def secret_of_def key_of_def kind_of_def split: option.splits)

lemma with_finalizers_frame [simp]:
  "om_finalizers (ko_meta (with_finalizers ob fs)) = fs"
  "om_deletion (ko_meta (with_finalizers ob fs)) = om_deletion (ko_meta ob)"
  "labels_of (with_finalizers ob fs) = labels_of ob" "secret_of (with_finalizers ob fs) = secret_of ob"
  "key_of (with_finalizers ob fs) = key_of ob" "kind_of (with_finalizers ob fs) = kind_of ob"
  by (simp_all add: with_finalizers_def labels_of_def secret_of_def key_of_def kind_of_def)

lemma copy_of_frame [simp]: "copy_of (with_labels s) = copy_of s"
  by (simp add: copy_of_def copy_labels_def fun_eq_iff)

lemma copies_for_named_in:
  "named_in (map fst (copies_for L secret nss)) k n \<longleftrightarrow>
     k = KSecret \<and> nn_name n = om_name (ko_meta secret) \<and> prefix cpNamespacePrefix (nn_namespace n)
     \<and> (\<exists>ns\<in>set nss. om_name (ko_meta ns) = nn_namespace n)"
  by (cases n) (auto simp: named_in_iff copies_for_def)

lemma handleSync_effect:
  assumes "cou_law r view" "meta_label_law L" "handleSync L period r secret w = ((d, e), w')"
  shows "\<exists>nss. (e = None \<longrightarrow> d = period \<and> cl_list r KNamespace [] w = Inr nss)
     \<and> (\<forall>k n. named_in (map fst (copies_for L secret nss)) k n \<longrightarrow> e = None \<longrightarrow>
              (\<exists>copy. view w' k n = Some copy \<and> copy_of secret copy))
     \<and> (\<forall>k n ob. view w k n = Some ob \<longrightarrow>
              (\<exists>ob'. view w' k n = Some ob' \<and> om_finalizers (ko_meta ob') = om_finalizers (ko_meta ob)))"
proof (cases "cl_list r KNamespace [] w")
  case (Inl x)
  with assms(3) show ?thesis by (auto simp: handleSync_def)
next
  case (Inr nss)
  obtain res w1 where run: "apply_each r (copies_for L secret nss) w = (res, w1)" by force
  have f: "f = copy_mutate L secret" if "(ob, f) \<in> set (copies_for L secret nss)" for ob f
    using that by (auto simp: copies_for_def)
  have w1: "w' = w1" "res = None \<longleftrightarrow> e = None" "e = None \<longrightarrow> d = period"
    using assms(3) Inr run by (auto simp: handleSync_def split: option.splits)
  have made: "\<exists>copy. view w' k n = Some copy \<and> copy_of secret copy"
    if "named_in (map fst (copies_for L secret nss)) k n" "e = None" for k n
  proof (rule apply_each_ok [OF assms(1) _ _ that(1), where Q = "\<lambda>k n. copy_of secret"])
    show "apply_each r (copies_for L secret nss) w = (None, w')" using run w1 that(2) by simp
  qed (use f copy_mutate_ok(1) [OF assms(2)] in blast)
  have kept: "\<exists>ob'. view w' k n = Some ob' \<and> om_finalizers (ko_meta ob') = om_finalizers (ko_meta ob)"
    if "view w k n = Some ob" for k n ob
  proof (rule apply_each_keeps [OF assms(1) run [folded w1(1)] _ that])
    fix o1 f b b' assume "(o1, f) \<in> set (copies_for L secret nss)" "f b = Inr b'"
      "om_finalizers (ko_meta b) = om_finalizers (ko_meta ob)"
    with f copy_mutate_ok(2) [OF assms(2)] show "om_finalizers (ko_meta b') = om_finalizers (ko_meta ob)" by metis
  qed simp
  show ?thesis
    by (rule exI [of _ nss], intro conjI allI impI) (use Inr w1 made kept in auto)
qed

lemma ensureFinalizer_effect:
  assumes "finalizer_law L" "update_law r view" "secret_ensureFinalizer L r s w = (None, w1)"
    and "om_deletion (ko_meta s) = None" "view w KSecret (key_of s) = Some s0" "om_finalizers (ko_meta s0) = om_finalizers (ko_meta s)"
    and "kind_of s = KSecret"
  shows "(\<forall>k n. (k, n) \<noteq> (KSecret, key_of s) \<longrightarrow> view w1 k n = view w k n)
     \<and> (\<exists>s1. view w1 KSecret (key_of s) = Some s1 \<and> finalizerOrphan \<in> set (om_finalizers (ko_meta s1)))"
proof (cases "finalizerOrphan \<in> set (om_finalizers (ko_meta s))")
  case True
  with assms(1,3) have "w1 = w" by (simp add: finalizer_law_def secret_ensureFinalizer_def)
  with True assms(5,6) show ?thesis by auto
next
  case False
  let ?s = "with_finalizers s (om_finalizers (ko_meta s) @ [finalizerOrphan])"
  from False assms(1,3) have "cl_update r ?s w = (None, w1)"
    by (simp add: finalizer_law_def secret_ensureFinalizer_def)
  with assms(2)[unfolded update_law_def, rule_format, where ob = ?s and w = w] assms(4,7)
  have "view w1 = (view w)(KSecret := (view w KSecret)(key_of s := Some ?s))"
    by (simp add: Let_def persisted_def)
  then show ?thesis by auto
qed

definition secret_laws :: "libs \<Rightarrow> 'w client \<Rightarrow> 'w kview \<Rightarrow> bool" where
  "secret_laws L r view \<longleftrightarrow> api_laws r view \<and> finalizer_law L \<and> meta_label_law L"

text \<open>
  C21. Copying secrets: when a reconciliation of a secret that is labelled for copying and not
  being deleted ends without an error, the next one is planned after the reconcile period, the
  secret carries the orphan finalizer, and every namespace of a control plane holds a secret of
  the same name with the same type and data, labelled as managed and with its source.
\<close>

theorem SecretReconcile_copies:
  assumes "secret_laws L r view" "wf_view view w"
    and "view w KSecret req = Some s" "labels_of s LabelCopyToCPNamespace = Some ''true''"
    and "om_deletion (ko_meta s) = None"
    and "SecretReconcile L period r req w = ((d, None), w')"
  shows "d = period
     \<and> (\<exists>s'. view w' KSecret req = Some s' \<and> finalizerOrphan \<in> set (om_finalizers (ko_meta s')))
     \<and> (\<forall>nsn ns. view w KNamespace nsn = Some ns \<and> prefix cpNamespacePrefix (nn_name nsn) \<longrightarrow>
          (\<exists>copy. view w' KSecret \<lparr> nn_namespace = nn_name nsn, nn_name = nn_name req \<rparr> = Some copy
                  \<and> copy_of s copy))"
proof -
  from assms(1) have laws: "get_law r view" "list_law r view" "cou_law r view" "update_law r view"
      "finalizer_law L" "meta_label_law L" by (simp_all add: secret_laws_def api_laws_def)
  have key: "kind_of s = KSecret" "key_of s = req" using wf_viewD [OF assms(2,3)] by auto
  have get: "cl_get r KSecret req w = Inr s"
  proof (cases "cl_get r KSecret req w")
    case (Inl e)
    with assms(6) have "is_not_found e" by (auto simp: SecretReconcile_def split: if_splits)
    with Inl laws(1) have "view w KSecret req = None" unfolding get_law_def by blast
    with assms(3) show ?thesis by simp
  next
    case (Inr s')
    with laws(1) assms(3) show ?thesis by (auto simp: get_law_def)
  qed
  let ?s = "with_labels s"
  obtain x w1 where x: "secret_ensureFinalizer L r ?s w = (x, w1)" by force
  from assms(4-6) get x have e: "secret_ensureFinalizer L r ?s w = (None, w1)"
    and sync: "handleSync L period r ?s w1 = ((d, None), w')"
    by (auto simp: SecretReconcile_def secret_shouldReconcile_def Let_def split: option.splits)
  from ensureFinalizer_effect [OF laws(5,4) e, of s] assms(3,5) key
  obtain s1 where s1: "view w1 KSecret req = Some s1" "finalizerOrphan \<in> set (om_finalizers (ko_meta s1))"
    and same: "\<forall>k n. (k, n) \<noteq> (KSecret, req) \<longrightarrow> view w1 k n = view w k n" by auto
  from handleSync_effect [OF laws(3,6) sync] obtain nss where nss: "d = period" "cl_list r KNamespace [] w1 = Inr nss"
    and made: "\<And>k n. named_in (map fst (copies_for L ?s nss)) k n \<Longrightarrow> \<exists>copy. view w' k n = Some copy \<and> copy_of s copy"
    and kept: "\<And>k n ob. view w1 k n = Some ob \<Longrightarrow>
       \<exists>ob'. view w' k n = Some ob' \<and> om_finalizers (ko_meta ob') = om_finalizers (ko_meta ob)"
    by (auto simp del: copies_for_named_in)
  have listed: "ns \<in> set nss" if "view w KNamespace nsn = Some ns" for nsn ns
    using laws(2)[unfolded list_law_def, rule_format, OF nss(2)] that same by (auto simp: opts_match_def)
  have copies: "\<exists>copy. view w' KSecret \<lparr> nn_namespace = nn_name nsn, nn_name = nn_name req \<rparr> = Some copy \<and> copy_of s copy"
    if ns: "view w KNamespace nsn = Some ns" "prefix cpNamespacePrefix (nn_name nsn)" for nsn ns
  proof (rule made)
    from wf_viewD [OF assms(2) ns(1)] have "om_name (ko_meta ns) = nn_name nsn" by (auto simp: key_of_def)
    moreover have "om_name (ko_meta s) = nn_name req" using key(2) by (auto simp: key_of_def)
    ultimately show "named_in (map fst (copies_for L ?s nss)) KSecret \<lparr> nn_namespace = nn_name nsn, nn_name = nn_name req \<rparr>"
      using ns(2) listed [OF ns(1)] by (auto simp: copies_for_named_in)
  qed
  from kept [OF s1(1)] s1(2) nss(1) copies show ?thesis by auto
qed

text \<open>
  The orphan finalizer protects the copies: whenever a reconciliation of a secret, whatever
  its outcome, takes the finalizer off the secret (or lets the secret go), no copy made of it is
  left in any namespace.
\<close>

theorem SecretReconcile_finalizer_last:
  assumes "secret_laws L r view" "wf_view view w"
    and "view w KSecret req = Some s" "finalizerOrphan \<in> set (om_finalizers (ko_meta s))"
    and "SecretReconcile L period r req w = (res, w')"
    and "case view w' KSecret req of None \<Rightarrow> True | Some s' \<Rightarrow> finalizerOrphan \<notin> set (om_finalizers (ko_meta s'))"
  shows "\<not> (\<exists>n copy. view w' KSecret n = Some copy
     \<and> labels_of copy LabelCopySourceName = Some (nn_name req)
     \<and> labels_of copy LabelCopySourceNamespace = Some (nn_namespace req))"
proof -
  from assms(1) have laws: "get_law r view" "list_law r view" "cou_law r view" "update_law r view" "delete_law r view"
      "finalizer_law L" "meta_label_law L" by (simp_all add: secret_laws_def api_laws_def)
  have key: "kind_of s = KSecret" "key_of s = req" using wf_viewD [OF assms(2,3)] by auto
  have nm: "om_name (ko_meta s) = nn_name req" "om_namespace (ko_meta s) = nn_namespace req"
    using key(2) by (auto simp: key_of_def)
  have unchanged: False if "w' = w" using assms(3,4,6) that by simp
  have get: "cl_get r KSecret req w = Inr s"
  proof (cases "cl_get r KSecret req w")
    case (Inl e)
    with assms(5) unchanged show ?thesis by (auto simp: SecretReconcile_def split: if_splits)
  next
    case (Inr s')
    with laws(1) assms(3) show ?thesis by (auto simp: get_law_def)
  qed
  let ?s = "with_labels s"
  have sr: "secret_shouldReconcile L ?s"
    using assms(4) laws(6) by (simp add: secret_shouldReconcile_def secret_hasFinalizer_def finalizer_law_def)
  show ?thesis
  proof (cases "om_deletion (ko_meta s) \<noteq> None \<or> labels_of s LabelCopyToCPNamespace \<noteq> Some ''true''")
    case False
    have "secret_ensureFinalizer L r ?s w = (None, w)"
      using laws(6) assms(4) by (simp add: secret_ensureFinalizer_def finalizer_law_def)
    with get sr False assms(5) have "handleSync L period r ?s w = (res, w')"
      by (auto simp: SecretReconcile_def)
    then obtain d e where "handleSync L period r ?s w = ((d, e), w')" by (cases res) auto
    from handleSync_effect [OF laws(3,7) this]
    have "\<forall>ob. view w KSecret req = Some ob \<longrightarrow>
      (\<exists>ob'. view w' KSecret req = Some ob' \<and> om_finalizers (ko_meta ob') = om_finalizers (ko_meta ob))" by meson
    with assms(3) obtain ob' where
      "view w' KSecret req = Some ob'" "om_finalizers (ko_meta ob') = om_finalizers (ko_meta s)" by blast
    with assms(4,6) show ?thesis by simp
  next
    case True
    with get sr assms(5) have del: "handleDeletion L r ?s w = (res, w')"
      by (simp add: SecretReconcile_def Let_def)
    let ?os = "[MatchingLabels (copy_labels ?s)]"
    show ?thesis
    proof (cases "cl_list r KSecret ?os w")
      case (Inl e)
      with del have "w' = w" by (simp add: handleDeletion_def)
      with unchanged show ?thesis by blast
    next
      case (Inr copies)
      with laws(2)[unfolded list_law_def, rule_format, OF Inr]
      have set: "set copies = {ob. \<exists>n. view w KSecret n = Some ob \<and> opts_match ?os ob}" by simp
      show ?thesis
      proof (cases copies)
        case Nil
        let ?s2 = "with_finalizers ?s (filter (\<lambda>x. x \<noteq> finalizerOrphan) (om_finalizers (ko_meta s)))"
        from del Inr Nil have "secret_removeFinalizer L r ?s w = (snd res, w')"
          by (auto simp: handleDeletion_def split: prod.splits)
        then have "cl_update r ?s2 w = (snd res, w')"
          using laws(6) assms(4) by (simp add: secret_removeFinalizer_def finalizer_law_def)
        with laws(4)[unfolded update_law_def, rule_format, where ob = ?s2 and w = w] key
        have "view w' = view w \<or> view w' = (view w)(KSecret := (view w KSecret)(req := persisted ?s2))"
          by (cases "snd res") (auto simp: Let_def)
        then have "\<exists>ob. view w KSecret n = Some ob \<and> labels_of ob = labels_of c" if "view w' KSecret n = Some c" for n c
          using that assms(3) by (cases "n = req") (auto simp: persisted_def split: if_splits)
        with set Nil nm show ?thesis by (auto simp: opts_match_def copy_labels_def) metis
      next
        case (Cons c cs)
        obtain e w1 where run: "delete_each r copies w = (e, w1)" by force
        with del Inr Cons have "w' = w1" by (auto simp: handleDeletion_def split: option.splits)
        with run have run: "delete_each r copies w = (e, w')" by simp
        from assms(4) have "om_finalizers (ko_meta s) \<noteq> []" by auto
        from delete_each_finalized [OF laws(5) run assms(3) this] assms(4,6) show ?thesis
          by (auto simp: mark_only_def)
      qed
    qed
  qed
qed

subsection \<open>Witnesses\<close>

lemma doc_secret_laws [simp]: "secret_laws doc_libs store_client store_view"
  by (simp add: secret_laws_def)

definition demo_secret :: "bool \<Rightarrow> kobj" where
  "demo_secret deleting = \<lparr> ko_meta = (empty_meta ''ns'' ''pull'')\<lparr>om_labels := Some [LabelCopyToCPNamespace \<mapsto> ''true''],
       om_finalizers := [finalizerOrphan], om_deletion := (if deleting then Some 0 else None)\<rparr>,
     ko_body = BSecret \<lparr> se_type = ''t'', se_data = None \<rparr> \<rparr>"

definition demo_secret_key :: nname where
  "demo_secret_key = \<lparr> nn_namespace = ''ns'', nn_name = ''pull'' \<rparr>"

definition demo_namespace :: nname where
  "demo_namespace = \<lparr> nn_namespace = [], nn_name = ''cp-a'' \<rparr>"

definition secret_store :: "bool \<Rightarrow> store" where
  "secret_store deleting = [((KSecret, demo_secret_key), demo_secret deleting),
     ((KNamespace, demo_namespace), new_obj [] ''cp-a'' BNamespace)]"

lemma demo_secret_key_of:
  "kind_of (demo_secret b) = KSecret" "key_of (demo_secret b) = demo_secret_key"
  by (simp_all add: demo_secret_def kind_of_def key_of_def empty_meta_def demo_secret_key_def)

lemma wf_secret_store: "wf_view store_view (secret_store b)"
  by (simp add: secret_store_def demo_secret_key_of demo_namespace_def)

lemma secret_store_simps [simp]:
  "wf_view store_view (secret_store b)"
  "store_view (secret_store b) KSecret demo_secret_key = Some (demo_secret b)"
  "store_view (secret_store b) KNamespace demo_namespace = Some (new_obj [] ''cp-a'' BNamespace)"
  "labels_of (demo_secret b) LabelCopyToCPNamespace = Some ''true''"
  "om_deletion (ko_meta (demo_secret b)) = (if b then Some 0 else None)"
  "finalizerOrphan \<in> set (om_finalizers (ko_meta (demo_secret b)))"
  "st_get KSecret demo_secret_key (secret_store b) = Inr (demo_secret b)"
  by (rule wf_secret_store)
     (simp_all add: secret_store_def demo_secret_def demo_namespace_def demo_secret_key_def store_view_def kind_of_def
      key_of_def empty_meta_def labels_of_def st_get_def)

lemma SecretReconcile_copies_witness:
  "\<exists>w' copy. SecretReconcile doc_libs 5 store_client demo_secret_key (secret_store False) = ((5, None), w')
     \<and> store_view w' KSecret \<lparr> nn_namespace = ''cp-a'', nn_name = ''pull'' \<rparr> = Some copy \<and> managed copy"
proof -
  obtain d w' where r: "SecretReconcile doc_libs 5 store_client demo_secret_key (secret_store False) = ((d, None), w')"
  proof -
    have "fst (apply_each store_client (copies_for doc_libs s nss) w) = None" for s nss w
      by (induction nss arbitrary: w) (auto simp: copies_for_def store_client_def st_cou_def copy_mutate_def Let_def)
    then have h: "\<exists>d w'. handleSync doc_libs 5 store_client s w = ((d, None), w')" for s w
      by (simp add: handleSync_def store_client_def st_list_def split: prod.splits option.splits)
         (metis fst_conv option.distinct(1))
    have e: "secret_ensureFinalizer doc_libs store_client (with_labels (demo_secret False)) w = (None, w)" for w
      by (simp add: secret_ensureFinalizer_def doc_libs_def)
    have "\<exists>d w'. SecretReconcile doc_libs 5 store_client demo_secret_key (secret_store False) = ((d, None), w')"
      using h by (simp add: SecretReconcile_def store_client_def secret_shouldReconcile_def Let_def e [unfolded store_client_def])
    then show thesis using that by blast
  qed
  from SecretReconcile_copies [OF doc_secret_laws secret_store_simps(1,2,4) _ r] r
    spec [of _ demo_namespace]
  have d: "d = 5" and c: "\<forall>nsn ns. store_view (secret_store False) KNamespace nsn = Some ns \<and> prefix cpNamespacePrefix (nn_name nsn) \<longrightarrow>
          (\<exists>copy. store_view w' KSecret \<lparr> nn_namespace = nn_name nsn, nn_name = nn_name demo_secret_key \<rparr> = Some copy
                  \<and> copy_of (demo_secret False) copy)" by auto
  from c [rule_format, of demo_namespace] obtain copy where
    "store_view w' KSecret \<lparr> nn_namespace = ''cp-a'', nn_name = ''pull'' \<rparr> = Some copy" "copy_of (demo_secret False) copy"
    by (auto simp: demo_namespace_def demo_secret_key_def cpNamespacePrefix_def secret_store_def store_view_def)
  with r d show ?thesis by (auto simp: copy_of_def)
qed

lemma SecretReconcile_finalizer_last_witness:
  "\<exists>res w'. SecretReconcile doc_libs 5 store_client demo_secret_key (secret_store True) = (res, w')
     \<and> \<not> (\<exists>n copy. store_view w' KSecret n = Some copy
         \<and> labels_of copy LabelCopySourceName = Some ''pull'' \<and> labels_of copy LabelCopySourceNamespace = Some ''ns'')"
proof -
  have nolabel: "labels_of (demo_secret True) LabelCopySourceName = None"
    by (simp add: demo_secret_def labels_of_def LabelCopySourceName_def LabelCopyToCPNamespace_def)
  have l: "st_list KSecret [MatchingLabels (copy_labels (with_labels (demo_secret True)))] (secret_store True) = Inr []"
    by (simp add: st_list_def secret_store_def opts_match_def copy_labels_def nolabel)
  obtain res w' where r: "SecretReconcile doc_libs 5 store_client demo_secret_key (secret_store True) = (res, w')"
    by (rule prod.exhaust)
  have gone: "store_view w' KSecret demo_secret_key = None"
    using r
    by (simp add: SecretReconcile_def secret_shouldReconcile_def Let_def handleDeletion_def store_client_def l
        secret_removeFinalizer_def doc_libs_def st_update_def persisted_def)
       (auto simp: store_view_def delete_conv demo_secret_def with_labels_def with_finalizers_def kind_of_def key_of_def
         demo_secret_key_def empty_meta_def)
  have "\<not> (\<exists>n copy. store_view w' KSecret n = Some copy
     \<and> labels_of copy LabelCopySourceName = Some (nn_name demo_secret_key)
     \<and> labels_of copy LabelCopySourceNamespace = Some (nn_namespace demo_secret_key))"
    by (rule SecretReconcile_finalizer_last [OF doc_secret_laws secret_store_simps(1,2,6) r]) (simp add: gone)
  with r show ?thesis by (simp add: demo_secret_key_def)
qed

end
