(* ===== verification/ReleaseChannels.thy ===== *)
theory ReleaseChannels
  imports SecretSync
begin

text \<open>
  Filling a release channel: reading components and their versions out of an OCM repository
  (\<^verbatim>\<open>internal/ocm/ocm.go\<close>, \<^verbatim>\<open>internal/ocm/utils.go\<close>) and the controller that stores them in
  the channel's status (\<^verbatim>\<open>internal/controller/releasechannel_controller.go\<close>). The OCM library,
  HTTP, JSON and temporary files are parameters.
\<close>

section \<open>What the OCM library gives\<close>

text \<open>\<open>ac_helm\<close> is the outcome of the type assertion to the Helm access specification
  (repository and chart).\<close>

record ocm_access =
  ac_kind :: string
  ac_helm :: "(string \<times> string) option"

record ocm_resource =
  re_access :: "err + ocm_access"
  re_artifact_ref :: "err + string"

record ocm_version =
  ov_labels :: "(string \<times> string) list"
  ov_resources :: "ocm_resource list"

text \<open>The list of versions is used even when listing reports an error.\<close>

record ocm_component =
  oc_list_versions :: "string list \<times> err option"
  oc_lookup_version :: "string \<Rightarrow> err + ocm_version"

type_synonym ocm_repo = "string \<Rightarrow> err + ocm_component"

text \<open>The names of the two access types the code supports.\<close>

record ocm_types =
  ot_oci_artifact :: string
  ot_helm :: string

section \<open>Components with versions (GetOCMComponentsWithVersions)\<close>

definition trim_char :: "char \<Rightarrow> string \<Rightarrow> string" where
  "trim_char c s = rev (dropWhile (\<lambda>x. x = c) (rev (dropWhile (\<lambda>x. x = c) s)))"

definition ignored :: "ocm_version \<Rightarrow> bool" where
  "ignored cva \<longleftrightarrow> list_ex (\<lambda>(name, value). name = ''openmcp.cloud/ignore'' \<and> trim_char (CHR 0x22) value = ''true'')
     (ov_labels cva)"

text \<open>One turn of the version loop: \<open>None\<close> for a version that is skipped.\<close>

definition version_entry ::
  "ocm_types \<Rightarrow> ocm_component \<Rightarrow> string \<Rightarrow> err + component_version option" where
  "version_entry T component version =
     (case oc_lookup_version component version of
        Inl e \<Rightarrow> Inl e
      | Inr cva \<Rightarrow>
          if ignored cva then Inr None
          else
            (case ov_resources cva of
               [] \<Rightarrow> Inr None
             | res # _ \<Rightarrow>
                 (case re_access res of
                    Inl e \<Rightarrow> Inl e
                  | Inr access \<Rightarrow>
                      if ac_kind access = ot_oci_artifact T
                      then (case re_artifact_ref res of
                              Inl e \<Rightarrow> Inl e
                            | Inr ref \<Rightarrow> Inr (Some (zero_component_version\<lparr>cv_version := version, cv_docker_ref := ref\<rparr>)))
                      else if ac_kind access = ot_helm T
                      then (case ac_helm access of
                              None \<Rightarrow> Inl (OtherErr ''failed to get Helm repository reference'')
                            | Some (repository, chart) \<Rightarrow>
                                Inr (Some (zero_component_version\<lparr>cv_version := version, cv_helm_repo := repository,
                                  cv_helm_chart := hd (split_on (CHR '':'') chart)\<rparr>)))
                      else Inl (OtherErr ''unsupported access method''))))"

fun version_loop :: "ocm_types \<Rightarrow> ocm_component \<Rightarrow> string list \<Rightarrow> err + component_version list" where
  "version_loop T component [] = Inr []"
| "version_loop T component (version # versions) =
     (case version_entry T component version of
        Inl e \<Rightarrow> Inl e
      | Inr entry \<Rightarrow>
          (case version_loop T component versions of
             Inl e \<Rightarrow> Inl e
           | Inr cvs \<Rightarrow> Inr ((case entry of None \<Rightarrow> [] | Some cv \<Rightarrow> [cv]) @ cvs)))"

definition formatted_name :: "string \<Rightarrow> string \<Rightarrow> string" where
  "formatted_name prefixFilter componentName = trim_prefix (trim_prefix componentName prefixFilter) ''/''"

text \<open>A component that cannot be looked up is nil, and using it panics.\<close>

fun GetOCMComponentsWithVersions ::
  "ocm_types \<Rightarrow> ocm_repo \<Rightarrow> string list \<Rightarrow> string \<Rightarrow> rc_component list gores" where
  "GetOCMComponentsWithVersions T repo [] prefixFilter = Ok []"
| "GetOCMComponentsWithVersions T repo (componentName # components) prefixFilter =
     (case repo componentName of
        Inl _ \<Rightarrow> Panic ''nil pointer dereference''
      | Inr component \<Rightarrow>
          (case version_loop T component (fst (oc_list_versions component)) of
             Inl e \<Rightarrow> Err e
           | Inr cvs \<Rightarrow>
               bind_go (GetOCMComponentsWithVersions T repo components prefixFilter)
                 (\<lambda>cs. Ok (\<lparr> co_name = formatted_name prefixFilter componentName, co_versions = cvs \<rparr> # cs))))"

text \<open>Which versions are offered, and what is published of one.\<close>

definition offered :: "ocm_component \<Rightarrow> string \<Rightarrow> bool" where
  "offered component version =
     (case oc_lookup_version component version of
        Inl e \<Rightarrow> False
      | Inr cva \<Rightarrow> ov_resources cva \<noteq> [] \<and>
          \<not> (\<exists>v. (''openmcp.cloud/ignore'', v) \<in> set (ov_labels cva) \<and> trim_char (CHR 0x22) v = ''true''))"

lemma ignored_iff:
  "ignored cva \<longleftrightarrow> (\<exists>v. (''openmcp.cloud/ignore'', v) \<in> set (ov_labels cva) \<and> trim_char (CHR 0x22) v = ''true'')"
  by (auto simp: ignored_def list_ex_iff)

definition published :: "ocm_types \<Rightarrow> ocm_component \<Rightarrow> component_version \<Rightarrow> bool" where
  "published T component cv =
     (case oc_lookup_version component (cv_version cv) of
        Inl e \<Rightarrow> False
      | Inr cva \<Rightarrow>
          (case ov_resources cva of
             [] \<Rightarrow> False
           | res # _ \<Rightarrow>
               (case re_access res of
                  Inl e \<Rightarrow> False
                | Inr access \<Rightarrow>
                    if ac_kind access = ot_oci_artifact T
                    then re_artifact_ref res = Inr (cv_docker_ref cv) \<and> cv_helm_repo cv = [] \<and> cv_helm_chart cv = []
                    else ac_kind access = ot_helm T \<and> cv_docker_ref cv = []
                      \<and> (\<exists>chart. ac_helm access = Some (cv_helm_repo cv, chart)
                           \<and> CHR '':'' \<notin> set (cv_helm_chart cv)
                           \<and> (chart = cv_helm_chart cv \<or> prefix (cv_helm_chart cv @ '':'') chart)))))"

lemma hd_split_on:
  "CHR '':'' \<notin> set (hd (split_on (CHR '':'') s))" "s = hd (split_on c s) \<or> prefix (hd (split_on c s) @ [c]) s"
proof -
  show "CHR '':'' \<notin> set (hd (split_on (CHR '':'') s))"
    using split_on_no_sep [of "hd (split_on (CHR '':'') s)" "CHR '':''" s] split_on_nonempty [of "CHR '':''" s]
    by (meson hd_in_set)
  show "s = hd (split_on c s) \<or> prefix (hd (split_on c s) @ [c]) s"
    by (induction s) (auto split: list.splits)
qed

lemma version_entry_None:
  "version_entry T component version = Inr None \<Longrightarrow> \<not> offered component version"
  by (auto simp: version_entry_def offered_def ignored_iff split: sum.splits list.splits if_splits option.splits)

lemma version_entry_Some:
  assumes "version_entry T component version = Inr (Some cv)"
  shows "offered component version \<and> cv_version cv = version \<and> published T component cv"
  using assms hd_split_on
  by (auto simp: version_entry_def offered_def ignored_iff published_def zero_component_version_def
      split: sum.splits list.splits if_splits option.splits)

lemma version_loop_exact:
  "version_loop T component versions = Inr cvs \<Longrightarrow>
     map cv_version cvs = filter (offered component) versions \<and> (\<forall>cv\<in>set cvs. published T component cv)"
proof (induction versions arbitrary: cvs)
  case (Cons v versions)
  from Cons.prems obtain entry cvs' where e: "version_entry T component v = Inr entry"
    "version_loop T component versions = Inr cvs'" "cvs = (case entry of None \<Rightarrow> [] | Some cv \<Rightarrow> [cv]) @ cvs'"
    by (auto split: sum.splits)
  from Cons.IH [OF e(2)] e(1,3) version_entry_None [of T component v] version_entry_Some [of T component v]
  show ?case by (cases entry) auto
qed simp

text \<open>
  C35. Reading a repository is exact: on success there is one component per requested name, in
  order and without the prefix filter, and its versions are exactly the listed versions that
  are not marked to be ignored and have a resource, in the listed order, each published with
  the reference its first resource gives: the artifact of an OCI resource, or the repository and
  the chart, without its tag, of a Helm resource.
\<close>

theorem GetOCMComponentsWithVersions_exact:
  assumes "GetOCMComponentsWithVersions T repo names prefixFilter = Ok cs"
  shows "list_all2 (\<lambda>name c. co_name c = formatted_name prefixFilter name
     \<and> (\<exists>component. repo name = Inr component
         \<and> map cv_version (co_versions c) = filter (offered component) (fst (oc_list_versions component))
         \<and> (\<forall>cv\<in>set (co_versions c). published T component cv))) names cs"
  using assms
proof (induction names arbitrary: cs)
  case (Cons name names)
  from Cons.prems obtain component cvs cs' where c: "repo name = Inr component"
    "version_loop T component (fst (oc_list_versions component)) = Inr cvs"
    "GetOCMComponentsWithVersions T repo names prefixFilter = Ok cs'"
    "cs = \<lparr> co_name = formatted_name prefixFilter name, co_versions = cvs \<rparr> # cs'"
    by (auto split: sum.splits simp: bind_go_Ok_iff)
  from Cons.IH [OF c(3)] version_loop_exact [OF c(2)] c(1,4) show ?case by simp
qed simp

definition demo_types :: ocm_types where
  "demo_types = \<lparr> ot_oci_artifact = ''ociArtifact'', ot_helm = ''helm'' \<rparr>"

definition demo_component :: ocm_component where
  "demo_component = \<lparr> oc_list_versions = ([''1.0'', ''2.0''], None),
     oc_lookup_version = (\<lambda>v. Inr \<lparr> ov_labels = (if v = ''1.0'' then [(''openmcp.cloud/ignore'', ''true'')] else []),
       ov_resources = [\<lparr> re_access = Inr \<lparr> ac_kind = ''helm'', ac_helm = Some (''https://charts'', ''flux:2'') \<rparr>,
                         re_artifact_ref = Inl (OtherErr ''no artifact'') \<rparr>] \<rparr>) \<rparr>"

lemma demo_component_runs:
  "\<exists>cvs. version_loop demo_types demo_component (fst (oc_list_versions demo_component)) = Inr cvs"
  by (simp add: demo_component_def demo_types_def version_entry_def ignored_def trim_char_def)

theorem GetOCMComponentsWithVersions_exact_witness:
  "\<exists>c. GetOCMComponentsWithVersions demo_types (\<lambda>_. Inr demo_component) [''a/flux''] ''a'' = Ok [c]
     \<and> co_name c = ''flux'' \<and> map cv_version (co_versions c) = [''2.0'']"
proof -
  obtain cvs where "version_loop demo_types demo_component (fst (oc_list_versions demo_component)) = Inr cvs"
    using demo_component_runs by blast
  then obtain c where c: "GetOCMComponentsWithVersions demo_types (\<lambda>_. Inr demo_component) [''a/flux''] ''a'' = Ok [c]"
    by simp
  from GetOCMComponentsWithVersions_exact [OF c] c show ?thesis
    by (auto simp: formatted_name_def trim_prefix_def demo_component_def offered_def trim_char_def)
qed

section \<open>Opening a repository\<close>

text \<open>
  What lies outside: the HTTP request with basic authentication (URL, user, password) and its
  body, the JSON decoding of a catalogue, the OCM library on a remote registry and on a local
  archive, and the temporary file the archive is written to.
\<close>

record ocm_io =
  io_http_get :: "string \<Rightarrow> string \<Rightarrow> string \<Rightarrow> err + string"
  io_decode_catalog :: "string \<Rightarrow> err + string list"
  io_remote_repo :: "string \<Rightarrow> string \<Rightarrow> string \<Rightarrow> err + ocm_repo"
  io_create_temp :: "err + string"
  io_write_file :: "string \<Rightarrow> string \<Rightarrow> err option"
  io_ctf_spec :: "string \<Rightarrow> err option"
  io_local_repo :: "string \<Rightarrow> err + ocm_repo"
  io_list_components :: "ocm_repo \<Rightarrow> string \<Rightarrow> err + string list"
  io_types :: ocm_types

record registry_credentials =
  rg_username :: string
  rg_password :: string

text \<open>The loop that keeps the repositories with the prefix and cuts it off.\<close>

definition strip_matching :: "string \<Rightarrow> string list \<Rightarrow> string list" where
  "strip_matching prefixFilter repositories =
     map (\<lambda>repository. trim_prefix repository prefixFilter)
       (filter (\<lambda>repository. prefixFilter = [] \<or> prefix prefixFilter repository) repositories)"

definition GetRepositoriesInOCIRegistry ::
  "ocm_io \<Rightarrow> string \<Rightarrow> registry_credentials \<Rightarrow> string \<Rightarrow> string \<Rightarrow> err + string list" where
  "GetRepositoriesInOCIRegistry io ociRegistry creds prefixFilter protocol =
     (let protocol' = (if protocol = [] then ''https'' else protocol);
          url = protocol' @ ''://'' @ ociRegistry @ ''/v2/_catalog''
      in case io_http_get io url (rg_username creds) (rg_password creds) of
           Inl e \<Rightarrow> Inl e
         | Inr body \<Rightarrow>
             (case io_decode_catalog io body of
                Inl e \<Rightarrow> Inl e
              | Inr repositories \<Rightarrow> Inr (strip_matching prefixFilter repositories)))"

definition registry_host :: "string \<Rightarrow> string" where
  "registry_host ocmRegistry = hd (split_on (CHR ''/'') ocmRegistry)"

definition descriptor_prefix :: "string \<Rightarrow> string" where
  "descriptor_prefix ocmRegistry =
     trim_prefix ocmRegistry (registry_host ocmRegistry @ ''/'') @ ''/component-descriptors/''"

definition GetOCMRemoteRepo ::
  "ocm_io \<Rightarrow> string \<Rightarrow> kobj \<Rightarrow> string \<Rightarrow> err + ocm_repo \<times> string list" where
  "GetOCMRemoteRepo io ocmRegistry secret prefixFilter =
     (case secret_data secret ''username'' of
        None \<Rightarrow> Inl (OtherErr ''secret does not contain username'')
      | Some username \<Rightarrow>
          (case secret_data secret ''password'' of
             None \<Rightarrow> Inl (OtherErr ''secret does not contain password'')
           | Some password \<Rightarrow>
               (case io_remote_repo io ocmRegistry username password of
                  Inl e \<Rightarrow> Inl (OtherErr ''failed to get ocm registry with provided credentials'')
                | Inr repo \<Rightarrow>
                    (case GetRepositoriesInOCIRegistry io (registry_host ocmRegistry)
                            \<lparr> rg_username = username, rg_password = password \<rparr>
                            (descriptor_prefix ocmRegistry) ''https'' of
                       Inl e \<Rightarrow> Inl (OtherErr (''can'' @ [CHR 0x27] @ ''t get repositories in OCI registry''))
                     | Inr repositories \<Rightarrow>
                         Inr (repo, filter (\<lambda>r. prefixFilter = [] \<or> prefix prefixFilter r) repositories)))))"

definition GetOCMLocalRepo :: "ocm_io \<Rightarrow> string \<Rightarrow> string \<Rightarrow> err + ocm_repo \<times> string list" where
  "GetOCMLocalRepo io ocmRegistry prefixFilter =
     (case io_create_temp io of
        Inl e \<Rightarrow> Inl e
      | Inr f \<Rightarrow>
          (case io_write_file io f ocmRegistry of
             Some e \<Rightarrow> Inl e
           | None \<Rightarrow>
               (case io_ctf_spec io f of
                  Some e \<Rightarrow> Inl e
                | None \<Rightarrow>
                    (case io_local_repo io f of
                       Inl e \<Rightarrow> Inl e
                     | Inr repo \<Rightarrow>
                         (case io_list_components io repo prefixFilter of
                            Inl e \<Rightarrow> Inl e
                          | Inr components \<Rightarrow> Inr (repo, components))))))"

text \<open>A registry with a path is looked up under that path; without one the host is taken for it.\<close>

lemma descriptor_prefix_path:
  assumes "CHR ''/'' \<notin> set host"
  shows "registry_host (host @ ''/'' @ path) = host"
    and "descriptor_prefix (host @ ''/'' @ path) = path @ ''/component-descriptors/''"
    and "descriptor_prefix host = host @ ''/component-descriptors/''"
proof -
  have h: "hd (split_on (CHR ''/'') (host @ CHR ''/'' # path)) = host" "hd (split_on (CHR ''/'') host) = host"
    using assms by (induction host) (auto split: list.splits)
  show "registry_host (host @ ''/'' @ path) = host" using h by (simp add: registry_host_def)
  with h show "descriptor_prefix (host @ ''/'' @ path) = path @ ''/component-descriptors/''"
    by (simp add: descriptor_prefix_def registry_host_def trim_prefix_def)
  from h(2) show "descriptor_prefix host = host @ ''/component-descriptors/''"
    by (simp add: descriptor_prefix_def registry_host_def trim_prefix_def prefix_def)
qed

section \<open>The controller (releasechannel_controller.go)\<close>

text \<open>Reading a release channel and writing its status are operations of the client.\<close>

record 'w channel_store =
  cs_get :: "nname \<Rightarrow> 'w \<Rightarrow> err + release_channel"
  cs_update_status :: "release_channel \<Rightarrow> 'w \<Rightarrow> err option \<times> 'w"

definition failed_with :: "string \<Rightarrow> err \<Rightarrow> (int \<times> err option) gores" where
  "failed_with what e = Ok (requeueAfterError, Some (Wrap (what @ '': '' @ err_msg e) e))"

definition channel_repository ::
  "ocm_io \<Rightarrow> 'w client \<Rightarrow> release_channel_spec \<Rightarrow> 'w \<Rightarrow> err + ocm_repo \<times> string list" where
  "channel_repository io r spec w =
     (if rs_ocm_registry_url spec \<noteq> []
      then (case cl_get r KSecret (rs_pull_secret_ref spec) w of
              Inl e \<Rightarrow> Inl (Wrap (''unable to fetch Secret: '' @ err_msg e) e)
            | Inr secret \<Rightarrow>
                (case GetOCMRemoteRepo io (rs_ocm_registry_url spec) secret (rs_prefix_filter spec) of
                   Inl e \<Rightarrow> Inl (Wrap (''unable to get components from OCM: '' @ err_msg e) e)
                 | Inr x \<Rightarrow> Inr x))
      else if nn_name (rs_ocm_registry_secret_ref spec) \<noteq> [] \<and> rs_ocm_registry_secret_key spec \<noteq> []
      then (case cl_get r KSecret (rs_ocm_registry_secret_ref spec) w of
              Inl e \<Rightarrow> Inl (Wrap (''unable to fetch Secret: '' @ err_msg e) e)
            | Inr secret \<Rightarrow>
                (case secret_data secret (rs_ocm_registry_secret_key spec) of
                   None \<Rightarrow> Inl (OtherErr (''key '' @ rs_ocm_registry_secret_key spec @ '' not found in secret ''
                                        @ nn_name (rs_ocm_registry_secret_ref spec)))
                 | Some data \<Rightarrow>
                     (case GetOCMLocalRepo io data (rs_prefix_filter spec) of
                        Inl e \<Rightarrow> Inl (Wrap (''unable to get components from local OCM: '' @ err_msg e) e)
                      | Inr x \<Rightarrow> Inr x)))
      else Inl (OtherErr (''either '' @ [CHR 0x27] @ ''OcmRegistryUrl'' @ [CHR 0x27] @ '' or '' @ [CHR 0x27]
             @ ''OcmRegistrySecretRef & OcmRegistrySecretKey'' @ [CHR 0x27] @ '' must be set'')))"

definition ReleaseChannelReconcile ::
  "ocm_io \<Rightarrow> 'w client \<Rightarrow> 'w channel_store \<Rightarrow> nname \<Rightarrow> 'w \<Rightarrow> (int \<times> err option) gores \<times> 'w" where
  "ReleaseChannelReconcile io r cs req w =
     (case cs_get cs req w of
        Inl e \<Rightarrow> (Ok (0, ignore_not_found (Some e)), w)
      | Inr releasechannel \<Rightarrow>
          (let spec = rch_spec releasechannel in
           case channel_repository io r spec w of
             Inl e \<Rightarrow> (Ok (requeueAfterError, Some e), w)
           | Inr (repo, componentNames) \<Rightarrow>
               (case GetOCMComponentsWithVersions (io_types io) repo componentNames (rs_prefix_filter spec) of
                  Panic p \<Rightarrow> (Panic p, w)
                | Err e \<Rightarrow> (failed_with ''unable to get components from OCM'' e, w)
                | Ok components \<Rightarrow>
                    (case cs_update_status cs (releasechannel\<lparr>rch_components := components\<rparr>) w of
                       (Some e, w1) \<Rightarrow> (failed_with ''unable to update ReleaseChannel status'' e, w1)
                     | (None, w1) \<Rightarrow> (Ok (rs_interval spec, None), w1)))))"

text \<open>The predicate on update events.\<close>

definition channel_update_passes :: "release_channel \<Rightarrow> release_channel \<Rightarrow> bool" where
  "channel_update_passes oldObj newObj \<longleftrightarrow> rch_spec oldObj \<noteq> rch_spec newObj"

section \<open>What a round does\<close>

text \<open>The documented behaviour of the status subresource: it is written or it is not.\<close>

definition channel_laws :: "'w channel_store \<Rightarrow> ('w \<Rightarrow> nname \<Rightarrow> release_channel option) \<Rightarrow> (release_channel \<Rightarrow> nname) \<Rightarrow> bool" where
  "channel_laws cs cview key \<longleftrightarrow>
     (\<forall>n w rc. cs_get cs n w = Inr rc \<longrightarrow> cview w n = Some rc \<and> key rc = n)
     \<and> (\<forall>n w e. cs_get cs n w = Inl e \<longrightarrow> is_not_found e \<longrightarrow> cview w n = None)
     \<and> (\<forall>rc comps. key (rc\<lparr>rch_components := comps\<rparr>) = key rc)
     \<and> (\<forall>rc w. cview (snd (cs_update_status cs rc w)) =
          (if fst (cs_update_status cs rc w) = None then (cview w)(key rc \<mapsto> rc) else cview w))"

text \<open>The components a channel should show, read from the repository its spec names.\<close>

definition fresh_components :: "ocm_io \<Rightarrow> 'w client \<Rightarrow> release_channel_spec \<Rightarrow> 'w \<Rightarrow> rc_component list option" where
  "fresh_components io r spec w =
     (case channel_repository io r spec w of
        Inl _ \<Rightarrow> None
      | Inr (repo, names) \<Rightarrow>
          (case GetOCMComponentsWithVersions (io_types io) repo names (rs_prefix_filter spec) of
             Ok comps \<Rightarrow> Some comps | _ \<Rightarrow> None))"


text \<open>
  C34. From the repository to the resolver: once a round of the only release channel succeeded,
  a component can be resolved in a version exactly when the channel's repository names a
  component that, without the prefix, has this name, lists this version, does not mark it to be
  ignored and has a resource for it.
\<close>

theorem channel_round_publishes:
  assumes "channel_laws cs cview key" "cview w req = Some rc"
    and "ReleaseChannelReconcile io r cs req w = (Ok (d, None), w')"
    and "channel_repository io r (rch_spec rc) w = Inr (repo, names)"
    and "\<And>rc'. cview w' req = Some rc' \<Longrightarrow> list_channels w' = Inr [rc']"
  shows "(\<exists>cv. GetOCMComponent list_channels name ver w' = Inr cv) \<longleftrightarrow>
     (\<exists>n\<in>set names. formatted_name (rs_prefix_filter (rch_spec rc)) n = name
        \<and> (\<exists>component. repo n = Inr component \<and> ver \<in> set (fst (oc_list_versions component)) \<and> offered component ver))"
proof -
  let ?pf = "rs_prefix_filter (rch_spec rc)"
  have got: "cs_get cs req w = Inr rc"
  proof (cases "cs_get cs req w")
    case (Inl e)
    with assms(3) have "is_not_found e" by (auto simp: ReleaseChannelReconcile_def split: if_splits)
    with Inl assms(1,2) show ?thesis unfolding channel_laws_def by fastforce
  next
    case (Inr x)
    with assms(1,2) show ?thesis unfolding channel_laws_def by fastforce
  qed
  with assms(3,4) obtain comps where comps: "GetOCMComponentsWithVersions (io_types io) repo names ?pf = Ok comps"
    "cs_update_status cs (rc\<lparr>rch_components := comps\<rparr>) w = (None, w')"
    by (auto simp: ReleaseChannelReconcile_def failed_with_def Let_def split: gores_of.splits prod.splits option.splits)
  from assms(1) got have "key rc = req" unfolding channel_laws_def by blast
  with assms(1) comps(2) have "cview w' req = Some (rc\<lparr>rch_components := comps\<rparr>)"
    unfolding channel_laws_def by (metis fst_conv snd_conv fun_upd_same)
  from assms(5) [OF this] have lc: "list_channels w' = Inr [rc\<lparr>rch_components := comps\<rparr>]" .
  have all: "(n, v) \<in> set (all_versions [rc\<lparr>rch_components := comps\<rparr>]) \<longleftrightarrow>
      (\<exists>c\<in>set comps. co_name c = n \<and> v \<in> set (co_versions c))" for n v
    by (auto simp: all_versions_def)
  have "(\<exists>cv. GetOCMComponent list_channels name ver w' = Inr cv) \<longleftrightarrow>
      find_in_channels name ver [rc\<lparr>rch_components := comps\<rparr>] \<noteq> None"
    using lc by (auto simp add: GetOCMComponent_def simp del: find_in_channels.simps split: option.splits)
  also have "\<dots> \<longleftrightarrow> (\<exists>c\<in>set comps. co_name c = name \<and> ver \<in> cv_version ` set (co_versions c))"
    using all by (simp only: find_in_channels_None) (auto; blast)
  also have "\<dots> \<longleftrightarrow> (\<exists>n\<in>set names. formatted_name ?pf n = name
        \<and> (\<exists>component. repo n = Inr component \<and> ver \<in> set (fst (oc_list_versions component)) \<and> offered component ver))"
    using comps(1)
  proof (induction names arbitrary: comps)
    case (Cons n names)
    from Cons.prems obtain component cvs cs' where c: "repo n = Inr component"
      "version_loop (io_types io) component (fst (oc_list_versions component)) = Inr cvs"
      "GetOCMComponentsWithVersions (io_types io) repo names ?pf = Ok cs'"
      "comps = \<lparr> co_name = formatted_name ?pf n, co_versions = cvs \<rparr> # cs'"
      by (auto split: sum.splits simp: bind_go_Ok_iff)
    have "cv_version ` set cvs = set (filter (offered component) (fst (oc_list_versions component)))"
      using version_loop_exact [OF c(2)] by (metis set_map)
    with Cons.IH [OF c(3)] c(1,4) show ?case by auto
  qed simp
  finally show ?thesis .
qed

section \<open>Witnesses\<close>

text \<open>A world that is one release channel, fed from a registry with one component.\<close>

definition demo_channel_key :: nname where
  "demo_channel_key = \<lparr> nn_namespace = [], nn_name = ''stable'' \<rparr>"

definition demo_cs :: "release_channel channel_store" where
  "demo_cs = \<lparr> cs_get = (\<lambda>n w. if n = demo_channel_key then Inr w else Inl NotFoundErr),
     cs_update_status = (\<lambda>rc w. (None, rc)) \<rparr>"

definition demo_cview :: "release_channel \<Rightarrow> nname \<Rightarrow> release_channel option" where
  "demo_cview w = [demo_channel_key \<mapsto> w]"

lemma demo_channel_laws: "channel_laws demo_cs demo_cview (\<lambda>_. demo_channel_key)"
  by (simp add: channel_laws_def demo_cs_def demo_cview_def)

definition registry_secret :: kobj where
  "registry_secret = new_obj ''ns'' ''registry'' (BSecret \<lparr> se_type = [],
     se_data = Some [''username'' \<mapsto> ''u'', ''password'' \<mapsto> ''p''] \<rparr>)"

definition demo_secrets :: "release_channel client" where
  "demo_secrets = \<lparr> cl_get = (\<lambda>_ _ _. Inr registry_secret), cl_list = (\<lambda>_ _ _. Inr []),
     cl_create_or_update = (\<lambda>_ _ w. (None, w)), cl_update = (\<lambda>_ w. (None, w)), cl_delete = (\<lambda>_ w. (None, w)),
     cl_delete_all_of = (\<lambda>_ _ w. (None, w)) \<rparr>"

definition demo_io :: ocm_io where
  "demo_io = \<lparr> io_http_get = (\<lambda>_ _ _. Inr []), io_decode_catalog = (\<lambda>_. Inr [''p/component-descriptors/a/flux'']),
     io_remote_repo = (\<lambda>_ _ _. Inr (\<lambda>_. Inr demo_component)), io_create_temp = Inr ''f'',
     io_write_file = (\<lambda>_ _. None), io_ctf_spec = (\<lambda>_. None), io_local_repo = (\<lambda>_. Inr (\<lambda>_. Inr demo_component)),
     io_list_components = (\<lambda>_ _. Inr []), io_types = demo_types \<rparr>"

definition demo_channel :: release_channel where
  "demo_channel = (channel_of ''stable'' [])\<lparr>rch_spec := (rch_spec (channel_of ''stable'' []))
     \<lparr>rs_ocm_registry_url := ''h/p'', rs_prefix_filter := ''a'', rs_interval := 7\<rparr>\<rparr>"

lemma demo_channel_repository:
  "channel_repository demo_io demo_secrets (rch_spec demo_channel) w = Inr (\<lambda>_. Inr demo_component, [''a/flux''])"
  by (simp add: channel_repository_def demo_channel_def demo_secrets_def demo_io_def GetOCMRemoteRepo_def
      registry_secret_def secret_data_def secret_of_def new_obj_def GetRepositoriesInOCIRegistry_def
      registry_host_def descriptor_prefix_def trim_prefix_def strip_matching_def prefix_def channel_of_def)

lemma demo_channel_round:
  "\<exists>w'. ReleaseChannelReconcile demo_io demo_secrets demo_cs demo_channel_key demo_channel = (Ok (7, None), w')"
proof -
  obtain cvs where "version_loop demo_types demo_component (fst (oc_list_versions demo_component)) = Inr cvs"
    using demo_component_runs by blast
  then have "\<exists>comps. GetOCMComponentsWithVersions demo_types (\<lambda>_. Inr demo_component) [''a/flux''] ''a'' = Ok comps"
    by simp
  then obtain comps where "GetOCMComponentsWithVersions demo_types (\<lambda>_. Inr demo_component) [''a/flux''] ''a'' = Ok comps" ..
  moreover have "rs_prefix_filter (rch_spec demo_channel) = ''a''" "rs_interval (rch_spec demo_channel) = 7"
    "io_types demo_io = demo_types" "cs_get demo_cs demo_channel_key demo_channel = Inr demo_channel"
    "cs_update_status demo_cs rc w = (None, rc)" for rc w
    by (simp_all add: demo_channel_def channel_of_def demo_io_def demo_cs_def)
  ultimately show ?thesis
    by (simp add: ReleaseChannelReconcile_def demo_channel_repository Let_def)
qed


theorem channel_round_publishes_witness:
  "\<exists>w' cv. ReleaseChannelReconcile demo_io demo_secrets demo_cs demo_channel_key demo_channel = (Ok (7, None), w')
     \<and> GetOCMComponent (\<lambda>w. Inr [w]) ''flux'' ''2.0'' w' = Inr cv"
proof -
  obtain w' where r: "ReleaseChannelReconcile demo_io demo_secrets demo_cs demo_channel_key demo_channel = (Ok (7, None), w')"
    using demo_channel_round by blast
  have v: "demo_cview demo_channel demo_channel_key = Some demo_channel" by (simp add: demo_cview_def)
  have "(\<exists>cv. GetOCMComponent (\<lambda>w. Inr [w]) ''flux'' ''2.0'' w' = Inr cv) \<longleftrightarrow>
     (\<exists>n\<in>set [''a/flux'']. formatted_name (rs_prefix_filter (rch_spec demo_channel)) n = ''flux''
        \<and> (\<exists>component. (\<lambda>_. Inr demo_component :: err + ocm_component) n = Inr component
             \<and> ''2.0'' \<in> set (fst (oc_list_versions component)) \<and> offered component ''2.0''))"
    by (rule channel_round_publishes [OF demo_channel_laws v r demo_channel_repository])
       (simp add: demo_cview_def split: if_splits)
  then have "\<exists>cv. GetOCMComponent (\<lambda>w. Inr [w]) ''flux'' ''2.0'' w' = Inr cv"
    by (simp add: formatted_name_def trim_prefix_def demo_channel_def demo_component_def offered_def trim_char_def)
  with r show ?thesis by blast
qed

end
