(* ===== verification/ControlPlanes.thy ===== *)
theory ControlPlanes
  imports Conditions Registry ReleaseChannels
begin

text \<open>
  The control plane controller (\<^verbatim>\<open>internal/controller/controlplane_controller.go\<close>): which
  components a ControlPlane has, the Juggler that is built for them in every round, the status
  that is reported, deletion, and the whole of \<^verbatim>\<open>Reconcile\<close>. What the reconciler holds and
  what lies outside the repository (the clients, the target's configuration, the clock, the
  embedded files) is one record, the first argument of the operations.
\<close>

section \<open>The ControlPlane (api/v1beta1)\<close>

record components_config =
  cfg_crossplane :: "crossplane_config option"
  cfg_btp :: "chart_config option"
  cfg_certmanager :: "chart_config option"
  cfg_eso :: "chart_config option"
  cfg_kyverno :: "chart_config option"
  cfg_flux :: "chart_config option"

definition empty_components :: components_config where
  "empty_components = \<lparr> cfg_crossplane = None, cfg_btp = None, cfg_certmanager = None,
     cfg_eso = None, cfg_kyverno = None, cfg_flux = None \<rparr>"

text \<open>The target's connection data is only handed on, to the builder of the REST
  configuration; the spec fields that no code reads are left out.\<close>

record control_plane =
  cpl_name :: string
  cpl_finalizers :: "string list"
  cpl_deletion :: "int option"
  cpl_target :: string
  cpl_flux_account :: sa_ref
  cpl_components :: components_config
  cpl_conditions :: "condition list"
  cpl_namespace :: string
  cpl_enabled :: int
  cpl_healthy :: int

definition WasDeleted :: "control_plane \<Rightarrow> bool" where
  "WasDeleted cp \<longleftrightarrow> cpl_deletion cp \<noteq> None"

definition LabelControlPlane :: string where
  "LabelControlPlane = ''core.orchestrate.cloud.sap/control-plane''"

section \<open>The reconciler\<close>

record 'w cp_env =
  ev_libs :: libs
  ev_local :: "'w client"
  ev_get :: "nname \<Rightarrow> 'w \<Rightarrow> err + control_plane"
  ev_update :: "control_plane \<Rightarrow> 'w \<Rightarrow> err option \<times> 'w"
  ev_update_status :: "control_plane \<Rightarrow> 'w \<Rightarrow> err option \<times> 'w"
  ev_set_owner :: "control_plane \<Rightarrow> kobj \<Rightarrow> err + kobj"
  ev_channels :: "'w \<Rightarrow> err + release_channel list"
  ev_sort_versions :: "string list \<Rightarrow> string list"
  ev_secret_resolver :: secret_resolver
  ev_remote_config :: "string \<Rightarrow> 'w \<Rightarrow> err + rest_config"
  ev_remote_client :: "rest_config \<Rightarrow> err + 'w client"
  ev_kubeconfig :: "'w kubeconfig_env"
  ev_period :: int
  ev_now :: "'w \<Rightarrow> int"
  ev_crds :: "fs_entry list"
  ev_decode_crd :: crd_decoder
  ev_protection :: bool
  ev_environ :: "string \<Rightarrow> string"

definition errComponentRemaining :: err where
  "errComponentRemaining = Sentinel ''errComponentRemaining'' ''at least one component is still installed''"
definition errFailedToCreateCPNamespace :: err where
  "errFailedToCreateCPNamespace =
     Sentinel ''errFailedToCreateCPNamespace'' ''failed to create namespace for ControlPlane''"
definition errFailedToBuildRESTConfig :: err where
  "errFailedToBuildRESTConfig =
     Sentinel ''errFailedToBuildRESTConfig'' ''failed to build REST config from ControlPlane target''"
definition errFailedToRemoteClient :: err where
  "errFailedToRemoteClient =
     Sentinel ''errFailedToRemoteClient'' ''failed to build client for ControlPlane target''"
definition errFailedToEnsureFluxKubeconfig :: err where
  "errFailedToEnsureFluxKubeconfig =
     Sentinel ''errFailedToEnsureFluxKubeconfig'' ''failed to generate or save Flux kubeconfig''"
definition errFailedToApplyFluxRBAC :: err where
  "errFailedToApplyFluxRBAC = Sentinel ''errFailedToApplyFluxRBAC'' ''failed to apply Flux RBAC''"

definition secretTargetNamespaces :: "string list" where
  "secretTargetNamespaces = [''crossplane-system'']"
definition embeddedCRDsToInstall :: "string list" where
  "embeddedCRDsToInstall = [''crossplanepackagerestrictions.core.orchestrate.cloud.sap'']"

definition cp_ensureFinalizer :: "'w cp_env \<Rightarrow> control_plane \<Rightarrow> 'w \<Rightarrow> err option \<times> control_plane \<times> 'w" where
  "cp_ensureFinalizer E cp w =
     (case lib_add_finalizer (ev_libs E) (cpl_finalizers cp) Finalizer of
        (updated, fs) \<Rightarrow>
          (let cp1 = cp\<lparr>cpl_finalizers := fs\<rparr>
           in if updated then (case ev_update E cp1 w of (e, w1) \<Rightarrow> (e, cp1, w1)) else (None, cp1, w)))"

definition cp_removeFinalizer :: "'w cp_env \<Rightarrow> control_plane \<Rightarrow> 'w \<Rightarrow> err option \<times> control_plane \<times> 'w" where
  "cp_removeFinalizer E cp w =
     (case lib_remove_finalizer (ev_libs E) (cpl_finalizers cp) Finalizer of
        (updated, fs) \<Rightarrow>
          (let cp1 = cp\<lparr>cpl_finalizers := fs\<rparr>
           in if updated then (case ev_update E cp1 w of (e, w1) \<Rightarrow> (e, cp1, w1)) else (None, cp1, w)))"

definition cp_hasFinalizer :: "'w cp_env \<Rightarrow> control_plane \<Rightarrow> bool" where
  "cp_hasFinalizer E cp = lib_contains_finalizer (ev_libs E) (cpl_finalizers cp) Finalizer"

definition ensureNamespace :: "'w cp_env \<Rightarrow> control_plane \<Rightarrow> 'w \<Rightarrow> (string \<times> err option) gores \<times> 'w" where
  "ensureNamespace E cp w =
     (case shortenToXCharacters (cpNamespacePrefix @ cpl_name cp) cpNamespaceMaxLen of
        Err e \<Rightarrow> (Err e, w)
      | Panic p \<Rightarrow> (Panic p, w)
      | Ok name \<Rightarrow>
          (case cl_create_or_update (ev_local E) (new_obj [] name BNamespace)
                  (\<lambda>ns. ev_set_owner E cp (SetManagedBy (SetLabel ns LabelControlPlane (cpl_name cp)))) w of
             (e, w1) \<Rightarrow> (Ok (name, e), w1)))"

section \<open>The components of a ControlPlane\<close>

definition add_pull_secret :: "nname \<Rightarrow> crossplane_config \<Rightarrow> crossplane_config" where
  "add_pull_secret ps c =
     c\<lparr>xc_providers := map (\<lambda>provider. provider\<lparr>pc_pull_secrets := pc_pull_secrets provider @ [nn_name ps]\<rparr>)
        (xc_providers c)\<rparr>"

fun add_pull_secrets_loop ::
  "'w cp_env \<Rightarrow> nname list \<Rightarrow> control_plane \<Rightarrow> 'w comp list \<times> control_plane" where
  "add_pull_secrets_loop E [] cp = ([], cp)"
| "add_pull_secrets_loop E (ps # pss) cp =
     (let secrets = map (\<lambda>ns. CSecret \<lparr> sc_client = Some (ev_local E), sc_source = ps,
             sc_target = \<lparr> nn_namespace = ns, nn_name = nn_name ps \<rparr>, sc_enabled = \<not> WasDeleted cp \<rparr>)
           secretTargetNamespaces;
          cp1 = cp\<lparr>cpl_components := (cpl_components cp)
                  \<lparr>cfg_crossplane := map_option (add_pull_secret ps) (cfg_crossplane (cpl_components cp))\<rparr>\<rparr>
      in case add_pull_secrets_loop E pss cp1 of (comps, cp2) \<Rightarrow> (secrets @ comps, cp2))"

text \<open>The providers are changed in place: the ControlPlane is returned with them.\<close>

definition addPullSecrets :: "'w cp_env \<Rightarrow> control_plane \<Rightarrow> 'w \<Rightarrow> err + 'w comp list \<times> control_plane" where
  "addPullSecrets E cp w =
     (case AvailablePullSecrets (ev_local E) w of
        Inl e \<Rightarrow> Inl e
      | Inr pullSecrets \<Rightarrow> Inr (add_pull_secrets_loop E pullSecrets cp))"

definition provider_components :: "bool \<Rightarrow> provider_config \<Rightarrow> 'w comp list" where
  "provider_components enabled provider =
     [CProvider \<lparr> pvc_config = provider, pvc_enabled = enabled \<rparr>,
      CDrc \<lparr> dc_name = DeploymentRuntimeNameForProviderConfig provider, dc_enabled = enabled \<rparr>]"

definition controlPlaneComponents :: "control_plane \<Rightarrow> 'w comp list" where
  "controlPlaneComponents cp =
     (let cfg = cpl_components cp;
          xp = CCrossplane (cfg_crossplane cfg)
      in [xp]
         @ (case cfg_crossplane cfg of
              None \<Rightarrow> []
            | Some c \<Rightarrow> concat (map (provider_components (comp_enabled xp)) (xc_providers c)))
         @ [CCertManager (cfg_certmanager cfg), CBTPServiceOperator (cfg_btp cfg),
            CExternalSecretsOperator (cfg_eso cfg), CKyverno (cfg_kyverno cfg), CFlux (cfg_flux cfg)])"

text \<open>Which components are registered before the orphans are looked for.\<close>

definition configured_juggler ::
  "'w cp_env \<Rightarrow> control_plane \<Rightarrow> 'w client \<Rightarrow> 'w \<Rightarrow> err + 'w op_juggler" where
  "configured_juggler E cp remoteClient w =
     (case addPullSecrets E cp w of
        Inl e \<Rightarrow> Inl e
      | Inr (secretsToCopy, cp1) \<Rightarrow>
          (let j1 = RegisterComponent NewJuggler secretsToCopy;
               cpComponents = controlPlaneComponents cp1;
               j2 = RegisterComponent j1 cpComponents;
               j3 = clusterroles_RegisterAsComponents j2 cpComponents (\<not> WasDeleted cp)
           in case crds_RegisterAsComponents (ev_decode_crd E) j3 (ev_crds E) (\<not> WasDeleted cp) embeddedCRDsToInstall of
                (Some e, _) \<Rightarrow> Inl e
              | (None, j4) \<Rightarrow>
                  (let j5 = policies_RegisterAsComponents j4 (ev_local E) (\<not> WasDeleted cp);
                       j6 = RegisterDeploymentRuntimeConfigProtection (ev_environ E) j5
                              (ev_protection E \<and> \<not> WasDeleted cp)
                   in Inr (registerReconcilers (ev_libs E) (ev_local E) remoteClient j6))))"

definition newJuggler ::
  "'w cp_env \<Rightarrow> 'w rctx \<Rightarrow> control_plane \<Rightarrow> 'w client \<Rightarrow> 'w \<Rightarrow> 'w op_juggler gores" where
  "newJuggler E ctx cp remoteClient w =
     (case configured_juggler E cp remoteClient w of
        Inl e \<Rightarrow> Err e
      | Inr j \<Rightarrow>
          (case RegisterOrphanedComponents (operator_iface (ev_libs E)) ctx w j of
             (Ok _, j') \<Rightarrow> Ok j'
           | (Err e, _) \<Rightarrow> Err e
           | (Panic p, _) \<Rightarrow> Panic p))"

section \<open>One round (updateControlPlaneComponents)\<close>

text \<open>The loop over the results: how many components are enabled, how many healthy, and the
  conditions to show. A component that is not enabled and not there is not shown.\<close>

fun tally ::
  "('c, 'w) component_iface \<Rightarrow> int \<Rightarrow> 'c component_result list \<Rightarrow> int \<times> int \<times> condition list" where
  "tally I now [] = (0, 0, [])"
| "tally I now (cr # crs) =
     (case tally I now crs of
        (enabledComponents, healthyComponents, conditions) \<Rightarrow>
          (if ci_enabled I (cr_component cr) then enabledComponents + 1 else enabledComponents,
           if cr_result cr = StatusHealthy \<or> cr_result cr = StatusHealthyReconciliationSkipped
             then healthyComponents + 1 else healthyComponents,
           if \<not> ci_enabled I (cr_component cr) \<and> cr_result cr = StatusDisabled then conditions
             else ToCondition I now cr # conditions))"

text \<open>Events go to the recorder; they are those of \<open>Reconcile\<close> and are left out here. So are the
  changes that reach the ControlPlane in memory through pointers into its specification (the
  providers' pull secrets, default chart values): after this call the ControlPlane is only handed
  to the update of the status, which does not write the specification.\<close>

definition updateControlPlaneComponents ::
  "'w cp_env \<Rightarrow> 'w rctx \<Rightarrow> control_plane \<Rightarrow> 'w client \<Rightarrow> 'w \<Rightarrow> condition list gores \<times> control_plane \<times> 'w" where
  "updateControlPlaneComponents E ctx cp remoteClient w =
     (case newJuggler E ctx cp remoteClient w of
        Err e \<Rightarrow> (Err e, cp, w)
      | Panic p \<Rightarrow> (Panic p, cp, w)
      | Ok j \<Rightarrow>
          (case Reconcile (operator_iface (ev_libs E)) j ctx w of
             (Ok result, _, _, w1) \<Rightarrow>
               (case tally (operator_iface (ev_libs E)) (ev_now E w1) result of
                  (enabled, healthy, conditions) \<Rightarrow>
                    (Ok conditions, cp\<lparr>cpl_enabled := enabled, cpl_healthy := healthy\<rparr>, w1))
           | (Err e, _, _, w1) \<Rightarrow> (Err e, cp, w1)
           | (Panic p, _, _, w1) \<Rightarrow> (Panic p, cp, w1)))"

section \<open>Deletion\<close>

fun anyComponentRemaining :: "('c, 'w) component_iface \<Rightarrow> 'c component_result list \<Rightarrow> bool" where
  "anyComponentRemaining I [] = False"
| "anyComponentRemaining I (cr # crs) =
     (if keeps_on_uninstall I (cr_component cr) then anyComponentRemaining I crs
      else if cr_result cr \<noteq> StatusDisabled then True
      else anyComponentRemaining I crs)"

text \<open>Conditions and error are both returned.\<close>

definition deleteControlPlaneComponents ::
  "'w cp_env \<Rightarrow> 'w rctx \<Rightarrow> control_plane \<Rightarrow> 'w client \<Rightarrow> 'w \<Rightarrow> unit gores \<times> condition list \<times> 'w" where
  "deleteControlPlaneComponents E ctx cp remoteClient w =
     (let cpCopy = cp\<lparr>cpl_components := empty_components\<rparr>; I = operator_iface (ev_libs E)
      in case newJuggler E ctx cpCopy remoteClient w of
           Err e \<Rightarrow> (Err e, [], w)
         | Panic p \<Rightarrow> (Panic p, [], w)
         | Ok j \<Rightarrow>
             (case Reconcile I j ctx w of
                (Ok result, _, _, w1) \<Rightarrow>
                  (let conditions = map (ToCondition I (ev_now E w1)) result
                   in if anyComponentRemaining I result then (Err errComponentRemaining, conditions, w1)
                      else (Ok (), conditions, w1))
              | (Err e, _, _, w1) \<Rightarrow> (Err e, [], w1)
              | (Panic p, _, _, w1) \<Rightarrow> (Panic p, [], w1)))"

definition set_conditions :: "libs \<Rightarrow> condition list \<Rightarrow> condition list \<Rightarrow> condition list" where
  "set_conditions L cs newConditions = fold (\<lambda>c acc. snd (lib_set_condition L acc c)) cs newConditions"

text \<open>Result, ControlPlane, new conditions and world.\<close>

type_synonym 'w cp_round = "(int \<times> err option) gores \<times> control_plane \<times> condition list \<times> 'w"

definition deleteControlPlane ::
  "'w cp_env \<Rightarrow> 'w rctx \<Rightarrow> control_plane \<Rightarrow> 'w client \<Rightarrow> condition list \<Rightarrow> 'w \<Rightarrow> 'w cp_round" where
  "deleteControlPlane E ctx cp remoteClient newConditions w =
     (if \<not> cp_hasFinalizer E cp then (Ok (0, None), cp, newConditions, w)
      else
        (case deleteControlPlaneComponents E ctx cp remoteClient w of
           (r, conditions, w1) \<Rightarrow>
             (let conds = set_conditions (ev_libs E) conditions newConditions
              in case r of
                   Panic p \<Rightarrow> (Panic p, cp, newConditions, w1)
                 | Err e \<Rightarrow>
                     if err_is e errComponentRemaining then (Ok (requeueAfterError, None), cp, conds, w1)
                     else (Ok (0, Some e), cp, conds, w1)
                 | Ok _ \<Rightarrow>
                     (case rbac_Delete remoteClient w1 of
                        (Some e, w2) \<Rightarrow> (Ok (0, Some e), cp, conds, w2)
                      | (None, w2) \<Rightarrow>
                          (case cp_removeFinalizer E cp w2 of
                             (e, cp1, w3) \<Rightarrow> (Ok (0, e), cp1, conds, w3))))))"

section \<open>Reconcile\<close>

definition getReleaseChannels :: "'w cp_env \<Rightarrow> 'w version_resolver" where
  "getReleaseChannels E = GetOCMComponent (ev_channels E)"

definition getComponentAvailableVersions :: "'w cp_env \<Rightarrow> 'w available_resolver" where
  "getComponentAvailableVersions E = GetOCMComponentAvailableVersions (ev_sort_versions E) (ev_channels E)"

text \<open>What runs after the status update has been deferred.\<close>

definition reconcile_body ::
  "'w cp_env \<Rightarrow> 'w rctx \<Rightarrow> string \<Rightarrow> control_plane \<Rightarrow> 'w client \<Rightarrow> 'w \<Rightarrow> 'w cp_round" where
  "reconcile_body E ctx namespace cp remoteClient w =
     (if WasDeleted cp then deleteControlPlane E ctx cp remoteClient [] w
      else
        (case cp_ensureFinalizer E cp w of
           (Some e, cp1, w1) \<Rightarrow> (Ok (0, Some e), cp1, [], w1)
         | (None, cp1, w1) \<Rightarrow>
             (case updateControlPlaneComponents E ctx cp1 remoteClient w1 of
                (Err e, cp2, w2) \<Rightarrow> (Ok (0, Some e), cp2, [], w2)
              | (Panic p, cp2, w2) \<Rightarrow> (Panic p, cp2, [], w2)
              | (Ok conditions, cp2, w2) \<Rightarrow>
                  (let new1 = set_conditions (ev_libs E) conditions [];
                       new2 = set_conditions (ev_libs E) [Available (ev_now E w2)] new1
                   in (Ok (ev_period E, None), cp2\<lparr>cpl_namespace := namespace\<rparr>, new2, w2)))))"

text \<open>The deferred function: it runs at every return and at a panic, and only logs its error.\<close>

definition deferred_status_update :: "'w cp_env \<Rightarrow> 'w cp_round \<Rightarrow> (int \<times> err option) gores \<times> 'w" where
  "deferred_status_update E round =
     (case round of (r, cp, newConditions, w) \<Rightarrow>
        (let cp1 = cp\<lparr>cpl_conditions := snd (UpdateConditions (ev_libs E) (cpl_conditions cp) newConditions)\<rparr>
         in (r, snd (ev_update_status E cp1 w))))"

text \<open>The context of a round; Flux' kubeconfig reference is added last.\<close>

definition round_context :: "'w cp_env \<Rightarrow> string \<Rightarrow> nname \<Rightarrow> 'w rctx" where
  "round_context E namespace fluxKubeconfig =
     WithFluxKubeconfigRef
       (WithSecretRefResolver
         (WithAvailableVersionsResolver
           (WithVersionResolver (WithTenantNamespace background namespace) (getReleaseChannels E))
           (getComponentAvailableVersions E))
         (ev_secret_resolver E))
       (nn_name fluxKubeconfig)"

definition ControlPlaneReconcile :: "'w cp_env \<Rightarrow> nname \<Rightarrow> 'w \<Rightarrow> (int \<times> err option) gores \<times> 'w" where
  "ControlPlaneReconcile E req w =
     (case ev_get E req w of
        Inl e \<Rightarrow> if is_not_found e then (Ok (0, None), w) else (Ok (0, Some e), w)
      | Inr cp \<Rightarrow>
          (case ensureNamespace E cp w of
             (Panic p, w1) \<Rightarrow> (Panic p, w1)
           | (Err e, w1) \<Rightarrow> (Err e, w1)
           | (Ok (_, Some e), w1) \<Rightarrow> (Ok (0, Some (Join [errFailedToCreateCPNamespace, e])), w1)
           | (Ok (namespace, None), w1) \<Rightarrow>
               (case ev_remote_config E (cpl_target cp) w1 of
                  Inl e \<Rightarrow> (Ok (0, Some (Join [errFailedToBuildRESTConfig, e])), w1)
                | Inr remoteCfg \<Rightarrow>
                    (case ev_remote_client E remoteCfg of
                       Inl e \<Rightarrow> (Ok (0, Some (Join [errFailedToRemoteClient, e])), w1)
                     | Inr remoteClient \<Rightarrow>
                         (case rbac_Apply remoteClient (cpl_flux_account cp) w1 of
                            (Some e, w2) \<Rightarrow> (Ok (0, Some (Join [errFailedToApplyFluxRBAC, e])), w2)
                          | (None, w2) \<Rightarrow>
                              (case ensureKubeconfig (ev_kubeconfig E) (ev_local E) (Some remoteCfg) namespace
                                      ''flux-kubeconfig'' (cpl_flux_account cp) w2 of
                                 (Inl e, w3) \<Rightarrow> (Ok (0, Some (Join [errFailedToEnsureFluxKubeconfig, e])), w3)
                               | (Inr fluxKubeconfig, w3) \<Rightarrow>
                                   deferred_status_update E
                                     (reconcile_body E (round_context E namespace fluxKubeconfig) namespace cp remoteClient w3)))))))"

end
