(* ===== verification/ControlPlaneLaws.thy ===== *)
theory ControlPlaneLaws
  imports ControlPlanes
begin

text \<open>
  Laws of the control plane controller: what is registered in a round, what the status counts,
  and that the finalizer of a deleted ControlPlane is released only by a round that found
  nothing left.
\<close>

section \<open>What is registered\<close>

lemma secrets_loop:
  assumes "add_pull_secrets_loop E pss cp = (comps, cp')"
  shows "list_all (\<lambda>c. comp_enabled c = (\<not> WasDeleted cp) \<and> \<not> comp_is_flux c) comps
     \<and> cp' = cp\<lparr>cpl_components := (cpl_components cp)
         \<lparr>cfg_crossplane := map_option (fold add_pull_secret pss) (cfg_crossplane (cpl_components cp))\<rparr>\<rparr>"
  using assms
proof (induction pss arbitrary: cp comps)
  case Nil
  then show ?case by (simp add: option.map_ident)
next
  case (Cons ps pss)
  let ?cp1 = "cp\<lparr>cpl_components := (cpl_components cp)
      \<lparr>cfg_crossplane := map_option (add_pull_secret ps) (cfg_crossplane (cpl_components cp))\<rparr>\<rparr>"
  obtain comps1 where c: "add_pull_secrets_loop E pss ?cp1 = (comps1, cp')"
    using Cons.prems by (auto split: prod.splits)
  from Cons.IH [OF c] Cons.prems c show ?case
    by (auto simp: WasDeleted_def secretTargetNamespaces_def option.map_comp comp_def)
qed

lemma registered_components:
  assumes "configured_juggler E cp remote w = Inr j"
  shows "\<exists>secrets cp1 crds. addPullSecrets E cp w = Inr (secrets, cp1)
     \<and> readAllCRDs (ev_decode_crd E) (ev_crds E) = Inr crds
     \<and> jg_reconcilers j = operator_reconcilers (ev_libs E) (ev_local E) remote
     \<and> jg_components j = secrets @ controlPlaneComponents cp1
         @ jg_components (clusterroles_RegisterAsComponents NewJuggler (controlPlaneComponents cp1) (\<not> WasDeleted cp))
         @ map (crd_component (\<not> WasDeleted cp)) (filterCRDs crds embeddedCRDsToInstall)
         @ jg_components (policies_RegisterAsComponents NewJuggler (ev_local E) (\<not> WasDeleted cp))
         @ jg_components (RegisterDeploymentRuntimeConfigProtection (ev_environ E) NewJuggler
             (ev_protection E \<and> \<not> WasDeleted cp))"
  using assms
  by (auto simp: configured_juggler_def Let_def crds_RegisterAsComponents_def fold_RegisterComponent NewJuggler_def
      clusterroles_RegisterAsComponents_def policies_RegisterAsComponents_def PackageTypes_def
      RegisterDeploymentRuntimeConfigProtection_def registerReconcilers_def RegisterReconciler_def
      operator_reconcilers_def
      split: sum.splits prod.splits)

text \<open>Whatever is found as an orphan is not enabled: it will be uninstalled.\<close>

definition orphaned :: "'w comp \<Rightarrow> bool" where
  "orphaned c \<longleftrightarrow> \<not> comp_enabled c \<and> comp_type c \<in> {tClusterRole, tSecret, tProvider, tDrc}"

lemma orphaned_is_object: "orphaned c \<Longrightarrow> \<not> comp_enabled c \<and> \<not> comp_is_flux c \<and> comp_type c \<noteq> tGeneric"
  by (cases c) (auto simp: orphaned_def rtype_defs)

lemma orphan_disabled:
  assumes "DetectOrphanedComponents I (operator_object L) r ctx configured w = Ok os"
  shows "list_all orphaned os"
proof -
  have "list_all orphaned os"
    if "detect_orphans I (operator_object L) r configured w kts = Ok os" for kts
    using that
  proof (induction kts arbitrary: os)
    case (Cons kt kts)
    show ?case
    proof (cases "comp_detector kt :: 'a comp detector_context option")
      case None
      with Cons show ?thesis by simp
    next
      case (Some dc)
      with Cons.prems obtain os1 os2 where parts: "filterOrphanedObjects I r configured dc w = Ok os1"
        "detect_orphans I (operator_object L) r configured w kts = Ok os2" "os = os1 @ os2"
        by (auto simp: bind_go_Ok_iff)
      from Some obtain k conv where dc: "dc = detector_for k conv" "\<And>ob. orphaned (conv ob)"
        by (auto simp: orphaned_def comp_detector_def clusterrole_convert_def secret_convert_def provider_convert_def
            drc_convert_def split: if_splits)
      from parts(1) have "list_all orphaned os1"
        by (auto simp: filterOrphanedObjects_def dc detector_for_def list_all_iff split: sum.splits if_splits)
      with Cons.IH [OF parts(2)] parts(3) show ?thesis by simp
    qed
  qed simp
  with assms show ?thesis by (simp add: DetectOrphanedComponents_def)
qed

lemma operator_clients:
  "\<exists>r. operator_flux_reconciler L lc rc = as_flux_reconciler L (operator_iface L) (operator_flux L) r \<and> fr_local r = lc"
  "\<exists>r. operator_object_reconciler L rc = as_object_reconciler (operator_iface L) (operator_object L) r \<and> or_remote r = rc"
proof -
  have f: "fr_local (flux_RegisterType I r cs) = fr_local r" for I r and cs :: "'a comp list"
    by (induction cs arbitrary: r) (simp_all add: flux_RegisterType_def)
  have o: "or_remote (object_RegisterType I r cs) = or_remote r" for I r and cs :: "'a comp list"
    by (induction cs arbitrary: r) (simp_all add: object_RegisterType_def)
  show "\<exists>r. operator_flux_reconciler L lc rc = as_flux_reconciler L (operator_iface L) (operator_flux L) r \<and> fr_local r = lc"
    unfolding operator_flux_reconciler_def Let_def by (intro exI conjI, rule refl) (simp add: f NewFluxReconciler_def)
  show "\<exists>r. operator_object_reconciler L rc = as_object_reconciler (operator_iface L) (operator_object L) r \<and> or_remote r = rc"
    unfolding operator_object_reconciler_def Let_def by (intro exI conjI, rule refl) (simp add: o NewReconciler_def)
qed

lemma newJuggler_parts:
  assumes "newJuggler E ctx cp remote w = Ok j"
  shows "\<exists>j0 r os. configured_juggler E cp remote w = Inr j0 \<and> or_remote r = remote
     \<and> or_known r = [tGeneric, tSecret, tDrc, tProvider, tClusterRole]
     \<and> DetectOrphanedComponents (operator_iface (ev_libs E)) (operator_object (ev_libs E)) r ctx
          (componentsOfReconciler (operator_iface (ev_libs E)) (jg_components j0)
             (operator_object_reconciler (ev_libs E) remote)) w = Ok os
     \<and> jg_reconcilers j = operator_reconcilers (ev_libs E) (ev_local E) remote
     \<and> jg_components j = jg_components j0 @ os \<and> list_all orphaned os"
proof -
  from assms obtain j0 where j0: "configured_juggler E cp remote w = Inr j0"
    by (auto simp: newJuggler_def split: sum.splits)
  from registered_components [OF j0] have r: "jg_reconcilers j0 = operator_reconcilers (ev_libs E) (ev_local E) remote"
    by blast
  have f: "rk_detect_orphans (operator_flux_reconciler L lc rc) = None" for L lc rc
    by (simp add: operator_flux_reconciler_def as_flux_reconciler_def Let_def)
  let ?I = "operator_iface (ev_libs E)"
  obtain ro where ro: "operator_object_reconciler (ev_libs E) remote
      = as_object_reconciler ?I (operator_object (ev_libs E)) ro" "or_remote ro = remote"
    using operator_clients(2) by blast
  then have d: "rk_detect_orphans (operator_object_reconciler (ev_libs E) remote)
      = Some (DetectOrphanedComponents ?I (operator_object (ev_libs E)) ro)"
    by (simp add: as_object_reconciler_def)
  have k: "or_known ro = [tGeneric, tSecret, tDrc, tProvider, tClusterRole]"
    using object_known [of "ev_libs E" remote] ro(1) by (simp add: as_object_reconciler_def)
  from assms j0 obtain os where os: "DetectOrphanedComponents ?I (operator_object (ev_libs E)) ro ctx
        (componentsOfReconciler ?I (jg_components j0) (operator_object_reconciler (ev_libs E) remote)) w = Ok os"
      "j = RegisterComponent j0 os"
    by (auto simp: newJuggler_def RegisterOrphanedComponents_def r operator_reconcilers_def f d split: gores_of.splits)
  show ?thesis
    by (rule exI [of _ j0], rule exI [of _ ro], rule exI [of _ os])
       (use j0 r os ro k orphan_disabled [OF os(1)] in simp)
qed

text \<open>Every managed object of a detected kind on the target has a component registered for it;
  stated for the copied secrets.\<close>

lemma operator_detectors_plain: "comp_detector kt = Some dc \<Longrightarrow> plain_detector dc"
  by (auto simp: comp_detector_def detector_for_def plain_detector_def converts_each_def IsManaged_def HasComponentLabel_def
      split: if_splits)

lemma managed_secret_registered:
  assumes "newJuggler E ctx cp remote w = Ok j" "list_law remote rv" "missing_kind_law remote rv" "wf_view rv w"
    and "rv w KSecret n = Some ob" "opts_match [IsManaged, HasComponentLabel] ob"
  shows "\<exists>s. CSecret s \<in> set (jg_components j) \<and> sc_target s = n"
proof -
  from newJuggler_parts [OF assms(1)] obtain j0 :: "'a op_juggler" and r :: "('a comp, 'a) object_reconciler" and os where
    parts: "or_remote r = remote" "or_known r = [tGeneric, tSecret, tDrc, tProvider, tClusterRole]"
     "DetectOrphanedComponents (operator_iface (ev_libs E)) (operator_object (ev_libs E)) r ctx
          (componentsOfReconciler (operator_iface (ev_libs E)) (jg_components j0)
             (operator_object_reconciler (ev_libs E) remote)) w = Ok os"
     "jg_components j = jg_components j0 @ os" by blast
  let ?conf = "componentsOfReconciler (operator_iface (ev_libs E)) (jg_components j0) (operator_object_reconciler (ev_libs E) remote)"
  have sub: "set ?conf \<subseteq> set (jg_components j0)" by (auto simp: componentsOfReconciler_def split: if_splits)
  from wf_viewD [OF assms(4,5)] have key: "key_of ob = n" by simp
  let ?dc = "detector_for KSecret (\<lambda>ob. CSecret (secret_convert ob)) :: 'a comp detector_context"
  have dc: "comp_detector tSecret = Some ?dc" by (simp add: comp_detector_def rtype_defs)
  show ?thesis
  proof (cases "\<exists>c \<in> set ?conf. comp_type c = tSecret \<and> comp_same c (CSecret (secret_convert ob))")
    case True
    then obtain c where c: "c \<in> set ?conf" "comp_same c (CSecret (secret_convert ob))" by blast
    from c(2) obtain s where "c = CSecret s" "secret_same s (secret_convert ob)" by (cases c rule: comp.exhaust) simp_all
    with c sub parts(4) key show ?thesis by (auto simp: secret_same_def secret_convert_def)
  next
    case False
    with assms(5,6) have "orphan_of (operator_iface (ev_libs E)) ?conf ?dc (rv w) (CSecret (secret_convert ob))"
      by (auto simp: orphan_of_def detector_for_def)
    with dc parts(2) have "CSecret (secret_convert ob) \<in> set os"
      using detect_orphans_exact [OF assms(2,3) [folded parts(1)], where J = "operator_object (ev_libs E)",
          OF _ parts(3) [unfolded DetectOrphanedComponents_def]] operator_detectors_plain by auto
    with parts(4) key show ?thesis by (auto simp: secret_convert_def)
  qed
qed

section \<open>A deleted ControlPlane has nothing enabled\<close>

lemma IsEnabled_None [simp]:
  "\<not> btp_IsEnabled None" "\<not> certmanager_IsEnabled None" "\<not> crossplane_IsEnabled None"
  "\<not> eso_IsEnabled None" "\<not> kyverno_IsEnabled None" "\<not> flux_IsEnabled None"
  by (simp_all add: IsEnabled_chart_on chart_on_def)

definition empty_plane :: "control_plane \<Rightarrow> control_plane" where
  "empty_plane cp = cp\<lparr>cpl_components := empty_components\<rparr>"

lemma empty_plane_components:
  "controlPlaneComponents (cp\<lparr>cpl_components := empty_components\<rparr>) =
     [CCrossplane None, CCertManager None, CBTPServiceOperator None, CExternalSecretsOperator None,
      CKyverno None, CFlux None]"
  by (simp add: controlPlaneComponents_def empty_components_def)

lemma deleted_all_disabled:
  assumes "newJuggler E ctx (empty_plane cp) remote w = Ok j" "WasDeleted cp"
  shows "list_all (\<lambda>c. \<not> comp_enabled c) (jg_components j)
     \<and> set (controlPlaneComponents (empty_plane cp)) \<subseteq> set (jg_components j)"
proof -
  from newJuggler_parts [OF assms(1)] obtain j0 os where
    j0: "configured_juggler E (empty_plane cp) remote w = Inr j0" "jg_components j = jg_components j0 @ os"
      "list_all orphaned os" by blast
  have del: "WasDeleted (empty_plane cp)" using assms(2) by (simp add: WasDeleted_def empty_plane_def)
  from registered_components [OF j0(1)] del obtain secrets cp1 crds where
    parts: "addPullSecrets E (empty_plane cp) w = Inr (secrets, cp1)"
      "jg_components j0 = secrets @ controlPlaneComponents cp1
         @ jg_components (clusterroles_RegisterAsComponents NewJuggler (controlPlaneComponents cp1) False)
         @ map (crd_component False) (filterCRDs crds embeddedCRDsToInstall)
         @ jg_components (policies_RegisterAsComponents NewJuggler (ev_local E) False)
         @ jg_components (RegisterDeploymentRuntimeConfigProtection (ev_environ E) NewJuggler False)"
    by auto
  from parts(1) obtain pss where "add_pull_secrets_loop E pss (empty_plane cp) = (secrets, cp1)"
    by (auto simp: addPullSecrets_def split: sum.splits)
  from secrets_loop [OF this] del have s: "list_all (\<lambda>c. \<not> comp_enabled c) secrets" "cp1 = empty_plane cp"
    by (auto simp: list_all_iff empty_plane_def empty_components_def)
  have cps: "controlPlaneComponents (empty_plane cp) = [CCrossplane None, CCertManager None, CBTPServiceOperator None,
      CExternalSecretsOperator None, CKyverno None, CFlux None]" by (simp add: empty_plane_def empty_plane_components)
  have dis: "\<not> comp_enabled (crd_component False c)" "\<not> comp_enabled (policy_component n False f)"
    "\<not> comp_enabled (binding_component n False g)" "\<not> comp_enabled (cpr_component cl False)" for c n f g cl
    by (simp_all add: crd_component_def policy_component_def binding_component_def cpr_component_def)
  show ?thesis
    using j0(2,3) parts(2) s
    by (auto simp: orphaned_def cps list_all_iff dis NewJuggler_def clusterroles_RegisterAsComponents_def Let_def
        policies_RegisterAsComponents_def PackageTypes_def RegisterDeploymentRuntimeConfigProtection_def)
qed

section \<open>Rounds that find nothing\<close>

context reconciler_contract
begin

text \<open>A component reported as disabled is not enabled and was observed not to exist; its world
  is unchanged.\<close>

lemma reported_disabled:
  assumes "reconcileComponent I recs ctx before c after w = (Ok cr, c', w')" "cr_result cr = StatusDisabled"
  shows "\<not> ci_enabled I c \<and> w' = w \<and> (\<exists>rec obs. findReconcilerFor I recs c = Inr rec
     \<and> rk_observe rec ctx c w = (Ok obs, c', w') \<and> \<not> ob_exists obs)"
proof -
  have con: "same_component I c c'" "cr_result cr \<in> allowed_statuses I c'"
    using reconcileComponent_contract [OF assms(1)] by auto
  then have dis: "\<not> ci_enabled I c"
    using disabled_not_enabled assms(2) by (auto simp: allowed_statuses_def same_component_def)
  show ?thesis
  proof (cases "findReconcilerFor I recs c")
    case (Inl e)
    with assms show ?thesis by (auto simp: reconcileComponent_def result_of_def status_eqs)
  next
    case (Inr rec)
    then have mem: "rec \<in> set recs" by (auto dest: findReconcilerFor_registered)
    obtain r1 c1 w1 where o: "rk_observe rec ctx c w = (r1, c1, w1)" by (rule prod_cases3)
    have k: "same_component I c c1" "w1 = w" using observe_contract [OF mem o] by auto
    have en: "\<not> ci_enabled I c1" using k(1) dis by (simp add: same_component_def)
    show ?thesis
    proof (cases r1)
      case (Ok obs)
      show ?thesis
      proof (cases "ob_exists obs")
        case True
        then have "uninstall_branch I rec ctx c1 w1 = (Ok cr, c', w')"
          using assms(1) Inr o Ok en by (simp add: reconcileComponent_def)
        from uninstall_branch_contract [OF mem this] assms(2) show ?thesis by (auto simp: status_eqs)
      next
        case False
        with assms(1) Inr o Ok en k dis show ?thesis
          by (auto simp: reconcileComponent_def result_of_def)
      qed
    qed (use assms Inr o in \<open>auto simp: reconcileComponent_def result_of_def status_eqs\<close>)
  qed
qed

text \<open>A round over components that are all disabled, after which nothing remains, changed nothing
  and found every component gone that is not kept on uninstall.\<close>

lemma nothing_remaining:
  assumes "reconcile_loop I recs ctx before after w = (Ok crs, comps, evs, w')"
    "list_all (\<lambda>c. \<not> ci_enabled I c) after" "\<not> anyComponentRemaining I crs"
  shows "w' = w \<and> (\<forall>c \<in> set after. \<not> keeps_on_uninstall I c \<longrightarrow>
     (\<exists>rec obs c'. findReconcilerFor I recs c = Inr rec
        \<and> rk_observe rec ctx c w = (Ok obs, c', w) \<and> \<not> ob_exists obs))"
  using assms
proof (induction after arbitrary: before crs comps evs)
  case (Cons c after)
  obtain r c' w1 where one: "reconcileComponent I recs ctx before c after w = (r, c', w1)" by (rule prod_cases3)
  obtain rs comps' evs' w2 where rest: "reconcile_loop I recs ctx (before @ [c']) after w1 = (rs, comps', evs', w2)"
    by (rule prod_cases4)
  from Cons.prems(1) one rest obtain cr crs' where ok: "r = Ok cr" "rs = Ok crs'" "crs = cr # crs'" "w2 = w'"
    by (cases r) (auto simp: bind_go_Ok_iff)
  from reconcileComponent_contract [OF one] ok(1) have con: "same_component I c c'" "cr_component cr = c'"
    "\<not> ci_enabled I c \<and> keeps_on_uninstall I c \<longrightarrow> w1 = w" by auto
  have keeps: "keeps_on_uninstall I c' = keeps_on_uninstall I c" by (rule same_component_keeps [OF con(1)])
  have dis: "keeps_on_uninstall I c \<or> cr_result cr = StatusDisabled"
    and rem: "\<not> anyComponentRemaining I crs'"
    using Cons.prems(3) ok(3) con(2) keeps by (auto split: if_splits)
  have w1: "w1 = w" using dis con(3) Cons.prems(2) reported_disabled [OF one [unfolded ok(1)]] by auto
  from Cons.IH [OF rest [unfolded ok(2,4) w1]] Cons.prems(2) rem
  have ih: "w' = w" "\<forall>c \<in> set after. \<not> keeps_on_uninstall I c \<longrightarrow>
     (\<exists>rec obs c'. findReconcilerFor I recs c = Inr rec
        \<and> rk_observe rec ctx c w = (Ok obs, c', w) \<and> \<not> ob_exists obs)" by auto
  from reported_disabled [OF one [unfolded ok(1)]] dis w1 ih show ?case by auto
qed simp

text \<open>Conversely, a round over disabled components that are all gone reports that nothing remains.\<close>

lemma missing_reported:
  assumes "list_all (\<lambda>c. \<not> ci_enabled I c) after"
    "\<forall>c \<in> set after. \<exists>rec obs c'. findReconcilerFor I recs c = Inr rec
        \<and> rk_observe rec ctx c w = (Ok obs, c', w) \<and> \<not> ob_exists obs"
  shows "\<exists>crs comps evs. reconcile_loop I recs ctx before after w = (Ok crs, comps, evs, w)
     \<and> list_all (\<lambda>cr. cr_result cr = StatusDisabled) crs"
  using assms
proof (induction after arbitrary: before)
  case (Cons c after)
  then obtain rec obs c' where o: "findReconcilerFor I recs c = Inr rec" "rk_observe rec ctx c w = (Ok obs, c', w)"
    "\<not> ob_exists obs" by auto
  have "rec \<in> set recs" using o(1) by (auto dest: findReconcilerFor_registered)
  then have "same_component I c c'" using observe_contract o(2) by blast
  with Cons.prems(1) have "\<not> ci_enabled I c'" by (simp add: same_component_def)
  with o obtain cr where one: "reconcileComponent I recs ctx before c after w = (Ok cr, c', w)" "cr_result cr = StatusDisabled"
    by (simp add: reconcileComponent_def result_of_def)
  from Cons.IH [of "before @ [c']"] Cons.prems obtain crs comps evs where
    "reconcile_loop I recs ctx (before @ [c']) after w = (Ok crs, comps, evs, w)"
    "list_all (\<lambda>cr. cr_result cr = StatusDisabled) crs" by auto
  with one show ?case by simp
qed simp

text \<open>A round in which every component is disabled and missing, or cannot be observed, returns.\<close>

lemma quiet_round:
  assumes "\<forall>c \<in> set after. \<exists>rec r c'. findReconcilerFor I recs c = Inr rec \<and> rk_observe rec ctx c w = (r, c', w)
        \<and> (case r of Ok obs \<Rightarrow> \<not> ci_enabled I c \<and> \<not> ob_exists obs | Err _ \<Rightarrow> True | Panic _ \<Rightarrow> False)"
  shows "\<exists>crs comps evs. reconcile_loop I recs ctx before after w = (Ok crs, comps, evs, w)"
  using assms
proof (induction after arbitrary: before)
  case (Cons c after)
  then obtain rec r c' where o: "findReconcilerFor I recs c = Inr rec" "rk_observe rec ctx c w = (r, c', w)"
    "case r of Ok obs \<Rightarrow> \<not> ci_enabled I c \<and> \<not> ob_exists obs | Err _ \<Rightarrow> True | Panic _ \<Rightarrow> False" by auto
  have "rec \<in> set recs" using o(1) by (auto dest: findReconcilerFor_registered)
  then have "same_component I c c'" using observe_contract o(2) by blast
  then have "ci_enabled I c' = ci_enabled I c" by (simp add: same_component_def)
  with o obtain cr where one: "reconcileComponent I recs ctx before c after w = (Ok cr, c', w)"
    by (cases r) (auto simp: reconcileComponent_def result_of_def)
  from Cons.IH [of "before @ [c']"] Cons.prems obtain crs comps evs where
    "reconcile_loop I recs ctx (before @ [c']) after w = (Ok crs, comps, evs, w)" by auto
  with one show ?case by simp
qed simp

lemma disabled_none_remaining: "list_all (\<lambda>cr. cr_result cr = StatusDisabled) crs \<Longrightarrow> \<not> anyComponentRemaining I crs"
  by (induction crs) auto

end

section \<open>Releasing the finalizer\<close>

definition chart_names :: "string list" where
  "chart_names = [''crossplane'', ''certmanager'', ''btpserviceoperator'', ''externalsecretsoperator'',
     ''kyverno'', ''flux'']"

text \<open>What it means that a component is gone: its chart's objects from the local cluster, its
  object from the target.\<close>

definition chart_gone :: "'w kview \<Rightarrow> string \<Rightarrow> string \<Rightarrow> 'w \<Rightarrow> bool" where
  "chart_gone lv ns name w \<longleftrightarrow>
     lv w KHelmRepository \<lparr> nn_namespace = ns, nn_name = name \<rparr> = None
     \<and> lv w KHelmRelease \<lparr> nn_namespace = ns, nn_name = name \<rparr> = None"

definition object_gone :: "'w kview \<Rightarrow> 'w rctx \<Rightarrow> 'w comp \<Rightarrow> 'w \<Rightarrow> bool" where
  "object_gone rv ctx c w \<longleftrightarrow> (\<exists>obj key. comp_build ctx c = Ok (obj, key) \<and> rv w (kind_of obj) key = None)"

lemma observed_chart_gone:
  assumes "get_law lc lv" "default_law L"
    and "rk_observe (operator_flux_reconciler L lc rc) ctx c w = (Ok obs, c', w)" "\<not> ob_exists obs"
  shows "\<exists>k ns. chart_constants c = Some k \<and> TenantNamespace ctx = Ok ns \<and> chart_gone lv ns (fst k) w"
proof -
  obtain r where r: "operator_flux_reconciler L lc rc = as_flux_reconciler L (operator_iface L) (operator_flux L) r"
    "fr_local r = lc" using operator_clients(1) by blast
  from assms(3) r have o: "flux_Observe L (operator_flux L) r ctx c w = (Ok obs, c', w)" by (simp add: reconciler_fields)
  obtain rs c1 where s: "observe_resource L r (comp_source L) ctx c w = (rs, c1)" by fastforce
  obtain rm c2 where m: "observe_resource L r (comp_manifesto L) ctx c1 w = (rm, c2)" by fastforce
  from o s m obtain os om where ok: "rs = Ok os" "rm = Ok om" "ob_exists obs \<longleftrightarrow> ob_exists os \<or> ob_exists om"
    by (auto simp: flux_Observe_stages split: if_splits gores_of.splits)
  note missing = observe_resource_missing [OF assms(1) [folded r(2)]]
  obtain src where src: "comp_source L ctx c w = (Ok src, c1)"
      "lv w (kind_of (flux_GetObject src)) (key_of (flux_GetObject src)) = None"
    using missing [OF s [unfolded ok(1)]] ok(3) assms(4) by auto
  obtain man where man: "comp_manifesto L ctx c1 w = (Ok man, c2)"
      "lv w (kind_of (flux_GetObject man)) (key_of (flux_GetObject man)) = None"
    using missing [OF m [unfolded ok(2)]] ok(3) assms(4) by auto
  obtain k ns chart where k: "chart_constants c = Some k" "chart_constants c1 = Some k" "TenantNamespace ctx = Ok ns"
      "chart_source_ok k ns chart (flux_GetObject src)" using comp_source_ok [OF assms(2) src(1)] by blast
  obtain kk kc chart' where "chart_release_ok k ns kc chart' (flux_GetObject man)"
    using comp_manifesto_ok [OF assms(2) man(1)] k by auto
  with k src(2) man(2) have "chart_gone lv ns (fst k) w"
    by (cases k) (auto simp: chart_gone_def chart_source_ok_def chart_release_ok_def kind_of_def)
  with k show ?thesis by blast
qed

lemma observed_object_gone:
  assumes "get_law rc rv" "missing_kind_law rc rv"
    and "rk_observe (operator_object_reconciler L rc) ctx c w = (Ok obs, c', w)" "\<not> ob_exists obs"
  shows "object_gone rv ctx c w"
proof -
  obtain r where r: "operator_object_reconciler L rc = as_object_reconciler (operator_iface L) (operator_object L) r"
    "or_remote r = rc" using operator_clients(2) by blast
  from assms(3) r have o: "object_Observe (operator_object L) r ctx c w = (Ok obs, c', w)" by (simp add: reconciler_fields)
  then obtain obj key where b: "comp_build ctx c = Ok (obj, key)"
    by (auto simp: object_Observe_def split: if_splits gores_of.splits)
  show ?thesis
  proof (cases "cl_get rc (kind_of obj) key w")
    case (Inl e)
    with o b r(2) have "is_not_found e \<or> IsCRDNotFound (Some e)"
      by (auto simp: object_Observe_def split: if_splits)
    with assms(1,2) Inl have "rv w (kind_of obj) key = None"
      by (auto simp: get_law_def missing_kind_law_def)
    with b show ?thesis by (auto simp: object_gone_def)
  next
    case (Inr cur)
    with o b r(2) assms(4) show ?thesis by (auto simp: object_Observe_def split: if_splits)
  qed
qed

text \<open>What a deletion that leaves nothing has found: every component that is not kept was observed
  to be missing, in the cluster as it was.\<close>

lemma deletion_observed:
  assumes "WasDeleted cp" "deleteControlPlaneComponents E ctx cp remote w = (Ok (), conds, w')"
  shows "w' = w \<and> (\<exists>j. newJuggler E ctx (empty_plane cp) remote w = Ok j
     \<and> set (controlPlaneComponents (empty_plane cp)) \<subseteq> set (jg_components j)
     \<and> (\<forall>c \<in> set (jg_components j). comp_keep c \<noteq> Some True \<longrightarrow>
          (\<exists>obs c'. rk_observe (if comp_is_flux c then operator_flux_reconciler (ev_libs E) (ev_local E) remote
              else operator_object_reconciler (ev_libs E) remote) ctx c w = (Ok obs, c', w) \<and> \<not> ob_exists obs)))"
proof -
  let ?I = "operator_iface (ev_libs E)"
  from assms(2) obtain j crs comps evs where j: "newJuggler E ctx (empty_plane cp) remote w = Ok j"
      "Reconcile ?I j ctx w = (Ok crs, comps, evs, w')" "\<not> anyComponentRemaining ?I crs"
    by (auto simp: deleteControlPlaneComponents_def empty_plane_def Let_def split: gores_of.splits prod.splits if_splits)
  from deleted_all_disabled [OF j(1) assms(1)] have dis: "list_all (\<lambda>c. \<not> ci_enabled ?I c) (jg_components j)"
    "set (controlPlaneComponents (empty_plane cp)) \<subseteq> set (jg_components j)" by auto
  from newJuggler_parts [OF j(1)] have rec: "jg_reconcilers j = operator_reconcilers (ev_libs E) (ev_local E) remote" by blast
  note gone = op.nothing_remaining [OF j(2) [unfolded Reconcile_def rec] dis(1) j(3)]
  have obs: "\<exists>obs c'. rk_observe (if comp_is_flux c then operator_flux_reconciler (ev_libs E) (ev_local E) remote
        else operator_object_reconciler (ev_libs E) remote) ctx c w = (Ok obs, c', w) \<and> \<not> ob_exists obs"
    if "c \<in> set (jg_components j)" "comp_keep c \<noteq> Some True" for c
  proof -
    have "\<not> keeps_on_uninstall ?I c" using that(2) by (auto simp: keeps_on_uninstall_def split: option.splits)
    with conjunct2 [OF gone] that(1) show ?thesis by (simp only: findReconcilerFor_operator sum.inject) blast
  qed
  with conjunct1 [OF gone] j(1) dis(2) show ?thesis by blast
qed

lemma deleted_charts_gone:
  assumes "get_law (ev_local E) lv" "default_law (ev_libs E)" "WasDeleted cp"
    and "deleteControlPlaneComponents E ctx cp remote w = (Ok (), conds, w')"
  shows "\<exists>ns. TenantNamespace ctx = Ok ns \<and> (\<forall>name \<in> set chart_names. chart_gone lv ns name w)"
proof -
  from deletion_observed [OF assms(3,4)] obtain j :: "'a op_juggler" where j:
    "set (controlPlaneComponents (empty_plane cp)) \<subseteq> set (jg_components j)"
    "\<forall>c \<in> set (jg_components j). comp_keep c \<noteq> Some True \<longrightarrow>
        (\<exists>obs c'. rk_observe (if comp_is_flux c then operator_flux_reconciler (ev_libs E) (ev_local E) remote
            else operator_object_reconciler (ev_libs E) remote) ctx c w = (Ok obs, c', w) \<and> \<not> ob_exists obs)" by blast
  have chart: "\<exists>k ns. chart_constants c = Some k \<and> TenantNamespace ctx = Ok ns \<and> chart_gone lv ns (fst k) w"
    if "c \<in> set (controlPlaneComponents (empty_plane cp))" for c :: "'a comp"
  proof -
    from that have c: "c \<in> set (jg_components j)" "comp_is_flux c" "comp_keep c \<noteq> Some True"
      using j(1) by (auto simp: empty_plane_def empty_plane_components)
    from j(2) c obtain obs c' where
      "rk_observe (operator_flux_reconciler (ev_libs E) (ev_local E) remote) ctx c w = (Ok obs, c', w)" "\<not> ob_exists obs"
      by auto
    from observed_chart_gone [OF assms(1,2) this] show ?thesis .
  qed
  from chart [of "CFlux None"] obtain ns where ns: "TenantNamespace ctx = Ok ns"
    by (auto simp: empty_plane_def empty_plane_components)
  with chart have "chart_gone lv ns name w" if "name \<in> set chart_names" for name
    using that by (force simp: chart_names_def empty_plane_def empty_plane_components)
  with ns show ?thesis by blast
qed

lemma deleted_components_gone:
  assumes "get_law (ev_local E) lv" "get_law remote rv" "missing_kind_law remote rv"
    and "default_law (ev_libs E)" "WasDeleted cp"
    and "deleteControlPlaneComponents E ctx cp remote w = (Ok (), conds, w')"
  shows "w' = w \<and> (\<exists>ns j. TenantNamespace ctx = Ok ns \<and> newJuggler E ctx (empty_plane cp) remote w = Ok j
     \<and> (\<forall>name \<in> set chart_names. chart_gone lv ns name w)
     \<and> (\<forall>c \<in> set (jg_components j). \<not> comp_is_flux c \<and> comp_keep c \<noteq> Some True \<longrightarrow> object_gone rv ctx c w))"
proof -
  from deletion_observed [OF assms(5,6)] obtain j where j: "w' = w" "newJuggler E ctx (empty_plane cp) remote w = Ok j"
    "\<forall>c \<in> set (jg_components j). comp_keep c \<noteq> Some True \<longrightarrow>
        (\<exists>obs c'. rk_observe (if comp_is_flux c then operator_flux_reconciler (ev_libs E) (ev_local E) remote
            else operator_object_reconciler (ev_libs E) remote) ctx c w = (Ok obs, c', w) \<and> \<not> ob_exists obs)" by blast
  have "object_gone rv ctx c w" if "c \<in> set (jg_components j)" "\<not> comp_is_flux c" "comp_keep c \<noteq> Some True" for c
    using j(3) that observed_object_gone [OF assms(2,3)] by fastforce
  with j(1,2) deleted_charts_gone [OF assms(1,4-6)] show ?thesis by blast
qed

text \<open>What the theorems below take of the outside: both clients answer truthfully, and the
  library's helpers do what they document.\<close>

definition plane_laws :: "'w cp_env \<Rightarrow> 'w kview \<Rightarrow> 'w client \<Rightarrow> 'w kview \<Rightarrow> 'w \<Rightarrow> bool" where
  "plane_laws E lv remote rv w \<longleftrightarrow>
     get_law (ev_local E) lv \<and> wf_view lv w
     \<and> get_law remote rv \<and> list_law remote rv \<and> missing_kind_law remote rv \<and> wf_view rv w
     \<and> find_law (ev_libs E) \<and> default_law (ev_libs E) \<and> finalizer_law (ev_libs E)"

text \<open>
  C3. The finalizer of a deleted ControlPlane is released only when nothing is left: a round
  that takes it off found, in the cluster as it was, no chart of any component (source and
  release, in the tenant namespace), no copied secret carrying the operator's labels on the
  target and none of the registered objects but those to be kept on uninstall; it changed
  nothing itself before it removed the access of Flux to the target, and only after that did
  it write the ControlPlane without its finalizer.
\<close>

theorem finalizer_released_when_gone:
  assumes "plane_laws E lv remote rv w" "WasDeleted cp" "cp_hasFinalizer E cp"
    and "deleteControlPlane E ctx cp remote new w = (res, cp', conds, w')" "\<not> cp_hasFinalizer E cp'"
  shows "\<exists>ns j w1 e. TenantNamespace ctx = Ok ns \<and> newJuggler E ctx (empty_plane cp) remote w = Ok j
     \<and> (\<forall>name \<in> set chart_names. chart_gone lv ns name w)
     \<and> (\<forall>n ob. rv w KSecret n = Some ob \<longrightarrow> \<not> opts_match [IsManaged, HasComponentLabel] ob)
     \<and> (\<forall>c \<in> set (jg_components j). \<not> comp_is_flux c \<and> comp_keep c \<noteq> Some True \<longrightarrow> object_gone rv ctx c w)
     \<and> rbac_Delete remote w = (None, w1) \<and> ev_update E cp' w1 = (e, w') \<and> res = Ok (0, e)"
proof -
  from assms(1) have laws: "get_law (ev_local E) lv" "wf_view lv w" "get_law remote rv" "missing_kind_law remote rv"
    "find_law (ev_libs E)" "default_law (ev_libs E)" "list_law remote rv" "wf_view rv w" "finalizer_law (ev_libs E)"
    by (simp_all add: plane_laws_def)
  obtain r conditions w1 where del: "deleteControlPlaneComponents E ctx cp remote w = (r, conditions, w1)" by (rule prod_cases3)
  have cp': "r = Ok () \<and> (\<exists>w2 e. rbac_Delete remote w1 = (None, w2) \<and> cp_removeFinalizer E cp w2 = (e, cp', w') \<and> res = Ok (0, e))"
    using assms(3-5) del
    by (auto simp: deleteControlPlane_def Let_def split: gores_of.splits prod.splits option.splits if_splits)
  then obtain w2 e where w2: "rbac_Delete remote w1 = (None, w2)" "cp_removeFinalizer E cp w2 = (e, cp', w')" "res = Ok (0, e)"
    by blast
  from w2(2) laws(9) assms(3) have up: "ev_update E cp' w2 = (e, w')"
    by (auto simp: cp_removeFinalizer_def cp_hasFinalizer_def finalizer_law_def Let_def split: prod.splits)
  from deleted_components_gone [OF laws(1,3,4,6) assms(2)] del cp'
  obtain ns j where gone: "w1 = w" "TenantNamespace ctx = Ok ns" "newJuggler E ctx (empty_plane cp) remote w = Ok j"
      "\<forall>name \<in> set chart_names. chart_gone lv ns name w"
      "\<forall>c \<in> set (jg_components j). \<not> comp_is_flux c \<and> comp_keep c \<noteq> Some True \<longrightarrow> object_gone rv ctx c w" by blast
  have secrets: "\<not> opts_match [IsManaged, HasComponentLabel] ob" if "rv w KSecret n = Some ob" for n ob
  proof
    assume "opts_match [IsManaged, HasComponentLabel] ob"
    from managed_secret_registered [OF gone(3) laws(7,4,8) that this]
    obtain s where s: "CSecret s \<in> set (jg_components j)" "sc_target s = n" by blast
    then have "object_gone rv ctx (CSecret s) w" using gone(5) by simp
    with s(2) that show False
      by (cases n) (auto simp: object_gone_def secret_BuildObjectToReconcile_def split: if_splits)
  qed
  show ?thesis using gone w2 up secrets by blast
qed

definition observed_missing :: "libs \<Rightarrow> 'w client \<Rightarrow> 'w client \<Rightarrow> 'w rctx \<Rightarrow> 'w \<Rightarrow> 'w comp \<Rightarrow> bool" where
  "observed_missing L lc rc ctx w c \<longleftrightarrow>
     (case rk_observe (if comp_is_flux c then operator_flux_reconciler L lc rc else operator_object_reconciler L rc) ctx c w of
        (Ok obs, _, _) \<Rightarrow> \<not> ob_exists obs | _ \<Rightarrow> False)"

lemma all_missing_round:
  assumes "WasDeleted cp" "newJuggler E ctx (empty_plane cp) remote w = Ok j"
    and "list_all (observed_missing (ev_libs E) (ev_local E) remote ctx w) (jg_components j)"
  shows "\<exists>conds. deleteControlPlaneComponents E ctx cp remote w = (Ok (), conds, w)"
proof -
  let ?I = "operator_iface (ev_libs E)"
  from newJuggler_parts [OF assms(2)] have rec: "jg_reconcilers j = operator_reconcilers (ev_libs E) (ev_local E) remote" by blast
  have keep: "w' = w" if "rk_observe (if comp_is_flux c then operator_flux_reconciler (ev_libs E) (ev_local E) remote
      else operator_object_reconciler (ev_libs E) remote) ctx c w = (r, c', w')" for c r c' w'
    using op.observe_contract [where lc = "ev_local E" and rc = remote and L = "ev_libs E", OF _ that]
    by (auto simp: operator_reconcilers_def split: if_splits)
  have "\<exists>rec obs c'. findReconcilerFor ?I (operator_reconcilers (ev_libs E) (ev_local E) remote) c = Inr rec
        \<and> rk_observe rec ctx c w = (Ok obs, c', w) \<and> \<not> ob_exists obs" if c: "c \<in> set (jg_components j)" for c
  proof -
    let ?rec = "if comp_is_flux c then operator_flux_reconciler (ev_libs E) (ev_local E) remote
      else operator_object_reconciler (ev_libs E) remote"
    obtain r c' w' where o: "rk_observe ?rec ctx c w = (r, c', w')" by (rule prod_cases3)
    from assms(3) c have "observed_missing (ev_libs E) (ev_local E) remote ctx w c" by (simp add: list_all_iff)
    with o obtain obs where "r = Ok obs" "\<not> ob_exists obs"
      unfolding observed_missing_def by (auto split: gores_of.splits)
    with o keep [OF o] show ?thesis by (auto simp: findReconcilerFor_operator)
  qed
  then obtain crs comps evs where run: "Reconcile ?I j ctx w = (Ok crs, comps, evs, w)"
      "list_all (\<lambda>cr. cr_result cr = StatusDisabled) crs"
    using op.missing_reported [where after = "jg_components j" and ctx = ctx and w = w and before = "[]" and L = "ev_libs E"
        and lc = "ev_local E" and rc = remote] deleted_all_disabled [OF assms(2,1)]
    by (auto simp: Reconcile_def rec)
  from op.disabled_none_remaining [OF run(2)] have "\<not> anyComponentRemaining ?I crs" .
  with run(1) assms(2) show ?thesis
    by (simp add: deleteControlPlaneComponents_def Let_def empty_plane_def)
qed


section \<open>A ControlPlane on the concrete API server\<close>

definition demo_plane :: "bool \<Rightarrow> control_plane" where
  "demo_plane deleted = \<lparr> cpl_name = ''a'', cpl_finalizers = [Finalizer],
     cpl_deletion = (if deleted then Some 0 else None), cpl_target = ''t'', cpl_flux_account = demo_ref,
     cpl_components = empty_components, cpl_conditions = [], cpl_namespace = [], cpl_enabled = 0, cpl_healthy = 0 \<rparr>"

definition plane_libs :: libs where
  "plane_libs = doc_libs\<lparr>lib_marshal := (\<lambda>m. Inr ''v'')\<rparr>"

definition demo_plane_env :: "store cp_env" where
  "demo_plane_env = \<lparr> ev_libs = plane_libs, ev_local = store_client, ev_get = (\<lambda>n w. Inr (demo_plane False)),
     ev_update = (\<lambda>cp w. (None, w)), ev_update_status = (\<lambda>cp w. (None, w)),
     ev_set_owner = (\<lambda>cp ob. Inr ob), ev_channels = (\<lambda>w. Inr []), ev_sort_versions = (\<lambda>vs. vs),
     ev_secret_resolver = (\<lambda>u. None), ev_remote_config = (\<lambda>t w. Inr demo_cfg),
     ev_remote_client = (\<lambda>c. Inr store_client), ev_kubeconfig = demo_kenv, ev_period = 60, ev_now = (\<lambda>w. 0),
     ev_crds = [], ev_decode_crd = (\<lambda>y. Inl (OtherErr ''no yaml'')), ev_protection = False, ev_environ = (\<lambda>v. []) \<rparr>"

lemma demo_plane_env_simps [simp]:
  "ev_libs demo_plane_env = plane_libs" "ev_local demo_plane_env = store_client"
  "ev_update demo_plane_env cp w = (None, w)" "ev_crds demo_plane_env = []" "ev_protection demo_plane_env = False"
  by (simp_all add: demo_plane_env_def)

text \<open>The disabled charts are built without a version.\<close>

lemma plane_libs_laws [simp]: "default_law plane_libs" "finalizer_law plane_libs" "find_law plane_libs"
  by (simp_all add: plane_libs_def default_law_def finalizer_law_def find_law_def doc_libs_def)

lemma source_runs:
  assumes "cc_chart zero = None" "cc_values zero = None"
  shows "\<exists>src c. build_source L name t demo_ctx (default_chart_spec zero release f (VersionResolver demo_ctx) None w)
      = (Ok src, Some c) \<and> cc_chart c \<noteq> None \<and> cc_values c = None"
  using assms by (simp add: default_chart_spec_def Let_def build_source_def)

lemma plain_manifesto_runs:
  assumes "cc_chart c \<noteq> None"
  shows "\<exists>man. build_manifesto L name release tns demo_ctx (None, Some c) = (Ok man, Some c)"
  using assms by (auto simp: build_manifesto_def)

lemma manifesto_runs:
  assumes "cc_chart c \<noteq> None" "cc_values c = None" "fst (set_defaults (Some Map.empty) ds) = None"
  shows "\<exists>man d. build_manifesto L name release tns demo_ctx (default_values plane_libs ds (Some c)) = (Ok man, Some d)"
proof -
  obtain m where "set_defaults (Some Map.empty) ds = (None, m)" using assms(3) by (cases "set_defaults (Some Map.empty) ds") auto
  then have "default_values plane_libs ds (Some c) = (None, Some (c\<lparr>cc_values := Some ''v''\<rparr>))"
    using assms(2) by (simp add: default_values_def plane_libs_def)
  with plain_manifesto_runs [of "c\<lparr>cc_values := Some ''v''\<rparr>"] assms(1) show ?thesis by fastforce
qed

lemma default_sets_run:
  "fst (set_defaults (Some Map.empty) [(AStr ''sap-btp-service-operator'', [''cluster'', ''id'']), (AInt 1, [''manager'', ''replica_count''])]) = None"
  "fst (set_defaults (Some Map.empty) [(ABool True, [''installCRDs''])]) = None"
  "fst (set_defaults (Some Map.empty) [(ABool True, [''rbacManager'', ''skipAggregatedClusterRoles''])]) = None"
  by (simp_all add: SetNestedDefault_steps)

lemma zero_charts_values [simp]: "cc_values zero_chart_config = None" "cc_values zero_crossplane_config = None"
  by (simp_all add: zero_chart_config_def zero_crossplane_config_def)

definition chart_builds :: "'w comp \<Rightarrow> 'w \<Rightarrow> bool" where
  "chart_builds c w \<longleftrightarrow> (\<exists>src c1 man c2. comp_source plane_libs demo_ctx c w = (Ok src, c1)
     \<and> comp_manifesto plane_libs demo_ctx c1 w = (Ok man, c2))"

lemma disabled_sources_run:
  "\<exists>src c. crossplane_BuildSourceRepository L demo_ctx None w = (Ok src, Some c) \<and> cc_chart c \<noteq> None \<and> cc_values c = None"
  "\<exists>src c. certmanager_BuildSourceRepository L demo_ctx None w = (Ok src, Some c) \<and> cc_chart c \<noteq> None \<and> cc_values c = None"
  "\<exists>src c. btp_BuildSourceRepository L demo_ctx None w = (Ok src, Some c) \<and> cc_chart c \<noteq> None \<and> cc_values c = None"
  "\<exists>src c. eso_BuildSourceRepository L demo_ctx None w = (Ok src, Some c) \<and> cc_chart c \<noteq> None \<and> cc_values c = None"
  "\<exists>src c. kyverno_BuildSourceRepository L demo_ctx None w = (Ok src, Some c) \<and> cc_chart c \<noteq> None \<and> cc_values c = None"
  "\<exists>src c. flux_BuildSourceRepository L demo_ctx None w = (Ok src, Some c) \<and> cc_chart c \<noteq> None \<and> cc_values c = None"
  by (simp only: source_defs chart_spec_defs, rule source_runs; simp)+

lemma chart_buildsI:
  assumes "\<exists>src d. S = (Ok src, Some d) \<and> cc_chart d \<noteq> None \<and> cc_values d = None"
    and "\<And>d. cc_chart d \<noteq> None \<Longrightarrow> cc_values d = None \<Longrightarrow> \<exists>man m. M (Some d) = (Ok man, Some m)"
    and "comp_source plane_libs demo_ctx c w = map_prod id K S"
    and "\<And>d. comp_manifesto plane_libs demo_ctx (K d) w = map_prod id K (M d)"
  shows "chart_builds c w"
proof -
  obtain src d where d: "S = (Ok src, Some d)" "cc_chart d \<noteq> None" "cc_values d = None" using assms(1) by blast
  obtain man m where "M (Some d) = (Ok man, Some m)" using assms(2) [OF d(2,3)] by blast
  with d(1) assms(3,4) show ?thesis by (simp add: chart_builds_def)
qed

lemma disabled_charts_build:
  "chart_builds (CCrossplane None) w" "chart_builds (CCertManager None) w" "chart_builds (CBTPServiceOperator None) w"
  "chart_builds (CExternalSecretsOperator None) w" "chart_builds (CKyverno None) w" "chart_builds (CFlux None) w"
proof -
  note unf = manifesto_defs chart_values_defs
  have plain: "\<exists>man m. build_manifesto L name release tns demo_ctx (None, Some c) = (Ok man, Some m)"
    if "cc_chart c \<noteq> None" for c :: "'x chart_config_scheme" and L name release tns
    using plain_manifesto_runs [OF that] by blast
  note valued = manifesto_runs [OF _ _ default_sets_run(1)] manifesto_runs [OF _ _ default_sets_run(2)]
    manifesto_runs [OF _ _ default_sets_run(3)]
  show "chart_builds (CCrossplane None) w"
    by (rule chart_buildsI [OF disabled_sources_run(1), where K = CCrossplane, OF _ comp_source.simps(3) comp_manifesto.simps(3)])
       (unfold unf, rule valued)
  show "chart_builds (CCertManager None) w"
    by (rule chart_buildsI [OF disabled_sources_run(2), where K = CCertManager, OF _ comp_source.simps(2) comp_manifesto.simps(2)])
       (unfold unf, rule valued)
  show "chart_builds (CBTPServiceOperator None) w"
    by (rule chart_buildsI [OF disabled_sources_run(3), where K = CBTPServiceOperator, OF _ comp_source.simps(1) comp_manifesto.simps(1)])
       (unfold unf, rule valued)
  show "chart_builds (CExternalSecretsOperator None) w"
    by (rule chart_buildsI [OF disabled_sources_run(4), where K = CExternalSecretsOperator, OF _ comp_source.simps(4) comp_manifesto.simps(4)])
       (unfold unf, rule plain)
  show "chart_builds (CKyverno None) w"
    by (rule chart_buildsI [OF disabled_sources_run(5), where K = CKyverno, OF _ comp_source.simps(5) comp_manifesto.simps(5)])
       (unfold unf, rule plain)
  show "chart_builds (CFlux None) w"
    by (rule chart_buildsI [OF disabled_sources_run(6), where K = CFlux, OF _ comp_source.simps(6) comp_manifesto.simps(6)])
       (unfold unf, rule plain)
qed

lemma empty_store_misses [simp]: "cl_get store_client k n [] = Inl NotFoundErr" "cl_list store_client k os [] = Inr []"
  by (simp_all add: store_client_def st_get_def st_list_def)

lemma chart_missing:
  assumes "chart_builds c []" "comp_is_flux c"
  shows "observed_missing plane_libs store_client remote demo_ctx [] c"
proof -
  obtain r where r: "operator_flux_reconciler plane_libs store_client remote
      = as_flux_reconciler plane_libs (operator_iface plane_libs) (operator_flux plane_libs) r" "fr_local r = store_client"
    using operator_clients(1) by blast
  from assms(1) obtain src c1 man c2 where
    "comp_source plane_libs demo_ctx c [] = (Ok src, c1)" "comp_manifesto plane_libs demo_ctx c1 [] = (Ok man, c2)"
    by (auto simp: chart_builds_def)
  with r assms(2) show ?thesis
    by (simp add: observed_missing_def reconciler_fields flux_Observe_stages observe_resource_def Let_def zero_observation_def)
qed

lemma object_missing:
  assumes "comp_is_object c" "comp_build ctx c = Ok b"
  shows "observed_missing L store_client store_client ctx [] c"
proof -
  obtain r where r: "operator_object_reconciler L store_client
      = as_object_reconciler (operator_iface L) (operator_object L) r" "or_remote r = store_client"
    using operator_clients(2) by blast
  from assms(1) have "\<not> comp_is_flux c" by (cases c) simp_all
  with r assms show ?thesis
    by (cases b) (simp add: observed_missing_def reconciler_fields object_Observe_def zero_observation_def)
qed

definition demo_objects :: "bool \<Rightarrow> store comp list" where
  "demo_objects deleted =
     jg_components (clusterroles_RegisterAsComponents NewJuggler (controlPlaneComponents (demo_plane deleted)) (\<not> deleted))
     @ jg_components (policies_RegisterAsComponents NewJuggler store_client (\<not> deleted))
     @ jg_components (RegisterDeploymentRuntimeConfigProtection (ev_environ demo_plane_env) NewJuggler False)"

definition demo_charts :: "store comp list" where
  "demo_charts = [CCrossplane None, CCertManager None, CBTPServiceOperator None,
      CExternalSecretsOperator None, CKyverno None, CFlux None]"

lemma demo_plane_components: "controlPlaneComponents (demo_plane deleted) = demo_charts"
  using empty_plane_components [of "demo_plane deleted"] by (simp add: demo_plane_def demo_charts_def)

lemma demo_objects_build: "list_all (\<lambda>c. comp_is_object c \<and> is_ok (comp_build demo_ctx c)) (demo_objects deleted)"
  by (simp add: demo_objects_def clusterroles_RegisterAsComponents_def Let_def policies_RegisterAsComponents_def PackageTypes_def
      RegisterDeploymentRuntimeConfigProtection_def NewJuggler_def clusterrole_BuildObjectToReconcile_def
      policy_component_def binding_component_def cpr_component_def generic_BuildObjectToReconcile_def)

lemma demo_charts_missing:
  "list_all (observed_missing plane_libs store_client remote demo_ctx []) demo_charts"
  using disabled_charts_build [where w = "[] :: store"] by (simp add: demo_charts_def chart_missing)

lemma demo_objects_missing:
  "list_all (observed_missing plane_libs store_client store_client demo_ctx []) (demo_objects deleted)"
  using demo_objects_build [of deleted] by (auto simp: list_all_iff is_ok_iff intro: object_missing)

lemma demo_newJuggler:
  assumes "\<And>k os. cl_list remote k os [] = Inr []"
  shows "\<exists>j. newJuggler demo_plane_env demo_ctx (demo_plane deleted) remote [] = Ok j
     \<and> jg_components j = demo_charts @ demo_objects deleted
     \<and> jg_reconcilers j = operator_reconcilers plane_libs store_client remote"
proof -
  have d: "WasDeleted (demo_plane deleted) = deleted" by (simp add: WasDeleted_def demo_plane_def)
  have "\<exists>j. configured_juggler demo_plane_env (demo_plane deleted) remote [] = Inr j"
    by (simp add: configured_juggler_def addPullSecrets_def AvailablePullSecrets_def Let_def
        crds_RegisterAsComponents_def readAllCRDs_def)
  then obtain j0 where j0: "configured_juggler demo_plane_env (demo_plane deleted) remote [] = Inr j0" ..
  from registered_components [OF j0] d have c: "jg_components j0 = demo_charts @ demo_objects deleted"
    "jg_reconcilers j0 = operator_reconcilers plane_libs store_client remote"
    by (auto simp: addPullSecrets_def AvailablePullSecrets_def readAllCRDs_def demo_objects_def demo_plane_components filterCRDs_def)
  have no: "rk_detect_orphans (operator_flux_reconciler plane_libs store_client remote) = None"
    by (simp add: operator_flux_reconciler_def as_flux_reconciler_def Let_def)
  obtain ro where ro: "operator_object_reconciler plane_libs remote
      = as_object_reconciler (operator_iface plane_libs) (operator_object plane_libs) ro" "or_remote ro = remote"
    using operator_clients(2) by blast
  have "filterOrphanedObjects I ro cs (detector_for k conv) [] = Ok []" for I cs k conv
    using ro(2) assms by (simp add: filterOrphanedObjects_def detector_for_def)
  then have none: "detect_orphans I (operator_object plane_libs) ro cs [] kts = Ok []" for I cs kts
    by (induction kts) (auto simp: comp_detector_def)
  have "\<exists>detect. rk_detect_orphans (operator_object_reconciler plane_libs remote) = Some detect
     \<and> (\<forall>ctx cs. detect ctx cs [] = Ok [])"
    using none by (simp add: ro(1) as_object_reconciler_def DetectOrphanedComponents_def)
  then obtain detect where det: "rk_detect_orphans (operator_object_reconciler plane_libs remote) = Some detect"
    "detect ctx cs [] = Ok []" for ctx cs by blast
  show ?thesis
    unfolding newJuggler_def using j0 c no det
    by (simp add: RegisterOrphanedComponents_def operator_reconcilers_def)
qed

lemma demo_deleted_juggler:
  "\<exists>j. newJuggler demo_plane_env demo_ctx (empty_plane (demo_plane True)) store_client [] = Ok j
     \<and> list_all (observed_missing plane_libs store_client store_client demo_ctx []) (jg_components j)"
proof -
  have e: "empty_plane (demo_plane True) = demo_plane True" by (simp add: empty_plane_def demo_plane_def)
  show ?thesis
    using demo_newJuggler [of store_client True] demo_charts_missing demo_objects_missing unfolding e
    by (fastforce simp: list_all_append)
qed

text \<open>One round on the empty cluster, at the definitions.\<close>

lemma demo_round:
  "\<exists>conds. deleteControlPlane demo_plane_env demo_ctx (demo_plane True) store_client [] []
     = (Ok (0, None), (demo_plane True)\<lparr>cpl_finalizers := []\<rparr>, conds, [])"
proof -
  let ?I = "operator_iface plane_libs"
  obtain j where j: "newJuggler demo_plane_env demo_ctx (empty_plane (demo_plane True)) store_client [] = Ok j"
    "list_all (observed_missing plane_libs store_client store_client demo_ctx []) (jg_components j)"
    using demo_deleted_juggler by blast
  have del: "WasDeleted (demo_plane True)" by (simp add: WasDeleted_def demo_plane_def)
  from all_missing_round [OF del j(1)] j(2) obtain conds where
    "deleteControlPlaneComponents demo_plane_env demo_ctx (demo_plane True) store_client [] = (Ok (), conds, [])"
    by auto
  moreover have "rbac_Delete store_client [] = (None, [])" by (simp add: rbac_Delete_def store_defs)
  ultimately show ?thesis
    by (simp add: deleteControlPlane_def cp_hasFinalizer_def cp_removeFinalizer_def plane_libs_def doc_libs_def
        demo_plane_def Let_def)
qed


lemma finalizer_released_when_gone_witness:
  "\<exists>cp' conds ns. deleteControlPlane demo_plane_env demo_ctx (demo_plane True) store_client [] [] = (Ok (0, None), cp', conds, [])
     \<and> TenantNamespace (demo_ctx :: store rctx) = Ok ns \<and> (\<forall>name \<in> set chart_names. chart_gone store_view ns name [])"
proof -
  obtain conds where r: "deleteControlPlane demo_plane_env demo_ctx (demo_plane True) store_client [] []
     = (Ok (0, None), (demo_plane True)\<lparr>cpl_finalizers := []\<rparr>, conds, [])" using demo_round by blast
  have laws: "plane_laws demo_plane_env store_view store_client store_view []" by (simp add: plane_laws_def)
  have "\<exists>ns. TenantNamespace (demo_ctx :: store rctx) = Ok ns \<and> (\<forall>name \<in> set chart_names. chart_gone store_view ns name [])"
  proof -
    have f: "WasDeleted (demo_plane True)" "cp_hasFinalizer demo_plane_env (demo_plane True)"
      "\<not> cp_hasFinalizer demo_plane_env ((demo_plane True)\<lparr>cpl_finalizers := []\<rparr>)"
      by (simp_all add: WasDeleted_def demo_plane_def cp_hasFinalizer_def plane_libs_def doc_libs_def)
    from finalizer_released_when_gone [OF laws f(1,2) r f(3)] show ?thesis by blast
  qed
  with r show ?thesis by blast
qed

end
