(* ===== verification/PlaneStatus.thy ===== *)
theory PlaneStatus
  imports ControlPlaneLaws
begin

text \<open>
  Laws of a round of the control plane controller: the counters and conditions of the status,
  the namespace of a ControlPlane, the pull secrets, the dependencies between registered
  components, and what a failing round leaves behind.
\<close>

section \<open>What the status counts\<close>

lemma ready_statuses:
  "s \<in> enabled_statuses \<union> disabled_statuses \<Longrightarrow> st_name s \<noteq> [] \<and> (st_ready s \<longleftrightarrow> healthy_status s)"
proof -
  have [simp]: "st_name (mk_status n r e) = n" "st_ready (mk_status n r e) = r" for n r e by (simp_all add: mk_status_def)
  assume "s \<in> enabled_statuses \<union> disabled_statuses"
  then show ?thesis unfolding enabled_statuses_def disabled_statuses_def Un_iff insert_iff
    by (elim disjE) (simp_all add: healthy_status_def status_eqs)
qed

lemma ToCondition_status:
  "cr_result cr \<in> allowed_statuses I c \<Longrightarrow> cond_stat (ToCondition I now cr) = CTrue \<longleftrightarrow> healthy_status (cr_result cr)"
  using ready_statuses [of "cr_result cr"]
  by (auto simp: ToCondition_def Let_def allowed_statuses_def split: if_splits)

lemma tally_counts:
  assumes "\<forall>cr \<in> set crs. cr_result cr \<in> allowed_statuses I (cr_component cr)" "tally I now crs = (en, he, cs)"
  shows "en = int (length (filter (ci_enabled I) (map cr_component crs)))
     \<and> he = int (length (filter (\<lambda>c. cond_stat c = CTrue) cs)) \<and> 0 \<le> he \<and> he \<le> en
     \<and> set cs \<subseteq> ToCondition I now ` set crs
     \<and> (\<forall>cr \<in> set crs. ci_enabled I (cr_component cr) \<or> cr_result cr \<noteq> StatusDisabled \<longrightarrow> ToCondition I now cr \<in> set cs)"
  using assms
proof (induction crs arbitrary: en he cs)
  case (Cons cr crs)
  obtain e1 h1 cs1 where t: "tally I now crs = (e1, h1, cs1)" by (rule prod_cases3)
  from Cons.IH [OF _ t] Cons.prems(1) have ih: "e1 = int (length (filter (ci_enabled I) (map cr_component crs)))"
     "h1 = int (length (filter (\<lambda>c. cond_stat c = CTrue) cs1))" "0 \<le> h1" "h1 \<le> e1"
     "set cs1 \<subseteq> ToCondition I now ` set crs"
     "\<forall>cr \<in> set crs. ci_enabled I (cr_component cr) \<or> cr_result cr \<noteq> StatusDisabled \<longrightarrow> ToCondition I now cr \<in> set cs1" by auto
  let ?c = "cr_component cr" and ?s = "cr_result cr"
  have al: "?s \<in> allowed_statuses I ?c" using Cons.prems(1) by simp
  note cond = ToCondition_status [OF al, of now]
  have dis: "\<not> healthy_status ?s" if "\<not> ci_enabled I ?c"
    using al that healthy_not_disabled by (auto simp: allowed_statuses_def)
  have "\<not> healthy_status StatusDisabled" using healthy_not_disabled [of StatusDisabled] by (auto simp: disabled_statuses_def)
  with Cons.prems(2) t ih dis cond show ?case by (auto simp: healthy_status_def [symmetric] split: if_splits)
qed simp

definition shown_type :: "('c, 'w) component_iface \<Rightarrow> 'c \<Rightarrow> string" where
  "shown_type I c = conditionType I \<lparr> cr_component = c, cr_result = StatusHealthy, cr_message = [] \<rparr>"

lemma cond_type_ToCondition [simp]: "cond_type (ToCondition I now cr) = shown_type I (cr_component cr)"
  by (simp add: ToCondition_def shown_type_def conditionType_def Let_def)

lemma same_lists:
  "list_all2 (same_component I) xs ys \<Longrightarrow>
     map (ci_enabled I) ys = map (ci_enabled I) xs \<and> map (shown_type I) ys = map (shown_type I) xs
     \<and> length (filter (ci_enabled I) ys) = length (filter (ci_enabled I) xs)"
  by (induction xs ys rule: list_all2_induct)
     (simp_all add: same_component_def shown_type_def conditionType_def isComponentInternal_def)


text \<open>A target that does not answer reads: its objects cannot be observed.\<close>

definition deaf_client :: "store client" where
  "deaf_client = store_client\<lparr>cl_get := (\<lambda>k n w. Inl (OtherErr ''timeout''))\<rparr>"

lemma deaf_objects:
  assumes "comp_is_object c" "is_ok (comp_build ctx c)"
  shows "\<exists>e. rk_observe (operator_object_reconciler L deaf_client) ctx c [] = (Err e, c, [])"
proof -
  obtain r where r: "operator_object_reconciler L deaf_client
      = as_object_reconciler (operator_iface L) (operator_object L) r" "or_remote r = deaf_client"
    using operator_clients(2) by blast
  have "\<not> is_not_found (OtherErr ''timeout'')" "\<not> IsCRDNotFound (Some (OtherErr ''timeout''))"
    by (simp_all add: is_not_found_def IsCRDNotFound_def)
  with r assms show ?thesis
    by (auto simp: reconciler_fields object_Observe_def deaf_client_def is_ok_iff)
qed

lemma demo_update_runs:
  "\<exists>conds cp' w'. updateControlPlaneComponents demo_plane_env demo_ctx (demo_plane False) deaf_client [] = (Ok conds, cp', w')"
proof -
  let ?I = "operator_iface plane_libs :: (store comp, store) component_iface"
  have "cl_list deaf_client k os [] = Inr []" for k os by (simp add: deaf_client_def)
  from demo_newJuggler [OF this, where deleted = False] obtain j where j:
    "newJuggler demo_plane_env demo_ctx (demo_plane False) deaf_client [] = Ok j"
    "jg_components j = demo_charts @ demo_objects False"
    "jg_reconcilers j = operator_reconcilers plane_libs store_client deaf_client" by blast
  have "\<exists>rec r c'. findReconcilerFor ?I (operator_reconcilers plane_libs store_client deaf_client) c = Inr rec
        \<and> rk_observe rec demo_ctx c [] = (r, c', [])
        \<and> (case r of Ok obs \<Rightarrow> \<not> ci_enabled ?I c \<and> \<not> ob_exists obs | Err _ \<Rightarrow> True | Panic _ \<Rightarrow> False)"
    if c: "c \<in> set (jg_components j)" for c
  proof (cases "c \<in> set demo_charts")
    case True
    then have f: "comp_is_flux c" "\<not> comp_enabled c" by (auto simp: demo_charts_def)
    obtain r c' w' where o: "rk_observe (operator_flux_reconciler plane_libs store_client deaf_client) demo_ctx c [] = (r, c', w')"
      by (rule prod_cases3)
    have "w' = []" using op.observe_contract [of _ plane_libs store_client deaf_client, OF _ o] by (simp add: operator_reconcilers_def)
    moreover from True demo_charts_missing [of deaf_client] have "observed_missing plane_libs store_client deaf_client demo_ctx [] c"
      by (simp add: list_all_iff)
    ultimately show ?thesis using f o
      by (auto simp: observed_missing_def findReconcilerFor_operator split: gores_of.splits)
  next
    case False
    with c j(2) demo_objects_build [of False] have ob: "comp_is_object c" "is_ok (comp_build demo_ctx c)"
      by (auto simp: list_all_iff)
    then have "\<not> comp_is_flux c" by (cases c) simp_all
    with deaf_objects [OF ob, of plane_libs] show ?thesis by (auto simp: findReconcilerFor_operator)
  qed
  then obtain crs comps evs where "Reconcile ?I j demo_ctx [] = (Ok crs, comps, evs, [])"
    using op.quiet_round [where after = "jg_components j" and before = "[]" and ctx = demo_ctx and w = "[]" and L = plane_libs
        and lc = store_client and rc = deaf_client] by (auto simp: Reconcile_def j(3))
  with j(1) show ?thesis by (auto simp: updateControlPlaneComponents_def split: prod.splits)
qed


section \<open>The namespace of a ControlPlane\<close>

text \<open>Setting the owner reference leaves the labels alone.\<close>

definition owner_law :: "'w cp_env \<Rightarrow> bool" where
  "owner_law E \<longleftrightarrow> (\<forall>cp ob ob'. ev_set_owner E cp ob = Inr ob' \<longrightarrow> labels_of ob' = labels_of ob)"

text \<open>
  The namespace of a ControlPlane: finding it never panics or fails before the API is called;
  after success a namespace is there whose name starts with \<^verbatim>\<open>cp-\<close> and fits the limit of 63
  characters, managed by the operator and labelled with the ControlPlane, so that the copied
  secrets go into it; and no other object was written.
\<close>

theorem ensureNamespace_places:
  assumes "cou_law (ev_local E) lv" "owner_law E" "ensureNamespace E cp w = (r, w')"
  shows "\<exists>name e. r = Ok (name, e) \<and> length name \<le> 63 \<and> prefix cpNamespacePrefix name
     \<and> (\<forall>k n. (k, n) \<noteq> (KNamespace, \<lparr> nn_namespace = [], nn_name = name \<rparr>) \<longrightarrow> lv w' k n = lv w k n)
     \<and> (if e = None then \<exists>ns. lv w' KNamespace \<lparr> nn_namespace = [], nn_name = name \<rparr> = Some ns
            \<and> managed ns \<and> labels_of ns LabelControlPlane = Some (cpl_name cp)
        else lv w' = lv w)"
proof -
  let ?in = "cpNamespacePrefix @ cpl_name cp"
  have ten: "10 \<le> cpNamespaceMaxLen" by (simp add: cpNamespaceMaxLen_def)
  from shorten_fits [OF ten, of ?in] obtain name where name: "shortenToXCharacters ?in cpNamespaceMaxLen = Ok name" by blast
  from shorten_keeps_prefix [OF this, of cpNamespacePrefix] have p: "length name \<le> 63" "prefix cpNamespacePrefix name"
    by (simp_all add: cpNamespacePrefix_def)
  let ?f = "\<lambda>ns. ev_set_owner E cp (SetManagedBy (SetLabel ns LabelControlPlane (cpl_name cp)))"
  obtain e where run: "cl_create_or_update (ev_local E) (new_obj [] name BNamespace) ?f w = (e, w')" "r = Ok (name, e)"
    using assms(3) name by (auto simp: ensureNamespace_def split: prod.splits)
  show ?thesis
  proof (cases e)
    case (Some x)
    with run cou_law_err [OF assms(1)] p show ?thesis by auto
  next
    case None
    from cou_law_ok [OF assms(1) run(1) [unfolded None]] obtain ob where ob:
      "?f (case lv w KNamespace \<lparr> nn_namespace = [], nn_name = name \<rparr> of Some cur \<Rightarrow> cur | None \<Rightarrow> new_obj [] name BNamespace) = Inr ob"
      "lv w' = (lv w)(KNamespace := (lv w KNamespace)(\<lparr> nn_namespace = [], nn_name = name \<rparr> \<mapsto> ob))"
      by auto
    have "LabelControlPlane \<noteq> LabelManagedBy" by (simp add: LabelControlPlane_def LabelManagedBy_def)
    with ob(1) assms(2) have "managed ob" "labels_of ob LabelControlPlane = Some (cpl_name cp)"
      by (auto simp: owner_law_def managed_def)
    with run None p ob(2) show ?thesis by auto
  qed
qed

lemma ensureNamespace_places_witness:
  "\<exists>w' ns. ensureNamespace demo_plane_env (demo_plane False) [] = (Ok (''cp-a'', None), w')
     \<and> store_view w' KNamespace \<lparr> nn_namespace = [], nn_name = ''cp-a'' \<rparr> = Some ns \<and> managed ns"
proof -
  have name: "shortenToXCharacters (cpNamespacePrefix @ cpl_name (demo_plane False)) cpNamespaceMaxLen = Ok ''cp-a''"
    by (simp add: shortenToXCharacters_def cpNamespacePrefix_def cpNamespaceMaxLen_def demo_plane_def)
  obtain r w' where r: "ensureNamespace demo_plane_env (demo_plane False) [] = (r, w')" by force
  have ok: "r = Ok (''cp-a'', None)"
    using r name by (auto simp: ensureNamespace_def demo_plane_env_def store_client_def st_cou_def)
  have laws: "cou_law (ev_local demo_plane_env) store_view" "owner_law demo_plane_env"
    by (simp_all add: owner_law_def demo_plane_env_def)
  from ensureNamespace_places [OF laws r] ok r show ?thesis by auto
qed

section \<open>Pull secrets\<close>

lemma fold_add_pull_secret:
  "xc_providers (fold add_pull_secret pss c) =
     map (\<lambda>p. p\<lparr>pc_pull_secrets := pc_pull_secrets p @ map nn_name pss\<rparr>) (xc_providers c)"
proof (induction pss arbitrary: c)
  case (Cons ps pss)
  then show ?case by (simp add: add_pull_secret_def comp_def)
qed (simp add: map_idI)

definition pull_secret_copy :: "'w client \<Rightarrow> bool \<Rightarrow> nname \<Rightarrow> 'w comp" where
  "pull_secret_copy local enabled ps = CSecret \<lparr> sc_client = Some local, sc_source = ps,
     sc_target = \<lparr> nn_namespace = ''crossplane-system'', nn_name = nn_name ps \<rparr>, sc_enabled = enabled \<rparr>"

lemma secrets_loop_copies:
  "fst (add_pull_secrets_loop E pss cp) = map (pull_secret_copy (ev_local E) (\<not> WasDeleted cp)) pss"
proof (induction pss arbitrary: cp)
  case (Cons ps pss)
  let ?cp1 = "cp\<lparr>cpl_components := (cpl_components cp)
      \<lparr>cfg_crossplane := map_option (add_pull_secret ps) (cfg_crossplane (cpl_components cp))\<rparr>\<rparr>"
  obtain comps cp2 where c: "add_pull_secrets_loop E pss ?cp1 = (comps, cp2)" by (rule prod.exhaust)
  with Cons.IH [of ?cp1] have "comps = map (pull_secret_copy (ev_local E) (\<not> WasDeleted cp)) pss" by (simp add: WasDeleted_def)
  with c show ?case by (simp add: secretTargetNamespaces_def Let_def pull_secret_copy_def)
qed simp

text \<open>
  C29. The pull secrets of the landscape reach the target: for every available pull secret, in
  order, one component copies it into Crossplane's namespace under its own name, enabled as
  long as the ControlPlane is not deleted; and every configured provider gets references to all of
  them after its own, its name and version staying what they were.
\<close>

theorem pull_secrets_reach_providers:
  assumes "AvailablePullSecrets (ev_local E) w = Inr pss" "addPullSecrets E cp w = Inr (comps, cp')"
  shows "comps = map (pull_secret_copy (ev_local E) (\<not> WasDeleted cp)) pss
     \<and> map_option xc_providers (cfg_crossplane (cpl_components cp')) =
         map_option (\<lambda>c. map (\<lambda>p. p\<lparr>pc_pull_secrets := pc_pull_secrets p @ map nn_name pss\<rparr>) (xc_providers c))
           (cfg_crossplane (cpl_components cp))"
proof -
  from assms have run: "add_pull_secrets_loop E pss cp = (comps, cp')" by (simp add: addPullSecrets_def)
  from secrets_loop_copies [of E pss cp] run have "comps = map (pull_secret_copy (ev_local E) (\<not> WasDeleted cp)) pss" by simp
  with secrets_loop [OF run] show ?thesis
    by (simp add: option.map_comp comp_def fold_add_pull_secret)
qed

definition pull_secret :: kobj where
  "pull_secret = \<lparr> ko_meta = (empty_meta ''ns'' ''pull'')\<lparr>om_labels := Some [LabelCopyToCP \<mapsto> ''true'']\<rparr>,
     ko_body = BSecret \<lparr> se_type = SecretTypeDockerConfigJson, se_data = None \<rparr> \<rparr>"

definition pull_store :: store where
  "pull_store = [((KSecret, \<lparr> nn_namespace = ''ns'', nn_name = ''pull'' \<rparr>), pull_secret)]"

definition provider_plane :: control_plane where
  "provider_plane = (demo_plane False)\<lparr>cpl_components := empty_components\<lparr>cfg_crossplane :=
     Some (zero_crossplane_config\<lparr>xc_providers := [zero_provider_config\<lparr>pc_name := ''aws'', pc_pull_secrets := [''own'']\<rparr>]\<rparr>)\<rparr>\<rparr>"

lemma pull_secrets_reach_providers_witness:
  "\<exists>comps cp' c. addPullSecrets demo_plane_env provider_plane pull_store = Inr (comps, cp')
     \<and> length comps = 1 \<and> cfg_crossplane (cpl_components cp') = Some c
     \<and> map pc_pull_secrets (xc_providers c) = [[''own'', ''pull'']]"
proof -
  have a: "AvailablePullSecrets (ev_local demo_plane_env) pull_store = Inr [\<lparr> nn_namespace = ''ns'', nn_name = ''pull'' \<rparr>]"
    by (simp add: AvailablePullSecrets_def pull_store_def pull_secret_def store_client_def st_list_def opts_match_def
        labels_of_def secret_of_def key_of_def empty_meta_def)
  obtain comps cp' where r: "addPullSecrets demo_plane_env provider_plane pull_store = Inr (comps, cp')"
    using a by (cases "addPullSecrets demo_plane_env provider_plane pull_store") (auto simp: addPullSecrets_def)
  from pull_secrets_reach_providers [OF a r] r show ?thesis
    by (auto simp: provider_plane_def zero_crossplane_config_def)
qed

section \<open>Dependencies\<close>

definition plain_dependencies :: "'w comp \<Rightarrow> bool" where
  "plain_dependencies c \<longleftrightarrow> (\<forall>d \<in> set (comp_dependencies c). comp_type d \<in> {tCrossplane, tCertManager})"

text \<open>The components a ControlPlane registers depend only on components that are registered too.\<close>

lemma registered_dependencies:
  assumes "newJuggler E ctx cp remote w = Ok j" "c \<in> set (jg_components j)" "d \<in> set (comp_dependencies c)"
  shows "comp_type d \<in> comp_type ` set (jg_components j)"
proof -
  from newJuggler_parts [OF assms(1)] obtain j0 :: "'a op_juggler" and r :: "('a comp, 'a) object_reconciler" and os where
    j0: "configured_juggler E cp remote w = Inr j0" "jg_components j = jg_components j0 @ os"
     "list_all orphaned os" by blast
  have orphans: "plain_dependencies c" if "c \<in> set os" for c
  proof -
    from that j0(3) have "orphaned c" by (simp add: list_all_iff)
    then have "comp_type c \<noteq> tGeneric" using orphaned_is_object by blast
    then show ?thesis by (cases c) (simp_all add: plain_dependencies_def)
  qed
  from registered_components [OF j0(1)] obtain secrets cp1 crds where
    parts: "addPullSecrets E cp w = Inr (secrets, cp1)"
      "jg_components j0 = secrets @ controlPlaneComponents cp1
         @ jg_components (clusterroles_RegisterAsComponents NewJuggler (controlPlaneComponents cp1) (\<not> WasDeleted cp))
         @ map (crd_component (\<not> WasDeleted cp)) (filterCRDs crds embeddedCRDsToInstall)
         @ jg_components (policies_RegisterAsComponents NewJuggler (ev_local E) (\<not> WasDeleted cp))
         @ jg_components (RegisterDeploymentRuntimeConfigProtection (ev_environ E) NewJuggler
             (ev_protection E \<and> \<not> WasDeleted cp))"
    by auto
  have charts: "tCrossplane \<in> comp_type ` set (jg_components j)" "tCertManager \<in> comp_type ` set (jg_components j)"
    unfolding j0(2) parts(2) by (auto simp: controlPlaneComponents_def Let_def)
  from parts(1) obtain pss where "add_pull_secrets_loop E pss cp = (secrets, cp1)"
    by (auto simp: addPullSecrets_def split: sum.splits)
  with secrets_loop_copies [of E pss cp] have s: "secrets = map (pull_secret_copy (ev_local E) (\<not> WasDeleted cp)) pss" by simp
  have nodeps: "comp_dependencies (crd_component b k) = []" "comp_dependencies (policy_component n b f) = []"
    "comp_dependencies (binding_component n b g) = []" "comp_dependencies (cpr_component cl b) = []"
    "comp_dependencies (pull_secret_copy cl b ps) = []" for b k n f g cl ps
    by (simp_all add: crd_component_def policy_component_def binding_component_def cpr_component_def pull_secret_copy_def)
  have "plain_dependencies c"
    using assms(2) unfolding j0(2) parts(2) s
    by (auto simp: plain_dependencies_def nodeps controlPlaneComponents_def Let_def provider_components_def
        clusterroles_RegisterAsComponents_def policies_RegisterAsComponents_def PackageTypes_def NewJuggler_def
        RegisterDeploymentRuntimeConfigProtection_def split: option.splits
        dest!: orphans)
  with assms(3) charts show ?thesis by (auto simp: plain_dependencies_def)
qed

text \<open>
  C28. No component is ever held back because a component it depends on is not registered:
  whatever the ControlPlane configures and whatever orphans are found, and in whatever state the
  builders have left the components, the dependency check of a registered component succeeds,
  or says that the dependency is not enabled.
\<close>

theorem dependencies_registered:
  assumes "newJuggler E ctx cp remote w = Ok j"
    and "list_all2 (same_component (operator_iface (ev_libs E))) (jg_components j) comps" "c \<in> set comps"
  shows "checkDependencies (operator_iface (ev_libs E)) comps c \<in> {None, Some errDependencyNotEnabled}"
proof -
  let ?I = "operator_iface (ev_libs E)"
  have found: "check_deps ?I comps ds \<in> {None, Some errDependencyNotEnabled}"
    if "\<forall>d \<in> set ds. comp_type d \<in> comp_type ` set comps" for ds
    using that
  proof (induction ds)
    case (Cons d ds)
    from Cons.prems obtain x where x: "x \<in> set comps" "comp_type x = comp_type d" by auto
    have "findRegisteredComponent ?I comps d \<noteq> None"
      unfolding findRegisteredComponent_def find_None_iff using x by auto
    then obtain r where "findRegisteredComponent ?I comps d = Some r" by blast
    with Cons show ?case by auto
  qed simp
  have "\<exists>c0 \<in> set (jg_components j). same_component ?I c0 c"
    using assms(2,3) by (induction rule: list_all2_induct) auto
  then obtain c0 where c0: "c0 \<in> set (jg_components j)" "same_component ?I c0 c" by blast
  have types: "comp_type ` set comps = comp_type ` set (jg_components j)"
  proof -
    have "map comp_type comps = map comp_type (jg_components j)"
      using assms(2) by (induction rule: list_all2_induct) (auto simp: same_component_def)
    then have "set (map comp_type comps) = set (map comp_type (jg_components j))" by (simp only:)
    then show ?thesis by simp
  qed
  have "map comp_type (comp_dependencies c) = map comp_type (comp_dependencies c0)"
    using c0(2) by (simp add: same_component_def)
  then have "set (map comp_type (comp_dependencies c)) = set (map comp_type (comp_dependencies c0))" by (simp only:)
  then have deps: "comp_type ` set (comp_dependencies c) = comp_type ` set (comp_dependencies c0)" by simp
  have "\<forall>d \<in> set (comp_dependencies c). comp_type d \<in> comp_type ` set comps"
  proof
    fix d assume "d \<in> set (comp_dependencies c)"
    then have "comp_type d \<in> comp_type ` set (comp_dependencies c0)" using deps by blast
    then obtain d0 where "d0 \<in> set (comp_dependencies c0)" "comp_type d0 = comp_type d" by auto
    with registered_dependencies [OF assms(1) c0(1)] types show "comp_type d \<in> comp_type ` set comps" by metis
  qed
  from found [OF this] show ?thesis by (simp add: checkDependencies_def)
qed

lemma dependencies_registered_witness:
  "\<exists>j. newJuggler demo_plane_env demo_ctx (demo_plane False) deaf_client [] = Ok j
     \<and> CBTPServiceOperator None \<in> set (jg_components j)
     \<and> checkDependencies (operator_iface plane_libs) (jg_components j) (CBTPServiceOperator None)
         \<in> {None, Some errDependencyNotEnabled}"
proof -
  have "cl_list deaf_client k os [] = Inr []" for k os by (simp add: deaf_client_def)
  from demo_newJuggler [OF this, where deleted = False] obtain j where j:
    "newJuggler demo_plane_env demo_ctx (demo_plane False) deaf_client [] = Ok j"
    "jg_components j = demo_charts @ demo_objects False" by blast
  have "CBTPServiceOperator None \<in> set (jg_components j)" by (simp add: j(2) demo_charts_def)
  with dependencies_registered [OF j(1) list.rel_refl this] j(1) show ?thesis by auto
qed

section \<open>What a failing round leaves behind\<close>


definition offline_env :: "store cp_env" where
  "offline_env = demo_plane_env\<lparr>ev_local := store_client\<lparr>cl_list := (\<lambda>k os w. Inl (OtherErr ''down''))\<rparr>\<rparr>"


text \<open>
  Access of Flux is granted in every round, before anything looks at the deletion: a round for a
  deleted ControlPlane whose finalizer is gone already (another finalizer still holds it) grants
  the access again and leaves it.
\<close>

lemma deleted_plane_regains_access:
  assumes "ev_get E req w = Inr cp" "WasDeleted cp" "\<not> cp_hasFinalizer E cp"
    and "ensureNamespace E cp w = (Ok (name, None), w1)" "ev_remote_config E (cpl_target cp) w1 = Inr cfg"
    and "ev_remote_client E cfg = Inr remote" "rbac_Apply remote (cpl_flux_account cp) w1 = (None, w2)"
    and "ensureKubeconfig (ev_kubeconfig E) (ev_local E) (Some cfg) name ''flux-kubeconfig'' (cpl_flux_account cp) w2 = (Inr kc, w3)"
  shows "\<exists>cp'. ControlPlaneReconcile E req w = (Ok (0, None), snd (ev_update_status E cp' w3))"
  using assms
  by (simp add: ControlPlaneReconcile_def reconcile_body_def deleteControlPlane_def deferred_status_update_def) blast

end
