(* ===== verification/PlaneReports.thy ===== *)
theory PlaneReports
  imports PlaneStatus
begin

text \<open>
  What a whole round of the control plane controller reports: failures of the set-up by the error it
  returns, everything after it in the status of the ControlPlane.
\<close>

section \<open>The conditions that are written\<close>

lemma set_conditions_eq:
  assumes "conditions_laws L"
  shows "set_conditions L cs ns = set_all_doc ns cs"
  by (induction cs arbitrary: ns) (simp_all add: set_conditions_def conditions_lawsD [OF assms])

definition shows_available :: "condition list \<Rightarrow> bool" where
  "shows_available cs \<longleftrightarrow> (\<exists>c. cond_of cs ''Ready'' = Some c \<and> cond_stat c = CTrue \<and> cond_reason c = ''Available'')"

lemma merge_keeps [simp]: "cond_stat (merge_condition old n) = cond_stat n" "cond_reason (merge_condition old n) = cond_reason n"
  by (simp_all add: merge_condition_def)

lemma available_set: "shows_available (set_condition_doc cs (Available now))"
  by (simp add: shows_available_def cond_of_set_condition_doc Available_def mk_condition_def split: option.splits)

lemma available_updated:
  assumes "conditions_laws L" "distinct (map cond_type ns)" "shows_available ns"
  shows "shows_available (snd (UpdateConditions L cs ns))"
proof -
  from assms(3) obtain n where n: "cond_of ns ''Ready'' = Some n" "cond_stat n = CTrue" "cond_reason n = ''Available''"
    by (auto simp: shows_available_def)
  then have m: "n \<in> set ns" "cond_type n = ''Ready''" by (auto simp: cond_of_def find_Some_iff)
  have "cond_of (snd (UpdateConditions L cs ns)) ''Ready'' = cond_of (set_all_doc cs ns) ''Ready''"
    unfolding UpdateConditions_eq [OF assms(1)] using m by (intro cond_of_filter) (auto intro!: image_eqI)
  with cond_of_set_all_doc [OF assms(2) m(1), of cs] m(2) n(2,3) show ?thesis
    by (auto simp: shows_available_def split: option.splits)
qed

section \<open>After the set-up\<close>

text \<open>The parts of a ControlPlane that no round changes.\<close>

definition same_spec :: "control_plane \<Rightarrow> control_plane \<Rightarrow> bool" where
  "same_spec cp cp' \<longleftrightarrow> cpl_name cp' = cpl_name cp \<and> cpl_deletion cp' = cpl_deletion cp \<and> cpl_target cp' = cpl_target cp
     \<and> cpl_flux_account cp' = cpl_flux_account cp \<and> cpl_components cp' = cpl_components cp"

lemma deletion_frame:
  "deleteControlPlane E ctx cp remote new w = (r, cp', conds, w') \<Longrightarrow> same_spec cp cp' \<and> cpl_conditions cp' = cpl_conditions cp"
  by (auto simp: deleteControlPlane_def Let_def same_spec_def cp_removeFinalizer_def
      split: if_splits prod.splits gores_of.splits option.splits)

lemma ensure_frame:
  assumes "finalizer_law (ev_libs E)" "cp_ensureFinalizer E cp w = (e, cp1, w1)"
  shows "same_spec cp cp1 \<and> cpl_conditions cp1 = cpl_conditions cp \<and> Finalizer \<in> set (cpl_finalizers cp1)"
  using assms by (auto simp: cp_ensureFinalizer_def Let_def same_spec_def finalizer_law_def split: if_splits prod.splits)

lemma update_frame:
  "updateControlPlaneComponents E ctx cp remote w = (r, cp', w') \<Longrightarrow> \<exists>en he. cp' = cp\<lparr>cpl_enabled := en, cpl_healthy := he\<rparr>
     \<or> cp' = cp"
  by (auto simp: updateControlPlaneComponents_def split: gores_of.splits prod.splits)

lemma body_reports:
  assumes "conditions_laws (ev_libs E)" "finalizer_law (ev_libs E)"
    and "reconcile_body E ctx ns cp remote w = (r, cp', conds, w')"
  shows "same_spec cp cp' \<and> cpl_conditions cp' = cpl_conditions cp
    \<and> (\<not> WasDeleted cp \<longrightarrow> Finalizer \<in> set (cpl_finalizers cp')
        \<and> (case r of Ok (d, None) \<Rightarrow> d = ev_period E \<and> cpl_namespace cp' = ns \<and> distinct (map cond_type conds)
              \<and> shows_available conds
          | _ \<Rightarrow> conds = []))"
proof (cases "WasDeleted cp")
  case True
  with assms(3) deletion_frame show ?thesis by (force simp: reconcile_body_def)
next
  case False
  obtain e cp1 w1 where e: "cp_ensureFinalizer E cp w = (e, cp1, w1)" by (rule prod_cases3)
  note fin = ensure_frame [OF assms(2) e]
  show ?thesis
  proof (cases e)
    case (Some x)
    with e False assms(3) fin show ?thesis by (auto simp: reconcile_body_def)
  next
    case None
    obtain u cp2 w2 where u: "updateControlPlaneComponents E ctx cp1 remote w1 = (u, cp2, w2)" by (rule prod_cases3)
    from update_frame [OF u] fin have upd: "same_spec cp cp2" "cpl_conditions cp2 = cpl_conditions cp"
      "Finalizer \<in> set (cpl_finalizers cp2)" by (auto simp: same_spec_def)
    have ok: "distinct (map cond_type (set_condition_doc (set_all_doc [] cs) c))" for cs c
      by (intro distinct_set_condition_doc distinct_set_all_doc) simp
    from e u None False assms(3) upd ok available_set show ?thesis
      by (cases u) (auto simp: reconcile_body_def Let_def set_conditions_eq [OF assms(1)] same_spec_def)
  qed
qed

section \<open>A whole round\<close>

definition setup_errors :: "err set" where
  "setup_errors = {errFailedToCreateCPNamespace, errFailedToBuildRESTConfig, errFailedToRemoteClient,
     errFailedToApplyFluxRBAC, errFailedToEnsureFluxKubeconfig}"

text \<open>The set-up does not write the ControlPlane.\<close>

definition rewired :: "'w cp_env \<Rightarrow> (control_plane \<Rightarrow> 'w \<Rightarrow> err option \<times> 'w) \<Rightarrow> (control_plane \<Rightarrow> 'w \<Rightarrow> err option \<times> 'w)
    \<Rightarrow> 'w cp_env" where
  "rewired E u s = E\<lparr>ev_update := u, ev_update_status := s\<rparr>"

lemma rewired_fields [simp]:
  "ev_get (rewired E u s) = ev_get E" "ev_remote_config (rewired E u s) = ev_remote_config E"
  "ev_remote_client (rewired E u s) = ev_remote_client E" "ev_kubeconfig (rewired E u s) = ev_kubeconfig E"
  "ev_local (rewired E u s) = ev_local E" "ev_set_owner (rewired E u s) = ev_set_owner E"
  by (simp_all add: rewired_def)

lemma rewired_namespace [simp]: "ensureNamespace (rewired E u s) cp w = ensureNamespace E cp w"
  by (simp only: ensureNamespace_def rewired_fields)

lemma round_stages:
  assumes "ev_get E req w = Inr cp" "ControlPlaneReconcile E req w = (r, w')"
  obtains (Setup) s e where "s \<in> setup_errors" "r = Ok (0, Some (Join [s, e]))"
      "\<And>u su. ControlPlaneReconcile (rewired E u su) req w = (r, w')"
    | (Body) ns ctx remote w1 where "shortenToXCharacters (cpNamespacePrefix @ cpl_name cp) cpNamespaceMaxLen = Ok ns"
      "deferred_status_update E (reconcile_body E ctx ns cp remote w1) = (r, w')"
proof -
  have "10 \<le> cpNamespaceMaxLen" by (simp add: cpNamespaceMaxLen_def)
  from shorten_fits [OF this, of "cpNamespacePrefix @ cpl_name cp"] obtain ns where
    ns: "shortenToXCharacters (cpNamespacePrefix @ cpl_name cp) cpNamespaceMaxLen = Ok ns" by blast
  obtain e1 w1 where "cl_create_or_update (ev_local E) (new_obj [] ns BNamespace)
      (\<lambda>ns. ev_set_owner E cp (SetManagedBy (SetLabel ns LabelControlPlane (cpl_name cp)))) w = (e1, w1)" by force
  with ns have n: "ensureNamespace E cp w = (Ok (ns, e1), w1)" by (simp add: ensureNamespace_def)
  note run = ControlPlaneReconcile_def assms(1) n
  show ?thesis
  proof (cases e1)
    case (Some e)
    with assms(2) show ?thesis by (intro Setup [of errFailedToCreateCPNamespace e]) (auto simp: run setup_errors_def)
  next
    case e1: None
    show ?thesis
    proof (cases "ev_remote_config E (cpl_target cp) w1")
      case (Inl e)
      with e1 assms(2) show ?thesis by (intro Setup [of errFailedToBuildRESTConfig e]) (auto simp: run setup_errors_def)
    next
      case cfg: (Inr cfg)
      show ?thesis
      proof (cases "ev_remote_client E cfg")
        case (Inl e)
        with e1 cfg assms(2) show ?thesis by (intro Setup [of errFailedToRemoteClient e]) (auto simp: run setup_errors_def)
      next
        case remote: (Inr remote)
        obtain e2 w2 where rb: "rbac_Apply remote (cpl_flux_account cp) w1 = (e2, w2)" by force
        show ?thesis
        proof (cases e2)
          case (Some e)
          with e1 cfg remote rb assms(2) show ?thesis
            by (intro Setup [of errFailedToApplyFluxRBAC e]) (auto simp: run setup_errors_def)
        next
          case e2: None
          obtain k w3 where kc: "ensureKubeconfig (ev_kubeconfig E) (ev_local E) (Some cfg) ns ''flux-kubeconfig''
              (cpl_flux_account cp) w2 = (k, w3)" by force
          show ?thesis
          proof (cases k)
            case (Inl e)
            with e1 cfg remote rb e2 kc assms(2) show ?thesis
              by (intro Setup [of errFailedToEnsureFluxKubeconfig e]) (auto simp: run setup_errors_def)
          next
            case (Inr key)
            with e1 cfg remote rb e2 kc assms(2) show ?thesis
              by (intro Body [OF ns, of "round_context E ns key" remote w3]) (simp add: run)
          qed
        qed
      qed
    qed
  qed
qed


text \<open>A target whose configuration cannot be read.\<close>

definition demo_plane_key :: nname where
  "demo_plane_key = \<lparr> nn_namespace = [], nn_name = ''a'' \<rparr>"

definition lost_env :: "store cp_env" where
  "lost_env = demo_plane_env\<lparr>ev_remote_config := (\<lambda>t w. Inl (OtherErr ''no config''))\<rparr>"

lemma lost_laws: "conditions_laws (ev_libs lost_env)" "finalizer_law (ev_libs lost_env)"
  "ev_get lost_env req w = Inr (demo_plane False)" "ev_remote_config lost_env t w = Inl (OtherErr ''no config'')"
  by (simp_all add: lost_env_def conditions_laws_def find_law_def set_law_def remove_law_def plane_libs_def doc_libs_def
      finalizer_law_def demo_plane_env_def)

lemma lost_runs:
  "\<exists>w'. ControlPlaneReconcile lost_env req []
     = (Ok (0, Some (Join [errFailedToBuildRESTConfig, OtherErr ''no config''])), w') \<and> w' \<noteq> []"
proof -
  have name: "shortenToXCharacters (cpNamespacePrefix @ cpl_name (demo_plane False)) cpNamespaceMaxLen = Ok ''cp-a''"
    by (simp add: shortenToXCharacters_def cpNamespacePrefix_def cpNamespaceMaxLen_def demo_plane_def)
  obtain w' where "ensureNamespace lost_env (demo_plane False) [] = (Ok (''cp-a'', None), w')" "w' \<noteq> []"
    using name by (auto simp: ensureNamespace_def lost_env_def demo_plane_env_def store_client_def st_cou_def)
  then show ?thesis by (simp add: ControlPlaneReconcile_def lost_laws)
qed


end
