(* ===== verification/TargetRounds.thy ===== *)
theory TargetRounds
  imports ControlPlaneLaws
begin

text \<open>
  What a reconcile round does to the objects of the target cluster. A step relation says what may
  happen to the one object of an object component; \<^verbatim>\<open>reconcileComponent\<close> with the operator's
  reconcilers is proved to implement it, and what the relation keeps is proved by rule induction.
\<close>

section \<open>The effects of a reconcile, by phase\<close>

definition uninstalls :: "('c, 'w) reconciler \<Rightarrow> 'w rctx \<Rightarrow> 'c \<Rightarrow> 'w \<Rightarrow> 'w \<Rightarrow> bool" where
  "uninstalls rec ctx c w w' \<longleftrightarrow> (\<exists>c1 res c2. rk_pre_uninstall rec ctx c w = (Ok (), c1, w)
     \<and> rk_uninstall rec ctx c1 w = (res, c2, w'))"

definition applies :: "('c, 'w) reconciler \<Rightarrow> 'w rctx \<Rightarrow> 'c \<Rightarrow> 'w \<Rightarrow> 'w \<Rightarrow> bool" where
  "applies rec ctx c w w' \<longleftrightarrow> (\<exists>c1 res c2.
     rk_pre_install rec ctx c w = (Ok (), c1, w) \<and> rk_install rec ctx c1 w = (res, c2, w')
     \<or> rk_pre_update rec ctx c w = (Ok (), c1, w) \<and> rk_update rec ctx c1 w = (res, c2, w'))"

context reconciler_contract
begin

lemma uninstall_branch_effect:
  assumes mem: "rec \<in> set recs" and eq: "uninstall_branch I rec ctx c w = (r, c', w')"
  shows "w' = w \<or> \<not> keeps_on_uninstall I c \<and> uninstalls rec ctx c w w'"
proof (cases "keeps_on_uninstall I c")
  case True
  with eq show ?thesis by (simp add: uninstall_branch_def result_of_def)
next
  case False
  obtain r1 c1 w1 where p: "rk_pre_uninstall rec ctx c w = (r1, c1, w1)" by (rule prod_cases3)
  have w1: "w1 = w" using pre_uninstall_contract [OF mem p] by simp
  obtain r2 c2 w2 where q: "rk_uninstall rec ctx c1 w1 = (r2, c2, w2)" by (rule prod_cases3)
  show ?thesis
  proof (cases r1)
    case (Ok u)
    with p q w1 have "uninstalls rec ctx c w w2" by (auto simp: uninstalls_def)
    with eq p q Ok False show ?thesis
      by (cases r2) (simp_all add: uninstall_branch_def result_of_def)
  qed (use eq p w1 False in \<open>simp_all add: uninstall_branch_def result_of_def\<close>)
qed

lemma install_branch_effect:
  assumes mem: "rec \<in> set recs" and eq: "install_branch I rec ctx c w = (r, c', w')"
  shows "w' = w \<or> applies rec ctx c w w'"
proof -
  obtain r1 c1 w1 where p: "rk_pre_install rec ctx c w = (r1, c1, w1)" by (rule prod_cases3)
  have w1: "w1 = w" using pre_install_contract [OF mem p] by simp
  obtain r2 c2 w2 where q: "rk_install rec ctx c1 w1 = (r2, c2, w2)" by (rule prod_cases3)
  show ?thesis
  proof (cases r1)
    case (Ok u)
    with p q w1 have "applies rec ctx c w w2" by (auto simp: applies_def)
    with eq p q Ok show ?thesis by (cases r2) (simp_all add: install_branch_def result_of_def)
  qed (use eq p w1 in \<open>simp_all add: install_branch_def result_of_def\<close>)
qed

lemma update_branch_effect:
  assumes mem: "rec \<in> set recs" and eq: "update_branch I rec ctx c w = (r, c', w')"
  shows "w' = w \<or> applies rec ctx c w w'"
proof -
  obtain r1 c1 w1 where p: "rk_pre_update rec ctx c w = (r1, c1, w1)" by (rule prod_cases3)
  have w1: "w1 = w" using pre_update_contract [OF mem p] by simp
  obtain r2 c2 w2 where q: "rk_update rec ctx c1 w1 = (r2, c2, w2)" by (rule prod_cases3)
  obtain r3 c3 w3 where q3: "rk_observe rec ctx c2 w2 = (r3, c3, w3)" by (rule prod_cases3)
  have w3: "w3 = w2" using observe_contract [OF mem q3] by simp
  show ?thesis
  proof (cases r1)
    case (Ok u)
    with p q w1 have a: "applies rec ctx c w w2" by (auto simp: applies_def)
    have "w' = w2"
    proof (cases "\<exists>u ob. r2 = Ok u \<and> r3 = Ok ob")
      case True
      then obtain ob where "observed_result I ob c3 w3 = (r, c', w')" using eq p q q3 Ok by (auto simp: update_branch_def)
      from observed_result_cases [OF this] w3 show ?thesis by simp
    next
      case False
      with eq p q q3 Ok w3 show ?thesis by (cases r2; cases r3) (simp_all add: update_branch_def result_of_def)
    qed
    with a show ?thesis by blast
  qed (use eq p w1 in \<open>simp_all add: update_branch_def result_of_def\<close>)
qed

text \<open>The world changes only in an uninstall, an install or an update, after a successful
  observation that allows it.\<close>

lemma reconcileComponent_effect:
  assumes eq: "reconcileComponent I recs ctx before c after w = (r, c', w')"
  shows "w' = w \<or> (\<exists>rec obs c0. findReconcilerFor I recs c = Inr rec \<and> rk_observe rec ctx c w = (Ok obs, c0, w)
     \<and> (if ci_enabled I c then applies rec ctx c0 w w'
        else ob_exists obs \<and> \<not> keeps_on_uninstall I c \<and> uninstalls rec ctx c0 w w'))"
proof (cases "findReconcilerFor I recs c")
  case (Inl e)
  with eq show ?thesis by (simp add: reconcileComponent_def result_of_def)
next
  case (Inr rec)
  have mem: "rec \<in> set recs" using findReconcilerFor_registered [OF Inr] by simp
  obtain r1 c0 w0 where o: "rk_observe rec ctx c w = (r1, c0, w0)" by (rule prod_cases3)
  have k: "same_component I c c0" "w0 = w" using observe_contract [OF mem o] by auto
  have en: "ci_enabled I c0 = ci_enabled I c" "keeps_on_uninstall I c0 = keeps_on_uninstall I c"
    using k(1) same_component_keeps [OF k(1)] by (simp_all add: same_component_def)
  show ?thesis
  proof (cases r1)
    case (Ok obs)
    note at = Inr o [unfolded Ok k(2)]
    have "w' = w \<or> (if ci_enabled I c then applies rec ctx c0 w w'
        else ob_exists obs \<and> \<not> keeps_on_uninstall I c \<and> uninstalls rec ctx c0 w w')"
    proof (cases "ci_enabled I c")
      case False
      show ?thesis
      proof (cases "ob_exists obs")
        case True
        then have "uninstall_branch I rec ctx c0 w = (r, c', w')"
          using eq at en False by (simp add: reconcileComponent_def)
        from uninstall_branch_effect [OF mem this] en True False show ?thesis by auto
      next
        case nothing: False
        with eq at en False show ?thesis by (simp add: reconcileComponent_def result_of_def)
      qed
    next
      case True
      show ?thesis
      proof (cases "ci_installable I ctx c0 w = Ok True \<and> checkDependencies I (before @ c0 # after) c0 = None")
        case False
        with eq at en True show ?thesis
          by (auto simp: reconcileComponent_def result_of_def split: gores_of.splits if_splits option.splits)
      next
        case inst: True
        then have "(if ob_exists obs then update_branch I rec ctx c0 w else install_branch I rec ctx c0 w) = (r, c', w')"
          using eq at en True by (simp add: reconcileComponent_def split: if_splits)
        then show ?thesis
          using install_branch_effect [OF mem] update_branch_effect [OF mem] True by (auto split: if_splits)
      qed
    qed
    with at show ?thesis by blast
  qed (use eq Inr o k in \<open>simp_all add: reconcileComponent_def result_of_def\<close>)
qed

end

section \<open>What may happen to an object of the target\<close>

definition operator_labels :: "libs \<Rightarrow> 'w comp \<Rightarrow> (string \<times> string) list" where
  "operator_labels L c = [(LabelManagedBy, LabelManagedByValue), (LabelComponentName, comp_name L c)]"

text \<open>The object of an object component, before and after a reconcile of the component.\<close>

inductive object_step :: "libs \<Rightarrow> 'w rctx \<Rightarrow> 'w comp \<Rightarrow> kobj option \<Rightarrow> kobj option \<Rightarrow> bool"
  for L :: libs and ctx :: "'w rctx" and c :: "'w comp" where
  rest: "object_step L ctx c cur cur"
| uninstall: "\<not> comp_enabled c \<Longrightarrow> comp_keep c \<noteq> Some True \<Longrightarrow> left_behind (Some ob) new \<Longrightarrow>
     object_step L ctx c (Some ob) new"
| install: "comp_enabled c \<Longrightarrow> comp_build ctx c = Ok (obj, key) \<Longrightarrow>
     comp_reconcile L ctx c w (SetLabels (set_key obj key) (operator_labels L c)) = Ok ob \<Longrightarrow>
     object_step L ctx c None (Some ob)"
| update: "comp_enabled c \<Longrightarrow> \<not> shouldSkipReconciliation ob \<Longrightarrow>
     comp_reconcile L ctx c w (SetLabels ob (operator_labels L c)) = Ok ob' \<Longrightarrow>
     object_step L ctx c (Some ob) (Some ob')"

inductive_cases object_step_from_Some: "object_step L ctx c (Some ob) new"
inductive_cases object_step_from_None: "object_step L ctx c None new"

text \<open>The empty object of a component has no annotation.\<close>

definition fresh :: "kobj \<Rightarrow> bool" where
  "fresh ob \<longleftrightarrow> om_annotations (ko_meta ob) = None"

lemma fresh_not_skipped: "fresh obj \<Longrightarrow> \<not> shouldSkipReconciliation (set_key obj key)"
  by (simp add: fresh_def shouldSkipReconciliation_def annotations_of_def set_key_def)

lemma object_apply_step:
  assumes "cou_law (or_remote r) view" "or_labels r c = operator_labels L c"
    and "applyObject (operator_object L) r ctx c w = (res, c2, w')"
    and "comp_build ctx c = Ok (obj, key)" "fresh obj" "comp_enabled c"
  shows "object_step L ctx c (view w (kind_of obj) key) (view w' (kind_of obj) key)
     \<and> (\<forall>k n. (k, n) \<noteq> (kind_of obj, key) \<longrightarrow> view w' k n = view w k n)"
proof (cases "is_ok res")
  case False
  with applyObject_cases [OF assms(1,3)] have "view w' = view w" by auto
  then show ?thesis by (simp add: object_step.rest)
next
  case True
  with applyObject_cases [OF assms(1,3)] assms(4) obtain ob' where
    m: "object_mutate (operator_object L) r ctx c w (found_object (view w) obj key) = Inr ob'"
    "view w' = (view w)(kind_of obj := (view w (kind_of obj))(key \<mapsto> ob'))" by auto
  have "object_step L ctx c (view w (kind_of obj) key) (Some ob')"
  proof (cases "view w (kind_of obj) key")
    case None
    with m(1) fresh_not_skipped [OF assms(5)] assms(2)
    have "comp_reconcile L ctx c w (SetLabels (set_key obj key) (operator_labels L c)) = Ok ob'"
      by (auto simp: object_mutate_def found_object_def split: gores_of.splits)
    with None object_step.install [OF assms(6,4)] show ?thesis by simp
  next
    case (Some ob)
    show ?thesis
    proof (cases "shouldSkipReconciliation ob")
      case True
      with m(1) Some show ?thesis by (simp add: object_mutate_def found_object_def object_step.rest)
    next
      case False
      with m(1) Some assms(2) have "comp_reconcile L ctx c w (SetLabels ob (operator_labels L c)) = Ok ob'"
        by (auto simp: object_mutate_def found_object_def split: gores_of.splits)
      from object_step.update [OF assms(6) False this] Some show ?thesis by simp
    qed
  qed
  with m(2) show ?thesis by auto
qed

lemma object_uninstall_step:
  assumes "delete_law (or_remote r) view"
    and "object_Uninstall (operator_object L) r ctx c w = (res, c2, w')"
    and "comp_build ctx c = Ok (obj, key)" "\<not> comp_enabled c" "comp_keep c \<noteq> Some True"
  shows "object_step L ctx c (view w (kind_of obj) key) (view w' (kind_of obj) key)
     \<and> (\<forall>k n. (k, n) \<noteq> (kind_of obj, key) \<longrightarrow> view w' k n = view w k n)"
proof (cases "is_ok res")
  case False
  with object_Uninstall_cases [OF assms(1,2)] have "view w' = view w" by auto
  then show ?thesis by (simp add: object_step.rest)
next
  case True
  with object_Uninstall_cases [OF assms(1,2)] assms(3) obtain new where
    n: "left_behind (view w (kind_of obj) key) new" "view w' = (view w)(kind_of obj := (view w (kind_of obj))(key := new))"
    by auto
  have "object_step L ctx c (view w (kind_of obj) key) new"
    using n(1) object_step.uninstall [OF assms(4,5)] object_step.rest
    by (cases "view w (kind_of obj) key") (simp_all add: object_step.rest)
  with n(2) show ?thesis by auto
qed

lemma operator_object_fields:
  "\<exists>r. operator_object_reconciler L rc = as_object_reconciler (operator_iface L) (operator_object L) r
     \<and> or_remote r = rc \<and> (\<forall>c. or_labels r c = operator_labels L c)"
proof -
  have o: "or_remote (object_RegisterType I r cs) = or_remote r \<and> or_labels (object_RegisterType I r cs) = or_labels r"
    for I r and cs :: "'a comp list"
    by (induction cs arbitrary: r) (simp_all add: object_RegisterType_def)
  show ?thesis
    unfolding operator_object_reconciler_def Let_def
    by (intro exI conjI, rule refl) (simp_all add: o NewReconciler_def DefaultLabelFunc_def operator_labels_def)
qed

lemma run_hook_component: "run_hook h cl c w = (r, c', w') \<Longrightarrow> c' = c"
  by (auto simp: run_hook_def split: option.splits prod.splits)

text \<open>Reconciling an object component makes one step of its object, whatever the outcome, and
  changes no other object of the target.\<close>

lemma reconcile_object_step:
  assumes "cou_law rc rv" "delete_law rc rv" "\<not> comp_is_flux c" "comp_build ctx c = Ok (obj, key)" "fresh obj"
    and "reconcileComponent (operator_iface L) (operator_reconcilers L lc rc) ctx before c after w = (r, c', w')"
  shows "object_step L ctx c (rv w (kind_of obj) key) (rv w' (kind_of obj) key)
     \<and> (\<forall>k n. (k, n) \<noteq> (kind_of obj, key) \<longrightarrow> rv w' k n = rv w k n)"
proof -
  obtain ro where ro: "operator_object_reconciler L rc = as_object_reconciler (operator_iface L) (operator_object L) ro"
    "or_remote ro = rc" "or_labels ro c = operator_labels L c" using operator_object_fields by blast
  let ?rec = "operator_object_reconciler L rc"
  from op.reconcileComponent_effect [OF assms(6)] consider (Same) "w' = w"
    | (Acts) obs c0 where "rk_observe ?rec ctx c w = (Ok obs, c0, w)"
        "if comp_enabled c then applies ?rec ctx c0 w w'
         else comp_keep c \<noteq> Some True \<and> uninstalls ?rec ctx c0 w w'"
    using assms(3) by (auto simp: findReconcilerFor_operator keeps_on_uninstall_def split: option.splits if_splits)
  then show ?thesis
  proof cases
    case Same
    then show ?thesis by (simp add: object_step.rest)
  next
    case Acts
    from Acts(1) have c0: "c0 = c" by (auto simp: ro(1) reconciler_fields dest: object_Observe_keeps)
    show ?thesis
    proof (cases "comp_enabled c")
      case True
      with Acts(2) c0 obtain res c2 where "applyObject (operator_object L) ro ctx c w = (res, c2, w')"
        by (auto simp: applies_def ro(1) reconciler_fields dest!: run_hook_component)
      from object_apply_step [OF assms(1) [folded ro(2)] ro(3) this assms(4,5) True] show ?thesis .
    next
      case False
      with Acts(2) c0 obtain res c2 where u: "object_Uninstall (operator_object L) ro ctx c w = (res, c2, w')"
        "comp_keep c \<noteq> Some True"
        by (auto simp: uninstalls_def ro(1) reconciler_fields dest!: run_hook_component)
      from object_uninstall_step [OF assms(2) [folded ro(2)] u(1) assms(4) False u(2)] show ?thesis .
    qed
  qed
qed

section \<open>A whole round\<close>

text \<open>The charts are managed on the operator's own cluster: writing there leaves the target alone.\<close>

definition clusters_apart :: "'w client \<Rightarrow> 'w kview \<Rightarrow> bool" where
  "clusters_apart lc rv \<longleftrightarrow> (\<forall>ob f w. rv (snd (cl_create_or_update lc ob f w)) = rv w)
     \<and> (\<forall>ob w. rv (snd (cl_delete lc ob w)) = rv w)"

lemma chart_apply_apart:
  assumes "clusters_apart (fr_local r) rv" "flux_installOrUpdate F r ctx c w = (res, c', w')"
  shows "rv w' = rv w"
proof -
  have one: "rv w2 = rv w1" if "apply_resource r b ctx c1 w1 = (res, c2, w2)" for b c1 w1 res c2 w2
    using that assms(1)
    by (auto simp: apply_resource_def Let_def clusters_apart_def split: prod.splits gores_of.splits) (metis snd_conv)
  obtain r1 c1 w1 where s: "apply_resource r (fi_source F) ctx c w = (r1, c1, w1)" by (rule prod_cases3)
  obtain r2 c2 w2 where m: "apply_resource r (fi_manifesto F) ctx c1 w1 = (r2, c2, w2)" by (rule prod_cases3)
  from one [OF s] one [OF m] s m assms(2) show ?thesis
    by (auto simp: flux_installOrUpdate_stages split: if_splits gores_of.splits)
qed

lemma chart_delete_apart:
  assumes "clusters_apart (fr_local r) rv" "flux_Uninstall F r ctx c w = (res, c', w')"
  shows "rv w' = rv w"
proof -
  have one: "rv w2 = rv w1" if "delete_resource r b ctx c1 w1 = (res, c2, w2)" for b c1 w1 res c2 w2
    using that assms(1)
    by (auto simp: delete_resource_def clusters_apart_def split: prod.splits gores_of.splits) (metis snd_conv)
  obtain r1 c1 w1 where s: "delete_resource r (fi_source F) ctx c w = (r1, c1, w1)" by (rule prod_cases3)
  obtain r2 c2 w2 where m: "delete_resource r (fi_manifesto F) ctx c1 w1 = (r2, c2, w2)" by (rule prod_cases3)
  from one [OF s] one [OF m] s m assms(2) show ?thesis
    by (auto simp: flux_Uninstall_stages split: if_splits gores_of.splits)
qed

lemma reconcile_chart_apart:
  assumes "clusters_apart lc rv" "comp_is_flux c"
    and "reconcileComponent (operator_iface L) (operator_reconcilers L lc rc) ctx before c after w = (r, c', w')"
  shows "rv w' = rv w"
proof -
  obtain rf where rf: "operator_flux_reconciler L lc rc = as_flux_reconciler L (operator_iface L) (operator_flux L) rf"
    "fr_local rf = lc" using operator_clients(1) by blast
  note apart = chart_apply_apart [OF assms(1) [folded rf(2)]] chart_delete_apart [OF assms(1) [folded rf(2)]]
  from op.reconcileComponent_effect [OF assms(3)] assms(2) consider (Same) "w' = w"
    | (Acts) c0 where "applies (operator_flux_reconciler L lc rc) ctx c0 w w' \<or> uninstalls (operator_flux_reconciler L lc rc) ctx c0 w w'"
    by (auto simp: findReconcilerFor_operator split: if_splits)
  then show ?thesis
  proof cases
    case Acts
    then show ?thesis using apart by (auto simp: applies_def uninstalls_def rf(1) reconciler_fields)
  qed simp
qed

text \<open>What a component that fails to build its object does: nothing.\<close>

lemma unbuilt_object_rests:
  assumes "\<not> comp_is_flux c" "\<not> is_ok (comp_build ctx c)"
    and "reconcileComponent (operator_iface L) (operator_reconcilers L lc rc) ctx before c after w = (r, c', w')"
  shows "w' = w"
proof -
  obtain ro where ro: "operator_object_reconciler L rc = as_object_reconciler (operator_iface L) (operator_object L) ro"
    using operator_object_fields by blast
  from op.reconcileComponent_effect [OF assms(3)] assms(1,2) show ?thesis
    by (auto simp: findReconcilerFor_operator ro reconciler_fields object_Observe_def is_ok_iff split: if_splits gores_of.splits)
qed

text \<open>The steps the registered components allow the object of kind \<open>k\<close> with the key \<open>n\<close>.\<close>

definition builds_key :: "'w rctx \<Rightarrow> 'w comp \<Rightarrow> kind \<Rightarrow> nname \<Rightarrow> bool" where
  "builds_key ctx c k n \<longleftrightarrow> \<not> comp_is_flux c \<and> (\<exists>obj. comp_build ctx c = Ok (obj, n) \<and> kind_of obj = k)"

definition round_step :: "libs \<Rightarrow> 'w rctx \<Rightarrow> 'w comp list \<Rightarrow> kind \<Rightarrow> nname \<Rightarrow> kobj option \<Rightarrow> kobj option \<Rightarrow> bool" where
  "round_step L ctx comps k n a b \<longleftrightarrow> (\<exists>c \<in> set comps. builds_key ctx c k n \<and> object_step L ctx c a b)"

definition builds_fresh :: "'w rctx \<Rightarrow> 'w comp \<Rightarrow> bool" where
  "builds_fresh ctx c \<longleftrightarrow> (\<forall>obj key. comp_build ctx c = Ok (obj, key) \<longrightarrow> fresh obj)"

lemma component_round_step:
  assumes "cou_law rc rv" "delete_law rc rv" "clusters_apart lc rv" "builds_fresh ctx c" "c \<in> set comps"
    and "reconcileComponent (operator_iface L) (operator_reconcilers L lc rc) ctx before c after w = (r, c', w')"
  shows "(round_step L ctx comps k n)\<^sup>*\<^sup>* (rv w k n) (rv w' k n)"
proof (cases "comp_is_flux c")
  case True
  from reconcile_chart_apart [OF assms(3) True assms(6)] show ?thesis by simp
next
  case False
  show ?thesis
  proof (cases "comp_build ctx c")
    case (Ok b)
    obtain obj key where b: "b = (obj, key)" by (rule prod.exhaust)
    with Ok assms(4) have "fresh obj" by (auto simp: builds_fresh_def)
    from reconcile_object_step [OF assms(1,2) False Ok [unfolded b] this assms(6)] False Ok b assms(5)
    have "rv w' k n = rv w k n \<or> round_step L ctx comps k n (rv w k n) (rv w' k n)"
      by (cases "(k, n) = (kind_of obj, key)") (auto simp: round_step_def builds_key_def)
    then show ?thesis by (metis rtranclp.rtrancl_refl r_into_rtranclp)
  qed (use unbuilt_object_rests [OF False _ assms(6)] in simp_all)
qed

lemma round_steps:
  assumes "cou_law rc rv" "delete_law rc rv" "clusters_apart lc rv" "\<forall>c \<in> set after. builds_fresh ctx c"
    "set after \<subseteq> set comps"
    and "reconcile_loop (operator_iface L) (operator_reconcilers L lc rc) ctx before after w = (rs, out, evs, w')"
  shows "(round_step L ctx comps k n)\<^sup>*\<^sup>* (rv w k n) (rv w' k n)"
  using assms(4-6)
proof (induction after arbitrary: before w rs out evs)
  case (Cons c after)
  obtain r c' w1 where one: "reconcileComponent (operator_iface L) (operator_reconcilers L lc rc) ctx before c after w = (r, c', w1)"
    by (rule prod_cases3)
  have first: "(round_step L ctx comps k n)\<^sup>*\<^sup>* (rv w k n) (rv w1 k n)"
    by (rule component_round_step [OF assms(1-3) _ _ one]) (use Cons.prems in simp_all)
  obtain rs1 out1 evs1 w2 where rest:
    "reconcile_loop (operator_iface L) (operator_reconcilers L lc rc) ctx (before @ [c']) after w1 = (rs1, out1, evs1, w2)"
    by (rule prod_cases4)
  show ?case
  proof (cases r)
    case (Ok cr)
    with Cons.prems(3) one rest have "w2 = w'" by simp
    from this Cons.IH [OF _ _ rest [unfolded this]] Cons.prems(1,2) first show ?thesis by (simp add: rtranclp_trans)
  qed (use Cons.prems(3) one first in simp_all)
qed simp


section \<open>What a round protects\<close>

lemma foreign_unchanged:
  assumes "\<forall>c \<in> set cs. \<not> builds_key ctx c k n" "(round_step L ctx cs k n)\<^sup>*\<^sup>* a b"
  shows "b = a"
  using assms(2) by (induction rule: rtranclp_induct) (use assms(1) in \<open>auto simp: round_step_def\<close>)

lemma skipped_unchanged:
  assumes "\<forall>c \<in> set cs. builds_key ctx c k n \<longrightarrow> comp_enabled c \<or> comp_keep c = Some True"
    and "(round_step L ctx cs k n)\<^sup>*\<^sup>* a b" "a = Some ob" "shouldSkipReconciliation ob"
  shows "b = a"
  using assms(2)
proof (induction rule: rtranclp_induct)
  case (step y z)
  then obtain c where c: "c \<in> set cs" "builds_key ctx c k n" "object_step L ctx c (Some ob) z"
    using assms(3) by (auto simp: round_step_def)
  from c(3) assms(1,4) c(1,2) have "z = Some ob" by (cases rule: object_step_from_Some) auto
  with assms(3) show ?case by simp
qed simp

lemma kept_not_removed:
  assumes "\<forall>c \<in> set cs. builds_key ctx c k n \<longrightarrow> comp_enabled c \<or> comp_keep c = Some True"
    and "(round_step L ctx cs k n)\<^sup>*\<^sup>* a b" "a \<noteq> None"
  shows "b \<noteq> None"
  using assms(2)
proof (induction rule: rtranclp_induct)
  case (step y z)
  then obtain c ob where c: "c \<in> set cs" "builds_key ctx c k n" "object_step L ctx c (Some ob) z"
    by (auto simp: round_step_def)
  from c(3) assms(1) c(1,2) show ?case by (cases rule: object_step_from_Some) auto
qed (use assms(3) in simp)

lemma disabled_not_created:
  assumes "\<forall>c \<in> set cs. builds_key ctx c k n \<longrightarrow> \<not> comp_enabled c"
    and "(round_step L ctx cs k n)\<^sup>*\<^sup>* a b"
  shows "\<exists>x. left_behind a x \<and> (b = a \<or> b = x)"
  using assms(2)
proof (induction rule: rtranclp_induct)
  case base
  show ?case by (cases a; cases "om_finalizers (ko_meta (the a))") (auto simp: left_behind_def)
next
  case (step y z)
  then obtain c where c: "c \<in> set cs" "builds_key ctx c k n" "object_step L ctx c y z"
    by (auto simp: round_step_def)
  show ?case
  proof (cases y)
    case None
    with c assms(1) have "z = None" by (auto elim: object_step_from_None)
    with None step.IH show ?thesis by auto
  next
    case (Some ob)
    from c(3) [unfolded Some] assms(1) c(1,2) have "z = y \<or> left_behind y z"
      using Some by (cases rule: object_step_from_Some) auto
    with step.IH show ?thesis by (auto dest: left_behind_trans)
  qed
qed


section \<open>The objects a ControlPlane's components build and fill\<close>

definition detectable :: "kobj \<Rightarrow> bool" where
  "detectable ob \<longleftrightarrow> opts_match [IsManaged, HasComponentLabel] ob"

lemma detectable_iff:
  "detectable ob \<longleftrightarrow> labels_of ob LabelManagedBy = Some LabelManagedByValue \<and> labels_of ob LabelComponentName \<noteq> None"
  by (simp add: detectable_def opts_match_def IsManaged_def HasComponentLabel_def)

definition same_identity :: "kobj \<Rightarrow> kobj \<Rightarrow> bool" where
  "same_identity ob ob' \<longleftrightarrow> kind_of ob' = kind_of ob \<and> key_of ob' = key_of ob \<and> annotations_of ob' = annotations_of ob
     \<and> om_finalizers (ko_meta ob') = om_finalizers (ko_meta ob) \<and> om_deletion (ko_meta ob') = om_deletion (ko_meta ob)"

text \<open>A component whose fill function works on the object it builds: it keeps the object's identity
  and the labels by which the object is found again.\<close>

definition tame :: "libs \<Rightarrow> 'w comp \<Rightarrow> bool" where
  "tame L c \<longleftrightarrow> (\<forall>ctx obj key. comp_build ctx c = Ok (obj, key) \<longrightarrow> fresh obj
     \<and> (\<forall>w ob ob'. kind_of ob = kind_of obj \<longrightarrow> key_of ob = key \<longrightarrow> detectable ob \<longrightarrow>
          comp_reconcile L ctx c w ob = Ok ob' \<longrightarrow> same_identity ob ob' \<and> detectable ob'))"

lemma component_labels_distinct:
  "LabelManagedBy \<noteq> LabelComponentName" "LabelCopySourceName \<noteq> LabelManagedBy" "LabelCopySourceName \<noteq> LabelComponentName"
  "LabelCopySourceNamespace \<noteq> LabelManagedBy" "LabelCopySourceNamespace \<noteq> LabelComponentName"
  "GroupName @ ''/aggregate-to-'' @ n \<noteq> LabelManagedBy" "GroupName @ ''/aggregate-to-'' @ n \<noteq> LabelComponentName"
  by (simp_all add: LabelManagedBy_def LabelComponentName_def LabelCopySourceName_def LabelCopySourceNamespace_def GroupName_def)

lemma fresh_new [simp]: "fresh (new_obj ns n b)"
  by (simp add: fresh_def new_obj_def empty_meta_def)

lemma body_frame [simp]:
  "labels_of (ob\<lparr>ko_body := b\<rparr>) = labels_of ob" "annotations_of (ob\<lparr>ko_body := b\<rparr>) = annotations_of ob"
  "key_of (ob\<lparr>ko_body := b\<rparr>) = key_of ob"
  by (simp_all add: labels_of_def annotations_of_def key_of_def)

lemma object_components_tame:
  assumes "meta_label_law L"
  shows "tame L (CClusterRole r)" "tame L (CSecret s)" "tame L (CProvider p)" "tame L (CDrc d)"
proof -
  note lab = component_labels_distinct [symmetric]
  show "tame L (CClusterRole r)"
    using assms lab
    by (auto simp: tame_def clusterrole_BuildObjectToReconcile_def clusterrole_ReconcileObject_def meta_label_law_def Let_def
        same_identity_def detectable_iff kind_of_def split: kbody.splits)
  have fill: "same_identity ob ob' \<and> detectable ob'"
    if "secret_fill L s b ob = Ok ob'" "detectable ob" for b ob ob'
    using that assms lab
    by (auto simp: secret_fill_def meta_label_law_def Let_def same_identity_def detectable_iff kind_of_def split: kbody.splits)
  show "tame L (CSecret s)"
    by (auto simp: tame_def secret_BuildObjectToReconcile_def secret_ReconcileObject_def fill
        split: if_splits option.splits sum.splits kbody.splits)
  have prov: "same_identity ob (ReconcileProvider ob b q) \<and> detectable (ReconcileProvider ob b q)"
    if "ko_body ob = BProvider b" "detectable ob" for ob b q
    using that by (auto simp: ReconcileProvider_def same_identity_def detectable_iff kind_of_def SetManagedBy_def)
  have shape: "\<exists>b q. ko_body ob = BProvider b \<and> ob' = ReconcileProvider ob b q"
    if "provider_ReconcileObject ctx p w ob = Ok ob'" for ctx w ob ob'
    using that by (cases "ko_body ob") (auto simp: provider_ReconcileObject_def bind_go_Ok_iff)
  show "tame L (CProvider p)"
    by (auto simp: tame_def provider_BuildObjectToReconcile_def EmptyFromConfig_def prov dest!: shape)
  show "tame L (CDrc d)"
    by (auto simp: tame_def drc_BuildObjectToReconcile_def drc_ReconcileObject_def same_identity_def detectable_iff kind_of_def
        split: kbody.splits)
qed

lemma registered_generics_tame:
  "tame L (crd_component b k)" "tame L (cpr_component cl b)" "tame L (policy_component n b f)"
  "tame L (binding_component n b (\<lambda>obj spec. obj\<lparr>ko_body := BPolicyBinding (g spec)\<rparr>))"
  "tame L (binding_component n b (\<lambda>obj spec. ReconcileDeploymentConfigRuntimeProtectionPolicyBinding n obj))"
proof -
  note defs = tame_def generic_BuildObjectToReconcile_def same_identity_def detectable_iff kind_of_def
  show "tame L (crd_component b k)" by (auto simp: crd_component_def defs split: kbody.splits)
  show "tame L (policy_component n b f)" by (auto simp: policy_component_def defs split: kbody.splits)
  show "tame L (cpr_component cl b)"
    by (auto simp: cpr_component_def defs split: kbody.splits sum.splits)
  show "tame L (binding_component n b (\<lambda>obj spec. obj\<lparr>ko_body := BPolicyBinding (g spec)\<rparr>))"
    by (auto simp: binding_component_def defs split: kbody.splits)
  show "tame L (binding_component n b (\<lambda>obj spec. ReconcileDeploymentConfigRuntimeProtectionPolicyBinding n obj))"
    by (auto simp: binding_component_def defs ReconcileDeploymentConfigRuntimeProtectionPolicyBinding_def key_of_def
        labels_of_def annotations_of_def split: kbody.splits)
qed

lemma chart_tame: "comp_is_flux c \<Longrightarrow> tame L c"
  by (cases c) (simp_all add: tame_def)

text \<open>What holds of every component a ControlPlane can have registered.\<close>

lemma registered_all:
  assumes "newJuggler E ctx cp remote w = Ok j"
    and "\<And>r. P (CClusterRole r)" "\<And>s. P (CSecret s)" "\<And>p. P (CProvider p)" "\<And>d. P (CDrc d)"
    and "\<And>c. comp_is_flux c \<Longrightarrow> P c" "\<And>b k. P (crd_component b k)" "\<And>cl b. P (cpr_component cl b)"
    and "\<And>pt b. P (policy_component (GetPolicyName pt) b (ReconcilePolicy pt))"
    and "\<And>n b g. P (binding_component n b (\<lambda>obj spec. obj\<lparr>ko_body := BPolicyBinding (ReconcilePolicyBinding g n spec)\<rparr>))"
    and "\<And>n b env. P (policy_component n b (\<lambda>spec. ReconcileDeploymentConfigRuntimeProtectionPolicy env))"
    and "\<And>n b. P (binding_component n b (\<lambda>obj spec. ReconcileDeploymentConfigRuntimeProtectionPolicyBinding n obj))"
  shows "list_all P (jg_components j)"
proof -
  note obj = assms(2-5)
  from newJuggler_parts [OF assms(1)] obtain j0 :: "'a op_juggler" and os where
    j0: "configured_juggler E cp remote w = Inr j0" "jg_components j = jg_components j0 @ os" "list_all orphaned os" by blast
  have orphan: "P c" if "orphaned c" for c
    using that obj by (cases c) (auto simp: orphaned_def rtype_defs)
  from registered_components [OF j0(1)] obtain secrets cp1 crds where
    parts: "addPullSecrets E cp w = Inr (secrets, cp1)"
      "jg_components j0 = secrets @ controlPlaneComponents cp1
         @ jg_components (clusterroles_RegisterAsComponents NewJuggler (controlPlaneComponents cp1) (\<not> WasDeleted cp))
         @ map (crd_component (\<not> WasDeleted cp)) (filterCRDs crds embeddedCRDsToInstall)
         @ jg_components (policies_RegisterAsComponents NewJuggler (ev_local E) (\<not> WasDeleted cp))
         @ jg_components (RegisterDeploymentRuntimeConfigProtection (ev_environ E) NewJuggler
             (ev_protection E \<and> \<not> WasDeleted cp))"
    by auto
  from parts(1) obtain pss where "add_pull_secrets_loop E pss cp = (secrets, cp1)"
    by (auto simp: addPullSecrets_def split: sum.splits)
  then have "list_all (\<lambda>c. \<exists>s. c = CSecret s) secrets"
  proof (induction pss arbitrary: cp secrets)
    case (Cons ps pss)
    then show ?case by (force simp: secretTargetNamespaces_def Let_def split: prod.splits)
  qed simp
  then have "list_all P secrets" unfolding list_all_iff by (metis obj(2))
  moreover have "list_all P (controlPlaneComponents cp1)"
    using obj assms(6) by (auto simp: list_all_iff controlPlaneComponents_def Let_def provider_components_def split: option.splits)
  ultimately show ?thesis
    unfolding j0(2) parts(2) list_all_append
    using j0(3) orphan obj assms(7-12)
    by (auto simp: list_all_iff clusterroles_RegisterAsComponents_def Let_def policies_RegisterAsComponents_def
        PackageTypes_def NewJuggler_def RegisterDeploymentRuntimeConfigProtection_def)
qed

lemma registered_tame:
  assumes "newJuggler E ctx cp remote w = Ok j" "meta_label_law (ev_libs E)"
  shows "list_all (tame (ev_libs E)) (jg_components j)"
  by (rule registered_all [OF assms(1)])
     (rule object_components_tame [OF assms(2)] registered_generics_tame chart_tame; assumption?)+

section \<open>The types of the stored objects\<close>

lemma detectable_SetLabels [simp]: "detectable (SetLabels ob (operator_labels L c))"
  using component_labels_distinct by (simp add: detectable_iff operator_labels_def)

lemma kind_SetLabels [simp]: "kind_of (SetLabels ob kvs) = kind_of ob"
  by (simp add: kind_of_def)

definition filed :: "kind \<Rightarrow> nname \<Rightarrow> kobj option \<Rightarrow> bool" where
  "filed k n o' \<longleftrightarrow> (\<forall>ob. o' = Some ob \<longrightarrow> kind_of ob = k \<and> key_of ob = n)"

definition found_again :: "kobj option \<Rightarrow> bool" where
  "found_again o' \<longleftrightarrow> (\<forall>ob. o' = Some ob \<longrightarrow> detectable ob)"

lemma left_behind_invariants:
  assumes "left_behind a b" 
  shows "filed k n a \<Longrightarrow> filed k n b" "found_again a \<Longrightarrow> found_again b"
  using assms
  by (auto simp: left_behind_def filed_def found_again_def kind_of_def key_of_def detectable_iff labels_of_def
      split: option.splits if_splits)

lemma tameD:
  "tame L c \<Longrightarrow> comp_build ctx c = Ok (obj, key) \<Longrightarrow> kind_of ob = kind_of obj \<Longrightarrow> key_of ob = key \<Longrightarrow>
     detectable ob \<Longrightarrow> comp_reconcile L ctx c w ob = Ok ob' \<Longrightarrow> same_identity ob ob' \<and> detectable ob'"
  unfolding tame_def by blast

lemma object_step_invariants:
  assumes "object_step L ctx c a b" "builds_key ctx c k n" "tame L c" "filed k n a"
  shows "filed k n b \<and> (found_again a \<longrightarrow> found_again b)"
  using assms(1)
proof (cases rule: object_step.cases)
  case rest
  with assms(4) show ?thesis by simp
next
  case (uninstall ob)
  with left_behind_invariants [OF uninstall(4)] assms(4) show ?thesis by simp
next
  case (install obj key w ob)
  with assms(2) have k: "kind_of obj = k" "key = n" by (auto simp: builds_key_def)
  let ?o = "SetLabels (set_key obj key) (operator_labels L c)"
  have "same_identity ?o ob \<and> detectable ob"
    by (rule tameD [OF assms(3) install(4) _ _ _ install(5)]) simp_all
  with k install(2) show ?thesis by (simp add: same_identity_def filed_def found_again_def)
next
  case (update ob w ob')
  from assms(2) obtain obj where b: "comp_build ctx c = Ok (obj, n)" "kind_of obj = k" by (auto simp: builds_key_def)
  from assms(4) update(1) have f: "kind_of ob = k" "key_of ob = n" by (simp_all add: filed_def)
  let ?o = "SetLabels ob (operator_labels L c)"
  have "same_identity ?o ob' \<and> detectable ob'"
    by (rule tameD [OF assms(3) b(1) _ _ _ update(5)]) (use b f in simp_all)
  with f update(2) show ?thesis by (simp add: same_identity_def filed_def found_again_def)
qed

lemma round_invariants:
  assumes "(round_step L ctx cs k n)\<^sup>*\<^sup>* a b" "list_all (tame L) cs" "filed k n a"
  shows "filed k n b \<and> (found_again a \<longrightarrow> found_again b)"
  using assms(1)
proof (induction rule: rtranclp_induct)
  case (step y z)
  then obtain c where "c \<in> set cs" "builds_key ctx c k n" "object_step L ctx c y z" by (auto simp: round_step_def)
  with object_step_invariants assms(2) step.IH show ?case by (metis list_all_iff)
qed (use assms(3) in simp)


section \<open>Two concrete clusters\<close>

definition on_fst :: "'a client \<Rightarrow> ('a \<times> 'b) client" where
  "on_fst cl = \<lparr> cl_get = (\<lambda>k n w. cl_get cl k n (fst w)), cl_list = (\<lambda>k os w. cl_list cl k os (fst w)),
     cl_create_or_update = (\<lambda>ob f w. case cl_create_or_update cl ob f (fst w) of (e, a) \<Rightarrow> (e, a, snd w)),
     cl_update = (\<lambda>ob w. case cl_update cl ob (fst w) of (e, a) \<Rightarrow> (e, a, snd w)),
     cl_delete = (\<lambda>ob w. case cl_delete cl ob (fst w) of (e, a) \<Rightarrow> (e, a, snd w)),
     cl_delete_all_of = (\<lambda>k os w. case cl_delete_all_of cl k os (fst w) of (e, a) \<Rightarrow> (e, a, snd w)) \<rparr>"

definition on_snd :: "'b client \<Rightarrow> ('a \<times> 'b) client" where
  "on_snd cl = \<lparr> cl_get = (\<lambda>k n w. cl_get cl k n (snd w)), cl_list = (\<lambda>k os w. cl_list cl k os (snd w)),
     cl_create_or_update = (\<lambda>ob f w. case cl_create_or_update cl ob f (snd w) of (e, b) \<Rightarrow> (e, fst w, b)),
     cl_update = (\<lambda>ob w. case cl_update cl ob (snd w) of (e, b) \<Rightarrow> (e, fst w, b)),
     cl_delete = (\<lambda>ob w. case cl_delete cl ob (snd w) of (e, b) \<Rightarrow> (e, fst w, b)),
     cl_delete_all_of = (\<lambda>k os w. case cl_delete_all_of cl k os (snd w) of (e, b) \<Rightarrow> (e, fst w, b)) \<rparr>"

lemma on_snd_laws:
  "cou_law cl v \<Longrightarrow> cou_law (on_snd cl) (\<lambda>w. v (snd w))"
  "delete_law cl v \<Longrightarrow> delete_law (on_snd cl) (\<lambda>w. v (snd w))"
  by (simp_all add: cou_law_def delete_law_def on_snd_def Let_def case_prod_beta cong: option.case_cong)

lemma on_fst_apart: "clusters_apart (on_fst cl) (\<lambda>w. v (snd w))"
  by (simp add: clusters_apart_def on_fst_def case_prod_beta)

definition target_view :: "(store \<times> store) kview" where
  "target_view = (\<lambda>w. store_view (snd w))"

lemma two_clusters [simp]:
  "cou_law (on_snd store_client) target_view" "delete_law (on_snd store_client) target_view"
  "clusters_apart (on_fst store_client) target_view"
  by (simp_all add: target_view_def on_snd_laws on_fst_apart)

definition admin_key :: nname where
  "admin_key = \<lparr> nn_namespace = [], nn_name = GroupName @ '':'' @ to_lower ''Admin'' \<rparr>"

definition role_store :: "store \<times> store" where
  "role_store = ([], [((KClusterRole, admin_key), new_obj [] (nn_name admin_key) (BClusterRole []))])"

lemma sample_role_builds:
  "\<forall>c \<in> set [sample_role b]. builds_fresh ctx c"
  "builds_key ctx (sample_role b) k n \<longleftrightarrow> k = KClusterRole \<and> n = admin_key"
  by (auto simp: builds_fresh_def builds_key_def sample_role_def clusterrole_BuildObjectToReconcile_def fresh_def
      new_obj_def empty_meta_def kind_of_def admin_key_def)



text \<open>A target that refuses every write and holds one role.\<close>

definition sealed_client :: "store client" where
  "sealed_client = store_client\<lparr>cl_create_or_update := (\<lambda>ob f w. (Some (OtherErr ''read-only''), w)),
     cl_delete := (\<lambda>ob w. (Some (OtherErr ''read-only''), w))\<rparr>"

definition sealed_view :: "store kview" where
  "sealed_view = (\<lambda>w. store_view (snd role_store))"

lemma sealed_laws [simp]:
  "cou_law sealed_client sealed_view" "delete_law sealed_client sealed_view" "clusters_apart store_client sealed_view"
  "wf_view sealed_view w" "cl_list sealed_client k os [] = Inr []"
  by (simp_all add: cou_law_def delete_law_def clusters_apart_def sealed_client_def sealed_view_def Let_def is_not_found_def
      wf_view_def role_store_def store_view_def admin_key_def kind_of_def key_of_def new_obj_def empty_meta_def)


end
