(* ===== verification/TargetFixpoint.thy ===== *)
theory TargetFixpoint
  imports TargetRounds
begin

text \<open>
  Applying a component to the target a second time: every object component fills its object to a
  fixpoint, so that the rounds of the operator settle instead of writing for ever.
\<close>

section \<open>Filled objects\<close>

text \<open>The object carries the labels the reconciler sets for the component.\<close>

definition carries :: "libs \<Rightarrow> 'w comp \<Rightarrow> kobj \<Rightarrow> bool" where
  "carries L c ob \<longleftrightarrow> list_all (\<lambda>(k, v). labels_of ob k = Some v) (operator_labels L c)"

lemma carries_iff:
  "carries L c ob \<longleftrightarrow> labels_of ob LabelManagedBy = Some LabelManagedByValue
     \<and> labels_of ob LabelComponentName = Some (comp_name L c)"
  by (simp add: carries_def operator_labels_def)

lemma SetLabel_same: "labels_of ob k = Some v \<Longrightarrow> SetLabel ob k v = ob"
  by (auto simp: SetLabel_def labels_of_def fun_upd_idem split: option.splits)

lemma SetLabels_same: "list_all (\<lambda>(k, v). labels_of ob k = Some v) kvs \<Longrightarrow> SetLabels ob kvs = ob"
  by (induction kvs) (auto simp: SetLabel_same)

lemma carries_SetLabels: "carries L c (SetLabels ob (operator_labels L c))"
  using component_labels_distinct by (simp add: carries_iff operator_labels_def)

text \<open>A component whose fill function reaches a fixpoint at once.\<close>

definition steady :: "libs \<Rightarrow> 'w comp \<Rightarrow> bool" where
  "steady L c \<longleftrightarrow> (\<forall>ctx w ob ob'. carries L c ob \<longrightarrow> comp_reconcile L ctx c w ob = Ok ob' \<longrightarrow>
     carries L c ob' \<and> comp_reconcile L ctx c w ob' = Ok ob')"

lemma steadyD:
  "steady L c \<Longrightarrow> carries L c ob \<Longrightarrow> comp_reconcile L ctx c w ob = Ok ob' \<Longrightarrow>
     carries L c ob' \<and> comp_reconcile L ctx c w ob' = Ok ob'"
  unfolding steady_def by blast

lemma chart_steady: "comp_is_flux c \<Longrightarrow> steady L c"
  by (cases c) (simp_all add: steady_def)

lemma body_labels: "SetLabel (ob\<lparr>ko_body := b\<rparr>) k v = (SetLabel ob k v)\<lparr>ko_body := b\<rparr>"
  by (simp add: SetLabel_def Let_def)

lemma SetLabel_twice [simp]: "SetLabel (SetLabel ob k v) k v = SetLabel ob k v"
  by (rule SetLabel_same) simp

lemma role_steady:
  assumes "meta_label_law L"
  shows "steady L (CClusterRole r)"
  using assms component_labels_distinct [symmetric]
  by (auto simp: steady_def clusterrole_ReconcileObject_def meta_label_law_def Let_def carries_iff body_labels
      split: kbody.splits)

lemma provider_steady: "steady L (CProvider p)"
proof -
  have again: "ReconcileProvider (ReconcileProvider ob b q) b' q = ReconcileProvider ob b q"
    if "ko_body (ReconcileProvider ob b q) = BProvider b'" for ob b b' q
    using that by (auto simp: ReconcileProvider_def SetManagedBy_def body_labels)
  have shape: "\<exists>b q. ko_body ob = BProvider b \<and> ob' = ReconcileProvider ob b q
      \<and> (\<forall>x bx. ko_body x = BProvider bx \<longrightarrow> provider_ReconcileObject ctx p w x = Ok (ReconcileProvider x bx q))"
    if "provider_ReconcileObject ctx p w ob = Ok ob'" for ctx w ob ob'
    using that by (cases "ko_body ob") (auto simp: provider_ReconcileObject_def bind_go_Ok_iff)
  have "\<exists>b'. ko_body (ReconcileProvider ob b q) = BProvider b'" for ob b q by (simp add: ReconcileProvider_def)
  with again shape have fixed: "provider_ReconcileObject ctx p w ob' = Ok ob'" if "provider_ReconcileObject ctx p w ob = Ok ob'"
    for ctx w ob ob'
    using that by metis
  have kept: "carries L (CProvider p) ob'"
    if "provider_ReconcileObject ctx p w ob = Ok ob'" "carries L (CProvider p) ob" for ctx w ob ob'
    using shape [OF that(1)] that(2) component_labels_distinct by (auto simp: ReconcileProvider_def carries_iff)
  show ?thesis
    unfolding steady_def comp_reconcile.simps
    by (intro allI impI conjI) (rule kept, assumption+, rule fixed, assumption)
qed

lemma drc_steady: "steady L (CDrc d)"
proof -
  have "applyDeploymentTemplateDefaults (applyDeploymentTemplateDefaults x) = applyDeploymentTemplateDefaults x" for x
    by (auto simp: applyDeploymentTemplateDefaults_def Let_def split: option.splits)
  moreover have "applyServiceAccountTemplateDefaults (applyServiceAccountTemplateDefaults x n) n
      = applyServiceAccountTemplateDefaults x n" for x n
    by (auto simp: applyServiceAccountTemplateDefaults_def Let_def split: option.splits)
  ultimately show ?thesis
    by (auto simp: steady_def drc_ReconcileObject_def carries_iff split: kbody.splits)
qed

lemma secret_steady:
  assumes "meta_label_law L"
  shows "steady L (CSecret s)"
proof -
  have fill: "carries L (CSecret s) ob' \<and> secret_fill L s b ob' = Ok ob'"
    if "secret_fill L s b ob = Ok ob'" "carries L (CSecret s) ob" for b ob ob'
    using that assms component_labels_distinct [symmetric]
    by (auto simp: secret_fill_def meta_label_law_def Let_def carries_iff body_labels SetLabel_same split: kbody.splits)
  show ?thesis
    by (auto simp: steady_def secret_ReconcileObject_def dest: fill split: if_splits option.splits sum.splits kbody.splits)
qed

lemma generics_steady:
  "steady L (crd_component b k)" "steady L (cpr_component cl b)"
  "steady L (policy_component (GetPolicyName pt) b (ReconcilePolicy pt))"
  "steady L (policy_component n b (\<lambda>spec. ReconcileDeploymentConfigRuntimeProtectionPolicy env))"
  "steady L (binding_component n b (\<lambda>obj spec. obj\<lparr>ko_body := BPolicyBinding (ReconcilePolicyBinding g n spec)\<rparr>))"
  "steady L (binding_component n b (\<lambda>obj spec. ReconcileDeploymentConfigRuntimeProtectionPolicyBinding n obj))"
proof -
  note defs = steady_def carries_iff
  show "steady L (crd_component b k)" by (auto simp: crd_component_def defs split: kbody.splits)
  show "steady L (cpr_component cl b)"
    by (auto simp: cpr_component_def defs split: kbody.splits sum.splits)
  show "steady L (policy_component (GetPolicyName pt) b (ReconcilePolicy pt))"
    by (auto simp: policy_component_def defs ReconcilePolicy_def split: kbody.splits)
  show "steady L (policy_component n b (\<lambda>spec. ReconcileDeploymentConfigRuntimeProtectionPolicy env))"
    by (auto simp: policy_component_def defs split: kbody.splits)
  show "steady L (binding_component n b (\<lambda>obj spec. obj\<lparr>ko_body := BPolicyBinding (ReconcilePolicyBinding g n spec)\<rparr>))"
    by (auto simp: binding_component_def defs ReconcilePolicyBinding_def split: kbody.splits)
  show "steady L (binding_component n b (\<lambda>obj spec. ReconcileDeploymentConfigRuntimeProtectionPolicyBinding n obj))"
    by (auto simp: binding_component_def defs ReconcileDeploymentConfigRuntimeProtectionPolicyBinding_def labels_of_def
        split: kbody.splits)
qed

lemma registered_steady:
  assumes "newJuggler E ctx cp remote w = Ok j" "meta_label_law (ev_libs E)"
  shows "list_all (steady (ev_libs E)) (jg_components j)"
  by (rule registered_all [OF assms(1)])
     (rule role_steady [OF assms(2)] secret_steady [OF assms(2)] provider_steady drc_steady chart_steady generics_steady; assumption?)+

section \<open>Applying again\<close>

text \<open>
  C14. The operator does not write for ever: once a registered component has been applied to the
  target without an error, applying it again changes no object of the target, as long as nothing
  else wrote there in between and what the component reads elsewhere (the source of a copied
  secret or of the package restriction, the resolved version of a provider) is what it was.
\<close>

theorem apply_again_changes_nothing:
  assumes "newJuggler E ctx0 cp remote w0 = Ok j" "meta_label_law (ev_libs E)" "c \<in> set (jg_components j)"
    and "cou_law (or_remote r) rv" "or_labels r c = operator_labels (ev_libs E) c"
    and "applyObject (operator_object (ev_libs E)) r ctx c w = (Ok u, c1, w1)"
    and "rv w2 = rv w1" "comp_reconcile (ev_libs E) ctx c w2 = comp_reconcile (ev_libs E) ctx c w"
    and "applyObject (operator_object (ev_libs E)) r ctx c1 w2 = (res, c2, w3)"
  shows "rv w3 = rv w1"
proof -
  let ?L = "ev_libs E"
  let ?J = "operator_object ?L"
  from applyObject_cases [OF assms(4,6)] obtain obj key ob where one: "c1 = c" "comp_build ctx c = Ok (obj, key)"
      "object_mutate ?J r ctx c w (found_object (rv w) obj key) = Inr ob"
      "rv w1 = (rv w)(kind_of obj := (rv w (kind_of obj))(key \<mapsto> ob))" by auto
  have found: "found_object (rv w2) obj key = ob" using one(4) assms(7) by (simp add: found_object_def)
  have "steady ?L c" using registered_steady [OF assms(1,2)] assms(3) by (simp add: list_all_iff)
  note again = steadyD [OF this carries_SetLabels]
  have idle: "object_mutate ?J r ctx c w2 ob = Inr ob"
  proof (cases "shouldSkipReconciliation ob")
    case False
    with one(3) assms(5) have
      "comp_reconcile ?L ctx c w (SetLabels (found_object (rv w) obj key) (operator_labels ?L c)) = Ok ob"
      by (auto simp: object_mutate_def split: if_splits gores_of.splits)
    from again [OF this] have "SetLabels ob (operator_labels ?L c) = ob" "comp_reconcile ?L ctx c w ob = Ok ob"
      by (simp_all add: carries_def SetLabels_same)
    with False assms(5,8) show ?thesis by (simp add: object_mutate_def)
  qed (simp add: object_mutate_def)
  from applyObject_cases [OF assms(4,9)] one(1,2) found idle
  have "rv w3 = (if is_ok res then (rv w2)(kind_of obj := (rv w2 (kind_of obj))(key \<mapsto> ob)) else rv w2)" by auto
  with one(4) assms(7) show ?thesis by simp
qed

text \<open>The admin role of the demo plane, applied twice.\<close>

definition demo_role :: "store comp" where
  "demo_role = hd (jg_components (clusterroles_RegisterAsComponents NewJuggler demo_charts True))"

lemma demo_role_eq:
  "\<exists>rules. demo_role = CClusterRole \<lparr> cro_name = ''Admin'', cro_rules = rules, cro_enabled = True, cro_keep = True \<rparr>"
  by (simp add: demo_role_def clusterroles_RegisterAsComponents_def Let_def NewJuggler_def)

lemma demo_role_registered: "demo_role \<in> set (demo_objects False)"
  by (simp add: demo_role_def demo_objects_def clusterroles_RegisterAsComponents_def Let_def NewJuggler_def
      demo_plane_components)

theorem apply_again_changes_nothing_witness:
  "\<exists>r w1 w2 c1 c2 res. applyObject (operator_object plane_libs) r demo_ctx demo_role [] = (Ok (), c1, w1)
     \<and> applyObject (operator_object plane_libs) r demo_ctx c1 w1 = (res, c2, w2)
     \<and> store_view w2 = store_view w1 \<and> w1 \<noteq> []"
proof -
  obtain rules where role: "demo_role = CClusterRole \<lparr> cro_name = ''Admin'', cro_rules = rules, cro_enabled = True, cro_keep = True \<rparr>"
    using demo_role_eq by blast
  obtain r :: "(store comp, store) object_reconciler" where r: "or_remote r = store_client"
    "\<forall>c. or_labels r c = operator_labels plane_libs c" using operator_object_fields by blast
  have ml: "meta_label_law plane_libs" by (simp add: plane_libs_def meta_label_law_def doc_libs_def)
  obtain j where j: "newJuggler demo_plane_env demo_ctx (demo_plane False) store_client [] = Ok j"
    "jg_components j = demo_charts @ demo_objects False" using demo_newJuggler [of store_client False] by auto
  with demo_role_registered have mem: "demo_role \<in> set (jg_components j)" by simp
  have cou: "cou_law (or_remote r) store_view" using r(1) store_api_laws by simp
  have body: "ko_body (set_key (new_obj ns n b) key) = b" for ns n b key by (simp add: set_key_def new_obj_def)
  have "\<exists>w1. applyObject (operator_object plane_libs) r demo_ctx demo_role [] = (Ok (), demo_role, w1) \<and> w1 \<noteq> []"
    using r ml body
    by (simp add: role applyObject_def clusterrole_BuildObjectToReconcile_def store_client_def st_cou_def object_mutate_def
        clusterrole_ReconcileObject_def meta_label_law_def Let_def fresh_not_skipped unwind_def of_err_def)
  then obtain w1 where w1: "applyObject (operator_object plane_libs) r demo_ctx demo_role [] = (Ok (), demo_role, w1)" "w1 \<noteq> []"
    by blast
  obtain res c2 w2 where w2: "applyObject (operator_object plane_libs) r demo_ctx demo_role w1 = (res, c2, w2)" by (rule prod_cases3)
  have same: "comp_reconcile plane_libs demo_ctx demo_role w1 = comp_reconcile plane_libs demo_ctx demo_role []"
    by (simp add: role fun_eq_iff)
  from apply_again_changes_nothing [OF j(1), unfolded demo_plane_env_simps, OF ml mem cou _ w1(1) refl same w2] r(2)
  have "store_view w2 = store_view w1" by simp
  with w1 w2 show ?thesis by blast
qed

end
