(* ===== verification/StartUp.thy ===== *)
theory StartUp
  imports SecretSync
begin

text \<open>
  The process (\<^verbatim>\<open>cmd/control-plane-operator/main.go\<close>, \<^verbatim>\<open>cmd/options/options.go\<close>): the flags,
  the two commands, and how the three controllers are configured. The flag package, the installers of
  webhooks and CRDs, the controller manager and the parser of durations are parameters; writing the
  log is left out.
\<close>

section \<open>Flags\<close>

text \<open>The flags the code reads; those of the logger are left out.\<close>

record flag_values =
  fl_metrics_address :: string
  fl_probe_address :: string
  fl_leader_elect :: bool
  fl_sync_period :: string
  fl_token_lifetime :: string
  fl_webhook_name :: string
  fl_webhook_namespace :: string
  fl_install_webhooks :: bool
  fl_install_crds :: bool
  fl_drc_protection :: bool

text \<open>The values before parsing; those of the two installers come from their package.\<close>

definition bound_flags :: "bool \<Rightarrow> bool \<Rightarrow> flag_values" where
  "bound_flags installWebhooks installCRDs = \<lparr>
     fl_metrics_address = '':8080'', fl_probe_address = '':8081'', fl_leader_elect = False,
     fl_sync_period = ''1m'', fl_token_lifetime = ''1h'', fl_webhook_name = [], fl_webhook_namespace = [],
     fl_install_webhooks = installWebhooks, fl_install_crds = installCRDs, fl_drc_protection = False \<rparr>"

section \<open>The process\<close>

text \<open>What is registered with the manager: the control plane controller with its periods, its
  resolver, the webhook middleware and the protection option, and the two others.\<close>

datatype started_controller =
    ControlPlaneController int int url_secrets nname bool
  | SecretController int
  | ReleaseChannelController

text \<open>
  \<open>flag.CommandLine\<close> ends the process itself when the arguments are wrong or ask for help
  (\<open>flag.ExitOnError\<close>); \<open>main\<close> handles the error it might return all the same.
\<close>

datatype parse_result = ParseExit int | ParseError err | Parsed flag_values

record 'w process =
  pr_webhooks_default :: bool
  pr_crds_default :: bool
  pr_parse_flags :: "flag_values \<Rightarrow> string list \<Rightarrow> parse_result"
  pr_setup_client :: "'w \<Rightarrow> err + 'w client"
  pr_generate_certificate :: "'w client \<Rightarrow> 'w \<Rightarrow> err option \<times> 'w"
  pr_install_webhooks :: "'w client \<Rightarrow> 'w \<Rightarrow> err option \<times> 'w"
  pr_install_crds :: "'w client \<Rightarrow> 'w \<Rightarrow> err option \<times> 'w"
  pr_new_manager :: "flag_values \<Rightarrow> 'w \<Rightarrow> err option"
  pr_parse_duration :: "string \<Rightarrow> err + int"
  pr_register :: "started_controller \<Rightarrow> 'w \<Rightarrow> err option"
  pr_add_check :: "string \<Rightarrow> err option"
  pr_start :: "flag_values \<Rightarrow> started_controller list \<Rightarrow> 'w \<Rightarrow> err option \<times> 'w"

datatype exit = Exit int | Return

text \<open>\<open>client.New(ctrl.GetConfigOrDie())\<close> ends the process with 1 in both steps.\<close>

definition runInit :: "'w process \<Rightarrow> flag_values \<Rightarrow> 'w client \<Rightarrow> 'w \<Rightarrow> exit \<times> 'w" where
  "runInit S fl setupClient w =
     (case (if fl_install_webhooks fl
            then (case pr_generate_certificate S setupClient w of
                    (Some e, w1) \<Rightarrow> (Some e, w1)
                  | (None, w1) \<Rightarrow> pr_install_webhooks S setupClient w1)
            else (None, w)) of
        (Some e, w1) \<Rightarrow> (Exit 1, w1)
      | (None, w1) \<Rightarrow>
          if fl_install_crds fl
          then (case pr_install_crds S setupClient w1 of
                  (Some e, w2) \<Rightarrow> (Exit 1, w2)
                | (None, w2) \<Rightarrow> (Return, w2))
          else (Return, w1))"

definition duration_or :: "'w process \<Rightarrow> string \<Rightarrow> int \<Rightarrow> int" where
  "duration_or S str fallback = (case pr_parse_duration S str of Inl e \<Rightarrow> fallback | Inr d \<Rightarrow> d)"

definition controllers_of :: "'w process \<Rightarrow> flag_values \<Rightarrow> url_secrets \<Rightarrow> started_controller list" where
  "controllers_of S fl resolver =
     (let reconcilePeriod = duration_or S (fl_sync_period fl) (60 * nanoseconds);
          fluxTokenLifetime = duration_or S (fl_token_lifetime fl) (3600 * nanoseconds)
      in [ControlPlaneController reconcilePeriod fluxTokenLifetime resolver
            \<lparr> nn_namespace = fl_webhook_namespace fl, nn_name = fl_webhook_name fl \<rparr> (fl_drc_protection fl),
          SecretController reconcilePeriod, ReleaseChannelController])"

text \<open>The controllers are registered one after the other, then the two checks are added.\<close>

definition set_up :: "'w process \<Rightarrow> started_controller list \<Rightarrow> 'w \<Rightarrow> bool" where
  "set_up S cs w \<longleftrightarrow> list_all (\<lambda>c. pr_register S c w = None) cs
     \<and> list_all (\<lambda>check. pr_add_check S check = None) [''healthz'', ''readyz'']"

definition main_start :: "'w process \<Rightarrow> flag_values \<Rightarrow> 'w client \<Rightarrow> 'w \<Rightarrow> exit \<times> 'w" where
  "main_start S fl setupClient w =
     (case resolver_Start setupClient w NewFluxSecretResolver of
        (Some e, _) \<Rightarrow> (Exit 1, w)
      | (None, resolver) \<Rightarrow>
          (case pr_new_manager S fl w of
             Some e \<Rightarrow> (Exit 1, w)
           | None \<Rightarrow>
               (let cs = controllers_of S fl resolver
                in if \<not> set_up S cs w then (Exit 1, w)
                   else (case pr_start S fl cs w of
                           (Some e, w1) \<Rightarrow> (Exit 1, w1)
                         | (None, w1) \<Rightarrow> (Return, w1)))))"

text \<open>\<open>os.Args[2:]\<close> and \<open>os.Args[1]\<close> panic when there is no command.\<close>

definition main :: "'w process \<Rightarrow> string list \<Rightarrow> 'w \<Rightarrow> exit gores \<times> 'w" where
  "main S args w =
     (if length args < 2 then (Panic ''slice bounds out of range'', w)
      else
        (case pr_parse_flags S (bound_flags (pr_webhooks_default S) (pr_crds_default S)) (drop 2 args) of
           ParseExit status \<Rightarrow> (Ok (Exit status), w)
         | ParseError e \<Rightarrow> (Ok (Exit 1), w)
         | Parsed fl \<Rightarrow>
             (case pr_setup_client S w of
                Inl e \<Rightarrow> (Ok (Exit 1), w)
              | Inr setupClient \<Rightarrow>
                  (case (if args ! 1 = ''init'' then runInit S fl setupClient w else main_start S fl setupClient w) of
                     (x, w1) \<Rightarrow> (Ok x, w1)))))"

section \<open>What is started\<close>

lemma start_fields:
  "pr_generate_certificate (S\<lparr>pr_start := st\<rparr>) = pr_generate_certificate S"
  "pr_install_webhooks (S\<lparr>pr_start := st\<rparr>) = pr_install_webhooks S"
  "pr_install_crds (S\<lparr>pr_start := st\<rparr>) = pr_install_crds S"
  "pr_parse_duration (S\<lparr>pr_start := st\<rparr>) = pr_parse_duration S"
  "pr_register (S\<lparr>pr_start := st\<rparr>) = pr_register S"
  "pr_add_check (S\<lparr>pr_start := st\<rparr>) = pr_add_check S"
  by simp_all

text \<open>
  The controllers run only in a process that is completely set up, and with what the flags say:
  unless the command is not \<open>init\<close>, the flags were parsed, the credentials of the cluster were
  scanned and every controller and check was registered, the outcome of the process does not depend
  on what starting the manager would do. Otherwise the manager runs exactly the three controllers:
  both periodic ones with the period of the flag (a minute when it does not parse), the control
  plane controller also with the token lifetime (an hour), the protection option and the resolver
  that was filled by the scan, and nothing of the cluster was changed before.
\<close>

theorem main_runs_configured:
  assumes "main S args w = (out, w')"
  shows "(\<forall>st. main (S\<lparr>pr_start := st\<rparr>) args w = (out, w'))
    \<or> (\<exists>client fl m p l e. args ! 1 \<noteq> ''init'' \<and> pr_setup_client S w = Inr client
        \<and> pr_parse_flags S (bound_flags (pr_webhooks_default S) (pr_crds_default S)) (drop 2 args) = Parsed fl
        \<and> resolver_Start client w NewFluxSecretResolver = (None, m)
        \<and> p = (case pr_parse_duration S (fl_sync_period fl) of Inl _ \<Rightarrow> 60 * nanoseconds | Inr d \<Rightarrow> d)
        \<and> l = (case pr_parse_duration S (fl_token_lifetime fl) of Inl _ \<Rightarrow> 3600 * nanoseconds | Inr d \<Rightarrow> d)
        \<and> pr_start S fl [ControlPlaneController p l m
               \<lparr> nn_namespace = fl_webhook_namespace fl, nn_name = fl_webhook_name fl \<rparr> (fl_drc_protection fl),
             SecretController p, ReleaseChannelController] w = (e, w')
        \<and> pr_register S (SecretController p) w = None \<and> pr_register S ReleaseChannelController w = None
        \<and> out = Ok (if e = None then Return else Exit 1))"
proof (cases "length args < 2 \<or> args ! 1 = ''init''")
  case True
  have "runInit (S\<lparr>pr_start := st\<rparr>) = runInit S" for st by (simp only: fun_eq_iff runInit_def start_fields simp_thms)
  with True assms have "main (S\<lparr>pr_start := st\<rparr>) args w = (out, w')" for st
    by (auto simp: main_def split: sum.splits parse_result.splits)
  then show ?thesis by blast
next
  case start: False
  have conf: "controllers_of (S\<lparr>pr_start := st\<rparr>) = controllers_of S" "set_up (S\<lparr>pr_start := st\<rparr>) = set_up S" for st
    by (simp_all only: fun_eq_iff controllers_of_def duration_or_def set_up_def start_fields simp_thms)
  show ?thesis
  proof (cases "pr_parse_flags S (bound_flags (pr_webhooks_default S) (pr_crds_default S)) (drop 2 args)")
    case (ParseExit status)
    with start assms show ?thesis by (simp add: main_def)
  next
    case (ParseError e)
    with start assms show ?thesis by (simp add: main_def)
  next
    case fl: (Parsed fl)
    show ?thesis
    proof (cases "pr_setup_client S w")
      case (Inl e)
      with start fl assms show ?thesis by (simp add: main_def)
    next
      case cl: (Inr client)
      obtain e m where scan: "resolver_Start client w NewFluxSecretResolver = (e, m)" by force
      show ?thesis
      proof (cases "e = None \<and> pr_new_manager S fl w = None \<and> set_up S (controllers_of S fl m) w")
        case True
        obtain x w1 where "pr_start S fl (controllers_of S fl m) w = (x, w1)" by force
        with True start fl cl scan assms show ?thesis
          by (intro disjI2 exI [of _ client] exI [of _ fl] exI [of _ m])
             (auto simp: main_def main_start_def Let_def controllers_of_def duration_or_def set_up_def split: option.splits)
      next
        case False
        with start fl cl scan assms conf have "main (S\<lparr>pr_start := st\<rparr>) args w = (out, w')" for st
          by (auto simp: main_def main_start_def Let_def split: option.splits)
        then show ?thesis by blast
      qed
    qed
  qed
qed

definition demo_process :: "store process" where
  "demo_process = \<lparr> pr_webhooks_default = False, pr_crds_default = False, pr_parse_flags = (\<lambda>fl args. Parsed fl),
     pr_setup_client = (\<lambda>w. Inr store_client), pr_generate_certificate = (\<lambda>c w. (None, w)),
     pr_install_webhooks = (\<lambda>c w. (None, w)), pr_install_crds = (\<lambda>c w. (None, w)),
     pr_new_manager = (\<lambda>fl w. None), pr_parse_duration = (\<lambda>s. Inl (OtherErr ''no duration'')),
     pr_register = (\<lambda>c w. None), pr_add_check = (\<lambda>s. None), pr_start = (\<lambda>fl cs w. (None, [])) \<rparr>"

theorem main_runs_configured_witness:
  "\<exists>w'. main demo_process [''operator'', ''start''] credential_store = (Ok Return, w')
     \<and> (\<exists>p l m n b. pr_start demo_process (bound_flags False False)
          [ControlPlaneController p l m n b, SecretController p, ReleaseChannelController] credential_store = (None, w')
        \<and> p = 60 * nanoseconds)"
proof -
  have run: "main demo_process [''operator'', ''start''] credential_store = (Ok Return, [])"
    by (simp add: main_def main_start_def demo_process_def resolver_Start_def credential_store_def store_defs Let_def
        set_up_def controllers_of_def)
  have "main (demo_process\<lparr>pr_start := (\<lambda>fl cs w. (None, w))\<rparr>) [''operator'', ''start''] credential_store \<noteq> (Ok Return, [])"
    by (simp add: main_def main_start_def demo_process_def resolver_Start_def credential_store_def store_defs Let_def
        set_up_def controllers_of_def)
  with main_runs_configured [OF run] run show ?thesis by (auto simp: demo_process_def)
qed

end
