(* ===== verification/PlaneIsolation.thy ===== *)
theory PlaneIsolation
  imports TargetRounds PlaneStatus
begin

text \<open>
  What a round of one ControlPlane may write on the operator's own cluster: the ControlPlanes share
  it, each with a namespace of its own.
\<close>

section \<open>Changes that stay within a scope\<close>

definition only_at :: "'w kview \<Rightarrow> (kind \<Rightarrow> nname \<Rightarrow> bool) \<Rightarrow> 'w \<Rightarrow> 'w \<Rightarrow> bool" where
  "only_at view S w w' \<longleftrightarrow> (\<forall>k n. \<not> S k n \<longrightarrow> view w' k n = view w k n)"

lemma only_at_refl [simp]: "only_at view S w w"
  by (simp add: only_at_def)

lemma only_at_trans: "only_at view S w w1 \<Longrightarrow> only_at view S w1 w2 \<Longrightarrow> only_at view S w w2"
  by (simp add: only_at_def)

lemma only_at_same: "view w' = view w \<Longrightarrow> only_at view S w w'"
  by (simp add: only_at_def)

lemma only_at_mono: "only_at view S w w' \<Longrightarrow> (\<And>k n. S k n \<Longrightarrow> T k n) \<Longrightarrow> only_at view T w w'"
  by (auto simp: only_at_def)

text \<open>Nothing appears that was not there.\<close>

definition creates_nothing :: "'w kview \<Rightarrow> 'w \<Rightarrow> 'w \<Rightarrow> bool" where
  "creates_nothing view w w' \<longleftrightarrow> (\<forall>k n. view w' k n \<noteq> None \<longrightarrow> view w k n \<noteq> None)"

text \<open>A client that writes elsewhere: it leaves \<open>X\<close>, which is some part of the world, alone.\<close>

definition leaves :: "'w client \<Rightarrow> ('w \<Rightarrow> 'a) \<Rightarrow> bool" where
  "leaves cl X \<longleftrightarrow> (\<forall>ob f w. X (snd (cl_create_or_update cl ob f w)) = X w)
     \<and> (\<forall>ob w. X (snd (cl_update cl ob w)) = X w) \<and> (\<forall>ob w. X (snd (cl_delete cl ob w)) = X w)
     \<and> (\<forall>k os w. X (snd (cl_delete_all_of cl k os w)) = X w)"

lemma leavesD:
  assumes "leaves cl X"
  shows "cl_create_or_update cl ob f w = (e, w') \<Longrightarrow> X w' = X w" "cl_update cl ob w = (e, w') \<Longrightarrow> X w' = X w"
    "cl_delete cl ob w = (e, w') \<Longrightarrow> X w' = X w" "cl_delete_all_of cl k os w = (e, w') \<Longrightarrow> X w' = X w"
  using assms unfolding leaves_def by (metis snd_conv)+

lemma delete_each_leaves: "leaves cl X \<Longrightarrow> delete_each cl obs w = (e, w') \<Longrightarrow> X w' = X w"
  by (induction cl obs w arbitrary: e w' rule: delete_each.induct)
     (auto split: prod.splits option.splits dest: leavesD(3))

lemma rbac_leaves:
  assumes "leaves cl X"
  shows "rbac_Apply cl ref w = (e, w') \<Longrightarrow> X w' = X w" "rbac_Delete cl w = (e, w') \<Longrightarrow> X w' = X w"
  using leavesD [OF assms] delete_each_leaves [OF assms]
  by (auto simp: rbac_Apply_def rbac_Delete_def split: option.splits prod.splits sum.splits; metis)+

section \<open>Writes of the Flux reconciler\<close>

definition chart_scope :: "string \<Rightarrow> kind \<Rightarrow> nname \<Rightarrow> bool" where
  "chart_scope ns k n \<longleftrightarrow> k \<in> {KHelmRepository, KHelmRelease} \<and> nn_namespace n = ns \<and> nn_name n \<in> set chart_names"

lemma chart_constants_named: "chart_constants c = Some k \<Longrightarrow> fst k \<in> set chart_names"
  by (cases c) (auto simp: chart_names_def)

text \<open>Whatever a chart component builds lies in the scope of the tenant namespace.\<close>

lemma built_in_scope:
  assumes "default_law L" "TenantNamespace ctx = Ok ns"
  shows "comp_source L ctx c w = (Ok d, c1) \<Longrightarrow> chart_scope ns (kind_of (flux_GetObject d)) (key_of (flux_GetObject d))"
    "comp_manifesto L ctx c w = (Ok d, c1) \<Longrightarrow> chart_scope ns (kind_of (flux_GetObject d)) (key_of (flux_GetObject d))"
proof -
  assume "comp_source L ctx c w = (Ok d, c1)"
  from comp_source_ok [OF assms(1) this] assms(2) show "chart_scope ns (kind_of (flux_GetObject d)) (key_of (flux_GetObject d))"
    by (auto simp: chart_source_ok_def chart_scope_def kind_of_def dest: chart_constants_named)
next
  assume "comp_manifesto L ctx c w = (Ok d, c1)"
  from comp_manifesto_ok [OF assms(1) this] assms(2) show "chart_scope ns (kind_of (flux_GetObject d)) (key_of (flux_GetObject d))"
    by (auto simp: chart_release_ok_def chart_scope_def kind_of_def dest: chart_constants_named)
qed

lemma apply_resource_at:
  assumes "cou_law (fr_local r) view" "apply_resource r build ctx c w = (res, c', w')"
    and "\<And>d c1. build ctx c w = (Ok d, c1) \<Longrightarrow> S (kind_of (flux_GetObject d)) (key_of (flux_GetObject d))"
  shows "only_at view S w w'"
proof (cases "build ctx c w")
  case (Pair b c1)
  show ?thesis
  proof (cases b)
    case (Ok d)
    let ?ob = "flux_GetObject (flux_Empty d)" and ?f = "flux_mutate r c1 (flux_Empty d) d"
    obtain e where e: "cl_create_or_update (fr_local r) ?ob ?f w = (e, w')"
      using assms(2) Pair Ok by (auto simp: apply_resource_def Let_def split: prod.splits)
    show ?thesis
    proof (cases e)
      case None
      with e obtain ob' where "view w' = (view w)(kind_of ?ob := (view w (kind_of ?ob))(key_of ?ob \<mapsto> ob'))"
        using cou_law_ok [OF assms(1)] by blast
      with assms(3) [of d c1] Pair Ok show ?thesis by (auto simp: only_at_def fx.empty_kind fx.empty_key)
    next
      case (Some x)
      with e cou_law_err [OF assms(1)] show ?thesis by (blast intro: only_at_same)
    qed
  qed (use assms(2) Pair in \<open>simp_all add: apply_resource_def\<close>)
qed

lemma delete_resource_at:
  assumes "delete_law (fr_local r) view" "delete_resource r build ctx c w = (res, c', w')"
    and "\<And>d c1. build ctx c w = (Ok d, c1) \<Longrightarrow> S (kind_of (flux_GetObject d)) (key_of (flux_GetObject d))"
  shows "only_at view S w w' \<and> creates_nothing view w w'"
proof (cases "build ctx c w")
  case (Pair b c1)
  show ?thesis
  proof (cases b)
    case (Ok d)
    let ?ob = "flux_GetObject d"
    obtain e where e: "cl_delete (fr_local r) ?ob w = (e, w')"
      using assms(2) Pair Ok by (auto simp: delete_resource_def split: prod.splits)
    show ?thesis
    proof (cases e)
      case None
      have eff: "if kind_of ?ob = k \<and> key_of ?ob = n then left_behind (view w k n) (view w' k n) else view w' k n = view w k n" for k n
        by (rule delete_law_ok [OF assms(1) e [unfolded None]])
      have "view w' k n = view w k n" if "\<not> S k n" for k n
        using eff [of k n] that assms(3) [of d c1] Pair Ok by (auto split: if_splits)
      moreover have "view w k n \<noteq> None" if "view w' k n \<noteq> None" for k n
        using eff [of k n] that by (cases "view w k n") (auto split: if_splits)
      ultimately show ?thesis by (simp add: only_at_def creates_nothing_def)
    next
      case (Some x)
      with e delete_law_err [OF assms(1)] have "view w' = view w" by blast
      then show ?thesis by (simp add: only_at_same creates_nothing_def)
    qed
  qed (use assms(2) Pair in \<open>simp_all add: delete_resource_def creates_nothing_def\<close>)
qed

section \<open>Writes of a component, and of a loop over components\<close>

lemma flux_writes:
  assumes "cou_law lc lv" "delete_law lc lv" "default_law L" "TenantNamespace ctx = Ok ns"
  shows "applies (operator_flux_reconciler L lc rc) ctx c w w' \<Longrightarrow> only_at lv (chart_scope ns) w w'"
    "uninstalls (operator_flux_reconciler L lc rc) ctx c w w' \<Longrightarrow> only_at lv (chart_scope ns) w w' \<and> creates_nothing lv w w'"
proof -
  obtain r where r: "operator_flux_reconciler L lc rc = as_flux_reconciler L (operator_iface L) (operator_flux L) r"
    "fr_local r = lc" using operator_clients(1) by blast
  note built = built_in_scope [OF assms(3,4)]
  have ap: "only_at lv (chart_scope ns) w1 w2" if "apply_resource r b ctx c w1 = (res, c', w2)" "b = comp_source L \<or> b = comp_manifesto L"
    for b c w1 res c' w2
    by (rule apply_resource_at [OF assms(1) [folded r(2)] that(1)]) (use that(2) built in blast)
  have de: "only_at lv (chart_scope ns) w1 w2 \<and> creates_nothing lv w1 w2"
    if "delete_resource r b ctx c w1 = (res, c', w2)" "b = comp_source L \<or> b = comp_manifesto L" for b c w1 res c' w2
    by (rule delete_resource_at [OF assms(2) [folded r(2)] that(1)]) (use that(2) built in blast)
  have io: "only_at lv (chart_scope ns) w w'" if "flux_installOrUpdate (operator_flux L) r ctx c w = (res, c', w')" for c res c'
  proof -
    obtain r1 c1 w1 where s: "apply_resource r (comp_source L) ctx c w = (r1, c1, w1)" by (rule prod_cases3)
    obtain r2 c2 w2 where m: "apply_resource r (comp_manifesto L) ctx c1 w1 = (r2, c2, w2)" by (rule prod_cases3)
    from ap [OF s] ap [OF m] that s m show ?thesis
      by (auto simp: flux_installOrUpdate_stages split: if_splits gores_of.splits intro: only_at_trans)
  qed
  have un: "only_at lv (chart_scope ns) w w' \<and> creates_nothing lv w w'" if "flux_Uninstall (operator_flux L) r ctx c w = (res, c', w')" for c res c'
  proof -
    obtain r1 c1 w1 where s: "delete_resource r (comp_source L) ctx c w = (r1, c1, w1)" by (rule prod_cases3)
    obtain r2 c2 w2 where m: "delete_resource r (comp_manifesto L) ctx c1 w1 = (r2, c2, w2)" by (rule prod_cases3)
    from de [OF s] de [OF m] that s m show ?thesis
      by (auto simp: flux_Uninstall_stages creates_nothing_def split: if_splits gores_of.splits intro: only_at_trans)
  qed
  show "applies (operator_flux_reconciler L lc rc) ctx c w w' \<Longrightarrow> only_at lv (chart_scope ns) w w'"
    using io by (auto simp: applies_def r(1) reconciler_fields)
  show "uninstalls (operator_flux_reconciler L lc rc) ctx c w w' \<Longrightarrow> only_at lv (chart_scope ns) w w' \<and> creates_nothing lv w w'"
    using un by (auto simp: uninstalls_def r(1) reconciler_fields)
qed

text \<open>The object reconciler writes with the target's client only, the Flux reconciler with the local one.\<close>

lemma object_writes_leave:
  assumes "leaves rc X" "applies (operator_object_reconciler L rc) ctx c w w' \<or> uninstalls (operator_object_reconciler L rc) ctx c w w'"
  shows "X w' = X w"
proof -
  obtain r where r: "operator_object_reconciler L rc = as_object_reconciler (operator_iface L) (operator_object L) r"
    "or_remote r = rc" using operator_clients(2) by blast
  have "X w' = X w" if "applyObject (operator_object L) r ctx c w = (res, c', w')" for c res c'
    using that leavesD(1) [OF assms(1) [folded r(2)]]
    by (auto simp: applyObject_def split: gores_of.splits prod.splits if_splits)
  moreover have "X w' = X w" if "object_Uninstall (operator_object L) r ctx c w = (res, c', w')" for c res c'
    using that leavesD(3) [OF assms(1) [folded r(2)]]
    by (auto simp: object_Uninstall_def split: gores_of.splits prod.splits if_splits)
  ultimately show ?thesis using assms(2) by (auto simp: applies_def uninstalls_def r(1) reconciler_fields)
qed

lemma flux_writes_leave:
  assumes "leaves lc X" "applies (operator_flux_reconciler L lc rc) ctx c w w' \<or> uninstalls (operator_flux_reconciler L lc rc) ctx c w w'"
  shows "X w' = X w"
proof -
  obtain r where r: "operator_flux_reconciler L lc rc = as_flux_reconciler L (operator_iface L) (operator_flux L) r"
    "fr_local r = lc" using operator_clients(1) by blast
  have ap: "X w2 = X w1" if "apply_resource r b ctx c w1 = (res, c', w2)" for b c w1 res c' w2
    using that leavesD(1) [OF assms(1) [folded r(2)]]
    by (auto simp: apply_resource_def Let_def split: gores_of.splits prod.splits)
  have de: "X w2 = X w1" if "delete_resource r b ctx c w1 = (res, c', w2)" for b c w1 res c' w2
    using that leavesD(3) [OF assms(1) [folded r(2)]]
    by (auto simp: delete_resource_def split: gores_of.splits prod.splits)
  have io: "X w' = X w" if "flux_installOrUpdate (operator_flux L) r ctx c w = (res, c', w')" for c res c'
  proof -
    obtain r1 c1 w1 where s: "apply_resource r (comp_source L) ctx c w = (r1, c1, w1)" by (rule prod_cases3)
    obtain r2 c2 w2 where m: "apply_resource r (comp_manifesto L) ctx c1 w1 = (r2, c2, w2)" by (rule prod_cases3)
    from ap [OF s] ap [OF m] that s m show ?thesis
      by (auto simp: flux_installOrUpdate_stages split: if_splits gores_of.splits)
  qed
  have un: "X w' = X w" if "flux_Uninstall (operator_flux L) r ctx c w = (res, c', w')" for c res c'
  proof -
    obtain r1 c1 w1 where s: "delete_resource r (comp_source L) ctx c w = (r1, c1, w1)" by (rule prod_cases3)
    obtain r2 c2 w2 where m: "delete_resource r (comp_manifesto L) ctx c1 w1 = (r2, c2, w2)" by (rule prod_cases3)
    from de [OF s] de [OF m] that s m show ?thesis
      by (auto simp: flux_Uninstall_stages split: if_splits gores_of.splits)
  qed
  from assms(2) io un show ?thesis by (auto simp: applies_def uninstalls_def r(1) reconciler_fields)
qed

lemma component_acts:
  assumes "reconcileComponent (operator_iface L) (operator_reconcilers L lc rc) ctx before c after w = (r, c', w')"
  obtains (Same) "w' = w"
    | (Apply) c0 where "comp_enabled c" "applies (operator_flux_reconciler L lc rc) ctx c0 w w'"
    | (Uninstall) c0 where "uninstalls (operator_flux_reconciler L lc rc) ctx c0 w w'"
    | (Object) c0 where "applies (operator_object_reconciler L rc) ctx c0 w w' \<or> uninstalls (operator_object_reconciler L rc) ctx c0 w w'"
  using op.reconcileComponent_effect [OF assms] by (auto simp: findReconcilerFor_operator split: if_splits)

lemma component_writes:
  assumes "cou_law lc lv" "delete_law lc lv" "default_law L" "leaves rc lv" "TenantNamespace ctx = Ok ns"
    and "reconcileComponent (operator_iface L) (operator_reconcilers L lc rc) ctx before c after w = (r, c', w')"
  shows "only_at lv (chart_scope ns) w w' \<and> (comp_enabled c \<or> creates_nothing lv w w')"
proof -
  note flux = flux_writes [OF assms(1-3,5)] and obj = object_writes_leave [OF assms(4)]
  from assms(6) show ?thesis
  proof (cases rule: component_acts)
    case Same
    then show ?thesis by (simp add: creates_nothing_def)
  next
    case Apply
    from flux(1) [OF Apply(2)] Apply(1) show ?thesis by blast
  next
    case Uninstall
    from flux(2) [OF Uninstall] show ?thesis by blast
  next
    case Object
    from obj [OF this] show ?thesis by (simp add: only_at_same creates_nothing_def)
  qed
qed

lemma component_leaves:
  assumes "leaves lc X" "leaves rc X"
    and "reconcileComponent (operator_iface L) (operator_reconcilers L lc rc) ctx before c after w = (r, c', w')"
  shows "X w' = X w"
  using assms(3)
proof (cases rule: component_acts)
  case Apply
  then show ?thesis using flux_writes_leave [OF assms(1)] by blast
next
  case Uninstall
  then show ?thesis using flux_writes_leave [OF assms(1)] by blast
next
  case Object
  then show ?thesis by (rule object_writes_leave [OF assms(2)])
qed simp

lemma loop_relates:
  assumes "\<And>w. R w w" "\<And>w w1 w2. R w w1 \<Longrightarrow> R w1 w2 \<Longrightarrow> R w w2"
    and "\<And>c before after w r c' w'. c \<in> set cs \<Longrightarrow> reconcileComponent I recs ctx before c after w = (r, c', w') \<Longrightarrow> R w w'"
    and "reconcile_loop I recs ctx before after w = (rs, out, evs, w')" "set after \<subseteq> set cs"
  shows "R w w'"
  using assms(4,5)
proof (induction after arbitrary: before w rs out evs w')
  case (Cons c after)
  obtain r c' w1 where one: "reconcileComponent I recs ctx before c after w = (r, c', w1)" by (rule prod_cases3)
  obtain rs1 out1 evs1 w2 where rest: "reconcile_loop I recs ctx (before @ [c']) after w1 = (rs1, out1, evs1, w2)"
    by (rule prod_cases4)
  from Cons.prems(2) have first: "R w w1" by (intro assms(3) [OF _ one]) simp
  from Cons.IH [OF rest] Cons.prems(2) have "R w1 w2" by simp
  with first Cons.prems(1) one rest assms(2) show ?case by (cases r) auto
qed (use assms(1) in simp)

lemma round_writes:
  assumes "cou_law lc lv" "delete_law lc lv" "default_law L" "leaves rc lv" "TenantNamespace ctx = Ok ns"
    and "jg_reconcilers j = operator_reconcilers L lc rc" "Reconcile (operator_iface L) j ctx w = (rs, out, evs, w')"
  shows "only_at lv (chart_scope ns) w w'
     \<and> (list_all (\<lambda>c. \<not> comp_enabled c) (jg_components j) \<longrightarrow> creates_nothing lv w w')"
proof -
  note step = component_writes [OF assms(1-5)]
  from assms(6,7) have run: "reconcile_loop (operator_iface L) (operator_reconcilers L lc rc) ctx [] (jg_components j) w = (rs, out, evs, w')"
    by (simp add: Reconcile_def)
  have "only_at lv (chart_scope ns) w w'"
    by (rule loop_relates [OF only_at_refl only_at_trans _ run order_refl]) (use step in blast)+
  moreover have "creates_nothing lv w w'" if "list_all (\<lambda>c. \<not> comp_enabled c) (jg_components j)"
  proof (rule loop_relates [OF _ _ _ run order_refl, where R = "creates_nothing lv"])
    show "creates_nothing lv w w'"
      if "c \<in> set (jg_components j)" "reconcileComponent (operator_iface L) (operator_reconcilers L lc rc) ctx before c after w = (r, c', w')"
      for c before after w r c' w'
      using step [OF that(2)] that(1) \<open>list_all (\<lambda>c. \<not> comp_enabled c) (jg_components j)\<close> by (auto simp: list_all_iff)
  qed (simp_all add: creates_nothing_def)
  ultimately show ?thesis by blast
qed

lemma round_leaves:
  assumes "leaves lc X" "leaves rc X" "jg_reconcilers j = operator_reconcilers L lc rc"
    and "Reconcile (operator_iface L) j ctx w = (rs, out, evs, w')"
  shows "X w' = X w"
proof -
  from assms(3,4) have run: "reconcile_loop (operator_iface L) (operator_reconcilers L lc rc) ctx [] (jg_components j) w = (rs, out, evs, w')"
    by (simp add: Reconcile_def)
  show ?thesis
    by (rule loop_relates [OF _ _ _ run order_refl, where R = "\<lambda>w w'. X w' = X w"])
       (use component_leaves [OF assms(1,2)] in auto)
qed

section \<open>Writes of a whole round\<close>

text \<open>What the kubeconfig of Flux is when it is written: a managed secret under its own key, with the
  finalizers and the other labels of what was there.\<close>

definition kubeconfig_of :: "nname \<Rightarrow> kobj option \<Rightarrow> kobj \<Rightarrow> bool" where
  "kubeconfig_of key cur ob \<longleftrightarrow> kind_of ob = KSecret \<and> key_of ob = key
     \<and> om_finalizers (ko_meta ob) = (case cur of None \<Rightarrow> [] | Some c \<Rightarrow> om_finalizers (ko_meta c))
     \<and> labels_of ob = (case cur of None \<Rightarrow> Map.empty | Some c \<Rightarrow> labels_of c)(LabelManagedBy \<mapsto> LabelManagedByValue)"

definition kubeconfig_change :: "'w kview \<Rightarrow> nname \<Rightarrow> 'w \<Rightarrow> 'w \<Rightarrow> bool" where
  "kubeconfig_change lv key w w' \<longleftrightarrow> lv w' = lv w
     \<or> (\<exists>ob. lv w' = (lv w)(KSecret := (lv w KSecret)(key \<mapsto> ob)) \<and> kubeconfig_of key (lv w KSecret key) ob)"

lemma kubeconfig_change_same: "lv w' = lv w \<Longrightarrow> kubeconfig_change lv key w w'"
  by (simp add: kubeconfig_change_def)

lemma with_data_frame [simp]:
  "labels_of (with_data ob d) = labels_of ob" "om_finalizers (ko_meta (with_data ob d)) = om_finalizers (ko_meta ob)"
  "om_finalizers (ko_meta (SetManagedBy ob)) = om_finalizers (ko_meta ob)"
  by (simp_all add: with_data_def labels_of_def SetManagedBy_def)

lemma kubeconfig_writes:
  assumes "cou_law r lv" "get_law r lv" "kind_filed lv KSecret w"
    and gen: "\<And>cfg ref d w. lv (snd (ke_generate K cfg ref d w)) = lv w"
    and "ensureKubeconfig K r cfg ns name ref w = (res, w')"
  shows "kubeconfig_change lv \<lparr> nn_namespace = ns, nn_name = name \<rparr> w w'"
proof -
  let ?key = "\<lparr> nn_namespace = ns, nn_name = name \<rparr>"
  have renew: "kubeconfig_change lv ?key w w'"
    if run: "renew_kubeconfig K r cfg ref s w = (res, w')" and s: "kind_of s = KSecret" "key_of s = ?key"
      and base: "kubeconfig_of ?key (lv w KSecret ?key) (SetManagedBy (case lv w KSecret ?key of Some cur \<Rightarrow> cur | None \<Rightarrow> s))" for s
  proof -
    obtain g w1 where g: "ke_generate K cfg ref (ke_lifetime K) w = (g, w1)" by force
    with gen [of cfg ref "ke_lifetime K" w] have w1: "lv w1 = lv w" by simp
    have cou: "kubeconfig_change lv ?key w w2"
      if c: "cl_create_or_update r s (\<lambda>ob. Inr (with_data (SetManagedBy ob) (d ob))) w1 = (e, w2)" for d e w2
    proof (cases e)
      case None
      from c None have c: "cl_create_or_update r s (\<lambda>ob. Inr (with_data (SetManagedBy ob) (d ob))) w1 = (None, w2)" by simp
      obtain ob' where ob': "lv w2 = (lv w1)(kind_of s := (lv w1 (kind_of s))(key_of s \<mapsto> ob'))"
        "\<exists>x. ob' = with_data (SetManagedBy (case lv w1 (kind_of s) (key_of s) of Some cur \<Rightarrow> cur | None \<Rightarrow> s)) x"
        by (rule cou_law_ok [OF assms(1) c]) auto
      with base s w1 have "kubeconfig_of ?key (lv w KSecret ?key) ob'"
        by (auto simp: kubeconfig_of_def)
      with ob'(1) s w1 show ?thesis by (auto simp: kubeconfig_change_def)
    next
      case (Some x)
      with c cou_law_err [OF assms(1)] w1 have "lv w2 = lv w" by metis
      then show ?thesis by (simp add: kubeconfig_change_def)
    qed
    from run g w1 show ?thesis
      by (auto simp: renew_kubeconfig_def Let_def split: sum.splits prod.splits option.splits
          intro: cou kubeconfig_change_same)
  qed
  let ?new = "new_obj ns name (BSecret \<lparr> se_type = [], se_data = None \<rparr>)"
  have read: "lv w KSecret ?key = (case cl_get r KSecret ?key w of Inr s \<Rightarrow> Some s | Inl e \<Rightarrow> None)"
    if "case cl_get r KSecret ?key w of Inr s \<Rightarrow> True | Inl e \<Rightarrow> is_not_found e"
    using that assms(2) unfolding get_law_def by (auto split: sum.splits)
  show ?thesis
  proof (cases "cl_get r KSecret ?key w")
    case (Inl e)
    have "kubeconfig_of ?key None (SetManagedBy (with_data ?new d))" for d
      by (simp add: kubeconfig_of_def new_obj_def empty_meta_def labels_of_def key_of_def with_data_def fun_eq_iff
          SetManagedBy_def SetLabel_def kind_of_def)
    with Inl assms(5) renew [of "with_data ?new (secret_data ?new)"] read show ?thesis
      by (auto simp: ensureKubeconfig_def Let_def kubeconfig_change_same split: option.splits sum.splits if_splits)
  next
    case (Inr s)
    with read have at: "lv w KSecret ?key = Some s" by simp
    with kind_filedD [OF assms(3)] have "kind_of s = KSecret \<and> key_of s = ?key" by blast
    with Inr at assms(5) renew [of "with_data s (secret_data s)"] show ?thesis
      by (auto simp: ensureKubeconfig_def Let_def kubeconfig_change_same kubeconfig_of_def
          split: option.splits sum.splits if_splits)
  qed
qed

lemma kubeconfig_change_at:
  "kubeconfig_change lv key w w' \<Longrightarrow> only_at lv (\<lambda>k n. k = KSecret \<and> n = key) w w'"
  by (auto simp: kubeconfig_change_def only_at_def)

text \<open>What the theorems below take of the outside: what lies elsewhere is not part of \<open>X\<close>.\<close>

definition elsewhere :: "'w cp_env \<Rightarrow> ('w \<Rightarrow> 'a) \<Rightarrow> bool" where
  "elsewhere E X \<longleftrightarrow> (\<forall>cfg c. ev_remote_client E cfg = Inr c \<longrightarrow> leaves c X)
     \<and> (\<forall>cfg ref d w. X (snd (ke_generate (ev_kubeconfig E) cfg ref d w)) = X w)"

definition planes_elsewhere :: "'w cp_env \<Rightarrow> ('w \<Rightarrow> 'a) \<Rightarrow> bool" where
  "planes_elsewhere E X \<longleftrightarrow> (\<forall>cp w. X (snd (ev_update E cp w)) = X w) \<and> (\<forall>cp w. X (snd (ev_update_status E cp w)) = X w)"

definition local_laws :: "'w cp_env \<Rightarrow> 'w kview \<Rightarrow> bool" where
  "local_laws E lv \<longleftrightarrow> get_law (ev_local E) lv \<and> cou_law (ev_local E) lv \<and> delete_law (ev_local E) lv
     \<and> default_law (ev_libs E) \<and> elsewhere E lv \<and> planes_elsewhere E lv"

lemma update_writes:
  assumes "local_laws E lv" "leaves remote lv" "TenantNamespace ctx = Ok ns"
    and "updateControlPlaneComponents E ctx cp remote w = (r, cp', w')"
  shows "only_at lv (chart_scope ns) w w'"
proof (cases "newJuggler E ctx cp remote w")
  case (Ok j)
  from newJuggler_parts [OF Ok] have rec: "jg_reconcilers j = operator_reconcilers (ev_libs E) (ev_local E) remote" by blast
  obtain rs out evs w1 where run: "Reconcile (operator_iface (ev_libs E)) j ctx w = (rs, out, evs, w1)" by (rule prod_cases4)
  have "w' = w1" using assms(4) Ok run by (auto simp: updateControlPlaneComponents_def split: gores_of.splits prod.splits)
  with round_writes [OF _ _ _ assms(2,3) rec run] assms(1) show ?thesis by (simp add: local_laws_def)
qed (use assms(4) in \<open>simp_all add: updateControlPlaneComponents_def\<close>)

lemma deletion_writes:
  assumes "local_laws E lv" "leaves remote lv" "TenantNamespace ctx = Ok ns" "WasDeleted cp"
    and "deleteControlPlaneComponents E ctx cp remote w = (r, conds, w')"
  shows "only_at lv (chart_scope ns) w w' \<and> creates_nothing lv w w'"
proof (cases "newJuggler E ctx (empty_plane cp) remote w")
  case (Ok j)
  from newJuggler_parts [OF Ok] have rec: "jg_reconcilers j = operator_reconcilers (ev_libs E) (ev_local E) remote" by blast
  obtain rs out evs w1 where run: "Reconcile (operator_iface (ev_libs E)) j ctx w = (rs, out, evs, w1)" by (rule prod_cases4)
  have "w' = w1" using assms(5) Ok run
    by (auto simp: deleteControlPlaneComponents_def empty_plane_def Let_def split: gores_of.splits prod.splits if_splits)
  with round_writes [OF _ _ _ assms(2,3) rec run] assms(1) deleted_all_disabled [OF Ok assms(4)] show ?thesis
    by (simp add: local_laws_def)
qed (use assms(5) in \<open>simp_all add: deleteControlPlaneComponents_def empty_plane_def creates_nothing_def\<close>)

lemma finalizer_writes:
  assumes "planes_elsewhere E X"
  shows "cp_ensureFinalizer E cp w = (e, cp1, w1) \<Longrightarrow> X w1 = X w" "cp_removeFinalizer E cp w = (e, cp1, w1) \<Longrightarrow> X w1 = X w"
proof -
  have "X w1 = X w" if "ev_update E c w = (e, w1)" for c
    using assms that unfolding planes_elsewhere_def by (metis snd_conv)
  then show "cp_ensureFinalizer E cp w = (e, cp1, w1) \<Longrightarrow> X w1 = X w" "cp_removeFinalizer E cp w = (e, cp1, w1) \<Longrightarrow> X w1 = X w"
    by (auto simp: cp_ensureFinalizer_def cp_removeFinalizer_def Let_def split: prod.splits if_splits)
qed

lemma body_writes:
  assumes "local_laws E lv" "leaves remote lv" "TenantNamespace ctx = Ok ns"
    and "reconcile_body E ctx ns' cp remote w = (r, cp', conds, w')"
  shows "only_at lv (chart_scope ns) w w'"
proof -
  from assms(1) have pe: "planes_elsewhere E lv" by (simp add: local_laws_def)
  show ?thesis
  proof (cases "WasDeleted cp")
    case True
    obtain u conditions w1 where d: "deleteControlPlaneComponents E ctx cp remote w = (u, conditions, w1)" by (rule prod_cases3)
    from deletion_writes [OF assms(1-3) True d] have first: "only_at lv (chart_scope ns) w w1" by simp
    obtain e2 w2 where rd: "rbac_Delete remote w1 = (e2, w2)" by force
    obtain e3 cp3 w3 where rf: "cp_removeFinalizer E cp w2 = (e3, cp3, w3)" by (rule prod_cases3)
    have "lv w2 = lv w1" "lv w3 = lv w2" using rbac_leaves(2) [OF assms(2) rd] finalizer_writes(2) [OF pe rf] by auto
    with first have "only_at lv (chart_scope ns) w w2" "only_at lv (chart_scope ns) w w3" by (auto simp: only_at_def)
    with first assms(4) True d rd rf show ?thesis
      by (cases u; cases e2) (auto simp: reconcile_body_def deleteControlPlane_def Let_def split: if_splits)
  next
    case False
    obtain e cp1 w1 where e: "cp_ensureFinalizer E cp w = (e, cp1, w1)" by (rule prod_cases3)
    obtain u cp2 w2 where u: "updateControlPlaneComponents E ctx cp1 remote w1 = (u, cp2, w2)" by (rule prod_cases3)
    have one: "only_at lv (chart_scope ns) w w1" by (rule only_at_same) (rule finalizer_writes(1) [OF pe e])
    have two: "only_at lv (chart_scope ns) w w2" by (rule only_at_trans [OF one update_writes [OF assms(1-3) u]])
    from one two assms(4) False e u show ?thesis
      by (cases e; cases u) (auto simp: reconcile_body_def Let_def)
  qed
qed

section \<open>ControlPlanes do not touch each other\<close>

definition plane_scope :: "string \<Rightarrow> kind \<Rightarrow> nname \<Rightarrow> bool" where
  "plane_scope ns k n \<longleftrightarrow> k = KNamespace \<and> n = \<lparr> nn_namespace = [], nn_name = ns \<rparr>
     \<or> k = KSecret \<and> n = \<lparr> nn_namespace = ns, nn_name = ''flux-kubeconfig'' \<rparr>
     \<or> k \<in> {KHelmRepository, KHelmRelease} \<and> nn_namespace n = ns \<and> nn_name n \<in> set chart_names"

definition tenant :: "string \<Rightarrow> string" where
  "tenant name = (case shortenToXCharacters (cpNamespacePrefix @ name) cpNamespaceMaxLen of Ok ns \<Rightarrow> ns | _ \<Rightarrow> [])"

lemma tenant_eq: "shortenToXCharacters (cpNamespacePrefix @ name) cpNamespaceMaxLen = Ok (tenant name)"
proof -
  have "10 \<le> cpNamespaceMaxLen" by (simp add: cpNamespaceMaxLen_def)
  from shorten_fits [OF this, of "cpNamespacePrefix @ name"] show ?thesis by (auto simp: tenant_def)
qed

lemma round_context_tenant [simp]: "TenantNamespace (round_context E ns key) = Ok ns"
  by (simp add: round_context_def)

text \<open>The stages of a round, with the world of each.\<close>

lemma round_stages_worlds:
  assumes "ev_get E req w = Inr cp" "ControlPlaneReconcile E req w = (r, w')"
  obtains (Setup) e w1 where "ensureNamespace E cp w = (Ok (tenant (cpl_name cp), e), w1)" "w' = w1"
    | (Access) e w1 cfg remote w2 where "ensureNamespace E cp w = (Ok (tenant (cpl_name cp), None), w1)"
      "ev_remote_client E cfg = Inr remote" "rbac_Apply remote (cpl_flux_account cp) w1 = (Some e, w2)" "w' = w2"
    | (Kubeconfig) w1 cfg remote w2 e where "ensureNamespace E cp w = (Ok (tenant (cpl_name cp), None), w1)"
      "ev_remote_client E cfg = Inr remote" "rbac_Apply remote (cpl_flux_account cp) w1 = (None, w2)"
      "ensureKubeconfig (ev_kubeconfig E) (ev_local E) (Some cfg) (tenant (cpl_name cp)) ''flux-kubeconfig''
         (cpl_flux_account cp) w2 = (Inl e, w')"
    | (Body) w1 cfg remote w2 key w3 where "ensureNamespace E cp w = (Ok (tenant (cpl_name cp), None), w1)"
      "ev_remote_client E cfg = Inr remote" "rbac_Apply remote (cpl_flux_account cp) w1 = (None, w2)"
      "ensureKubeconfig (ev_kubeconfig E) (ev_local E) (Some cfg) (tenant (cpl_name cp)) ''flux-kubeconfig''
         (cpl_flux_account cp) w2 = (Inr key, w3)"
      "deferred_status_update E (reconcile_body E (round_context E (tenant (cpl_name cp)) key) (tenant (cpl_name cp)) cp remote w3) = (r, w')"
proof -
  obtain e1 w1 where "cl_create_or_update (ev_local E) (new_obj [] (tenant (cpl_name cp)) BNamespace)
      (\<lambda>ns. ev_set_owner E cp (SetManagedBy (SetLabel ns LabelControlPlane (cpl_name cp)))) w = (e1, w1)" by force
  then have n: "ensureNamespace E cp w = (Ok (tenant (cpl_name cp), e1), w1)" by (simp add: ensureNamespace_def tenant_eq)
  note run = ControlPlaneReconcile_def assms(1) n
  show ?thesis
  proof (cases "\<exists>cfg remote. e1 = None \<and> ev_remote_config E (cpl_target cp) w1 = Inr cfg \<and> ev_remote_client E cfg = Inr remote")
    case False
    with n assms(2) Setup show ?thesis
      by (cases e1) (auto simp: run split: sum.splits)
  next
    case True
    then obtain cfg remote where c: "e1 = None" "ev_remote_config E (cpl_target cp) w1 = Inr cfg" "ev_remote_client E cfg = Inr remote"
      by blast
    obtain e2 w2 where a: "rbac_Apply remote (cpl_flux_account cp) w1 = (e2, w2)" by force
    obtain k w3 where kc: "ensureKubeconfig (ev_kubeconfig E) (ev_local E) (Some cfg) (tenant (cpl_name cp)) ''flux-kubeconfig''
        (cpl_flux_account cp) w2 = (k, w3)" by force
    from n c a kc assms(2) Access Kubeconfig Body show ?thesis
      by (cases e2; cases k) (auto simp: run)
  qed
qed

lemma namespace_writes:
  assumes "cou_law (ev_local E) lv" "ensureNamespace E cp w = (Ok (tenant (cpl_name cp), e), w1)"
  shows "only_at lv (\<lambda>k n. k = KNamespace \<and> n = \<lparr> nn_namespace = [], nn_name = tenant (cpl_name cp) \<rparr>) w w1"
proof -
  let ?ob = "new_obj [] (tenant (cpl_name cp)) BNamespace"
  from assms(2) obtain f where c: "cl_create_or_update (ev_local E) ?ob f w = (e, w1)"
    by (auto simp: ensureNamespace_def tenant_eq split: prod.splits)
  show ?thesis
  proof (cases e)
    case None
    with c obtain ob' where "lv w1 = (lv w)(kind_of ?ob := (lv w (kind_of ?ob))(key_of ?ob \<mapsto> ob'))"
      using cou_law_ok [OF assms(1)] by blast
    then show ?thesis by (auto simp: only_at_def)
  next
    case (Some x)
    with c cou_law_err [OF assms(1)] show ?thesis by (metis only_at_same)
  qed
qed

lemma status_written: "planes_elsewhere E X \<Longrightarrow> X (snd (deferred_status_update E (r, cp, conds, w))) = X w"
  by (simp add: deferred_status_update_def planes_elsewhere_def Let_def)

lemma round_in_scope:
  assumes "local_laws E lv" "kind_filed lv KSecret w" "ev_get E req w = Inr cp" "ControlPlaneReconcile E req w = (r, w')"
  shows "only_at lv (plane_scope (tenant (cpl_name cp))) w w'"
proof -
  let ?ns = "tenant (cpl_name cp)"
  from assms(1) have laws: "cou_law (ev_local E) lv" "get_law (ev_local E) lv" "planes_elsewhere E lv"
    and away: "\<And>cfg c. ev_remote_client E cfg = Inr c \<Longrightarrow> leaves c lv"
      "\<And>cfg ref d w. lv (snd (ke_generate (ev_kubeconfig E) cfg ref d w)) = lv w"
    by (auto simp: local_laws_def elsewhere_def)
  have ns: "only_at lv (plane_scope ?ns) w w1" if "ensureNamespace E cp w = (Ok (?ns, e), w1)" for e w1
    by (rule only_at_mono [OF namespace_writes [OF laws(1) that]]) (simp add: plane_scope_def)
  have access: "only_at lv (plane_scope ?ns) w w2 \<and> kind_filed lv KSecret w2"
    if "ensureNamespace E cp w = (Ok (?ns, None), w1)" "ev_remote_client E cfg = Inr remote"
      "rbac_Apply remote (cpl_flux_account cp) w1 = (e, w2)" for w1 cfg remote e w2
  proof -
    have "lv w2 = lv w1" by (rule rbac_leaves(1) [OF away(1) [OF that(2)] that(3)])
    moreover have "lv w1 KSecret = lv w KSecret"
      using namespace_writes [OF laws(1) that(1)] by (auto simp: only_at_def)
    ultimately show ?thesis
      using ns [OF that(1)] assms(2) by (auto simp: only_at_def kind_filed_def)
  qed
  have kubeconfig: "only_at lv (plane_scope ?ns) w w3"
    if "only_at lv (plane_scope ?ns) w w2 \<and> kind_filed lv KSecret w2"
      "ensureKubeconfig (ev_kubeconfig E) (ev_local E) (Some cfg) ?ns ''flux-kubeconfig'' (cpl_flux_account cp) w2 = (k, w3)"
    for w2 cfg k w3
  proof (rule only_at_trans)
    show "only_at lv (plane_scope ?ns) w2 w3"
      by (rule only_at_mono [OF kubeconfig_change_at [OF kubeconfig_writes [OF laws(1,2) conjunct2 [OF that(1)] away(2) that(2)]]])
         (simp add: plane_scope_def)
  qed (use that(1) in simp)
  from assms(3,4) show ?thesis
  proof (cases rule: round_stages_worlds)
    case (Setup e w1)
    with ns show ?thesis by simp
  next
    case (Access e w1 cfg remote w2)
    with access [OF Access(1-3)] show ?thesis by simp
  next
    case (Kubeconfig w1 cfg remote w2 e)
    from kubeconfig [OF access [OF Kubeconfig(1-3)] Kubeconfig(4)] show ?thesis .
  next
    case (Body w1 cfg remote w2 key w3)
    have three: "only_at lv (plane_scope ?ns) w w3" by (rule kubeconfig [OF access [OF Body(1-3)] Body(4)])
    obtain rr cp' conds w4 where b: "reconcile_body E (round_context E ?ns key) ?ns cp remote w3 = (rr, cp', conds, w4)"
      by (rule prod_cases4)
    have "only_at lv (chart_scope ?ns) w3 w4"
      by (rule body_writes [OF assms(1) away(1) [OF Body(2)] _ b]) simp
    then have "only_at lv (plane_scope ?ns) w3 w4"
      by (rule only_at_mono) (auto simp: plane_scope_def chart_scope_def)
    moreover have "lv w' = lv w4" using status_written [OF laws(3), of rr cp' conds w4] Body(5) b by simp
    ultimately show ?thesis using three by (auto simp: only_at_def)
  qed
qed

text \<open>Of the secrets, a round writes the kubeconfig only.\<close>

lemma round_secrets:
  assumes "local_laws E lv" "kind_filed lv KSecret w" "ev_get E req w = Inr cp" "ControlPlaneReconcile E req w = (r, w')"
  shows "lv w' KSecret = lv w KSecret \<or> (\<exists>key ob. lv w' KSecret = (lv w KSecret)(key \<mapsto> ob)
     \<and> kubeconfig_of key (lv w KSecret key) ob)"
proof -
  let ?ns = "tenant (cpl_name cp)"
  from assms(1) have laws: "cou_law (ev_local E) lv" "get_law (ev_local E) lv" "planes_elsewhere E lv"
    and away: "\<And>cfg c. ev_remote_client E cfg = Inr c \<Longrightarrow> leaves c lv"
      "\<And>cfg ref d w. lv (snd (ke_generate (ev_kubeconfig E) cfg ref d w)) = lv w"
    by (auto simp: local_laws_def elsewhere_def)
  have ns: "lv w1 KSecret = lv w KSecret" if "ensureNamespace E cp w = (Ok (?ns, e), w1)" for e w1
    using namespace_writes [OF laws(1) that] by (auto simp: only_at_def)
  have access: "lv w2 KSecret = lv w KSecret"
    if "ensureNamespace E cp w = (Ok (?ns, None), w1)" "ev_remote_client E cfg = Inr remote"
      "rbac_Apply remote (cpl_flux_account cp) w1 = (e, w2)" for w1 cfg remote e w2
    using rbac_leaves(1) [OF away(1) [OF that(2)] that(3)] ns [OF that(1)] by simp
  have kubeconfig: "lv w3 KSecret = lv w KSecret \<or> (\<exists>key ob. lv w3 KSecret = (lv w KSecret)(key \<mapsto> ob)
     \<and> kubeconfig_of key (lv w KSecret key) ob)"
    if "lv w2 KSecret = lv w KSecret"
      "ensureKubeconfig (ev_kubeconfig E) (ev_local E) (Some cfg) ?ns ''flux-kubeconfig'' (cpl_flux_account cp) w2 = (k, w3)"
    for w2 cfg k w3
  proof -
    have "kind_filed lv KSecret w2" using assms(2) that(1) by (simp add: kind_filed_def)
    from kubeconfig_writes [OF laws(1,2) this away(2) that(2)] that(1) show ?thesis
      unfolding kubeconfig_change_def by auto
  qed
  from assms(3,4) show ?thesis
  proof (cases rule: round_stages_worlds)
    case (Setup e w1)
    with ns show ?thesis by simp
  next
    case (Access e w1 cfg remote w2)
    with access [OF Access(1-3)] show ?thesis by simp
  next
    case (Kubeconfig w1 cfg remote w2 e)
    from kubeconfig [OF access [OF Kubeconfig(1-3)] Kubeconfig(4)] show ?thesis .
  next
    case (Body w1 cfg remote w2 key w3)
    obtain rr cp' conds w4 where b: "reconcile_body E (round_context E ?ns key) ?ns cp remote w3 = (rr, cp', conds, w4)"
      by (rule prod_cases4)
    have "only_at lv (chart_scope ?ns) w3 w4"
      by (rule body_writes [OF assms(1) away(1) [OF Body(2)] _ b]) simp
    then have "lv w4 KSecret = lv w3 KSecret" by (auto simp: only_at_def chart_scope_def)
    moreover have "lv w' = lv w4" using status_written [OF laws(3), of rr cp' conds w4] Body(5) b by simp
    ultimately show ?thesis using kubeconfig [OF access [OF Body(1-3)] Body(4)] by simp
  qed
qed


section \<open>ControlPlanes on two concrete clusters\<close>

text \<open>A ControlPlane that is marked for deletion goes with its last finalizer.\<close>

definition persisted_plane :: "control_plane \<Rightarrow> control_plane option" where
  "persisted_plane cp = (if WasDeleted cp \<and> cpl_finalizers cp = [] then None else Some cp)"

definition with_status :: "control_plane \<Rightarrow> control_plane \<Rightarrow> control_plane" where
  "with_status old cp = old\<lparr>cpl_conditions := cpl_conditions cp, cpl_namespace := cpl_namespace cp,
     cpl_enabled := cpl_enabled cp, cpl_healthy := cpl_healthy cp\<rparr>"

type_synonym fleet = "(string \<Rightarrow> control_plane option) \<times> store \<times> store"

definition fleet_local :: "fleet client" where
  "fleet_local = on_snd (on_fst store_client)"

definition fleet_remote :: "fleet client" where
  "fleet_remote = on_snd (on_snd store_client)"

definition fleet_view :: "fleet kview" where
  "fleet_view = (\<lambda>w. store_view (fst (snd w)))"

definition fleet_kenv :: "fleet kubeconfig_env" where
  "fleet_kenv = \<lparr> ke_now = (\<lambda>_. 0), ke_parse = (\<lambda>s. Inr (int (length s))), ke_format = (\<lambda>t. replicate (nat t) (CHR ''x'')),
     ke_write = (\<lambda>_. Inr ''raw''), ke_generate = (\<lambda>c ref d w. (Inr (\<lparr> kcf_current = [], kcf_clusters = Map.empty,
        kcf_users = Map.empty, kcf_contexts = Map.empty \<rparr>, d), w)), ke_period = 2, ke_lifetime = 3 \<rparr>"

definition fleet_env :: "fleet cp_env" where
  "fleet_env = \<lparr> ev_libs = plane_libs, ev_local = fleet_local,
     ev_get = (\<lambda>n w. case fst w (nn_name n) of
        Some cp \<Rightarrow> if cpl_name cp = nn_name n then Inr cp else Inl (OtherErr ''misnamed'') | None \<Rightarrow> Inl (ApiStatus ''NotFound'' ''no such ControlPlane'')),
     ev_update = (\<lambda>cp w. (None, (fst w)(cpl_name cp := persisted_plane cp), snd w)),
     ev_update_status = (\<lambda>cp w. (None, (fst w)(cpl_name cp := map_option (\<lambda>old. with_status old cp) (fst w (cpl_name cp))), snd w)),
     ev_set_owner = (\<lambda>cp ob. Inr ob), ev_channels = (\<lambda>w. Inr []), ev_sort_versions = (\<lambda>vs. vs),
     ev_secret_resolver = (\<lambda>u. None), ev_remote_config = (\<lambda>t w. Inr demo_cfg),
     ev_remote_client = (\<lambda>c. Inr fleet_remote), ev_kubeconfig = fleet_kenv, ev_period = 60, ev_now = (\<lambda>w. 0),
     ev_crds = [], ev_decode_crd = (\<lambda>y. Inl (OtherErr ''no yaml'')), ev_protection = False, ev_environ = (\<lambda>v. []) \<rparr>"

lemma on_snd_reads:
  "get_law cl v \<Longrightarrow> get_law (on_snd cl) (\<lambda>w. v (snd w))"
  by (simp add: get_law_def on_snd_def)

lemma on_fst_laws:
  "get_law cl v \<Longrightarrow> get_law (on_fst cl) (\<lambda>w. v (fst w))"
  "cou_law cl v \<Longrightarrow> cou_law (on_fst cl) (\<lambda>w. v (fst w))"
  "delete_law cl v \<Longrightarrow> delete_law (on_fst cl) (\<lambda>w. v (fst w))"
  by (simp_all add: get_law_def cou_law_def delete_law_def on_fst_def Let_def case_prod_beta cong: option.case_cong)

lemma other_cluster_left:
  "leaves (on_snd cl) (\<lambda>w. X (fst w))" "leaves (on_fst cl) (\<lambda>w. X (snd w))"
  "leaves cl Y \<Longrightarrow> leaves (on_snd cl) (\<lambda>w. Y (snd w))"
  by (simp_all add: leaves_def on_snd_def on_fst_def case_prod_beta)

lemma fleet_remote_leaves: "leaves fleet_remote fleet_view" "leaves fleet_remote fst" "leaves fleet_local fst"
  unfolding fleet_remote_def fleet_local_def fleet_view_def
  by (rule other_cluster_left(3) [OF other_cluster_left(1)], (rule other_cluster_left(1) [where X = "\<lambda>x. x"])+)

lemma fleet_laws: "local_laws fleet_env fleet_view"
proof -
  have "get_law fleet_local fleet_view" "cou_law fleet_local fleet_view" "delete_law fleet_local fleet_view"
    unfolding fleet_local_def fleet_view_def
    by (intro on_snd_reads on_snd_laws on_fst_laws store_api_laws)+
  moreover have "elsewhere fleet_env fleet_view"
    by (simp add: elsewhere_def fleet_env_def fleet_kenv_def fleet_remote_leaves)
  moreover have "planes_elsewhere fleet_env fleet_view"
    by (simp add: planes_elsewhere_def fleet_env_def fleet_view_def)
  ultimately show ?thesis by (simp add: local_laws_def fleet_env_def)
qed

text \<open>One ControlPlane, and a release in the namespace of another.\<close>

definition release_of :: "string \<Rightarrow> kobj" where
  "release_of name = new_obj (tenant name) ''crossplane'' (BHelmRelease zero_release_spec [])"

definition fleet :: fleet where
  "fleet = (Map.empty(''a'' \<mapsto> demo_plane False), [((KHelmRelease, key_of (release_of ''b'')), release_of ''b'')], [])"

lemma fleet_filed: "kind_filed fleet_view KSecret fleet"
  by (simp add: kind_filed_def fleet_view_def fleet_def store_view_def)

lemma tenants: "tenant ''a'' = ''cp-a''" "tenant ''b'' = ''cp-b''"
  by (simp_all add: tenant_def shortenToXCharacters_def cpNamespacePrefix_def cpNamespaceMaxLen_def)


end
