(* ===== verification/PlaneRuns.thy ===== *)
theory PlaneRuns
  imports PlaneIsolation
begin

text \<open>
  Any number of rounds of the control plane controller, for any ControlPlanes and with any outcome,
  between which users and other controllers change the cluster: no chart outlives the ControlPlane
  it was installed for.
\<close>

section \<open>The ControlPlanes of the cluster\<close>

type_synonym 'w pview = "'w \<Rightarrow> string \<Rightarrow> control_plane option"

text \<open>
  Documented behaviour of the API server for ControlPlanes: a read is truthful, an update stores the
  object, an update of the status changes the status only, and an error means that nothing changed.
\<close>

definition planes_law :: "'w cp_env \<Rightarrow> 'w pview \<Rightarrow> bool" where
  "planes_law E pv \<longleftrightarrow>
     (\<forall>req w cp. ev_get E req w = Inr cp \<longrightarrow> pv w (nn_name req) = Some cp \<and> cpl_name cp = nn_name req)
     \<and> (\<forall>cp w e w'. ev_update E cp w = (e, w') \<longrightarrow>
          pv w' = (if e = None then (pv w)(cpl_name cp := persisted_plane cp) else pv w))
     \<and> (\<forall>cp w e w'. ev_update_status E cp w = (e, w') \<longrightarrow>
          pv w' = (if e = None then (pv w)(cpl_name cp := map_option (\<lambda>old. with_status old cp) (pv w (cpl_name cp))) else pv w))"

text \<open>What the operator's other calls change is not a ControlPlane.\<close>

definition runs_laws :: "'w cp_env \<Rightarrow> 'w kview \<Rightarrow> 'w pview \<Rightarrow> bool" where
  "runs_laws E lv pv \<longleftrightarrow> local_laws E lv \<and> finalizer_law (ev_libs E) \<and> planes_law E pv
     \<and> leaves (ev_local E) pv \<and> elsewhere E pv"

section \<open>Charts and their owners\<close>

definition chart_in :: "'w kview \<Rightarrow> string \<Rightarrow> 'w \<Rightarrow> bool" where
  "chart_in lv ns w \<longleftrightarrow> (\<exists>k n. chart_scope ns k n \<and> lv w k n \<noteq> None)"

definition held :: "'w pview \<Rightarrow> string \<Rightarrow> 'w \<Rightarrow> bool" where
  "held pv p w \<longleftrightarrow> (\<exists>cp. pv w p = Some cp \<and> Finalizer \<in> set (cpl_finalizers cp))"

definition charts_owned :: "'w kview \<Rightarrow> 'w pview \<Rightarrow> 'w \<Rightarrow> bool" where
  "charts_owned lv pv w \<longleftrightarrow> (\<forall>p. chart_in lv (tenant p) w \<longrightarrow> (\<exists>q. tenant q = tenant p \<and> held pv q w))"

text \<open>
  What others may do between two rounds: everything but installing a first chart under the operator's
  names in the namespace of a ControlPlane, taking the operator's finalizer off a ControlPlane, or misfiling secrets.
\<close>

definition others_step :: "'w kview \<Rightarrow> 'w pview \<Rightarrow> 'w \<Rightarrow> 'w \<Rightarrow> bool" where
  "others_step lv pv w w' \<longleftrightarrow> (kind_filed lv KSecret w \<longrightarrow> kind_filed lv KSecret w')
     \<and> (\<forall>p. chart_in lv (tenant p) w' \<longrightarrow> chart_in lv (tenant p) w) \<and> (\<forall>p. held pv p w \<longrightarrow> held pv p w')"

inductive plane_runs :: "'w cp_env \<Rightarrow> ('w \<Rightarrow> 'w \<Rightarrow> bool) \<Rightarrow> 'w \<Rightarrow> 'w \<Rightarrow> bool"
  for E :: "'w cp_env" and others :: "'w \<Rightarrow> 'w \<Rightarrow> bool" and w0 :: 'w where
  start: "plane_runs E others w0 w0"
| round: "plane_runs E others w0 w \<Longrightarrow> ControlPlaneReconcile E req w = (r, w') \<Longrightarrow> plane_runs E others w0 w'"
| others: "plane_runs E others w0 w \<Longrightarrow> others w w' \<Longrightarrow> plane_runs E others w0 w'"

section \<open>One round\<close>

lemma others_keep: "charts_owned lv pv w \<Longrightarrow> others_step lv pv w w' \<Longrightarrow> charts_owned lv pv w'"
  unfolding charts_owned_def others_step_def by blast

lemma gone_chart_in: "(\<forall>name \<in> set chart_names. chart_gone lv ns name w) \<Longrightarrow> \<not> chart_in lv ns w"
proof
  assume gone: "\<forall>name \<in> set chart_names. chart_gone lv ns name w" and "chart_in lv ns w"
  then obtain k n where n: "k \<in> {KHelmRepository, KHelmRelease}" "nn_namespace n = ns" "nn_name n \<in> set chart_names"
    "lv w k n \<noteq> None" by (auto simp: chart_in_def chart_scope_def)
  from gone n(3) have "chart_gone lv ns (nn_name n) w" by blast
  moreover have "n = \<lparr> nn_namespace = ns, nn_name = nn_name n \<rparr>" using n(2) by simp
  ultimately show False using n(1,4) unfolding chart_gone_def by auto
qed

lemma chart_in_elsewhere:
  assumes "only_at lv (chart_scope ns) w w'" "ns' \<noteq> ns" "chart_in lv ns' w'"
  shows "chart_in lv ns' w"
  using assms by (fastforce simp: chart_in_def only_at_def chart_scope_def)

lemma owned_after:
  assumes "charts_owned lv pv w" "only_at lv (chart_scope (tenant p)) w w'" "\<And>q. q \<noteq> p \<Longrightarrow> pv w' q = pv w q"
    and "chart_in lv (tenant p) w' \<Longrightarrow> held pv p w'"
  shows "charts_owned lv pv w'"
  unfolding charts_owned_def
proof (intro allI impI)
  fix t
  assume c: "chart_in lv (tenant t) w'"
  show "\<exists>q. tenant q = tenant t \<and> held pv q w'"
  proof (cases "tenant t = tenant p")
    case True
    with assms(4) c show ?thesis by metis
  next
    case False
    from chart_in_elsewhere [OF assms(2) this c] assms(1) obtain q where q: "tenant q = tenant t" "held pv q w"
      unfolding charts_owned_def by blast
    with False have "pv w' q = pv w q" by (intro assms(3)) auto
    with q(2) have "held pv q w'" by (simp add: held_def)
    with q(1) show ?thesis by blast
  qed
qed

text \<open>Writing the finalizers of the ControlPlane.\<close>

lemma plane_written:
  assumes "planes_law E pv" "ev_update E cp w = (e, w')"
  shows "q \<noteq> cpl_name cp \<Longrightarrow> pv w' q = pv w q" "e = None \<Longrightarrow> pv w' (cpl_name cp) = persisted_plane cp"
    "e \<noteq> None \<Longrightarrow> pv w' = pv w"
  using assms unfolding planes_law_def by auto

lemma ensure_holds:
  assumes "planes_law E pv" "finalizer_law (ev_libs E)" "pv w (cpl_name cp) = Some cp" "\<not> WasDeleted cp"
    and "cp_ensureFinalizer E cp w = (e, cp1, w1)"
  shows "(q \<noteq> cpl_name cp \<longrightarrow> pv w1 q = pv w q) \<and> (if e = None then held pv (cpl_name cp) w1 else pv w1 = pv w)"
proof (cases "Finalizer \<in> set (cpl_finalizers cp)")
  case True
  with assms(2,3,5) show ?thesis by (auto simp: cp_ensureFinalizer_def finalizer_law_def held_def Let_def)
next
  case False
  let ?cp = "cp\<lparr>cpl_finalizers := cpl_finalizers cp @ [Finalizer]\<rparr>"
  from False assms(2,5) have up: "ev_update E ?cp w = (e, w1)"
    by (auto simp: cp_ensureFinalizer_def finalizer_law_def Let_def split: prod.splits)
  from plane_written [OF assms(1) up] assms(4) show ?thesis
    by (auto simp: held_def persisted_plane_def WasDeleted_def)
qed

lemma update_leaves:
  assumes "leaves (ev_local E) X" "leaves remote X" "updateControlPlaneComponents E ctx cp remote w = (r, cp', w')"
  shows "X w' = X w"
proof (cases "newJuggler E ctx cp remote w")
  case (Ok j)
  from newJuggler_parts [OF Ok] have rec: "jg_reconcilers j = operator_reconcilers (ev_libs E) (ev_local E) remote" by blast
  obtain rs out evs w1 where run: "Reconcile (operator_iface (ev_libs E)) j ctx w = (rs, out, evs, w1)" by (rule prod_cases4)
  have "w' = w1" using assms(3) Ok run by (auto simp: updateControlPlaneComponents_def split: gores_of.splits prod.splits)
  with round_leaves [OF assms(1,2) rec run] show ?thesis by simp
qed (use assms(3) in \<open>simp_all add: updateControlPlaneComponents_def\<close>)

lemma deletion_leaves:
  assumes "leaves (ev_local E) X" "leaves remote X" "deleteControlPlaneComponents E ctx cp remote w = (r, conds, w')"
  shows "X w' = X w"
proof (cases "newJuggler E ctx (empty_plane cp) remote w")
  case (Ok j)
  from newJuggler_parts [OF Ok] have rec: "jg_reconcilers j = operator_reconcilers (ev_libs E) (ev_local E) remote" by blast
  obtain rs out evs w1 where run: "Reconcile (operator_iface (ev_libs E)) j ctx w = (rs, out, evs, w1)" by (rule prod_cases4)
  have "w' = w1" using assms(3) Ok run
    by (auto simp: deleteControlPlaneComponents_def empty_plane_def Let_def split: gores_of.splits prod.splits if_splits)
  with round_leaves [OF assms(1,2) rec run] show ?thesis by simp
qed (use assms(3) in \<open>simp_all add: deleteControlPlaneComponents_def empty_plane_def\<close>)

lemma unchanged_keeps:
  assumes "charts_owned lv pv w" "only_at lv S w w'" "\<And>k n ns. chart_scope ns k n \<Longrightarrow> \<not> S k n" "pv w' = pv w"
  shows "charts_owned lv pv w'"
proof -
  have "lv w' k n = lv w k n" if "chart_scope ns k n" for ns k n
    using assms(2) assms(3) [OF that] by (simp add: only_at_def)
  then have "chart_in lv ns w' = chart_in lv ns w" for ns
    unfolding chart_in_def by (metis (no_types))
  with assms(1,4) show ?thesis by (simp add: charts_owned_def held_def)
qed

lemma shrunk_keeps:
  "charts_owned lv pv w \<Longrightarrow> creates_nothing lv w w' \<Longrightarrow> pv w' = pv w \<Longrightarrow> charts_owned lv pv w'"
  unfolding charts_owned_def chart_in_def creates_nothing_def held_def by metis

lemma kubeconfig_leaves:
  assumes "leaves r X" "\<And>cfg ref d w. X (snd (ke_generate K cfg ref d w)) = X w"
    and "ensureKubeconfig K r cfg ns name ref w = (res, w')"
  shows "X w' = X w"
proof -
  have renew: "X w' = X w" if "renew_kubeconfig K r cfg ref s w = (res, w')" for s
  proof -
    obtain g w1 where g: "ke_generate K cfg ref (ke_lifetime K) w = (g, w1)" by force
    with assms(2) [of cfg ref "ke_lifetime K" w] have "X w1 = X w" by simp
    with that g show ?thesis
      by (auto simp: renew_kubeconfig_def Let_def split: sum.splits prod.splits option.splits dest!: leavesD(1) [OF assms(1)])
  qed
  from assms(3) show ?thesis
    by (auto simp: ensureKubeconfig_def Let_def split: sum.splits option.splits if_splits dest: renew)
qed

text \<open>The deletion of a ControlPlane: the finalizer goes when no chart is left.\<close>

lemma deletion_owned:
  assumes "runs_laws E lv pv" "leaves remote lv" "leaves remote pv" "charts_owned lv pv w" "WasDeleted cp"
    and "TenantNamespace ctx = Ok (tenant (cpl_name cp))"
    and "deleteControlPlane E ctx cp remote new w = (r, cp', conds, w')"
  shows "charts_owned lv pv w'"
proof -
  from assms(1) have laws: "local_laws E lv" "planes_law E pv" "leaves (ev_local E) pv"
    and "get_law (ev_local E) lv" "default_law (ev_libs E)" "planes_elsewhere E lv"
    by (auto simp: runs_laws_def local_laws_def)
  obtain u conditions w1 where d: "deleteControlPlaneComponents E ctx cp remote w = (u, conditions, w1)" by (rule prod_cases3)
  obtain e2 w2 where rd: "rbac_Delete remote w1 = (e2, w2)" by force
  obtain e3 cp3 w3 where rf: "cp_removeFinalizer E cp w2 = (e3, cp3, w3)" by (rule prod_cases3)
  from deletion_writes [OF laws(1) assms(2,6,5) d] have shrunk: "creates_nothing lv w w1" by blast
  have owned1: "charts_owned lv pv w1"
    by (rule shrunk_keeps [OF assms(4) shrunk deletion_leaves [OF laws(3) assms(3) d]])
  have "lv w2 = lv w1" "pv w2 = pv w1" using rbac_leaves(2) [OF _ rd] assms(2,3) by auto
  with owned1 have owned2: "charts_owned lv pv w2" by (auto intro: shrunk_keeps simp: creates_nothing_def)
  have owned3: "charts_owned lv pv w3" if "u = Ok ()"
  proof (rule owned_after [OF owned2, where p = "cpl_name cp"])
    have "lv w3 = lv w2" by (rule finalizer_writes(2) [OF \<open>planes_elsewhere E lv\<close> rf])
    then show "only_at lv (chart_scope (tenant (cpl_name cp))) w2 w3" by (rule only_at_same)
    show "pv w3 q = pv w2 q" if "q \<noteq> cpl_name cp" for q
      using rf that by (auto simp: cp_removeFinalizer_def Let_def split: prod.splits if_splits
          dest!: plane_written(1) [OF laws(2), where q = q])
    from deleted_charts_gone [OF \<open>get_law (ev_local E) lv\<close> \<open>default_law (ev_libs E)\<close> assms(5) d [unfolded that]] assms(6)
    have "\<not> chart_in lv (tenant (cpl_name cp)) w" by (auto dest: gone_chart_in)
    with shrunk \<open>lv w2 = lv w1\<close> \<open>lv w3 = lv w2\<close> have "\<not> chart_in lv (tenant (cpl_name cp)) w3"
      unfolding chart_in_def creates_nothing_def by metis
    then show "held pv (cpl_name cp) w3" if "chart_in lv (tenant (cpl_name cp)) w3" using that by blast
  qed
  from assms(4,7) d rd rf owned1 owned2 owned3 show ?thesis
    by (cases u; cases e2) (auto simp: deleteControlPlane_def Let_def split: if_splits)
qed

lemma body_owned:
  assumes "runs_laws E lv pv" "leaves remote lv" "leaves remote pv" "charts_owned lv pv w"
    and "pv w (cpl_name cp) = Some cp" "TenantNamespace ctx = Ok (tenant (cpl_name cp))"
    and "reconcile_body E ctx ns cp remote w = (r, cp', conds, w')"
  shows "charts_owned lv pv w'"
proof (cases "WasDeleted cp")
  case True
  with assms(7) show ?thesis by (auto simp: reconcile_body_def intro: deletion_owned [OF assms(1-4) True assms(6)])
next
  case False
  from assms(1) have laws: "local_laws E lv" "planes_law E pv" "leaves (ev_local E) pv" "finalizer_law (ev_libs E)"
    and pe: "planes_elsewhere E lv" by (auto simp: runs_laws_def local_laws_def)
  obtain e cp1 w1 where e: "cp_ensureFinalizer E cp w = (e, cp1, w1)" by (rule prod_cases3)
  obtain u cp2 w2 where u: "updateControlPlaneComponents E ctx cp1 remote w1 = (u, cp2, w2)" by (rule prod_cases3)
  have one: "only_at lv (chart_scope (tenant (cpl_name cp))) w w1" by (rule only_at_same) (rule finalizer_writes(1) [OF pe e])
  have two: "only_at lv (chart_scope (tenant (cpl_name cp))) w w2"
    by (rule only_at_trans [OF one update_writes [OF laws(1) assms(2,6) u]])
  note ens = ensure_holds [OF laws(2,4) assms(5) False e]
  have same: "pv w2 = pv w1" by (rule update_leaves [OF laws(3) assms(3) u])
  have "lv w1 = lv w" by (rule finalizer_writes(1) [OF pe e])
  show ?thesis
  proof (cases e)
    case None
    have "charts_owned lv pv w2"
    proof (rule owned_after [OF assms(4) two])
      show "pv w2 q = pv w q" if "q \<noteq> cpl_name cp" for q using ens [of q] same that by simp
      show "held pv (cpl_name cp) w2" using ens None same by (simp add: held_def)
    qed
    moreover have "w' = w2" using assms(7) False e u None by (cases u) (auto simp: reconcile_body_def Let_def)
    ultimately show ?thesis by simp
  next
    case (Some x)
    have "charts_owned lv pv w1"
      by (rule shrunk_keeps [OF assms(4)]) (use ens Some \<open>lv w1 = lv w\<close> in \<open>simp_all add: creates_nothing_def\<close>)
    moreover have "w' = w1" using assms(7) False e Some by (simp add: reconcile_body_def)
    ultimately show ?thesis by simp
  qed
qed

section \<open>Any number of rounds\<close>

lemma status_keeps_held:
  assumes "planes_law E pv" "deferred_status_update E (r, cp, conds, w) = (r', w')"
  shows "held pv q w' = held pv q w"
proof -
  have "\<exists>cp1. w' = snd (ev_update_status E cp1 w)"
    using assms(2) by (auto simp: deferred_status_update_def Let_def)
  then obtain cp1 where "ev_update_status E cp1 w = (fst (ev_update_status E cp1 w), w')" by (metis prod.collapse)
  then have "pv w' = (if fst (ev_update_status E cp1 w) = None
      then (pv w)(cpl_name cp1 := map_option (\<lambda>old. with_status old cp1) (pv w (cpl_name cp1))) else pv w)"
    using assms(1) unfolding planes_law_def by blast
  then show ?thesis by (auto simp: held_def with_status_def split: if_splits)
qed

lemma round_owned:
  assumes "runs_laws E lv pv" "charts_owned lv pv w" "kind_filed lv KSecret w" "ControlPlaneReconcile E req w = (r, w')"
  shows "charts_owned lv pv w'"
proof (cases "ev_get E req w")
  case (Inl e)
  with assms(2,4) show ?thesis by (auto simp: ControlPlaneReconcile_def split: if_splits)
next
  case (Inr cp)
  let ?ns = "tenant (cpl_name cp)"
  from assms(1) have laws: "local_laws E lv" "planes_law E pv" "leaves (ev_local E) pv" "planes_elsewhere E lv"
    "cou_law (ev_local E) lv" "get_law (ev_local E) lv"
    and away: "\<And>cfg c. ev_remote_client E cfg = Inr c \<Longrightarrow> leaves c lv"
      "\<And>cfg c. ev_remote_client E cfg = Inr c \<Longrightarrow> leaves c pv"
      "\<And>cfg ref d w. lv (snd (ke_generate (ev_kubeconfig E) cfg ref d w)) = lv w"
      "\<And>cfg ref d w. pv (snd (ke_generate (ev_kubeconfig E) cfg ref d w)) = pv w"
    by (auto simp: runs_laws_def local_laws_def elsewhere_def)
  have plane: "pv w (cpl_name cp) = Some cp"
    using laws(2) Inr unfolding planes_law_def by (metis (no_types))
  let ?fine = "\<lambda>w. charts_owned lv pv w \<and> pv w (cpl_name cp) = Some cp"
  have ns: "?fine w1 \<and> kind_filed lv KSecret w1" if "ensureNamespace E cp w = (Ok (?ns, e), w1)" for e w1
  proof -
    note at = namespace_writes [OF laws(5) that]
    have pv: "pv w1 = pv w" using that by (auto simp: ensureNamespace_def split: gores_of.splits prod.splits dest!: leavesD(1) [OF laws(3)])
    from at have "lv w1 KSecret = lv w KSecret" by (auto simp: only_at_def)
    with unchanged_keeps [OF assms(2) at _ pv] pv plane assms(3) show ?thesis
      by (auto simp: chart_scope_def kind_filed_def)
  qed
  have access: "?fine w2 \<and> kind_filed lv KSecret w2"
    if "ensureNamespace E cp w = (Ok (?ns, None), w1)" "ev_remote_client E cfg = Inr remote"
      "rbac_Apply remote (cpl_flux_account cp) w1 = (e, w2)" for w1 cfg remote e w2
  proof -
    have same: "lv w2 = lv w1" "pv w2 = pv w1"
      using rbac_leaves(1) [OF away(1) [OF that(2)] that(3)] rbac_leaves(1) [OF away(2) [OF that(2)] that(3)] .
    with ns [OF that(1)] shrunk_keeps [of lv pv w1 w2] show ?thesis
      by (auto simp: creates_nothing_def kind_filed_def)
  qed
  have kubeconfig: "?fine w3"
    if fine: "?fine w2 \<and> kind_filed lv KSecret w2"
      and run: "ensureKubeconfig (ev_kubeconfig E) (ev_local E) (Some cfg) ?ns ''flux-kubeconfig'' (cpl_flux_account cp) w2 = (k, w3)"
    for w2 cfg k w3
  proof -
    have pv: "pv w3 = pv w2" by (rule kubeconfig_leaves [OF laws(3) away(4) run])
    note at = kubeconfig_change_at [OF kubeconfig_writes [OF laws(5,6) conjunct2 [OF fine] away(3) run]]
    from unchanged_keeps [OF _ at _ pv] fine pv show ?thesis by (auto simp: chart_scope_def)
  qed
  from Inr assms(4) show ?thesis
  proof (cases rule: round_stages_worlds)
    case (Setup e w1)
    with ns show ?thesis by simp
  next
    case (Access e w1 cfg remote w2)
    with access [OF Access(1-3)] show ?thesis by simp
  next
    case (Kubeconfig w1 cfg remote w2 e)
    from kubeconfig [OF access [OF Kubeconfig(1-3)] Kubeconfig(4)] show ?thesis by simp
  next
    case (Body w1 cfg remote w2 key w3)
    obtain rr cp' conds w4 where b: "reconcile_body E (round_context E ?ns key) ?ns cp remote w3 = (rr, cp', conds, w4)"
      by (rule prod_cases4)
    from kubeconfig [OF access [OF Body(1-3)] Body(4)] have three: "charts_owned lv pv w3" "pv w3 (cpl_name cp) = Some cp" by auto
    have four: "charts_owned lv pv w4"
      by (rule body_owned [OF assms(1) away(1) [OF Body(2)] away(2) [OF Body(2)] three _ b]) simp
    have run: "deferred_status_update E (rr, cp', conds, w4) = (r, w')" using Body(5) b by simp
    from status_written [OF laws(4), of rr cp' conds w4] run have "lv w' = lv w4" by simp
    with four status_keeps_held [OF laws(2) run] show ?thesis by (simp add: charts_owned_def chart_in_def)
  qed
qed

lemma round_filed:
  assumes "local_laws E lv" "kind_filed lv KSecret w" "ControlPlaneReconcile E req w = (r, w')"
  shows "kind_filed lv KSecret w'"
proof (cases "ev_get E req w")
  case (Inl e)
  with assms(2,3) show ?thesis by (auto simp: ControlPlaneReconcile_def split: if_splits)
next
  case (Inr cp)
  from round_secrets [OF assms(1,2) Inr assms(3)] assms(2) show ?thesis
    by (auto simp: kind_filed_def kubeconfig_of_def split: if_splits)
qed

lemma runs_owned:
  assumes "plane_runs E (others_step lv pv) w0 w" "runs_laws E lv pv" "charts_owned lv pv w0" "kind_filed lv KSecret w0"
  shows "charts_owned lv pv w \<and> kind_filed lv KSecret w"
  using assms(1)
proof induction
  case (round w req r w')
  with round_owned [OF assms(2), of w] round_filed [of E lv w] assms(2) show ?case by (auto simp: runs_laws_def)
next
  case (others w w')
  then show ?case using others_keep [of lv pv w w'] by (auto simp: others_step_def)
qed (use assms(3,4) in simp)


section \<open>A concrete history\<close>

lemma fleet_runs_laws: "runs_laws fleet_env fleet_view fst"
proof -
  have "planes_law fleet_env fst"
    by (auto simp: planes_law_def fleet_env_def split: option.splits if_splits)
  moreover have "elsewhere fleet_env fst"
    by (simp add: elsewhere_def fleet_env_def fleet_kenv_def fleet_remote_leaves)
  ultimately show ?thesis
    using fleet_laws fleet_remote_leaves by (simp add: runs_laws_def) (simp add: fleet_env_def)
qed

text \<open>The release of \<open>b\<close>, whose ControlPlane is there and then marked for deletion.\<close>

definition owned_fleet :: "bool \<Rightarrow> fleet" where
  "owned_fleet deleted = ([''b'' \<mapsto> (demo_plane deleted)\<lparr>cpl_name := ''b''\<rparr>],
     [((KHelmRelease, key_of (release_of ''b'')), release_of ''b'')], [])"

lemma owned_fleet_simps [simp]:
  "fleet_view (owned_fleet d) k n = (if k = KHelmRelease \<and> n = key_of (release_of ''b'') then Some (release_of ''b'') else None)"
  "held fst p (owned_fleet d) \<longleftrightarrow> p = ''b''" "kind_filed fleet_view KSecret (owned_fleet d)"
  by (auto simp: fleet_view_def owned_fleet_def store_view_def held_def demo_plane_def kind_filed_def)

lemma release_of_scope: "chart_scope ns KHelmRelease (key_of (release_of p)) \<longleftrightarrow> ns = tenant p"
  by (auto simp: chart_scope_def release_of_def new_obj_def empty_meta_def key_of_def chart_names_def)

lemma chart_in_owned_fleet: "chart_in fleet_view ns (owned_fleet d) \<longleftrightarrow> ns = tenant ''b''"
  using release_of_scope [of ns "''b''"] by (auto simp: chart_in_def split: if_splits)


end
