(* ===== verification/Interleaving.thy ===== *)
theory Interleaving
  imports Writes
begin

text \<open>
  Rounds that are interleaved. A round of a controller is a sequence of calls to the API server, in
  which each answer decides what follows; between two calls other rounds, users and other
  controllers may change the cluster, and the process may stop. A round is written as a tree of
  calls; \<open>call_step\<close> is one call, \<open>interleaved\<close> holds of the states that rounds for different
  objects and the outside reach together. The locale \<open>interference\<close> is the interface between a
  round and everything around it: what the round may rely on, and what it guarantees.
\<close>

section \<open>A round as its calls\<close>

text \<open>
  An update carries the object as it was read: the server refuses it with a conflict when the
  object has changed since (Kubernetes compares resource versions).
\<close>

datatype 'a calls =
    Done 'a
  | GetCall kind nname "err + kobj \<Rightarrow> 'a calls"
  | ListCall kind "list_opt list" "err + kobj list \<Rightarrow> 'a calls"
  | ApplyCall kobj "kobj \<Rightarrow> err + kobj" "err option \<Rightarrow> 'a calls"
  | UpdateCall kobj kobj "err option \<Rightarrow> 'a calls"
  | DeleteCall kobj "err option \<Rightarrow> 'a calls"

definition Conflict :: err where
  "Conflict = ApiStatus ''Conflict'' ''the object has been modified''"

text \<open>The loops of the controllers, with what follows them.\<close>

fun apply_calls :: "(kobj \<times> (kobj \<Rightarrow> err + kobj)) list \<Rightarrow> (err option \<Rightarrow> 'a calls) \<Rightarrow> 'a calls" where
  "apply_calls [] k = k None"
| "apply_calls ((ob, f) # obs) k =
     ApplyCall ob f (\<lambda>a. case a of Some e \<Rightarrow> k (Some e) | None \<Rightarrow> apply_calls obs k)"

fun delete_calls :: "kobj list \<Rightarrow> (err option \<Rightarrow> 'a calls) \<Rightarrow> 'a calls" where
  "delete_calls [] k = k None"
| "delete_calls (ob # obs) k = DeleteCall ob (\<lambda>a. case a of Some e \<Rightarrow> k (Some e) | None \<Rightarrow> delete_calls obs k)"

section \<open>One call\<close>

inductive call_step :: "'w client \<Rightarrow> 'w kview \<Rightarrow> 'a calls \<Rightarrow> 'w \<Rightarrow> 'a calls \<Rightarrow> 'w \<Rightarrow> bool"
  for r :: "'w client" and view :: "'w kview" where
  get: "call_step r view (GetCall k n f) w (f (cl_get r k n w)) w"
| list: "call_step r view (ListCall k os f) w (f (cl_list r k os w)) w"
| applied: "cl_create_or_update r ob g w = (e, w') \<Longrightarrow> call_step r view (ApplyCall ob g f) w (f e) w'"
| update: "view w (kind_of old) (key_of old) = Some old \<Longrightarrow> cl_update r new w = (e, w') \<Longrightarrow>
     call_step r view (UpdateCall old new f) w (f e) w'"
| conflict: "view w (kind_of old) (key_of old) \<noteq> Some old \<Longrightarrow>
     call_step r view (UpdateCall old new f) w (f (Some Conflict)) w"
| delete: "cl_delete r ob w = (e, w') \<Longrightarrow> call_step r view (DeleteCall ob f) w (f e) w'"

inductive_simps call_step_simps [simp]:
  "call_step r view (Done x) w p' w'"
  "call_step r view (GetCall k n f) w p' w'"
  "call_step r view (ListCall k os f) w p' w'"
  "call_step r view (ApplyCall ob g f) w p' w'"
  "call_step r view (UpdateCall old new f) w p' w'"
  "call_step r view (DeleteCall ob f) w p' w'"

text \<open>Each call is answered, in one way: what happens to a round is decided by its surroundings.\<close>

lemma call_step_answers: "(\<And>x. p \<noteq> Done x) \<Longrightarrow> \<exists>p' w'. call_step r view p w p' w'"
  by (cases p) (simp_all, (metis surj_pair)+)

lemma call_step_unique: "call_step r view p w p1 w1 \<Longrightarrow> call_step r view p w p2 w2 \<Longrightarrow> p1 = p2 \<and> w1 = w2"
  by (cases p) auto

definition call_steps :: "'w client \<Rightarrow> 'w kview \<Rightarrow> 'a calls \<Rightarrow> 'w \<Rightarrow> 'a calls \<Rightarrow> 'w \<Rightarrow> bool" where
  "call_steps r view p w p' w' \<longleftrightarrow> (\<lambda>(p, w) (p', w'). call_step r view p w p' w')\<^sup>*\<^sup>* (p, w) (p', w')"

lemma call_steps_refl [simp]: "call_steps r view p w p w"
  by (simp add: call_steps_def)

lemma call_steps_first: "call_step r view p w p1 w1 \<Longrightarrow> call_steps r view p1 w1 p' w' \<Longrightarrow> call_steps r view p w p' w'"
  unfolding call_steps_def by (rule converse_rtranclp_into_rtranclp) auto

lemma update_steps:
  "view w (kind_of old) (key_of old) = Some old \<Longrightarrow> cl_update r new w = (e, w0) \<Longrightarrow>
     call_steps r view (f e) w0 p w' \<Longrightarrow> call_steps r view (UpdateCall old new f) w p w'"
  by (rule call_steps_first, rule call_step.update)

text \<open>A round has at most one outcome.\<close>

lemma call_steps_outcome:
  assumes "call_steps r view p w (Done x) w1" "call_steps r view p w (Done y) w2"
  shows "y = x \<and> w2 = w1"
proof -
  let ?S = "\<lambda>(p, w) (p', w'). call_step r view p w p' w'"
  have "?S\<^sup>*\<^sup>* (p, w) (Done x, w1)" using assms(1) by (simp add: call_steps_def)
  moreover have "?S\<^sup>*\<^sup>* (p, w) (Done y, w2)" using assms(2) by (simp add: call_steps_def)
  ultimately show ?thesis
  proof (induction "(p, w)" arbitrary: p w rule: converse_rtranclp_induct)
    case base
    then show ?case by (cases rule: converse_rtranclpE) auto
  next
    case (step z)
    obtain p1 w1' where z: "z = (p1, w1')" by (rule prod.exhaust)
    from step(4) show ?case
    proof (cases rule: converse_rtranclpE)
      case (step z2)
      with step.hyps(1) z have "z2 = z" by (cases z2) (auto dest: call_step_unique)
      with step step.hyps(3) z show ?thesis by blast
    qed (use step.hyps(1) z in auto)
  qed
qed

lemma apply_calls_steps:
  assumes "call_steps r view (k (fst (apply_each r obs w))) (snd (apply_each r obs w)) p w'"
  shows "call_steps r view (apply_calls obs k) w p w'"
  using assms
proof (induction obs k arbitrary: w rule: apply_calls.induct)
  case (2 ob f obs k)
  obtain e w1 where e: "cl_create_or_update r ob f w = (e, w1)" by force
  with 2 show ?case unfolding apply_calls.simps
    by (intro call_steps_first [OF call_step.applied [OF e]]) (cases e; simp)
qed simp

lemma delete_calls_steps:
  assumes "call_steps r view (k (fst (delete_each r obs w))) (snd (delete_each r obs w)) p w'"
  shows "call_steps r view (delete_calls obs k) w p w'"
  using assms
proof (induction obs k arbitrary: w rule: delete_calls.induct)
  case (2 ob obs k)
  obtain e w1 where e: "cl_delete r ob w = (e, w1)" by force
  with 2 show ?case unfolding delete_calls.simps
    by (intro call_steps_first [OF call_step.delete [OF e]]) (cases e; simp)
qed simp

section \<open>Rounds for different objects, and the outside\<close>

text \<open>
  \<open>J\<close> holds the rounds that are running: the queue of a controller never hands out one object
  twice at a time. A round may be dropped at any point: it is done, or the process has stopped.
\<close>

inductive interleaved ::
  "'w client \<Rightarrow> 'w kview \<Rightarrow> ('w \<Rightarrow> 'w \<Rightarrow> bool) \<Rightarrow> ('i \<Rightarrow> 'a calls) \<Rightarrow> 'w \<Rightarrow> ('i \<Rightarrow> 'a calls option) \<Rightarrow> 'w \<Rightarrow> bool"
  for r :: "'w client" and view :: "'w kview" and outside :: "'w \<Rightarrow> 'w \<Rightarrow> bool"
    and round_of :: "'i \<Rightarrow> 'a calls" and w0 :: 'w where
  start: "interleaved r view outside round_of w0 (\<lambda>i. None) w0"
| request: "interleaved r view outside round_of w0 J w \<Longrightarrow> J i = None \<Longrightarrow>
     interleaved r view outside round_of w0 (J(i \<mapsto> round_of i)) w"
| call: "interleaved r view outside round_of w0 J w \<Longrightarrow> J i = Some p \<Longrightarrow> call_step r view p w p' w' \<Longrightarrow>
     interleaved r view outside round_of w0 (J(i \<mapsto> p')) w'"
| dropped: "interleaved r view outside round_of w0 J w \<Longrightarrow> interleaved r view outside round_of w0 (J(i := None)) w"
| outside: "interleaved r view outside round_of w0 J w \<Longrightarrow> outside w w' \<Longrightarrow> interleaved r view outside round_of w0 J w'"

text \<open>
  What a round does as long as what happens between its calls is within \<open>rely\<close>: each of its calls
  is within \<open>guar\<close> and keeps \<open>invar\<close>.
\<close>

inductive keeps ::
  "'w client \<Rightarrow> 'w kview \<Rightarrow> ('w \<Rightarrow> bool) \<Rightarrow> ('w \<Rightarrow> 'w \<Rightarrow> bool) \<Rightarrow> ('w \<Rightarrow> 'w \<Rightarrow> bool) \<Rightarrow> 'a calls \<Rightarrow> 'w \<Rightarrow> bool"
  for r :: "'w client" and view :: "'w kview" and invar :: "'w \<Rightarrow> bool" and rely guar :: "'w \<Rightarrow> 'w \<Rightarrow> bool" where
  keeps: "(\<And>w1 p' w2. rely w w1 \<Longrightarrow> invar w1 \<Longrightarrow> call_step r view p w1 p' w2 \<Longrightarrow>
     guar w1 w2 \<and> invar w2 \<and> keeps r view invar rely guar p' w2) \<Longrightarrow> keeps r view invar rely guar p w"

lemma keeps_step:
  "keeps r view invar rely guar p w \<Longrightarrow> rely w w1 \<Longrightarrow> invar w1 \<Longrightarrow> call_step r view p w1 p' w2 \<Longrightarrow>
     guar w1 w2 \<and> invar w2 \<and> keeps r view invar rely guar p' w2"
  by (erule keeps.cases) blast

lemma keeps_Done [simp]: "keeps r view invar rely guar (Done x) w"
  by (rule keeps.keeps) simp

locale interference =
  fixes invar :: "'w \<Rightarrow> bool" and rely guar :: "'i \<Rightarrow> 'w \<Rightarrow> 'w \<Rightarrow> bool" and outside :: "'w \<Rightarrow> 'w \<Rightarrow> bool"
  assumes rely_refl: "rely i w w"
    and rely_trans: "rely i w w1 \<Longrightarrow> rely i w1 w2 \<Longrightarrow> rely i w w2"
    and guar_refl: "guar i w w"
    and guar_rely: "i \<noteq> j \<Longrightarrow> guar i w w' \<Longrightarrow> rely j w w'"
    and outside_rely: "outside w w' \<Longrightarrow> rely j w w'"
    and outside_invar: "invar w \<Longrightarrow> outside w w' \<Longrightarrow> invar w'"
begin

lemma keeps_stable:
  assumes "keeps r view invar (rely i) (guar i) p w" "rely i w w1"
  shows "keeps r view invar (rely i) (guar i) p w1"
  by (rule keeps.keeps) (rule keeps_step [OF assms(1) rely_trans [OF assms(2)]])

text \<open>A read leaves the cluster alone, and an answer comes at some later moment.\<close>

lemma keeps_get:
  assumes "\<And>w1. rely i w w1 \<Longrightarrow> invar w1 \<Longrightarrow> keeps r view invar (rely i) (guar i) (f (cl_get r k n w1)) w1"
  shows "keeps r view invar (rely i) (guar i) (GetCall k n f) w"
  by (rule keeps.keeps) (auto intro: guar_refl assms)

lemma keeps_list:
  assumes "\<And>w1. rely i w w1 \<Longrightarrow> invar w1 \<Longrightarrow> keeps r view invar (rely i) (guar i) (f (cl_list r k os w1)) w1"
  shows "keeps r view invar (rely i) (guar i) (ListCall k os f) w"
  by (rule keeps.keeps) (auto intro: guar_refl assms)

text \<open>A loop of writes, under a condition that what happens around it leaves true.\<close>

lemma keeps_apply:
  assumes stable: "\<And>w w1. P w \<Longrightarrow> rely i w w1 \<Longrightarrow> P w1"
    and "\<And>ob f w1 e w2. (ob, f) \<in> set obs \<Longrightarrow> P w1 \<Longrightarrow> invar w1 \<Longrightarrow> cl_create_or_update r ob f w1 = (e, w2) \<Longrightarrow>
       guar i w1 w2 \<and> invar w2 \<and> P w2"
    and "\<And>e w1. keeps r view invar (rely i) (guar i) (k e) w1" and "P w"
  shows "keeps r view invar (rely i) (guar i) (apply_calls obs k) w"
  using assms(2-4)
proof (induction obs k arbitrary: w rule: apply_calls.induct)
  case (2 ob f obs k)
  have "guar i w1 w2 \<and> invar w2 \<and> keeps r view invar (rely i) (guar i) p' w2"
    if at: "rely i w w1" "invar w1" and step: "call_step r view (apply_calls ((ob, f) # obs) k) w1 p' w2" for w1 p' w2
  proof -
    from step obtain e where e: "cl_create_or_update r ob f w1 = (e, w2)"
      "p' = (case e of Some e \<Rightarrow> k (Some e) | None \<Rightarrow> apply_calls obs k)" by auto
    have "guar i w1 w2 \<and> invar w2 \<and> P w2"
      by (rule "2.prems"(1) [OF _ stable [OF "2.prems"(3) at(1)] at(2) e(1)]) simp
    moreover from this have "keeps r view invar (rely i) (guar i) (apply_calls obs k) w2"
      by (intro "2.IH" [OF "2.prems"(1) "2.prems"(2)]) simp_all
    ultimately show ?thesis using e(2) "2.prems"(2) by (cases e) simp_all
  qed
  then show ?case by (rule keeps.keeps)
qed simp

lemma keeps_delete:
  assumes "\<And>ob w1 e w2. ob \<in> set obs \<Longrightarrow> invar w1 \<Longrightarrow> cl_delete r ob w1 = (e, w2) \<Longrightarrow> guar i w1 w2 \<and> invar w2"
    and "\<And>e w1. keeps r view invar (rely i) (guar i) (k e) w1"
  shows "keeps r view invar (rely i) (guar i) (delete_calls obs k) w"
  using assms
proof (induction obs k arbitrary: w rule: delete_calls.induct)
  case (2 ob obs k)
  have "guar i w1 w2 \<and> invar w2 \<and> keeps r view invar (rely i) (guar i) p' w2"
    if "invar w1" and step: "call_step r view (delete_calls (ob # obs) k) w1 p' w2" for w1 p' w2
  proof -
    from step obtain e where e: "cl_delete r ob w1 = (e, w2)"
      "p' = (case e of Some e \<Rightarrow> k (Some e) | None \<Rightarrow> delete_calls obs k)" by auto
    have "guar i w1 w2 \<and> invar w2" by (rule "2.prems"(1) [OF _ that(1) e(1)]) simp
    moreover have "keeps r view invar (rely i) (guar i) (delete_calls obs k) w2"
      by (intro "2.IH" [OF "2.prems"(1) "2.prems"(2)]) simp_all
    ultimately show ?thesis using e(2) "2.prems"(2) by (cases e) simp_all
  qed
  then show ?case by (intro keeps.keeps) auto
qed simp

text \<open>Rounds that keep the invariant alone keep it together.\<close>

theorem interleaved_keeps:
  assumes "\<And>i w. invar w \<Longrightarrow> keeps r view invar (rely i) (guar i) (round_of i) w"
    and "invar w0" and "interleaved r view outside round_of w0 J w"
  shows "invar w \<and> (\<forall>i p. J i = Some p \<longrightarrow> keeps r view invar (rely i) (guar i) p w)"
  using assms(3)
proof (induction rule: interleaved.induct)
  case (call J w i p p' w')
  then have ok: "guar i w w' \<and> invar w' \<and> keeps r view invar (rely i) (guar i) p' w'"
    using keeps_step [of r view invar "rely i" "guar i" p w w] rely_refl by blast
  have "keeps r view invar (rely j) (guar j) q w'" if "J j = Some q" "j \<noteq> i" for j q
    by (rule keeps_stable [OF _ guar_rely [of i j w w']]) (use call.IH ok that in auto)
  with ok show ?case by auto
next
  case (outside J w w')
  then show ?case by (blast intro: outside_invar keeps_stable outside_rely)
qed (use assms(1,2) in auto)

end

end
