(* ===== verification/SecretRounds.thy ===== *)
theory SecretRounds
  imports SecretSync
begin

text \<open>
  Several rounds of the secret controller: the deletion of a copied secret converges, the one case
  in which it cannot, and the filter on the events that start a round.
\<close>

definition copied_from :: "nname \<Rightarrow> kobj \<Rightarrow> bool" where
  "copied_from req ob \<longleftrightarrow> labels_of ob LabelCopySourceName = Some (nn_name req)
     \<and> labels_of ob LabelCopySourceNamespace = Some (nn_namespace req)"

text \<open>What a deletion round that ends without an error did.\<close>

lemma deletion_round:
  assumes "secret_laws L r view" "wf_view view w" "view w KSecret req = Some s"
    and "finalizerOrphan \<in> set (om_finalizers (ko_meta s))" "om_deletion (ko_meta s) \<noteq> None"
    and "SecretReconcile L period r req w = ((d, None), w')"
  shows "if \<exists>n c. view w KSecret n = Some c \<and> copied_from req c
     then d = requeueAfterError \<and> (\<forall>k n. if k = KSecret \<and> (\<exists>c. view w k n = Some c \<and> copied_from req c)
            then left_behind (view w k n) (view w' k n) else view w' k n = view w k n)
     else d = 0 \<and> view w' = (view w)(KSecret := (view w KSecret)(req :=
            persisted (with_finalizers (with_labels s) (filter (\<lambda>x. x \<noteq> finalizerOrphan) (om_finalizers (ko_meta s))))))"
proof -
  from assms(1) have laws: "get_law r view" "list_law r view" "update_law r view" "delete_law r view"
      "finalizer_law L" by (simp_all add: secret_laws_def api_laws_def)
  have key: "kind_of s = KSecret" "key_of s = req" using wf_viewD [OF assms(2,3)] by auto
  have nm: "om_name (ko_meta s) = nn_name req" "om_namespace (ko_meta s) = nn_namespace req"
    using key(2) by (auto simp: key_of_def)
  let ?s = "with_labels s"
  let ?os = "[MatchingLabels (copy_labels ?s)]"
  have get: "cl_get r KSecret req w = Inr s"
  proof (cases "cl_get r KSecret req w")
    case (Inl e)
    with assms(6) have "is_not_found e" by (auto simp: SecretReconcile_def split: if_splits)
    with Inl laws(1) have "view w KSecret req = None" unfolding get_law_def by blast
    with assms(3) show ?thesis by simp
  next
    case (Inr s')
    with laws(1) assms(3) show ?thesis by (auto simp: get_law_def)
  qed
  have "secret_shouldReconcile L ?s"
    using assms(4) laws(5) by (simp add: secret_shouldReconcile_def secret_hasFinalizer_def finalizer_law_def)
  with get assms(5,6) have del: "handleDeletion L r ?s w = ((d, None), w')"
    by (simp add: SecretReconcile_def Let_def)
  then obtain copies where l: "cl_list r KSecret ?os w = Inr copies" by (auto simp: handleDeletion_def split: sum.splits)
  have match: "opts_match ?os ob \<longleftrightarrow> copied_from req ob" for ob
    by (simp add: opts_match_def copy_labels_def copied_from_def nm)
  from laws(2)[unfolded list_law_def, rule_format, OF l]
  have set: "set copies = {ob. \<exists>n. view w KSecret n = Some ob \<and> copied_from req ob}" by (simp add: match)
  show ?thesis
  proof (cases copies)
    case Nil
    let ?s2 = "with_finalizers ?s (filter (\<lambda>x. x \<noteq> finalizerOrphan) (om_finalizers (ko_meta s)))"
    from del l Nil have "d = 0" "secret_removeFinalizer L r ?s w = (None, w')"
      by (auto simp: handleDeletion_def split: prod.splits)
    then have "d = 0" "cl_update r ?s2 w = (None, w')"
      using laws(5) assms(4) by (simp_all add: secret_removeFinalizer_def finalizer_law_def)
    with laws(3)[unfolded update_law_def, rule_format, where ob = ?s2 and w = w] key
    have "d = 0" "view w' = (view w)(KSecret := (view w KSecret)(req := persisted ?s2))" by (simp_all add: Let_def)
    with set Nil show ?thesis by auto
  next
    case (Cons c cs)
    from del l Cons have run: "delete_each r copies w = (None, w')" "d = requeueAfterError"
      by (auto simp: handleDeletion_def split: prod.splits option.splits)
    have nm: "named_in copies k n \<longleftrightarrow> k = KSecret \<and> (\<exists>c. view w k n = Some c \<and> copied_from req c)" for k n
    proof -
      have "ob \<in> set copies \<and> kind_of ob = k \<and> key_of ob = n
          \<longleftrightarrow> k = KSecret \<and> view w KSecret n = Some ob \<and> copied_from req ob" for ob
        using set wf_viewD [OF assms(2), of KSecret _ ob] by auto
      then show ?thesis unfolding named_in_iff by metis
    qed
    have "c \<in> set copies" using Cons by simp
    then have "\<exists>n c. view w KSecret n = Some c \<and> copied_from req c" unfolding set by blast
    with delete_each_ok [OF laws(4) run(1)] run(2) show ?thesis by (simp add: nm)
  qed
qed

text \<open>A deleted secret that was released already is left alone.\<close>

lemma idle_round:
  assumes "secret_laws L r view" "SecretReconcile L period r req w = (res, w')"
    and "\<forall>s. view w KSecret req = Some s \<longrightarrow> key_of s = req \<and> om_deletion (ko_meta s) \<noteq> None
        \<and> finalizerOrphan \<notin> set (om_finalizers (ko_meta s))"
    and "\<forall>n c. view w KSecret n = Some c \<longrightarrow> \<not> copied_from req c"
  shows "w' = w"
proof (cases "cl_get r KSecret req w")
  case (Inl e)
  with assms(2) show ?thesis by (auto simp: SecretReconcile_def split: if_splits)
next
  case (Inr s)
  from assms(1) have laws: "get_law r view" "list_law r view" "finalizer_law L" by (simp_all add: secret_laws_def api_laws_def)
  have v: "view w KSecret req = Some s" using laws(1) Inr unfolding get_law_def by blast
  with assms(3) have s: "key_of s = req" "om_deletion (ko_meta s) \<noteq> None" "finalizerOrphan \<notin> set (om_finalizers (ko_meta s))" by auto
  then have nm: "om_name (ko_meta s) = nn_name req" "om_namespace (ko_meta s) = nn_namespace req" by (auto simp: key_of_def)
  let ?s = "with_labels s"
  let ?os = "[MatchingLabels (copy_labels ?s)]"
  have match: "opts_match ?os ob \<longleftrightarrow> copied_from req ob" for ob
    by (simp add: opts_match_def copy_labels_def copied_from_def nm)
  have rem: "secret_removeFinalizer L r ?s w = (None, w)"
    using laws(3) s(3) by (simp add: secret_removeFinalizer_def finalizer_law_def)
  show ?thesis
  proof (cases "cl_list r KSecret ?os w")
    case (Inl e)
    with Inr assms(2) s(2) show ?thesis by (auto simp: SecretReconcile_def handleDeletion_def Let_def split: if_splits)
  next
    case l: (Inr copies)
    from laws(2)[unfolded list_law_def, rule_format, OF l]
    have "set copies = {ob. \<exists>n. view w KSecret n = Some ob \<and> copied_from req ob}" by (simp add: match)
    also have "\<dots> = {}" using assms(4) by (simp only: Collect_empty_eq) metis
    finally have "copies = []" by simp
    with l Inr assms(2) s(2) rem show ?thesis by (auto simp: SecretReconcile_def handleDeletion_def Let_def split: if_splits)
  qed
qed

text \<open>
  C20. The deletion of a copied secret converges in two rounds: when the copies carry no finalizers
  of their own and the secret is not its own copy, two rounds that end without an error leave no copy in
  any namespace and the secret without the orphan finalizer; a secret with no other finalizer is
  gone.
\<close>

theorem SecretReconcile_deletion_converges:
  assumes "secret_laws L r view" "wf_view view w" "view w KSecret req = Some s"
    and "finalizerOrphan \<in> set (om_finalizers (ko_meta s))" "om_deletion (ko_meta s) \<noteq> None"
    and "\<forall>n c. view w KSecret n = Some c \<and> copied_from req c \<longrightarrow> n \<noteq> req \<and> om_finalizers (ko_meta c) = []"
    and "SecretReconcile L period r req w = ((d1, None), w1)"
    and "SecretReconcile L period r req w1 = ((d2, None), w2)"
  shows "(\<forall>n c. view w2 KSecret n = Some c \<longrightarrow> \<not> copied_from req c)
    \<and> (case view w2 KSecret req of
          None \<Rightarrow> True
        | Some s' \<Rightarrow> finalizerOrphan \<notin> set (om_finalizers (ko_meta s')) \<and> om_finalizers (ko_meta s) \<noteq> [finalizerOrphan])"
proof -
  from assms(1) have laws: "finalizer_law L" by (simp add: secret_laws_def)
  let ?rest = "filter (\<lambda>x. x \<noteq> finalizerOrphan) (om_finalizers (ko_meta s))"
  let ?freed = "with_finalizers (with_labels s) ?rest"
  have key: "kind_of s = KSecret" "key_of s = req" using wf_viewD [OF assms(2,3)] by auto
  have self: "\<not> copied_from req s" using assms(3,6) by blast
  have freed: "\<not> copied_from req ?freed" "key_of ?freed = req" "om_deletion (ko_meta ?freed) \<noteq> None"
    "om_finalizers (ko_meta ?freed) = ?rest"
    using self key assms(5) by (simp_all add: copied_from_def)
  have only: "?rest = [] \<or> om_finalizers (ko_meta s) \<noteq> [finalizerOrphan]" by auto
  have free: "(\<forall>n c. view v' KSecret n = Some c \<longrightarrow> \<not> copied_from req c)
      \<and> (case view v' KSecret req of
          None \<Rightarrow> True
        | Some s' \<Rightarrow> s' = ?freed \<and> finalizerOrphan \<notin> set (om_finalizers (ko_meta s')) \<and> om_finalizers (ko_meta s) \<noteq> [finalizerOrphan])"
    if "\<forall>n c. view v KSecret n = Some c \<longrightarrow> \<not> copied_from req c"
      "view v' = (view v)(KSecret := (view v KSecret)(req := persisted ?freed))" for v v'
    using that freed only by (auto simp: persisted_def)
  show ?thesis
  proof (cases "\<exists>n c. view w KSecret n = Some c \<and> copied_from req c")
    case False
    with deletion_round [OF assms(1-5,7)] have "view w1 = (view w)(KSecret := (view w KSecret)(req := persisted ?freed))" by simp
    from free [OF _ this] False have f: "\<forall>n c. view w1 KSecret n = Some c \<longrightarrow> \<not> copied_from req c"
      "case view w1 KSecret req of None \<Rightarrow> True
        | Some s' \<Rightarrow> s' = ?freed \<and> finalizerOrphan \<notin> set (om_finalizers (ko_meta s')) \<and> om_finalizers (ko_meta s) \<noteq> [finalizerOrphan]"
      by auto
    have "w2 = w1"
      by (rule idle_round [OF assms(1,8)]) (use f freed in \<open>auto split: option.splits\<close>)
    with f show ?thesis by (auto split: option.splits)
  next
    case True
    from deletion_round [OF assms(1-5,7), unfolded if_P [OF True]] have r1: "if k = KSecret \<and> (\<exists>c. view w k n = Some c \<and> copied_from req c)
            then left_behind (view w k n) (view w1 k n) else view w1 k n = view w k n" for k n by blast
    have copies: "view w1 KSecret n = None" if "view w KSecret n = Some c" "copied_from req c" for n c
      using r1 [of KSecret n] that assms(6) by (auto simp: left_behind_def)
    have rest: "view w1 k n = view w k n" if "\<not> (k = KSecret \<and> (\<exists>c. view w k n = Some c \<and> copied_from req c))" for k n
      using r1 [of k n] that by simp
    have s1: "view w1 KSecret req = Some s" using rest [of KSecret req] self assms(3) by simp
    have none: "\<forall>n c. view w1 KSecret n = Some c \<longrightarrow> \<not> copied_from req c"
    proof (intro allI impI)
      fix n c assume c: "view w1 KSecret n = Some c"
      show "\<not> copied_from req c"
      proof (cases "\<exists>c'. view w KSecret n = Some c' \<and> copied_from req c'")
        case True
        with copies c show ?thesis by auto
      next
        case False
        with rest [of KSecret n] c show ?thesis by auto
      qed
    qed
    have wf1: "wf_view view w1"
      unfolding wf_view_def
    proof (intro allI impI)
      fix k n ob assume ob: "view w1 k n = Some ob"
      have "\<not> (k = KSecret \<and> (\<exists>c. view w k n = Some c \<and> copied_from req c))" using ob copies by auto
      then have "view w1 k n = view w k n" by (rule rest)
      with ob wf_viewD [OF assms(2)] show "kind_of ob = k \<and> key_of ob = n" by simp
    qed
    from deletion_round [OF assms(1) wf1 s1 assms(4,5,8)] none
    have "view w2 = (view w1)(KSecret := (view w1 KSecret)(req := persisted ?freed))" by (simp split: if_splits)
    from free [OF none this] show ?thesis by (auto split: option.splits)
  qed
qed

text \<open>
  A secret in a namespace of a control plane that is itself labelled for copying becomes its own
  copy. Once it is being deleted, every round finds a copy, and it is never released.
\<close>

lemma own_copy_never_released:
  assumes "secret_laws L r view" "wf_view view w" "view w KSecret req = Some s" "copied_from req s"
    and "finalizerOrphan \<in> set (om_finalizers (ko_meta s))" "om_deletion (ko_meta s) \<noteq> None"
    and "SecretReconcile L period r req w = ((d, None), w')"
  shows "\<exists>s'. view w' KSecret req = Some s' \<and> om_finalizers (ko_meta s') = om_finalizers (ko_meta s)"
proof -
  have own: "\<exists>n c. view w KSecret n = Some c \<and> copied_from req c" using assms(3,4) by blast
  from deletion_round [OF assms(1-3,5,6,7), unfolded if_P [OF own]]
  have "if KSecret = KSecret \<and> (\<exists>c. view w KSecret req = Some c \<and> copied_from req c)
      then left_behind (view w KSecret req) (view w' KSecret req) else view w' KSecret req = view w KSecret req" by blast
  with assms(3,4) have "left_behind (view w KSecret req) (view w' KSecret req)" by simp
  with assms(3,5) show ?thesis by (auto simp: left_behind_def split: if_splits)
qed

definition demo_copy_key :: nname where
  "demo_copy_key = \<lparr> nn_namespace = ''cp-a'', nn_name = ''pull'' \<rparr>"

definition demo_copy :: kobj where
  "demo_copy = \<lparr> ko_meta = (empty_meta ''cp-a'' ''pull'')\<lparr>om_labels := Some [LabelCopySourceName \<mapsto> ''pull'',
      LabelCopySourceNamespace \<mapsto> ''ns'']\<rparr>, ko_body = BSecret \<lparr> se_type = ''t'', se_data = None \<rparr> \<rparr>"

definition copied_store :: store where
  "copied_store = [((KSecret, demo_copy_key), demo_copy), ((KSecret, demo_secret_key), demo_secret True)]"

lemma copied_store_runs:
  "SecretReconcile doc_libs 5 store_client demo_secret_key copied_store
     = ((requeueAfterError, None), [((KSecret, demo_secret_key), demo_secret True)])"
  "SecretReconcile doc_libs 5 store_client demo_secret_key [((KSecret, demo_secret_key), demo_secret True)] = ((0, None), [])"
proof -
  have keys: "demo_copy_key \<noteq> demo_secret_key" by (simp add: demo_copy_key_def demo_secret_key_def)
  have copy: "kind_of demo_copy = KSecret" "key_of demo_copy = demo_copy_key" "om_finalizers (ko_meta demo_copy) = []"
    by (simp_all add: demo_copy_def kind_of_def key_of_def empty_meta_def demo_copy_key_def)
  have s: "with_labels (demo_secret True) = demo_secret True" by (simp add: with_labels_def demo_secret_def)
  have lab: "opts_match [MatchingLabels (copy_labels (demo_secret True))] demo_copy"
    "\<not> opts_match [MatchingLabels (copy_labels (demo_secret True))] (demo_secret True)"
    by (simp_all add: opts_match_def copy_labels_def demo_secret_def demo_copy_def labels_of_def empty_meta_def
        LabelCopySourceName_def LabelCopySourceNamespace_def LabelCopyToCPNamespace_def)
  note run = SecretReconcile_def handleDeletion_def Let_def s secret_shouldReconcile_def store_client_def st_get_def st_list_def
  show "SecretReconcile doc_libs 5 store_client demo_secret_key copied_store
     = ((requeueAfterError, None), [((KSecret, demo_secret_key), demo_secret True)])"
    using keys by (simp add: run copied_store_def lab st_delete_def copy st_mark_def)
  have f: "om_finalizers (ko_meta (demo_secret True)) = [finalizerOrphan]" by (simp add: demo_secret_def)
  show "SecretReconcile doc_libs 5 store_client demo_secret_key [((KSecret, demo_secret_key), demo_secret True)] = ((0, None), [])"
    by (simp add: run lab secret_removeFinalizer_def doc_libs_def f st_update_def persisted_def demo_secret_key_of)
qed

lemma SecretReconcile_deletion_converges_witness:
  "\<exists>w1 w2. SecretReconcile doc_libs 5 store_client demo_secret_key copied_store = ((requeueAfterError, None), w1)
     \<and> SecretReconcile doc_libs 5 store_client demo_secret_key w1 = ((0, None), w2)
     \<and> store_view w2 KSecret demo_secret_key = None \<and> store_view copied_store KSecret demo_copy_key \<noteq> None"
proof -
  have keys: "demo_copy_key \<noteq> demo_secret_key" by (simp add: demo_copy_key_def demo_secret_key_def)
  have copy: "kind_of demo_copy = KSecret" "key_of demo_copy = demo_copy_key"
    by (simp_all add: demo_copy_def kind_of_def key_of_def empty_meta_def demo_copy_key_def)
  have wf: "wf_view store_view copied_store"
    by (simp add: copied_store_def copy demo_secret_key_of)
  have v: "store_view copied_store KSecret demo_secret_key = Some (demo_secret True)"
    "store_view copied_store KSecret demo_copy_key = Some demo_copy"
    using keys by (simp_all add: copied_store_def store_view_def)
  have own: "\<not> copied_from demo_secret_key (demo_secret True)"
    by (simp add: copied_from_def demo_secret_def labels_of_def LabelCopySourceName_def LabelCopyToCPNamespace_def)
  have others: "\<forall>n c. store_view copied_store KSecret n = Some c \<and> copied_from demo_secret_key c \<longrightarrow>
      n \<noteq> demo_secret_key \<and> om_finalizers (ko_meta c) = []"
    using own keys by (auto simp: copied_store_def store_view_def demo_copy_def empty_meta_def split: if_splits)
  have del: "om_deletion (ko_meta (demo_secret True)) \<noteq> None" "om_finalizers (ko_meta (demo_secret True)) = [finalizerOrphan]"
    by (simp_all add: demo_secret_def)
  from SecretReconcile_deletion_converges [OF doc_secret_laws wf v(1) secret_store_simps(6) del(1) others copied_store_runs]
  have "store_view [] KSecret demo_secret_key = None" using del(2) by (auto split: option.splits)
  with copied_store_runs v(2) show ?thesis by auto
qed

section \<open>Which events lead to a round (utils.go, buildFilterPredicate)\<close>

text \<open>The events of a watch, and the predicate that decides about them.\<close>

datatype 'o object_event = CreateEvent 'o | DeleteEvent 'o | GenericEvent 'o | UpdateEvent 'o 'o

fun filterObjectPredicate :: "('o \<Rightarrow> bool) \<Rightarrow> 'o object_event \<Rightarrow> bool" where
  "filterObjectPredicate filterFunc (CreateEvent ob) = filterFunc ob"
| "filterObjectPredicate filterFunc (DeleteEvent ob) = filterFunc ob"
| "filterObjectPredicate filterFunc (GenericEvent ob) = filterFunc ob"
| "filterObjectPredicate filterFunc (UpdateEvent old new) = (filterFunc new \<or> filterFunc old)"

definition buildFilterPredicate :: "libs \<Rightarrow> kobj object_event \<Rightarrow> bool" where
  "buildFilterPredicate L = filterObjectPredicate (secret_shouldReconcile L)"

fun event_object :: "'o object_event \<Rightarrow> 'o" where
  "event_object (CreateEvent ob) = ob"
| "event_object (DeleteEvent ob) = ob"
| "event_object (GenericEvent ob) = ob"
| "event_object (UpdateEvent old new) = new"

lemma passes_for_object: "f (event_object ev) \<Longrightarrow> filterObjectPredicate f ev"
  by (cases ev) auto

text \<open>
  No event that matters is filtered out: if the predicate drops an event, the round it would
  have caused changes nothing, on any cluster that still stores the object of the event or no
  longer has it, and ends without an error when the object can be read. In particular an update that removes the label from a copied secret passes.
\<close>

theorem dropped_events_are_idle:
  assumes "\<not> buildFilterPredicate L ev" "get_law r view"
    and "view w KSecret req = None \<or> view w KSecret req = Some (event_object ev)"
  shows "snd (SecretReconcile L period r req w) = w"
    and "cl_get r KSecret req w = Inr ob \<Longrightarrow> SecretReconcile L period r req w = ((0, None), w)"
proof -
  have "secret_shouldReconcile L (with_labels x) = secret_shouldReconcile L x" for x
    by (simp add: secret_shouldReconcile_def secret_hasFinalizer_def)
  with assms(1) have idle: "\<not> secret_shouldReconcile L (with_labels (event_object ev))"
    using passes_for_object by (auto simp: buildFilterPredicate_def)
  have read: "SecretReconcile L period r req w = ((0, None), w)" if "cl_get r KSecret req w = Inr x" for x
  proof -
    from that assms(2,3) have "x = event_object ev" by (auto simp: get_law_def)
    with that idle show ?thesis by (simp add: SecretReconcile_def)
  qed
  then show "cl_get r KSecret req w = Inr ob \<Longrightarrow> SecretReconcile L period r req w = ((0, None), w)" .
  show "snd (SecretReconcile L period r req w) = w"
  proof (cases "cl_get r KSecret req w")
    case (Inl e)
    then show ?thesis by (simp add: SecretReconcile_def)
  qed (simp add: read)
qed

lemma dropped_events_are_idle_witness:
  "\<not> buildFilterPredicate doc_libs (UpdateEvent demo_copy demo_copy)
   \<and> buildFilterPredicate doc_libs (UpdateEvent (demo_secret True) demo_copy)
   \<and> SecretReconcile doc_libs 5 store_client demo_copy_key [((KSecret, demo_copy_key), demo_copy)]
       = ((0, None), [((KSecret, demo_copy_key), demo_copy)])"
proof -
  have drop: "\<not> buildFilterPredicate doc_libs (UpdateEvent demo_copy demo_copy)"
    by (simp add: buildFilterPredicate_def secret_shouldReconcile_def secret_hasFinalizer_def demo_copy_def
        labels_of_def empty_meta_def doc_libs_def)
  have pass: "buildFilterPredicate doc_libs (UpdateEvent (demo_secret True) demo_copy)"
    by (simp add: buildFilterPredicate_def secret_shouldReconcile_def demo_secret_def labels_of_def)
  have v: "store_view [((KSecret, demo_copy_key), demo_copy)] KSecret demo_copy_key
      = Some (event_object (UpdateEvent demo_copy demo_copy))" by (simp add: store_view_def)
  have get: "cl_get store_client KSecret demo_copy_key [((KSecret, demo_copy_key), demo_copy)] = Inr demo_copy"
    by (simp add: store_client_def st_get_def)
  from dropped_events_are_idle(2) [OF drop store_api_laws(1) disjI2 [OF v] get] drop pass show ?thesis by blast
qed

end
