(* ===== verification/SecretInterleaving.thy ===== *)
theory SecretInterleaving
  imports Interleaving SecretRounds
begin

text \<open>
  The secret controller at the granularity of its API calls: rounds for different secrets run
  interleaved with each other, with users and with other controllers, updates are refused when the
  secret has changed, and the process may stop between any two calls. No copy ever loses its source.
\<close>

section \<open>The round as calls\<close>

definition deletion_calls :: "libs \<Rightarrow> kobj \<Rightarrow> kobj \<Rightarrow> (int \<times> err option) calls" where
  "deletion_calls L found secret =
     ListCall KSecret [MatchingLabels (copy_labels secret)] (\<lambda>a. case a of
        Inl e \<Rightarrow> Done (0, Some e)
      | Inr copies \<Rightarrow>
          if length copies = 0
          then (case lib_remove_finalizer L (om_finalizers (ko_meta secret)) finalizerOrphan of
                  (updated, fs) \<Rightarrow>
                    if updated then UpdateCall found (with_finalizers secret fs) (\<lambda>e. Done (0, e)) else Done (0, None))
          else delete_calls copies (\<lambda>a. case a of
                  Some e \<Rightarrow> Done (0, Some (Join [errFailedToDeleteCopy, e]))
                | None \<Rightarrow> Done (requeueAfterError, None)))"

definition sync_calls :: "libs \<Rightarrow> int \<Rightarrow> kobj \<Rightarrow> (int \<times> err option) calls" where
  "sync_calls L reconcilePeriod secret =
     ListCall KNamespace [] (\<lambda>a. case a of
        Inl e \<Rightarrow> Done (0, Some e)
      | Inr namespaces \<Rightarrow> apply_calls (copies_for L secret namespaces) (\<lambda>a. case a of
            Some e \<Rightarrow> Done (0, Some (Join [errFailedToCopySecret, e]))
          | None \<Rightarrow> Done (reconcilePeriod, None)))"

definition secret_calls :: "libs \<Rightarrow> int \<Rightarrow> nname \<Rightarrow> (int \<times> err option) calls" where
  "secret_calls L reconcilePeriod req =
     GetCall KSecret req (\<lambda>a. case a of
        Inl e \<Rightarrow> if is_not_found e then Done (0, None) else Done (0, Some e)
      | Inr found \<Rightarrow>
          (let secret = with_labels found
           in if \<not> secret_shouldReconcile L secret then Done (0, None)
              else if om_deletion (ko_meta secret) \<noteq> None \<or> labels_of secret LabelCopyToCPNamespace \<noteq> Some ''true''
              then deletion_calls L found secret
              else (case lib_add_finalizer L (om_finalizers (ko_meta secret)) finalizerOrphan of
                      (updated, fs) \<Rightarrow>
                        if updated
                        then UpdateCall found (with_finalizers secret fs) (\<lambda>a. case a of
                               Some e \<Rightarrow> Done (0, Some e)
                             | None \<Rightarrow> sync_calls L reconcilePeriod secret)
                        else sync_calls L reconcilePeriod secret)))"

section \<open>Undisturbed, the calls are the round\<close>

lemma sync_steps:
  "handleSync L period r secret w = (res, w') \<Longrightarrow> call_steps r view (sync_calls L period secret) w (Done res) w'"
  unfolding sync_calls_def
  by (rule call_steps_first [OF call_step.list])
     (auto simp: handleSync_def split: sum.splits prod.splits option.splits intro!: apply_calls_steps)

lemma deletion_steps:
  assumes "handleDeletion L r (with_labels found) w = (res, w')" "view w (kind_of found) (key_of found) = Some found"
  shows "call_steps r view (deletion_calls L found (with_labels found)) w (Done res) w'"
  unfolding deletion_calls_def
  by (rule call_steps_first [OF call_step.list])
     (use assms(1) in \<open>auto simp: handleDeletion_def secret_removeFinalizer_def
        split: sum.splits prod.splits option.splits if_splits intro!: delete_calls_steps update_steps [of view, OF assms(2)]\<close>)

lemma undisturbed_steps:
  assumes "get_law r view" "kind_filed view KSecret w" "SecretReconcile L period r req w = (res, w')"
  shows "call_steps r view (secret_calls L period req) w (Done res) w'"
proof -
  show ?thesis
    unfolding secret_calls_def
  proof (rule call_steps_first [OF call_step.get])
    show "call_steps r view (case cl_get r KSecret req w of
        Inl e \<Rightarrow> if is_not_found e then Done (0, None) else Done (0, Some e)
      | Inr found \<Rightarrow>
          (let secret = with_labels found
           in if \<not> secret_shouldReconcile L secret then Done (0, None)
              else if om_deletion (ko_meta secret) \<noteq> None \<or> labels_of secret LabelCopyToCPNamespace \<noteq> Some ''true''
              then deletion_calls L found secret
              else (case lib_add_finalizer L (om_finalizers (ko_meta secret)) finalizerOrphan of
                      (updated, fs) \<Rightarrow>
                        if updated
                        then UpdateCall found (with_finalizers secret fs) (\<lambda>a. case a of
                               Some e \<Rightarrow> Done (0, Some e)
                             | None \<Rightarrow> sync_calls L period secret)
                        else sync_calls L period secret))) w (Done res) w'"
    proof (cases "cl_get r KSecret req w")
      case (Inr found)
      with assms(1) have at: "view w KSecret req = Some found" unfolding get_law_def by blast
      with kind_filedD [OF assms(2) at] have found: "view w (kind_of found) (key_of found) = Some found" by simp
      from Inr assms(3) found show ?thesis
        by (auto simp: SecretReconcile_def Let_def secret_ensureFinalizer_def split: if_splits prod.splits option.splits
            intro!: deletion_steps sync_steps update_steps)
    qed (use assms(3) in \<open>auto simp: SecretReconcile_def split: if_splits\<close>)
  qed
qed


section \<open>What a round may rely on, and what it guarantees\<close>

definition copied :: "'w kview \<Rightarrow> nname \<Rightarrow> 'w \<Rightarrow> bool" where
  "copied view q w \<longleftrightarrow> (\<exists>n c. view w KSecret n = Some c \<and> copied_from q c)"

definition owned :: "'w kview \<Rightarrow> nname \<Rightarrow> 'w \<Rightarrow> bool" where
  "owned view q w \<longleftrightarrow> (\<exists>s. view w KSecret q = Some s \<and> finalizerOrphan \<in> set (om_finalizers (ko_meta s)))"

text \<open>
  A change that heeds the secrets \<open>q\<close> with \<open>Q q\<close>: no first copy of one appears, and the orphan
  finalizer stays where it is. Everything else may happen: secrets are created, relabelled, marked
  for deletion, copies are changed and deleted, namespaces come and go.
\<close>

definition heeds :: "'w kview \<Rightarrow> (nname \<Rightarrow> bool) \<Rightarrow> 'w \<Rightarrow> 'w \<Rightarrow> bool" where
  "heeds view Q w w' \<longleftrightarrow> (kind_filed view KSecret w \<longrightarrow> kind_filed view KSecret w')
     \<and> (\<forall>q. Q q \<longrightarrow> (copied view q w' \<longrightarrow> copied view q w) \<and> (owned view q w \<longrightarrow> owned view q w'))"

definition copies_owned :: "'w kview \<Rightarrow> 'w \<Rightarrow> bool" where
  "copies_owned view w \<longleftrightarrow> kind_filed view KSecret w \<and> (\<forall>q. copied view q w \<longrightarrow> owned view q w)"

interpretation secrets: interference "copies_owned view" "\<lambda>req. heeds view (\<lambda>q. q = req)"
    "\<lambda>req. heeds view (\<lambda>q. q \<noteq> req)" "heeds view (\<lambda>q. True)" for view :: "'w kview"
  by unfold_locales (auto simp: heeds_def copies_owned_def)

lemma copied_fromD: "copied_from q c \<Longrightarrow> copied_from req c \<Longrightarrow> q = req"
  by (simp add: copied_from_def)

text \<open>A call that changes one secret.\<close>

lemma one_secret_changed:
  assumes "copies_owned view w" "\<And>k n. (k, n) \<noteq> (KSecret, at) \<Longrightarrow> view w' k n = view w k n"
    and wf: "\<And>ob. view w' KSecret at = Some ob \<Longrightarrow> kind_of ob = KSecret \<and> key_of ob = at"
    and copy: "\<And>ob q. view w' KSecret at = Some ob \<Longrightarrow> copied_from q ob \<Longrightarrow> copied view q w \<or> q = req \<and> owned view req w'"
    and own: "owned view at w \<Longrightarrow> owned view at w' \<or> at = req \<and> \<not> copied view req w'"
  shows "heeds view (\<lambda>q. q \<noteq> req) w w' \<and> copies_owned view w'"
proof -
  have wf': "kind_filed view KSecret w'" unfolding kind_filed_def
  proof (intro allI impI)
    fix n ob assume ob: "view w' KSecret n = Some ob"
    show "kind_of ob = KSecret \<and> key_of ob = n"
      by (cases "n = at") (use ob wf assms(1,2) in \<open>auto simp: copies_owned_def dest: kind_filedD\<close>)
  qed
  have c: "copied view q w \<or> q = req \<and> owned view req w'" if "copied view q w'" for q
  proof -
    from that obtain n c where n: "view w' KSecret n = Some c" "copied_from q c" by (auto simp: copied_def)
    show ?thesis
      by (cases "n = at") (use n copy assms(2) in \<open>auto simp: copied_def\<close>)
  qed
  have o: "owned view q w'" if "owned view q w" "q = at \<Longrightarrow> \<not> (at = req \<and> \<not> copied view req w')" for q
    by (cases "q = at") (use that own assms(2) in \<open>auto simp: owned_def\<close>)
  show ?thesis
    using wf' c o assms(1) unfolding heeds_def copies_owned_def by blast
qed

lemma nothing_changed:
  "copies_owned view w \<Longrightarrow> view w' = view w \<Longrightarrow> heeds view Q w w' \<and> copies_owned view w'"
  by (simp add: heeds_def copies_owned_def kind_filed_def copied_def owned_def)

lemma copy_mutate_identity:
  assumes "meta_label_law L" "copy_mutate L secret b = Inr copy"
  shows "kind_of copy = KSecret" "key_of copy = key_of b"
proof -
  have "kind_of (b\<lparr>ko_body := BSecret s\<rparr>) = KSecret" "key_of (b\<lparr>ko_body := BSecret s\<rparr>) = key_of b" for s
    by (simp_all add: kind_of_def key_of_def)
  with assms show "kind_of copy = KSecret" "key_of copy = key_of b"
    by (auto simp: copy_mutate_def Let_def meta_label_law_def)
qed

lemma copy_write:
  assumes "cou_law r view" "meta_label_law L" "copies_owned view w" "owned view req w" "key_of secret = req"
    and "(ob, f) \<in> set (copies_for L secret nss)" "cl_create_or_update r ob f w = (e, w')"
  shows "heeds view (\<lambda>q. q \<noteq> req) w w' \<and> copies_owned view w' \<and> owned view req w'"
proof (cases e)
  case None
  from assms(6) obtain ns where ob: "ob = new_obj ns (om_name (ko_meta secret)) (BSecret \<lparr> se_type = [], se_data = None \<rparr>)"
    "f = copy_mutate L secret" by (auto simp: copies_for_def)
  let ?base = "case view w KSecret (key_of ob) of Some cur \<Rightarrow> cur | None \<Rightarrow> ob"
  from cou_law_ok [OF assms(1) assms(7) [unfolded None]] obtain ob' where
    new: "copy_mutate L secret ?base = Inr ob'" "view w' = (view w)(KSecret := (view w KSecret)(key_of ob \<mapsto> ob'))"
    by (auto simp: ob)
  have base: "key_of ?base = key_of ob"
    using assms(3) by (auto simp: copies_owned_def split: option.splits dest: kind_filedD)
  have id: "kind_of ob' = KSecret" "key_of ob' = key_of ob"
    using copy_mutate_identity [OF assms(2) new(1)] base by auto
  have fin: "om_finalizers (ko_meta ob') = om_finalizers (ko_meta ?base)" and "copy_of secret ob'"
    using copy_mutate_ok [OF assms(2) new(1)] by auto
  then have cp: "copied_from req ob'" using assms(5) by (auto simp: copy_of_def copy_labels_def copied_from_def key_of_def)
  have own: "owned view q w \<Longrightarrow> owned view q w'" for q
    using fin by (auto simp: owned_def new(2))
  have "heeds view (\<lambda>q. q \<noteq> req) w w' \<and> copies_owned view w'"
  proof (rule one_secret_changed [OF assms(3)])
    show "view w' k n = view w k n" if "(k, n) \<noteq> (KSecret, key_of ob)" for k n using that by (auto simp: new(2))
    show "kind_of x = KSecret \<and> key_of x = key_of ob" if "view w' KSecret (key_of ob) = Some x" for x
      using that id by (simp add: new(2))
    show "copied view q w \<or> q = req \<and> owned view req w'" if "view w' KSecret (key_of ob) = Some x" "copied_from q x" for x q
      using that cp own [OF assms(4)] by (auto simp: new(2) dest: copied_fromD)
  qed (use own in blast)
  with own [OF assms(4)] show ?thesis by blast
next
  case (Some x)
  from nothing_changed [OF assms(3) cou_law_err [OF assms(1) assms(7) [unfolded Some]]] assms(4)
    cou_law_err [OF assms(1) assms(7) [unfolded Some]]
  show ?thesis by (auto simp: owned_def)
qed

lemma copy_delete:
  assumes "delete_law r view" "copies_owned view w" "kind_of ob = KSecret" "cl_delete r ob w = (e, w')"
  shows "heeds view (\<lambda>q. q \<noteq> req) w w' \<and> copies_owned view w'"
proof (cases e)
  case None
  have eff: "if KSecret = k \<and> key_of ob = n then left_behind (view w k n) (view w' k n) else view w' k n = view w k n" for k n
    using delete_law_ok [OF assms(1) assms(4) [unfolded None], of k n] assms(3) by simp
  let ?n = "key_of ob"
  have left: "left_behind (view w KSecret ?n) (view w' KSecret ?n)" using eff [of KSecret ?n] by simp
  have old: "\<exists>ob. view w KSecret ?n = Some ob \<and> kind_of x = kind_of ob \<and> key_of x = key_of ob \<and> labels_of x = labels_of ob"
    if "view w' KSecret ?n = Some x" for x
    using left that by (auto simp: left_behind_def kind_of_def key_of_def labels_of_def split: option.splits if_splits)
  show ?thesis
  proof (rule one_secret_changed [OF assms(2)])
    show "view w' k n = view w k n" if "(k, n) \<noteq> (KSecret, ?n)" for k n
      using eff [of k n] that by (auto split: if_splits)
    show "kind_of x = KSecret \<and> key_of x = ?n" if "view w' KSecret ?n = Some x" for x
      using old [OF that] assms(2) by (auto simp: copies_owned_def dest: kind_filedD)
    show "copied view q w \<or> q = req \<and> owned view req w'" if "view w' KSecret ?n = Some x" "copied_from q x" for x q
      using old [OF that(1)] that(2) by (auto simp: copied_def copied_from_def)
    show "owned view ?n w' \<or> ?n = req \<and> \<not> copied view req w'" if "owned view ?n w"
      using that left by (auto simp: owned_def left_behind_def split: if_splits)
  qed
next
  case (Some x)
  from nothing_changed [OF assms(2) delete_law_err [OF assms(1) assms(4) [unfolded Some]]] show ?thesis .
qed

text \<open>Writing the finalizers of the secret that was read: it keeps its labels.\<close>

lemma update_law_cases:
  assumes "update_law r view" "cl_update r ob w = (e, w')"
  shows "view w' = (if e = None then (view w)(kind_of ob := (view w (kind_of ob))(key_of ob := persisted ob)) else view w)"
  using assms(1)[unfolded update_law_def, rule_format, where ob = ob and w = w] assms(2)
  by (cases e) (auto simp: Let_def)

lemma finalizers_write:
  assumes "update_law r view" "copies_owned view w" "view w KSecret req = Some found"
    and "cl_update r (with_finalizers (with_labels found) fs) w = (e, w')"
    and "finalizerOrphan \<in> set fs \<or> \<not> copied view req w"
  shows "heeds view (\<lambda>q. q \<noteq> req) w w' \<and> copies_owned view w'
     \<and> (finalizerOrphan \<in> set fs \<longrightarrow> e = None \<longrightarrow> owned view req w')"
proof (cases e)
  case None
  let ?new = "with_finalizers (with_labels found) fs"
  have found: "kind_of found = KSecret" "key_of found = req" using assms(2,3) by (auto simp: copies_owned_def dest: kind_filedD)
  then have id: "kind_of ?new = KSecret" "key_of ?new = req" "labels_of ?new = labels_of found" by simp_all
  have v: "view w' = (view w)(KSecret := (view w KSecret)(req := persisted ?new))"
    using update_law_cases [OF assms(1,4)] None found by simp
  have fin: "om_finalizers (ko_meta ?new) = fs" by (simp add: with_finalizers_def)
  have own: "owned view req w'" if "finalizerOrphan \<in> set fs"
    using that fin by (auto simp: owned_def v persisted_def)
  have "heeds view (\<lambda>q. q \<noteq> req) w w' \<and> copies_owned view w'"
  proof (rule one_secret_changed [OF assms(2)])
    show "view w' k n = view w k n" if "(k, n) \<noteq> (KSecret, req)" for k n using that by (auto simp: v)
    show "kind_of x = KSecret \<and> key_of x = req" if "view w' KSecret req = Some x" for x
      using that id by (auto simp: v persisted_def split: if_splits)
    have before: "copied view q w" if "copied view q w'" for q
      using that assms(3) id(3) by (auto simp: copied_def v persisted_def copied_from_def split: if_splits)
    show "copied view q w \<or> q = req \<and> owned view req w'" if "view w' KSecret req = Some x" "copied_from q x" for x q
      using before that by (auto simp: copied_def)
    show "owned view req w' \<or> req = req \<and> \<not> copied view req w'"
      using own before assms(5) by blast
  qed
  with own show ?thesis by blast
next
  case (Some x)
  with update_law_cases [OF assms(1,4)] nothing_changed [OF assms(2)] show ?thesis by simp
qed

section \<open>The rounds keep the copies owned\<close>

abbreviation secret_keeps ::
  "'w client \<Rightarrow> 'w kview \<Rightarrow> nname \<Rightarrow> (int \<times> err option) calls \<Rightarrow> 'w \<Rightarrow> bool" where
  "secret_keeps r view req \<equiv>
     keeps r view (copies_owned view) (heeds view (\<lambda>q. q = req)) (heeds view (\<lambda>q. q \<noteq> req))"

lemma sync_keeps:
  assumes "secret_laws L r view" "key_of secret = req" "owned view req w"
  shows "secret_keeps r view req (sync_calls L period secret) w"
proof -
  from assms(1) have laws: "cou_law r view" "meta_label_law L" by (simp_all add: secret_laws_def api_laws_def)
  have copies: "secret_keeps r view req (apply_calls (copies_for L secret nss) (\<lambda>a. case a of
      Some e \<Rightarrow> Done (0, Some (Join [errFailedToCopySecret, e])) | None \<Rightarrow> Done (period, None))) w1"
    if "owned view req w1" for w1 nss
  proof (rule secrets.keeps_apply [where P = "owned view req"])
    show "owned view req w3" if "owned view req w2" "heeds view (\<lambda>q. q = req) w2 w3" for w2 w3
      using that by (simp add: heeds_def)
    show "heeds view (\<lambda>q. q \<noteq> req) w2 w3 \<and> copies_owned view w3 \<and> owned view req w3"
      if "(ob, f) \<in> set (copies_for L secret nss)" "owned view req w2" "copies_owned view w2"
        "cl_create_or_update r ob f w2 = (e, w3)" for ob f w2 e w3
      by (rule copy_write [OF laws that(3,2) assms(2) that(1,4)])
  qed (simp_all add: that split: option.splits)
  show ?thesis
    unfolding sync_calls_def
  proof (rule secrets.keeps_list)
    fix w1 assume "heeds view (\<lambda>q. q = req) w w1"
    with assms(3) have "owned view req w1" by (simp add: heeds_def)
    from copies [OF this] show "secret_keeps r view req (case cl_list r KNamespace [] w1 of
        Inl e \<Rightarrow> Done (0, Some e)
      | Inr namespaces \<Rightarrow> apply_calls (copies_for L secret namespaces) (\<lambda>a. case a of
            Some e \<Rightarrow> Done (0, Some (Join [errFailedToCopySecret, e])) | None \<Rightarrow> Done (period, None))) w1"
      by (simp split: sum.splits)
  qed
qed

lemma deletion_keeps:
  assumes "secret_laws L r view" "kind_of found = KSecret" "key_of found = req"
  shows "secret_keeps r view req (deletion_calls L found (with_labels found)) w"
  unfolding deletion_calls_def
proof (rule secrets.keeps_list)
  from assms(1) have laws: "list_law r view" "update_law r view" "delete_law r view" "finalizer_law L"
    by (simp_all add: secret_laws_def api_laws_def)
  let ?secret = "with_labels found"
  let ?os = "[MatchingLabels (copy_labels ?secret)]"
  have match: "opts_match ?os ob \<longleftrightarrow> copied_from req ob" for ob
    using assms(3) by (auto simp: opts_match_def copy_labels_def copied_from_def key_of_def)
  fix w1 assume at: "copies_owned view w1"
  have release: "secret_keeps r view req (UpdateCall found (with_finalizers ?secret fs) (\<lambda>e. Done (0, e))) w1"
    if "\<not> copied view req w1" for fs
  proof (rule keeps.keeps)
    fix w2 and p :: "(int \<times> err option) calls" and w3
    assume later: "heeds view (\<lambda>q. q = req) w1 w2" "copies_owned view w2"
      and step: "call_step r view (UpdateCall found (with_finalizers ?secret fs) (\<lambda>e. Done (0, e))) w2 p w3"
    from later(1) that have none: "\<not> copied view req w2" by (auto simp: heeds_def)
    from step consider (Sent) e where "view w2 KSecret req = Some found" "cl_update r (with_finalizers ?secret fs) w2 = (e, w3)"
        "p = Done (0, e)" | (Refused) "w3 = w2" "p = Done (0, Some Conflict)"
      using assms(2,3) by auto
    then show "heeds view (\<lambda>q. q \<noteq> req) w2 w3 \<and> copies_owned view w3 \<and> secret_keeps r view req p w3"
    proof cases
      case Sent
      from finalizers_write [OF laws(2) later(2) Sent(1,2)] none Sent(3) show ?thesis by simp
    next
      case Refused
      with nothing_changed [OF later(2), of w2] show ?thesis by simp
    qed
  qed
  have loop: "secret_keeps r view req (delete_calls copies (\<lambda>a. case a of
        Some e \<Rightarrow> Done (0, Some (Join [errFailedToDeleteCopy, e])) | None \<Rightarrow> Done (requeueAfterError, None))) w1"
    if "\<forall>ob \<in> set copies. kind_of ob = KSecret" for copies
    by (rule secrets.keeps_delete) (use that copy_delete [OF laws(3)] in \<open>auto split: option.splits\<close>)
  have read: "(copies = [] \<longrightarrow> \<not> copied view req w1) \<and> (\<forall>ob \<in> set copies. kind_of ob = KSecret)"
    if l: "cl_list r KSecret ?os w1 = Inr copies" for copies
  proof -
    from laws(1)[unfolded list_law_def, rule_format, OF l]
    have "set copies = {ob. \<exists>n. view w1 KSecret n = Some ob \<and> copied_from req ob}" by (simp add: match)
    with at show ?thesis by (auto simp: copied_def copies_owned_def dest: kind_filedD)
  qed
  show "secret_keeps r view req (case cl_list r KSecret ?os w1 of
        Inl e \<Rightarrow> Done (0, Some e)
      | Inr copies \<Rightarrow>
          if length copies = 0
          then (case lib_remove_finalizer L (om_finalizers (ko_meta ?secret)) finalizerOrphan of
                  (updated, fs) \<Rightarrow>
                    if updated then UpdateCall found (with_finalizers ?secret fs) (\<lambda>e. Done (0, e)) else Done (0, None))
          else delete_calls copies (\<lambda>a. case a of
                  Some e \<Rightarrow> Done (0, Some (Join [errFailedToDeleteCopy, e]))
                | None \<Rightarrow> Done (requeueAfterError, None))) w1"
    using read release loop by (auto split: sum.splits prod.splits)
qed

lemma secret_round_keeps:
  assumes "secret_laws L r view"
  shows "secret_keeps r view req (secret_calls L period req) w"
  unfolding secret_calls_def
proof (rule secrets.keeps_get)
  from assms have laws: "get_law r view" "update_law r view" "finalizer_law L"
    by (simp_all add: secret_laws_def api_laws_def)
  fix w1 assume at: "copies_owned view w1"
  show "secret_keeps r view req (case cl_get r KSecret req w1 of
        Inl e \<Rightarrow> if is_not_found e then Done (0, None) else Done (0, Some e)
      | Inr found \<Rightarrow>
          (let secret = with_labels found
           in if \<not> secret_shouldReconcile L secret then Done (0, None)
              else if om_deletion (ko_meta secret) \<noteq> None \<or> labels_of secret LabelCopyToCPNamespace \<noteq> Some ''true''
              then deletion_calls L found secret
              else (case lib_add_finalizer L (om_finalizers (ko_meta secret)) finalizerOrphan of
                      (updated, fs) \<Rightarrow>
                        if updated
                        then UpdateCall found (with_finalizers secret fs) (\<lambda>a. case a of
                               Some e \<Rightarrow> Done (0, Some e)
                             | None \<Rightarrow> sync_calls L period secret)
                        else sync_calls L period secret))) w1"
  proof (cases "cl_get r KSecret req w1")
    case (Inr found)
    with laws(1) have here: "view w1 KSecret req = Some found" by (auto simp: get_law_def)
    with at have found: "kind_of found = KSecret" "key_of found = req" by (auto simp: copies_owned_def dest: kind_filedD)
    have sync: "secret_keeps r view req (sync_calls L period (with_labels found)) w2" if "owned view req w2" for w2
      by (rule sync_keeps [OF assms _ that]) (simp add: found)
    have ensure: "secret_keeps r view req (UpdateCall found (with_finalizers (with_labels found) fs) (\<lambda>a. case a of
          Some e \<Rightarrow> Done (0, Some e) | None \<Rightarrow> sync_calls L period (with_labels found))) w1"
      if "finalizerOrphan \<in> set fs" for fs
    proof (rule keeps.keeps)
      fix w2 p w3
      assume later: "copies_owned view w2" and step: "call_step r view (UpdateCall found (with_finalizers (with_labels found) fs)
          (\<lambda>a. case a of Some e \<Rightarrow> Done (0, Some e) | None \<Rightarrow> sync_calls L period (with_labels found))) w2 p w3"
      from step consider (Sent) e where "view w2 KSecret req = Some found"
          "cl_update r (with_finalizers (with_labels found) fs) w2 = (e, w3)"
          "p = (case e of Some e \<Rightarrow> Done (0, Some e) | None \<Rightarrow> sync_calls L period (with_labels found))"
        | (Refused) "w3 = w2" "p = Done (0, Some Conflict)"
        using found by auto
      then show "heeds view (\<lambda>q. q \<noteq> req) w2 w3 \<and> copies_owned view w3 \<and> secret_keeps r view req p w3"
      proof cases
        case Sent
        from finalizers_write [OF laws(2) later Sent(1,2)] that have
          "heeds view (\<lambda>q. q \<noteq> req) w2 w3" "copies_owned view w3" "e = None \<longrightarrow> owned view req w3" by auto
        with Sent(3) sync show ?thesis by (cases e) auto
      next
        case Refused
        with nothing_changed [OF later, of w2] show ?thesis by simp
      qed
    qed
    have own: "owned view req w1" if "finalizerOrphan \<in> set (om_finalizers (ko_meta found))"
      using here that by (simp add: owned_def)
    from Inr laws(3) ensure sync own deletion_keeps [OF assms found] show ?thesis
      by (auto simp: Let_def finalizer_law_def split: prod.splits)
  qed simp
qed

text \<open>
  C6. No copy is ever orphaned, under any interleaving: in every state that rounds of the secret
  controller for any secrets reach, running concurrently call by call and dropped at any point,
  while users and other controllers do in between whatever neither forges a copy nor takes the
  operator's finalizer away, every copy in the cluster has its source secret, and this carries the
  orphan finalizer.
\<close>

theorem copies_never_orphaned:
  assumes "secret_laws L r view" "copies_owned view w0"
    and "interleaved r view (heeds view (\<lambda>q. True)) (secret_calls L period) w0 J w"
    and "view w KSecret n = Some copy" "copied_from q copy"
  shows "\<exists>s. view w KSecret q = Some s \<and> finalizerOrphan \<in> set (om_finalizers (ko_meta s))"
proof -
  have "copies_owned view w"
    using secrets.interleaved_keeps [OF secret_round_keeps [OF assms(1)] assms(2,3)] by blast
  with assms(4,5) show ?thesis by (auto simp: copies_owned_def copied_def owned_def)
qed

section \<open>Witnesses, and a collision\<close>


lemma interleaved_runs:
  assumes "interleaved r view outside round_of w0 J w" "J i = Some p" "call_steps r view p w p' w'"
  shows "\<exists>J'. interleaved r view outside round_of w0 J' w' \<and> J' i = Some p'"
proof -
  have "(\<lambda>(p, w) (p', w'). call_step r view p w p' w')\<^sup>*\<^sup>* (p, w) (p', w')" using assms(3) by (simp add: call_steps_def)
  then show ?thesis
  proof (induction "(p', w')" arbitrary: p' w' rule: rtranclp_induct)
    case base
    with assms(1,2) show ?case by blast
  next
    case (step z)
    obtain p1 w1 where z: "z = (p1, w1)" by (rule prod.exhaust)
    with step obtain J1 where "interleaved r view outside round_of w0 J1 w1" "J1 i = Some p1" by blast
    from interleaved.call [OF this, of p' w'] step.hyps(2) z show ?case by force
  qed
qed

definition demo_copied :: store where
  "demo_copied = snd (SecretReconcile doc_libs 5 store_client demo_secret_key (secret_store False))"

lemma demo_copied_copy:
  "\<exists>copy. store_view demo_copied KSecret \<lparr> nn_namespace = ''cp-a'', nn_name = ''pull'' \<rparr> = Some copy
     \<and> copied_from demo_secret_key copy"
proof -
  let ?s = "with_labels (demo_secret False)"
  have run: "SecretReconcile doc_libs 5 store_client demo_secret_key (secret_store False)
      = handleSync doc_libs 5 store_client ?s (secret_store False)"
    by (simp add: SecretReconcile_def store_client_def secret_shouldReconcile_def Let_def secret_ensureFinalizer_def doc_libs_def)
  have nss: "cl_list store_client KNamespace [] (secret_store False) = Inr [new_obj [] ''cp-a'' BNamespace]"
    by (simp add: store_client_def st_list_def secret_store_def opts_match_def)
  have one: "copies_for doc_libs ?s [new_obj [] ''cp-a'' BNamespace]
      = [(new_obj ''cp-a'' ''pull'' (BSecret \<lparr> se_type = [], se_data = None \<rparr>), copy_mutate doc_libs ?s)]"
    by (simp add: copies_for_def new_obj_def empty_meta_def cpNamespacePrefix_def demo_secret_def)
  have "\<exists>copy. demo_copied = AList.update (KSecret, \<lparr> nn_namespace = ''cp-a'', nn_name = ''pull'' \<rparr>) copy (secret_store False)
     \<and> copy_mutate doc_libs ?s (new_obj ''cp-a'' ''pull'' (BSecret \<lparr> se_type = [], se_data = None \<rparr>)) = Inr copy"
    unfolding demo_copied_def run handleSync_def nss sum.case one
    by (simp add: store_client_def st_cou_def copy_mutate_def Let_def secret_store_def demo_secret_key_def demo_namespace_def)
  then obtain copy where new: "demo_copied = AList.update (KSecret, \<lparr> nn_namespace = ''cp-a'', nn_name = ''pull'' \<rparr>) copy (secret_store False)"
    "copy_mutate doc_libs ?s (new_obj ''cp-a'' ''pull'' (BSecret \<lparr> se_type = [], se_data = None \<rparr>)) = Inr copy" by blast
  have "copy_of ?s copy" by (rule copy_mutate_ok(1) [OF doc_libs_laws(4) new(2)])
  moreover have copy: "store_view demo_copied KSecret \<lparr> nn_namespace = ''cp-a'', nn_name = ''pull'' \<rparr> = Some copy"
    unfolding new(1) by (simp add: store_view_def update_conv)
  ultimately have "copied_from demo_secret_key copy"
    by (simp add: copy_of_def copy_labels_def copied_from_def demo_secret_key_def demo_secret_def empty_meta_def)
  with copy show ?thesis by blast
qed

lemma copies_never_orphaned_witness:
  "\<exists>J w copy s. interleaved store_client store_view (heeds store_view (\<lambda>q. True)) (secret_calls doc_libs 5) (secret_store False) J w
     \<and> store_view w KSecret \<lparr> nn_namespace = ''cp-a'', nn_name = ''pull'' \<rparr> = Some copy \<and> copied_from demo_secret_key copy
     \<and> store_view w KSecret demo_secret_key = Some s \<and> finalizerOrphan \<in> set (om_finalizers (ko_meta s))"
proof -
  have "copied_from q c \<Longrightarrow> store_view (secret_store False) KSecret n \<noteq> Some c" for q n c
    by (auto simp: store_view_def secret_store_def copied_from_def demo_secret_def labels_of_def LabelCopySourceName_def
        LabelCopyToCPNamespace_def split: if_splits)
  then have start: "copies_owned store_view (secret_store False)"
    by (auto simp: copies_owned_def copied_def wf_view_kind_filed [OF wf_secret_store])
  obtain res where run: "SecretReconcile doc_libs 5 store_client demo_secret_key (secret_store False) = (res, demo_copied)"
    by (metis demo_copied_def prod.collapse)
  let ?reach = "interleaved store_client store_view (heeds store_view (\<lambda>q. True)) (secret_calls doc_libs 5) (secret_store False)"
  have "?reach ((\<lambda>i. None)(demo_secret_key \<mapsto> secret_calls doc_libs 5 demo_secret_key)) (secret_store False)"
    by (rule interleaved.request [OF interleaved.start]) simp
  then have "\<exists>J. ?reach J demo_copied \<and> J demo_secret_key = Some (Done res)"
    by (rule interleaved_runs) (simp, rule undisturbed_steps [OF store_api_laws(1) wf_view_kind_filed [OF wf_secret_store] run])
  then obtain J where J: "?reach J demo_copied" by blast
  obtain copy where copy: "store_view demo_copied KSecret \<lparr> nn_namespace = ''cp-a'', nn_name = ''pull'' \<rparr> = Some copy"
    "copied_from demo_secret_key copy" using demo_copied_copy by blast
  have "\<exists>s. store_view demo_copied KSecret demo_secret_key = Some s \<and> finalizerOrphan \<in> set (om_finalizers (ko_meta s))"
    using copies_never_orphaned [where r = store_client and view = store_view and L = doc_libs, OF doc_secret_laws start]
      J copy by blast
  then obtain s where
    "store_view demo_copied KSecret demo_secret_key = Some s" "finalizerOrphan \<in> set (om_finalizers (ko_meta s))" by (elim exE conjE)
  with J copy show ?thesis by (intro exI conjI)
qed

text \<open>
  Copies are named after their source alone: two secrets of the same name in different namespaces
  take each other's copies away with every round.
\<close>

lemma same_name_copies_collide:
  assumes "cou_law r view" "meta_label_law L" "list_law r view"
    and "handleSync L period r secret w = ((d, None), w')"
    and "view w KNamespace nsn = Some ns" "prefix cpNamespacePrefix (om_name (ko_meta ns))"
    and "nn_name q = om_name (ko_meta secret)" "nn_namespace q \<noteq> om_namespace (ko_meta secret)"
  shows "\<exists>copy. view w' KSecret \<lparr> nn_namespace = om_name (ko_meta ns), nn_name = nn_name q \<rparr> = Some copy
     \<and> \<not> copied_from q copy"
proof -
  from handleSync_effect [OF assms(1,2,4)] obtain nss where
    l: "cl_list r KNamespace [] w = Inr nss"
      "\<forall>k n. named_in (map fst (copies_for L secret nss)) k n \<longrightarrow> (\<exists>copy. view w' k n = Some copy \<and> copy_of secret copy)"
    by auto
  from assms(3)[unfolded list_law_def, rule_format, OF l(1)] assms(5) have "ns \<in> set nss" by (auto simp: opts_match_def)
  with assms(6,7) have "named_in (map fst (copies_for L secret nss)) KSecret
      \<lparr> nn_namespace = om_name (ko_meta ns), nn_name = nn_name q \<rparr>"
    by (force simp: named_in_iff copies_for_def)
  with l(2) obtain copy where "view w' KSecret \<lparr> nn_namespace = om_name (ko_meta ns), nn_name = nn_name q \<rparr> = Some copy"
    "copy_of secret copy" by blast
  with assms(8) show ?thesis by (auto simp: copy_of_def copy_labels_def copied_from_def)
qed

end
