(* ===== verification/Controllers.thy ===== *)
theory Controllers
  imports PlaneRuns SecretInterleaving ReleaseChannels
begin

text \<open>
  The controllers of one operator, side by side on one cluster: rounds for ControlPlanes and release
  channels, the calls of any number of rounds of the secret controller between them, and users. What
  one controller relies on, the others leave alone.
\<close>

section \<open>A round for secrets writes secrets\<close>

text \<open>Whatever the server answers, each write of the round is to a secret.\<close>

primrec secrets_only :: "'a calls \<Rightarrow> bool" where
  "secrets_only (Done x) = True"
| "secrets_only (GetCall k n f) =
     (\<forall>a. (\<forall>ob. a = Inr ob \<longrightarrow> k = KSecret \<longrightarrow> kind_of ob = KSecret) \<longrightarrow> secrets_only (f a))"
| "secrets_only (ListCall k os f) =
     (\<forall>a. (\<forall>obs. a = Inr obs \<longrightarrow> k = KSecret \<longrightarrow> list_all (\<lambda>ob. kind_of ob = KSecret) obs) \<longrightarrow> secrets_only (f a))"
| "secrets_only (ApplyCall ob g f) = (kind_of ob = KSecret \<and> (\<forall>e. secrets_only (f e)))"
| "secrets_only (UpdateCall old new f) = (kind_of new = KSecret \<and> (\<forall>e. secrets_only (f e)))"
| "secrets_only (DeleteCall ob f) = (kind_of ob = KSecret \<and> (\<forall>e. secrets_only (f e)))"

lemma secrets_only_apply:
  "\<forall>(ob, f) \<in> set obs. kind_of ob = KSecret \<Longrightarrow> \<forall>e. secrets_only (k e) \<Longrightarrow> secrets_only (apply_calls obs k)"
  by (induction obs k rule: apply_calls.induct) (auto split: option.splits)

lemma secrets_only_delete:
  "\<forall>ob \<in> set obs. kind_of ob = KSecret \<Longrightarrow> \<forall>e. secrets_only (k e) \<Longrightarrow> secrets_only (delete_calls obs k)"
  by (induction obs k rule: delete_calls.induct) (auto split: option.splits)

lemma secret_calls_only: "secrets_only (secret_calls L period req)"
proof -
  have copies: "\<forall>(ob, f) \<in> set (copies_for L secret nss). kind_of ob = KSecret" for secret nss
    by (auto simp: copies_for_def)
  have sync: "secrets_only (sync_calls L period secret)" for secret
    unfolding sync_calls_def
    by (auto intro!: secrets_only_apply [OF copies] split: sum.splits option.splits)
  have deletion: "secrets_only (deletion_calls L found secret)" if "kind_of secret = KSecret" for found secret
    unfolding deletion_calls_def using that
    by (auto intro!: secrets_only_delete split: sum.splits option.splits prod.splits simp: list_all_iff)
  show ?thesis
    unfolding secret_calls_def using sync deletion
    by (auto simp: Let_def split: sum.splits option.splits prod.splits)
qed

lemma secrets_only_step:
  assumes "secrets_only p" "call_step r lv p w p' w'" "kind_filed lv KSecret w"
    and "get_law r lv" "list_law r lv" "cou_law r lv" "update_law r lv" "delete_law r lv" "leaves r pv"
  shows "secrets_only p' \<and> only_at lv (\<lambda>k n. k = KSecret) w w' \<and> pv w' = pv w"
  using assms(2,1)
proof (cases rule: call_step.cases)
  case (get k n f)
  have "kind_of ob = KSecret" if "cl_get r k n w = Inr ob" "k = KSecret" for ob
    using assms(3,4) that unfolding get_law_def by (metis kind_filedD)
  with get assms(1) show ?thesis by auto
next
  case (list k os f)
  have "list_all (\<lambda>ob. kind_of ob = KSecret) obs" if "cl_list r k os w = Inr obs" "k = KSecret" for obs
    using assms(5)[unfolded list_law_def, rule_format, OF that(1)] assms(3) that(2)
    by (auto simp: list_all_iff split: if_splits dest!: kind_filedD subsetD)
  with list assms(1) show ?thesis by auto
next
  case (applied ob g e f)
  have "only_at lv (\<lambda>k n. k = KSecret) w w'"
  proof (cases e)
    case None
    obtain ob' where "lv w' = (lv w)(kind_of ob := (lv w (kind_of ob))(key_of ob \<mapsto> ob'))"
      by (rule cou_law_ok [OF assms(6) applied(3) [unfolded None]]) blast
    with applied assms(1) show ?thesis by (auto simp: only_at_def)
  next
    case (Some x)
    with applied cou_law_err [OF assms(6)] show ?thesis by (metis only_at_same)
  qed
  with applied assms(1) leavesD(1) [OF assms(9)] show ?thesis by auto
next
  case (update old new e f)
  have "only_at lv (\<lambda>k n. k = KSecret) w w'"
    using update_law_cases [OF assms(7) update(4)] update assms(1) by (auto simp: only_at_def)
  with update assms(1) leavesD(2) [OF assms(9)] show ?thesis by auto
next
  case (conflict old new f)
  with assms(1) show ?thesis by auto
next
  case (delete ob e f)
  have "only_at lv (\<lambda>k n. k = KSecret) w w'"
  proof (cases e)
    case None
    have "lv w' k n = lv w k n" if "k \<noteq> KSecret" for k n
      using delete_law_ok [OF assms(8) delete(3) [unfolded None], of k n] delete assms(1) that by auto
    then show ?thesis by (simp add: only_at_def)
  next
    case (Some x)
    with delete delete_law_err [OF assms(8)] show ?thesis by (metis only_at_same)
  qed
  with delete assms(1) leavesD(3) [OF assms(9)] show ?thesis by auto
qed

section \<open>A round for a ControlPlane heeds the copies\<close>

lemma kubeconfig_heeds:
  assumes "kind_filed lv KSecret w" "lv w' KSecret = (lv w KSecret)(key \<mapsto> ob)" "kubeconfig_of key (lv w KSecret key) ob"
  shows "heeds lv Q w w'"
proof -
  have label: "copied_from q ob \<longleftrightarrow> (\<exists>cur. lv w KSecret key = Some cur \<and> copied_from q cur)" for q
    using assms(3) by (auto simp: kubeconfig_of_def copied_from_def LabelManagedBy_def LabelCopySourceName_def
        LabelCopySourceNamespace_def split: option.splits)
  have fin: "om_finalizers (ko_meta ob) = om_finalizers (ko_meta cur)" if "lv w KSecret key = Some cur" for cur
    using assms(3) that by (simp add: kubeconfig_of_def)
  have "kind_filed lv KSecret w'"
    using assms by (auto simp: kind_filed_def kubeconfig_of_def split: if_splits)
  moreover have "copied lv q w" if "copied lv q w'" for q
    using that label [of q] by (auto simp: copied_def assms(2) split: if_splits)
  moreover have "owned lv q w'" if "owned lv q w" for q
    using that fin by (auto simp: owned_def assms(2))
  ultimately show ?thesis by (simp add: heeds_def)
qed

lemma plane_round_heeds:
  assumes "local_laws E lv" "kind_filed lv KSecret w" "ControlPlaneReconcile E req w = (r, w')"
  shows "heeds lv Q w w'"
proof (cases "ev_get E req w")
  case (Inl e)
  with assms(3) show ?thesis by (auto simp: ControlPlaneReconcile_def heeds_def split: if_splits)
next
  case (Inr cp)
  from round_secrets [OF assms(1,2) Inr assms(3)] show ?thesis
  proof (elim disjE exE conjE)
    assume "lv w' KSecret = lv w KSecret"
    then show ?thesis by (simp add: heeds_def kind_filed_def copied_def owned_def)
  qed (rule kubeconfig_heeds [OF assms(2)])
qed

section \<open>The operator at work\<close>

text \<open>The three controllers share one client; the records are what each is set up with.\<close>

record 'w operator =
  op_planes :: "'w cp_env"
  op_secret_period :: int
  op_ocm :: ocm_io
  op_channels :: "'w channel_store"

text \<open>
  What users and other controllers may do: everything but forging copies or charts of the operator,
  taking its finalizers away, or misfiling secrets.
\<close>

definition users_step :: "'w kview \<Rightarrow> 'w pview \<Rightarrow> 'w \<Rightarrow> 'w \<Rightarrow> bool" where
  "users_step lv pv w w' \<longleftrightarrow> heeds lv (\<lambda>q. True) w w' \<and> others_step lv pv w w'"

inductive operator_runs ::
  "'w operator \<Rightarrow> ('w \<Rightarrow> 'w \<Rightarrow> bool) \<Rightarrow> 'w kview \<Rightarrow> 'w \<Rightarrow> (nname \<Rightarrow> (int \<times> err option) calls option) \<Rightarrow> 'w \<Rightarrow> bool"
  for P :: "'w operator" and users :: "'w \<Rightarrow> 'w \<Rightarrow> bool" and lv :: "'w kview" and w0 :: 'w where
  start: "operator_runs P users lv w0 (\<lambda>req. None) w0"
| plane: "operator_runs P users lv w0 J w \<Longrightarrow> ControlPlaneReconcile (op_planes P) req w = (r, w') \<Longrightarrow>
     operator_runs P users lv w0 J w'"
| channel: "operator_runs P users lv w0 J w \<Longrightarrow>
     ReleaseChannelReconcile (op_ocm P) (ev_local (op_planes P)) (op_channels P) req w = (r, w') \<Longrightarrow>
     operator_runs P users lv w0 J w'"
| secret: "operator_runs P users lv w0 J w \<Longrightarrow> J req = None \<Longrightarrow>
     operator_runs P users lv w0 (J(req \<mapsto> secret_calls (ev_libs (op_planes P)) (op_secret_period P) req)) w"
| call: "operator_runs P users lv w0 J w \<Longrightarrow> J req = Some p \<Longrightarrow>
     call_step (ev_local (op_planes P)) lv p w p' w' \<Longrightarrow> operator_runs P users lv w0 (J(req \<mapsto> p')) w'"
| dropped: "operator_runs P users lv w0 J w \<Longrightarrow> operator_runs P users lv w0 (J(req := None)) w"
| users: "operator_runs P users lv w0 J w \<Longrightarrow> users w w' \<Longrightarrow> operator_runs P users lv w0 J w'"

definition operator_laws :: "'w operator \<Rightarrow> 'w kview \<Rightarrow> 'w pview \<Rightarrow> bool" where
  "operator_laws P lv pv \<longleftrightarrow> runs_laws (op_planes P) lv pv \<and> secret_laws (ev_libs (op_planes P)) (ev_local (op_planes P)) lv
     \<and> (\<forall>rc w. lv (snd (cs_update_status (op_channels P) rc w)) = lv w \<and> pv (snd (cs_update_status (op_channels P) rc w)) = pv w)"

lemma same_is_users_step: "lv w' = lv w \<Longrightarrow> pv w' = pv w \<Longrightarrow> users_step lv pv w w'"
  by (simp add: users_step_def heeds_def others_step_def kind_filed_def copied_def owned_def chart_in_def held_def)

lemma channel_round_apart:
  assumes "\<And>rc w. X (snd (cs_update_status cs rc w)) = X w" "ReleaseChannelReconcile io r cs req w = (res, w')"
  shows "X w' = X w"
proof -
  have "X w1 = X w" if "cs_update_status cs rc w = (e, w1)" for rc e w1
    using assms(1) [of rc w] that by simp
  with assms(2) show ?thesis
    by (auto simp: ReleaseChannelReconcile_def Let_def split: sum.splits gores_of.splits prod.splits option.splits)
qed

lemma secret_call_is_others_step:
  assumes "only_at lv (\<lambda>k n. k = KSecret) w w'" "pv w' = pv w" "kind_filed lv KSecret w'"
  shows "others_step lv pv w w'"
proof -
  have "lv w' k n = lv w k n" if "chart_scope ns k n" for ns k n
    using assms(1) that by (auto simp: only_at_def chart_scope_def)
  with assms(2,3) show ?thesis unfolding others_step_def chart_in_def held_def by metis
qed

text \<open>To each controller the others are part of the outside it can live with.\<close>

lemma operator_runs_each:
  assumes "operator_runs P (users_step lv pv) lv w0 J w" "operator_laws P lv pv" "copies_owned lv w0"
  shows "interleaved (ev_local (op_planes P)) lv (heeds lv (\<lambda>q. True))
      (secret_calls (ev_libs (op_planes P)) (op_secret_period P)) w0 J w
    \<and> plane_runs (op_planes P) (others_step lv pv) w0 w \<and> (\<forall>req p. J req = Some p \<longrightarrow> secrets_only p)"
proof -
  from assms(2) have laws: "local_laws (op_planes P) lv" "leaves (ev_local (op_planes P)) pv"
    and sec: "secret_laws (ev_libs (op_planes P)) (ev_local (op_planes P)) lv"
    and api: "get_law (ev_local (op_planes P)) lv" "list_law (ev_local (op_planes P)) lv" "cou_law (ev_local (op_planes P)) lv"
      "update_law (ev_local (op_planes P)) lv" "delete_law (ev_local (op_planes P)) lv"
    by (auto simp: operator_laws_def runs_laws_def secret_laws_def api_laws_def)
  let ?ivl = "interleaved (ev_local (op_planes P)) lv (heeds lv (\<lambda>q. True))
      (secret_calls (ev_libs (op_planes P)) (op_secret_period P)) w0"
  have filed: "kind_filed lv KSecret w" if "?ivl J w" for J w
    using secrets.interleaved_keeps [OF secret_round_keeps [OF sec] assms(3) that] by (simp add: copies_owned_def)
  have same: "?ivl J w' \<and> plane_runs (op_planes P) (others_step lv pv) w0 w'"
    if "?ivl J w" "plane_runs (op_planes P) (others_step lv pv) w0 w" "users_step lv pv w w'" for J w w'
    using interleaved.outside [of _ _ "heeds lv (\<lambda>q. True)", OF that(1)] plane_runs.others [of _ "others_step lv pv", OF that(2)] that(3)
    by (simp add: users_step_def)
  from assms(1) show ?thesis
  proof induction
    case (plane J w req r w')
    have "heeds lv (\<lambda>q. True) w w'" by (rule plane_round_heeds [OF laws(1) filed plane.hyps(2)]) (use plane.IH in blast)
    with plane show ?case by (blast intro: interleaved.outside plane_runs.round)
  next
    case (channel J w req r w')
    have "lv w' = lv w" "pv w' = pv w"
      using assms(2) by (auto simp: operator_laws_def intro!: channel_round_apart [OF _ channel.hyps(2)])
    then have "users_step lv pv w w'" by (rule same_is_users_step)
    with channel.IH same show ?case by blast
  next
    case (secret J w req)
    then have "?ivl (J(req \<mapsto> secret_calls (ev_libs (op_planes P)) (op_secret_period P) req)) w"
      by (intro interleaved.request) auto
    moreover have "secrets_only p"
      if "(J(req \<mapsto> secret_calls (ev_libs (op_planes P)) (op_secret_period P) req)) i = Some p" for i p
      using secret that secret_calls_only by (auto split: if_splits)
    ultimately show ?case using secret by blast
  next
    case (call J w req p p' w')
    then have here: "?ivl J w" "secrets_only p" by auto
    have next_ivl: "?ivl (J(req \<mapsto> p')) w'" by (rule interleaved.call [OF here(1) call.hyps(2,3)])
    note eff = secrets_only_step [OF here(2) call.hyps(3) filed [OF here(1)] api laws(2)]
    have "others_step lv pv w w'"
      by (rule secret_call_is_others_step [OF _ _ filed [OF next_ivl]]) (use eff in simp_all)
    then have "plane_runs (op_planes P) (others_step lv pv) w0 w'"
      using call.IH plane_runs.others [of _ "others_step lv pv"] by blast
    moreover have "secrets_only q" if "(J(req \<mapsto> p')) i = Some q" for i q
      using call.IH that conjunct1 [OF eff] by (cases "i = req") simp_all
    ultimately show ?case using next_ivl by blast
  next
    case (dropped J w req)
    moreover have "secrets_only q" if "(J(req := None)) i = Some q" for i q
      using dropped that by (auto split: if_splits)
    ultimately show ?case by (blast intro: interleaved.dropped)
  next
    case (users J w w')
    with same show ?case by blast
  qed (auto intro: interleaved.start plane_runs.start)
qed


section \<open>A concrete operator\<close>

definition fleet_operator :: "fleet operator" where
  "fleet_operator = \<lparr> op_planes = fleet_env, op_secret_period = 5, op_ocm = demo_io,
     op_channels = \<lparr> cs_get = (\<lambda>n w. Inl (ApiStatus ''NotFound'' ''no such ReleaseChannel'')),
       cs_update_status = (\<lambda>rc w. (None, w)) \<rparr> \<rparr>"

lemma on_snd_api: "api_laws cl v \<Longrightarrow> api_laws (on_snd cl) (\<lambda>w. v (snd w))"
proof -
  assume api: "api_laws cl v"
  then have "list_law cl v" by (simp add: api_laws_def)
  then have "list_law (on_snd cl) (\<lambda>w. v (snd w))" unfolding list_law_def by (simp only: on_snd_def client.simps) blast
  moreover have "delete_all_law (on_snd cl) (\<lambda>w. v (snd w))" "update_law (on_snd cl) (\<lambda>w. v (snd w))"
    using api by (simp_all add: api_laws_def delete_all_law_def update_law_def on_snd_def Let_def case_prod_beta cong: option.case_cong)
  ultimately show ?thesis using api by (simp add: api_laws_def on_snd_reads on_snd_laws)
qed

lemma on_fst_api: "api_laws cl v \<Longrightarrow> api_laws (on_fst cl) (\<lambda>w. v (fst w))"
proof -
  assume api: "api_laws cl v"
  then have "list_law cl v" by (simp add: api_laws_def)
  then have "list_law (on_fst cl) (\<lambda>w. v (fst w))" unfolding list_law_def by (simp only: on_fst_def client.simps) blast
  moreover have "delete_all_law (on_fst cl) (\<lambda>w. v (fst w))" "update_law (on_fst cl) (\<lambda>w. v (fst w))"
    using api by (simp_all add: api_laws_def delete_all_law_def update_law_def on_fst_def Let_def case_prod_beta cong: option.case_cong)
  ultimately show ?thesis using api by (simp add: api_laws_def on_fst_laws)
qed

lemma fleet_operator_laws: "operator_laws fleet_operator fleet_view fst"
proof -
  have "api_laws fleet_local fleet_view"
    unfolding fleet_local_def fleet_view_def by (intro on_snd_api on_fst_api store_api_laws)
  then have "secret_laws plane_libs fleet_local fleet_view"
    by (simp add: secret_laws_def) (simp add: plane_libs_def doc_libs_def meta_label_law_def)
  with fleet_runs_laws show ?thesis
    by (simp add: operator_laws_def fleet_operator_def) (simp add: fleet_env_def)
qed


end
