(* ===== verification/Events.thy ===== *)
theory Events
  imports JugglerLaws
begin

text \<open>
  \<^verbatim>\<open>pkg/juggler/events.go\<close>: the events of a round on their way to the API server. The recorder of
  client-go is a parameter; \<open>'o\<close> are the objects events are about, \<open>'a\<close> the arguments of a format,
  \<open>'e\<close> is the state of the recorder.
\<close>

section \<open>Recorders\<close>

text \<open>\<^verbatim>\<open>Eventf\<close> of client-go: regarding, related, type, reason, action, note and its arguments.\<close>

type_synonym ('o, 'a, 'e) client_eventf =
  "'o \<Rightarrow> 'o option \<Rightarrow> string \<Rightarrow> string \<Rightarrow> string \<Rightarrow> string \<Rightarrow> 'a list \<Rightarrow> 'e \<Rightarrow> 'e"

definition EventNormal :: string where "EventNormal = ''Normal''"
definition EventWarning :: string where "EventWarning = ''Warning''"

fun event_type_string :: "component_event \<Rightarrow> string" where
  "event_type_string ComponentEventNone = []"
| "event_type_string ComponentEventNormal = EventNormal"
| "event_type_string ComponentEventWarning = EventWarning"

record ('a, 'e) event_recorder =
  er_Event :: "string \<Rightarrow> string \<Rightarrow> string \<Rightarrow> 'e \<Rightarrow> 'e"
  er_Eventf :: "string \<Rightarrow> string \<Rightarrow> string \<Rightarrow> 'a list \<Rightarrow> 'e \<Rightarrow> 'e"
  er_AnnotatedEventf :: "(string \<rightharpoonup> string) \<Rightarrow> string \<Rightarrow> string \<Rightarrow> string \<Rightarrow> 'a list \<Rightarrow> 'e \<Rightarrow> 'e"

record ('o, 'a, 'e) object_event_recorder =
  oer_recorder :: "('o, 'a, 'e) client_eventf"
  oer_object :: 'o

definition oer_Event :: "('o, 'a, 'e) object_event_recorder \<Rightarrow> string \<Rightarrow> string \<Rightarrow> string \<Rightarrow> 'e \<Rightarrow> 'e" where
  "oer_Event oer eventtype reason message e =
     oer_recorder oer (oer_object oer) None eventtype reason reason message [] e"

definition oer_Eventf :: "('o, 'a, 'e) object_event_recorder \<Rightarrow> string \<Rightarrow> string \<Rightarrow> string \<Rightarrow> 'a list \<Rightarrow> 'e \<Rightarrow> 'e" where
  "oer_Eventf oer eventtype reason messageFmt args e =
     oer_recorder oer (oer_object oer) None eventtype reason reason messageFmt args e"

definition oer_AnnotatedEventf ::
  "('o, 'a, 'e) object_event_recorder \<Rightarrow> (string \<rightharpoonup> string) \<Rightarrow> string \<Rightarrow> string \<Rightarrow> string \<Rightarrow> 'a list \<Rightarrow> 'e \<Rightarrow> 'e" where
  "oer_AnnotatedEventf oer annotations eventtype reason messageFmt args e =
     oer_recorder oer (oer_object oer) None eventtype reason reason messageFmt args e"

definition NewEventRecorder :: "('o, 'a, 'e) client_eventf \<Rightarrow> 'o \<Rightarrow> ('a, 'e) event_recorder" where
  "NewEventRecorder recorder ob =
     (let oer = \<lparr> oer_recorder = recorder, oer_object = ob \<rparr>
      in \<lparr> er_Event = oer_Event oer, er_Eventf = oer_Eventf oer, er_AnnotatedEventf = oer_AnnotatedEventf oer \<rparr>)"

record ('c, 'a, 'e) component_event_recorder =
  cer_recorder :: "('a, 'e) event_recorder"
  cer_component :: 'c

definition NewComponentEventRecorder :: "('a, 'e) event_recorder \<Rightarrow> 'c \<Rightarrow> ('c, 'a, 'e) component_event_recorder" where
  "NewComponentEventRecorder recorder component = \<lparr> cer_recorder = recorder, cer_component = component \<rparr>"

definition cer_Event ::
  "('c, 'w) component_iface \<Rightarrow> ('c, 'a, 'e) component_event_recorder \<Rightarrow> component_status \<Rightarrow> string \<Rightarrow> 'e \<Rightarrow> 'e" where
  "cer_Event I c status message e =
     (if st_emits status = ComponentEventNone then e
      else er_Event (cer_recorder c) (event_type_string (st_emits status))
             (ci_name I (cer_component c) @ st_name status) message e)"

section \<open>A round that records its events\<close>

text \<open>The loop of \<^verbatim>\<open>Juggler.Reconcile\<close>, with the recorder called after each component.\<close>

fun recording_loop ::
  "('c, 'w) component_iface \<Rightarrow> ('c, 'w) reconciler list \<Rightarrow> ('a, 'e) event_recorder \<Rightarrow> 'w rctx \<Rightarrow> 'c list \<Rightarrow> 'c list
     \<Rightarrow> 'w \<Rightarrow> 'e \<Rightarrow> 'c component_result list gores \<times> 'c list \<times> 'w \<times> 'e" where
  "recording_loop I recs er ctx before [] w e = (Ok [], before, w, e)"
| "recording_loop I recs er ctx before (c # after) w e =
     (case reconcileComponent I recs ctx before c after w of
        (Ok cr, c', w') \<Rightarrow>
          (case recording_loop I recs er ctx (before @ [c']) after w'
                  (cer_Event I (NewComponentEventRecorder er c') (cr_result cr) (cr_message cr) e) of
             (rs, comps, w'', e'') \<Rightarrow> (bind_go rs (\<lambda>crs. Ok (cr # crs)), comps, w'', e''))
      | (Err x, c', w') \<Rightarrow> (Err x, before @ c' # after, w', e)
      | (Panic p, c', w') \<Rightarrow> (Panic p, before @ c' # after, w', e))"

definition record_event :: "('a, 'e) event_recorder \<Rightarrow> event \<Rightarrow> 'e \<Rightarrow> 'e" where
  "record_event er ev = er_Event er (event_type_string (ev_type ev)) (ev_reason ev) (ev_message ev)"

lemma fold_emitted:
  "fold (record_event er) (emitted_event I c status message) e = cer_Event I (NewComponentEventRecorder er c) status message e"
  by (simp add: emitted_event_def cer_Event_def record_event_def NewComponentEventRecorder_def)

text \<open>
  The events that \<open>Reconcile\<close> lists are what the recorder receives, one after the other, also when
  a later component panics.
\<close>

theorem recorded_events:
  "recording_loop I recs er ctx before after w e =
     (case reconcile_loop I recs ctx before after w of
        (rs, comps, evs, w') \<Rightarrow> (rs, comps, w', fold (record_event er) evs e))"
  by (induction I recs er ctx before after w e rule: recording_loop.induct)
     (auto simp: fold_emitted [symmetric] split: gores_of.splits prod.splits)

text \<open>
  What client-go documents of \<^verbatim>\<open>Eventf\<close>: the note is formatted with the arguments, and a format
  without a percent sign stands for itself.
\<close>

definition api_event :: "(string \<Rightarrow> 'a list \<Rightarrow> string) \<Rightarrow> ('o, 'a, (string \<times> string \<times> string) list) client_eventf" where
  "api_event fmt ob related eventtype reason action note args log = log @ [(eventtype, reason, fmt note args)]"

definition format_law :: "(string \<Rightarrow> 'a list \<Rightarrow> string) \<Rightarrow> bool" where
  "format_law fmt \<longleftrightarrow> (\<forall>s. CHR ''%'' \<notin> set s \<longrightarrow> fmt s [] = s)"

lemma messages_arrive:
  assumes "format_law fmt" "\<forall>ev \<in> set evs. CHR ''%'' \<notin> set (ev_message ev)"
  shows "fold (record_event (NewEventRecorder (api_event fmt) ob)) evs log
     = log @ map (\<lambda>ev. (event_type_string (ev_type ev), ev_reason ev, ev_message ev)) evs"
  using assms(2)
proof (induction evs arbitrary: log)
  case (Cons ev evs)
  with assms(1) show ?case
    by (simp add: record_event_def NewEventRecorder_def oer_Event_def api_event_def format_law_def Let_def)
qed simp

text \<open>
  But a message is handed on as the format: whatever \<^verbatim>\<open>Sprintf\<close> makes of a percent sign in it, and
  error texts with escaped URLs have some, is what the event says. Annotations are dropped.
\<close>

lemma message_is_format:
  "er_Event (NewEventRecorder (api_event fmt) ob) t reason message log = log @ [(t, reason, fmt message [])]"
  by (simp add: NewEventRecorder_def oer_Event_def api_event_def Let_def)

lemma annotations_dropped:
  "er_AnnotatedEventf (NewEventRecorder recorder ob) annotations t reason fmt args e
     = er_Eventf (NewEventRecorder recorder ob) t reason fmt args e"
  by (simp add: NewEventRecorder_def oer_AnnotatedEventf_def oer_Eventf_def Let_def)

end
