(* ===== verification/PlaneHealth.thy ===== *)
theory PlaneHealth
  imports PlaneIsolation
begin

text \<open>
  What a ControlPlane's status says of its charts is true of the cluster when the round ends: no
  component that is reconciled later touches the objects of a chart that was found healthy.
\<close>

section \<open>Healthy means observed\<close>

lemma appended_message_starts:
  "appendAvailableVersionsToMessage I ctx c m w = Ok m' \<Longrightarrow> \<exists>rest. m' = m @ rest"
  by (auto simp: appendAvailableVersionsToMessage_def split: option.splits gores_of.splits)

context reconciler_contract
begin

text \<open>
  Two ways lead to \<open>StatusHealthy\<close>; the one with this message follows an observation that found the
  component healthy in the world the round is left in.
\<close>

lemma healthy_observed:
  assumes "reconcileComponent I recs ctx before c after w = (Ok cr, c', w')"
    and "cr_result cr = StatusHealthy" "cr_message cr = ci_name I (cr_component cr) @ '' is healthy.''"
  shows "\<exists>rec c2 obs. findReconcilerFor I recs c = Inr rec \<and> same_component I c c2
     \<and> rk_observe rec ctx c2 w' = (Ok obs, c', w') \<and> he_healthy (ob_health obs)"
proof (cases "findReconcilerFor I recs c")
  case (Inl e)
  with assms(1,2) show ?thesis by (auto simp: reconcileComponent_def result_of_def status_eqs)
next
  case (Inr rec)
  have mem: "rec \<in> set recs" using findReconcilerFor_registered [OF Inr] by simp
  obtain r1 c1 w1 where o: "rk_observe rec ctx c w = (r1, c1, w1)" by (rule prod_cases3)
  have k: "same_component I c c1" using observe_contract [OF mem o] by simp
  have al: "cr_result cr \<in> allowed_statuses I c'" "cr_component cr = c'" "ci_enabled I c' = ci_enabled I c"
    using reconcileComponent_contract [OF assms(1)] by (auto simp: same_component_def)
  then have en: "ci_enabled I c1"
    using k assms(2) healthy_not_disabled [of StatusHealthy]
    by (auto simp: allowed_statuses_def same_component_def healthy_status_def split: if_splits)
  have up: "update_branch I rec ctx c1 w1 = (Ok cr, c', w')"
    using assms en Inr o
    by (auto simp: reconcileComponent_def install_branch_def result_of_def status_eqs
        split: gores_of.splits prod.splits if_splits option.splits dest!: appended_message_starts)
  obtain r2 c2 w2 where p: "rk_pre_update rec ctx c1 w1 = (r2, c2, w2)" by (rule prod_cases3)
  obtain r3 c3 w3 where u: "rk_update rec ctx c2 w2 = (r3, c3, w3)" by (rule prod_cases3)
  obtain r4 c4 w4 where ob: "rk_observe rec ctx c3 w3 = (r4, c4, w4)" by (rule prod_cases3)
  have same: "same_component I c c3"
    using k pre_update_contract [OF mem p] update_contract [OF mem u] by (blast intro: same_component_trans)
  have w4: "w4 = w3" using observe_contract [OF mem ob] by simp
  from up p u ob assms(2) obtain obs where "r4 = Ok obs" "observed_result I obs c4 w4 = (Ok cr, c', w')"
    by (auto simp: update_branch_def result_of_def status_eqs split: gores_of.splits)
  moreover from this assms(2) have "he_healthy (ob_health obs) \<and> c' = c4 \<and> w' = w4"
    by (auto simp: observed_result_def result_of_def Let_def status_eqs split: if_splits)
  ultimately show ?thesis using Inr same ob w4 by auto
qed

end

section \<open>Each chart has objects of its own\<close>

definition own_chart :: "string \<Rightarrow> 'w comp \<Rightarrow> kind \<Rightarrow> nname \<Rightarrow> bool" where
  "own_chart ns c k n \<longleftrightarrow> (\<exists>kc. chart_constants c = Some kc \<and> k \<in> {KHelmRepository, KHelmRelease}
     \<and> n = \<lparr> nn_namespace = ns, nn_name = fst kc \<rparr>)"

text \<open>Changes within a scope that leave every object filed under its own kind and name.\<close>

definition settles :: "'w kview \<Rightarrow> (kind \<Rightarrow> nname \<Rightarrow> bool) \<Rightarrow> 'w \<Rightarrow> 'w \<Rightarrow> bool" where
  "settles view S w w' \<longleftrightarrow> only_at view S w w' \<and> (\<forall>k. kind_filed view k w \<longrightarrow> kind_filed view k w')"

lemma settles_same: "view w' = view w \<Longrightarrow> settles view S w w'"
  by (simp add: settles_def only_at_same kind_filed_def)

lemma settles_trans: "settles view S w w1 \<Longrightarrow> settles view S w1 w2 \<Longrightarrow> settles view S w w2"
  unfolding settles_def by (blast intro: only_at_trans)

lemma settles_mono: "settles view S w w' \<Longrightarrow> (\<And>k n. S k n \<Longrightarrow> T k n) \<Longrightarrow> settles view T w w'"
  unfolding settles_def by (blast intro: only_at_mono)

lemma chart_constants_type: "comp_type c' = comp_type c \<Longrightarrow> chart_constants c' = chart_constants c"
  by (cases c; cases c') (simp_all add: rtype_defs)

lemma own_chart_same: "same_component (operator_iface L) c c' \<Longrightarrow> own_chart ns c' = own_chart ns c"
proof -
  assume "same_component (operator_iface L) c c'"
  then have "chart_constants c' = chart_constants c" by (intro chart_constants_type) (simp add: same_component_def)
  then show ?thesis by (simp add: own_chart_def fun_eq_iff)
qed

lemma built_is_own:
  assumes "default_law L" "TenantNamespace ctx = Ok ns"
  shows "comp_source L ctx c w = (Ok d, c1) \<Longrightarrow> own_chart ns c (kind_of (flux_GetObject d)) (key_of (flux_GetObject d))"
    "comp_manifesto L ctx c w = (Ok d, c1) \<Longrightarrow> own_chart ns c (kind_of (flux_GetObject d)) (key_of (flux_GetObject d))"
proof -
  assume "comp_source L ctx c w = (Ok d, c1)"
  from comp_source_ok [OF assms(1) this] assms(2) obtain k where "chart_constants c = Some k"
    "key_of (flux_GetObject d) = \<lparr> nn_namespace = ns, nn_name = fst k \<rparr>" "kind_of (flux_GetObject d) = KHelmRepository"
    by (auto simp: chart_source_ok_def kind_of_def)
  then show "own_chart ns c (kind_of (flux_GetObject d)) (key_of (flux_GetObject d))"
    unfolding own_chart_def by (intro exI [of _ k]) simp
next
  assume "comp_manifesto L ctx c w = (Ok d, c1)"
  from comp_manifesto_ok [OF assms(1) this] assms(2) obtain k where "chart_constants c = Some k"
    "key_of (flux_GetObject d) = \<lparr> nn_namespace = ns, nn_name = fst k \<rparr>" "kind_of (flux_GetObject d) = KHelmRelease"
    by (auto simp: chart_release_ok_def kind_of_def)
  then show "own_chart ns c (kind_of (flux_GetObject d)) (key_of (flux_GetObject d))"
    unfolding own_chart_def by (intro exI [of _ k]) simp
qed

lemma labelled_identity:
  "kind_of (SetLabels (ob\<lparr>ko_body := reconciled_body (ko_body ob) b\<rparr>) ls) = kind_of ob"
  "key_of (SetLabels (ob\<lparr>ko_body := reconciled_body (ko_body ob) b\<rparr>) ls) = key_of ob"
proof -
  let ?ob = "ob\<lparr>ko_body := reconciled_body (ko_body ob) b\<rparr>"
  have "kind_of ?ob = kind_of ob" "key_of ?ob = key_of ob" by (simp_all add: kind_of_def key_of_def)
  then show "kind_of (SetLabels ?ob ls) = kind_of ob" "key_of (SetLabels ?ob ls) = key_of ob" by simp_all
qed

lemma apply_resource_settles:
  assumes "cou_law (fr_local r) view" "apply_resource r build ctx c w = (res, c', w')"
    and "\<And>d c1. build ctx c w = (Ok d, c1) \<Longrightarrow> S (kind_of (flux_GetObject d)) (key_of (flux_GetObject d))"
  shows "settles view S w w'"
proof -
  have "kind_filed view k w'" if filed: "kind_filed view k w" for k
  proof (cases "\<exists>d c1. build ctx c w = (Ok d, c1)")
    case False
    then have "w' = w" using assms(2) by (cases "fst (build ctx c w)"; cases "build ctx c w") (auto simp: apply_resource_def)
    with filed show ?thesis by simp
  next
    case True
    then obtain d c1 where d: "build ctx c w = (Ok d, c1)" by blast
    let ?ob = "flux_GetObject (flux_Empty d)" and ?f = "flux_mutate r c1 (flux_Empty d) d"
    obtain e where e: "cl_create_or_update (fr_local r) ?ob ?f w = (e, w')"
      using assms(2) d by (auto simp: apply_resource_def Let_def split: prod.splits)
    show ?thesis
    proof (cases e)
      case (Some x)
      with e cou_law_err [OF assms(1)] filed show ?thesis by (metis kind_filed_def)
    next
      case None
      let ?base = "case view w (kind_of ?ob) (key_of ?ob) of Some cur \<Rightarrow> cur | None \<Rightarrow> ?ob"
      obtain ob' where ob': "?f ?base = Inr ob'" "view w' = (view w)(kind_of ?ob := (view w (kind_of ?ob))(key_of ?ob \<mapsto> ob'))"
        by (rule cou_law_ok [OF assms(1) e [unfolded None]])
      have "kind_of ob' = kind_of ?ob \<and> key_of ob' = key_of ?ob" if k: "k = kind_of ?ob"
      proof -
        have base: "kind_of ?base = kind_of ?ob" "key_of ?base = key_of ?ob"
          using filed k by (auto split: option.splits dest: kind_filedD)
        then have "ob' = SetLabels (?base\<lparr>ko_body := reconciled_body (ko_body ?base) (ko_body (flux_GetObject d))\<rparr>) (fr_labels r c1)"
          using ob'(1) flux_mutate_ok [of ?base d r c1] by (simp add: fx.empty_kind)
        then have "kind_of ob' = kind_of ?base \<and> key_of ob' = key_of ?base" by (simp only: labelled_identity)
        with base show ?thesis by simp
      qed
      with ob'(2) filed show ?thesis by (auto simp: kind_filed_def split: if_splits)
    qed
  qed
  moreover have "only_at view S w w'" by (rule apply_resource_at [OF assms(1,2)]) (rule assms(3))
  ultimately show ?thesis by (simp add: settles_def)
qed

lemma delete_resource_settles:
  assumes "delete_law (fr_local r) view" "delete_resource r build ctx c w = (res, c', w')"
    and "\<And>d c1. build ctx c w = (Ok d, c1) \<Longrightarrow> S (kind_of (flux_GetObject d)) (key_of (flux_GetObject d))"
  shows "settles view S w w'"
proof -
  have "kind_filed view k w'" if filed: "kind_filed view k w" for k
  proof (cases "\<exists>d c1 w1. build ctx c w = (Ok d, c1) \<and> cl_delete (fr_local r) (flux_GetObject d) w = (None, w1)")
    case False
    then have "view w' = view w"
      using assms(2) delete_law_err [OF assms(1)]
      by (auto simp: delete_resource_def split: gores_of.splits prod.splits)
    with filed show ?thesis by (simp add: kind_filed_def)
  next
    case True
    then obtain d where e: "cl_delete (fr_local r) (flux_GetObject d) w = (None, w')"
      using assms(2) by (auto simp: delete_resource_def)
    have "\<exists>old. view w k n = Some old \<and> kind_of ob = kind_of old \<and> key_of ob = key_of old" if "view w' k n = Some ob" for n ob
      using delete_law_ok [OF assms(1) e, of k n] that
      by (auto simp: left_behind_def kind_of_def key_of_def split: if_splits option.splits)
    with filed show ?thesis unfolding kind_filed_def by metis
  qed
  moreover have "only_at view S w w'" using delete_resource_at [OF assms(1,2), of S] assms(3) by blast
  ultimately show ?thesis by (simp add: settles_def)
qed

lemma resource_built:
  "apply_resource r b ctx c w = (Ok u, c1, w1) \<Longrightarrow> \<exists>d. b ctx c w = (Ok d, c1)"
  "delete_resource r b ctx c w = (Ok u, c1, w1) \<Longrightarrow> \<exists>d. b ctx c w = (Ok d, c1)"
  by (auto simp: apply_resource_def delete_resource_def Let_def split: gores_of.splits prod.splits)

lemma source_keeps_own:
  "default_law L \<Longrightarrow> comp_source L ctx c w = (Ok d, c1) \<Longrightarrow> own_chart ns c1 = own_chart ns c"
  using comp_source_ok [of L ctx c w d c1] by (auto simp: own_chart_def fun_eq_iff)

lemma flux_settles:
  assumes "cou_law lc lv" "delete_law lc lv" "default_law L" "TenantNamespace ctx = Ok ns"
  shows "applies (operator_flux_reconciler L lc rc) ctx c w w' \<Longrightarrow> settles lv (own_chart ns c) w w'"
    "uninstalls (operator_flux_reconciler L lc rc) ctx c w w' \<Longrightarrow> settles lv (own_chart ns c) w w'"
proof -
  obtain r where r: "operator_flux_reconciler L lc rc = as_flux_reconciler L (operator_iface L) (operator_flux L) r"
    "fr_local r = lc" using operator_clients(1) by blast
  note built = built_is_own [OF assms(3,4)]
  have ap: "settles lv (own_chart ns c) w1 w2" if "apply_resource r b ctx c w1 = (res, c', w2)" "b = comp_source L \<or> b = comp_manifesto L"
    for b c w1 res c' w2
    by (rule apply_resource_settles [OF assms(1) [folded r(2)] that(1)]) (use that(2) built in blast)
  have de: "settles lv (own_chart ns c) w1 w2" if "delete_resource r b ctx c w1 = (res, c', w2)" "b = comp_source L \<or> b = comp_manifesto L"
    for b c w1 res c' w2
    by (rule delete_resource_settles [OF assms(2) [folded r(2)] that(1)]) (use that(2) built in blast)
  have io: "settles lv (own_chart ns c) w w'" if "flux_installOrUpdate (operator_flux L) r ctx c w = (res, c', w')" for c res c'
  proof -
    obtain r1 c1 w1 where s: "apply_resource r (comp_source L) ctx c w = (r1, c1, w1)" by (rule prod_cases3)
    obtain r2 c2 w2 where m: "apply_resource r (comp_manifesto L) ctx c1 w1 = (r2, c2, w2)" by (rule prod_cases3)
    have "own_chart ns c1 = own_chart ns c" if "r1 = Ok ()"
      using resource_built(1) [OF s [unfolded that]] by (elim exE) (rule source_keeps_own [OF assms(3)])
    with ap [OF s] ap [OF m] that s m show ?thesis
      by (cases r1) (auto simp: flux_installOrUpdate_stages split: if_splits intro: settles_trans settles_same)
  qed
  have un: "settles lv (own_chart ns c) w w'" if "flux_Uninstall (operator_flux L) r ctx c w = (res, c', w')" for c res c'
  proof -
    obtain r1 c1 w1 where s: "delete_resource r (comp_source L) ctx c w = (r1, c1, w1)" by (rule prod_cases3)
    obtain r2 c2 w2 where m: "delete_resource r (comp_manifesto L) ctx c1 w1 = (r2, c2, w2)" by (rule prod_cases3)
    have "own_chart ns c1 = own_chart ns c" if "r1 = Ok ()"
      using resource_built(2) [OF s [unfolded that]] by (elim exE) (rule source_keeps_own [OF assms(3)])
    with de [OF s] de [OF m] that s m show ?thesis
      by (cases r1) (auto simp: flux_Uninstall_stages split: if_splits intro: settles_trans settles_same)
  qed
  show "applies (operator_flux_reconciler L lc rc) ctx c w w' \<Longrightarrow> settles lv (own_chart ns c) w w'"
    using io by (auto simp: applies_def r(1) reconciler_fields dest!: run_hook_component)
  show "uninstalls (operator_flux_reconciler L lc rc) ctx c w w' \<Longrightarrow> settles lv (own_chart ns c) w w'"
    using un by (auto simp: uninstalls_def r(1) reconciler_fields dest!: run_hook_component)
qed

lemma component_settles:
  assumes "cou_law lc lv" "delete_law lc lv" "default_law L" "leaves rc lv" "TenantNamespace ctx = Ok ns"
    and "reconcileComponent (operator_iface L) (operator_reconcilers L lc rc) ctx before c after w = (r, c', w')"
  shows "settles lv (own_chart ns c) w w'"
proof -
  note flux = flux_settles [OF assms(1-3,5)] and obj = object_writes_leave [OF assms(4)]
  from op.reconcileComponent_effect [OF assms(6)] consider (Same) "w' = w"
    | (Acts) rec obs c0 where "rec = (if comp_is_flux c then operator_flux_reconciler L lc rc else operator_object_reconciler L rc)"
        "rk_observe rec ctx c w = (Ok obs, c0, w)" "applies rec ctx c0 w w' \<or> uninstalls rec ctx c0 w w'"
    by (auto simp: findReconcilerFor_operator split: if_splits)
  then show ?thesis
  proof cases
    case Same
    then show ?thesis by (simp add: settles_same)
  next
    case Acts
    have "rec \<in> set (operator_reconcilers L lc rc)" using Acts(1) by (simp add: operator_reconcilers_def)
    from op.observe_contract [OF this Acts(2)] have own: "own_chart ns c0 = own_chart ns c" using own_chart_same by blast
    show ?thesis
    proof (cases "comp_is_flux c")
      case True
      with Acts(1,3) flux [of rc c0 w w'] own show ?thesis by auto
    next
      case False
      with Acts(1,3) obj have "lv w' = lv w" by auto
      then show ?thesis by (rule settles_same)
    qed
  qed
qed

section \<open>A chart that is reported healthy is ready\<close>

definition chart_ready :: "'w kview \<Rightarrow> string \<Rightarrow> string \<Rightarrow> 'w \<Rightarrow> bool" where
  "chart_ready lv ns name w \<longleftrightarrow> (\<forall>k \<in> {KHelmRepository, KHelmRelease}.
     \<exists>ob. lv w k \<lparr> nn_namespace = ns, nn_name = name \<rparr> = Some ob \<and> is_ready ob)"

definition charts_filed :: "'w kview \<Rightarrow> 'w \<Rightarrow> bool" where
  "charts_filed lv w \<longleftrightarrow> kind_filed lv KHelmRepository w \<and> kind_filed lv KHelmRelease w"

definition reported_healthy :: "libs \<Rightarrow> 'w comp component_result \<Rightarrow> bool" where
  "reported_healthy L cr \<longleftrightarrow> cr_result cr = StatusHealthy \<and> cr_message cr = comp_name L (cr_component cr) @ '' is healthy.''"

lemma settles_filed: "settles lv S w w' \<Longrightarrow> charts_filed lv w \<Longrightarrow> charts_filed lv w'"
  by (simp add: settles_def charts_filed_def)

lemma component_ready:
  assumes "get_law lc lv" "find_law L" "default_law L" "TenantNamespace ctx = Ok ns" "charts_filed lv w'"
    and "reconcileComponent (operator_iface L) (operator_reconcilers L lc rc) ctx before c after w = (Ok cr, c', w')"
    and "reported_healthy L cr" "chart_constants c = Some kc"
  shows "chart_ready lv ns (fst kc) w'"
proof -
  from assms(7) obtain rec c2 obs where o: "rec = (if comp_is_flux c then operator_flux_reconciler L lc rc else operator_object_reconciler L rc)"
    "same_component (operator_iface L) c c2" "rk_observe rec ctx c2 w' = (Ok obs, c', w')" "he_healthy (ob_health obs)"
    using op.healthy_observed [OF assms(6)] by (auto simp: reported_healthy_def findReconcilerFor_operator split: if_splits)
  have k2: "chart_constants c2 = Some kc"
    using o(2) assms(8) chart_constants_type [of c2 c] by (simp add: same_component_def)
  have "comp_is_flux c" using assms(8) by (cases c) simp_all
  moreover obtain r where r: "operator_flux_reconciler L lc rc = as_flux_reconciler L (operator_iface L) (operator_flux L) r"
    "fr_local r = lc" using operator_clients(1) by blast
  ultimately have obs: "flux_Observe L (operator_flux L) r ctx c2 w' = (Ok obs, c', w')"
    using o(1,3) by (simp add: reconciler_fields)
  obtain rs c1 where s: "observe_resource L r (comp_source L) ctx c2 w' = (rs, c1)" by fastforce
  obtain rm c3 where m: "observe_resource L r (comp_manifesto L) ctx c1 w' = (rm, c3)" by fastforce
  from obs s m obtain os om where ok: "rs = Ok os" "rm = Ok om"
    and "ob_health obs = aggregateHealthiness [ob_health om, ob_health os]"
    by (auto simp: flux_Observe_stages split: if_splits gores_of.splits)
  with o(4) have healthy: "he_healthy (ob_health os)" "he_healthy (ob_health om)" by auto
  have src: "key_of (flux_GetObject d) = \<lparr> nn_namespace = ns, nn_name = fst kc \<rparr> \<and> kind_of (flux_GetObject d) = KHelmRepository
      \<and> chart_constants c1 = Some kc" if "comp_source L ctx c2 w' = (Ok d, c1)" for d
    using comp_source_ok [OF assms(3) that] k2 assms(4) by (auto simp: chart_source_ok_def kind_of_def)
  have man: "key_of (flux_GetObject d) = \<lparr> nn_namespace = ns, nn_name = fst kc \<rparr> \<and> kind_of (flux_GetObject d) = KHelmRelease"
    if "comp_manifesto L ctx c1 w' = (Ok d, c3)" "chart_constants c1 = Some kc" for d
    using comp_manifesto_ok [OF assms(3) that(1)] that(2) assms(4) by (auto simp: chart_release_ok_def kind_of_def)
  have get: "get_law (fr_local r) lv" using assms(1) r(2) by simp
  have "kind_filed lv (kind_of (flux_GetObject d)) w'" if "comp_source L ctx c2 w' = (Ok d, c1)" for d
    using src [OF that] assms(5) by (simp add: charts_filed_def)
  from observe_resource_truthful [OF get assms(2) this s [unfolded ok]] healthy(1) src obtain x where
    source: "lv w' KHelmRepository \<lparr> nn_namespace = ns, nn_name = fst kc \<rparr> = Some x" "is_ready x" "chart_constants c1 = Some kc" by metis
  have "kind_filed lv (kind_of (flux_GetObject d)) w'" if "comp_manifesto L ctx c1 w' = (Ok d, c3)" for d
    using man [OF that source(3)] assms(5) by (simp add: charts_filed_def)
  from observe_resource_truthful [OF get assms(2) this m [unfolded ok]] healthy(2) man [OF _ source(3)] obtain y where
    "lv w' KHelmRelease \<lparr> nn_namespace = ns, nn_name = fst kc \<rparr> = Some y" "is_ready y" by metis
  with source show ?thesis by (auto simp: chart_ready_def)
qed

text \<open>The components of a round that are charts, by name.\<close>

definition charts_in :: "'w comp list \<Rightarrow> string list" where
  "charts_in cs = map fst (List.map_filter chart_constants cs)"

lemma charts_in_Cons: "charts_in (c # cs) = (case chart_constants c of None \<Rightarrow> [] | Some k \<Rightarrow> [fst k]) @ charts_in cs"
  by (auto simp: charts_in_def map_filter_def split: option.splits)

lemma not_own_elsewhere:
  "name \<notin> set (charts_in cs) \<Longrightarrow> c \<in> set cs \<Longrightarrow> \<not> own_chart ns c k \<lparr> nn_namespace = ns, nn_name = name \<rparr>"
  by (force simp: own_chart_def charts_in_def map_filter_def)

lemma loop_ready:
  assumes "get_law lc lv" "cou_law lc lv" "delete_law lc lv" "find_law L" "default_law L" "leaves rc lv" "TenantNamespace ctx = Ok ns"
    and "distinct (charts_in after)" "charts_filed lv w"
    and "reconcile_loop (operator_iface L) (operator_reconcilers L lc rc) ctx before after w = (Ok rs, out, evs, w')"
    and "cr \<in> set rs" "reported_healthy L cr" "chart_constants (cr_component cr) = Some kc"
  shows "chart_ready lv ns (fst kc) w'"
  using assms(8-11)
proof (induction after arbitrary: before w rs out evs)
  case (Cons c after)
  note settle = component_settles [OF assms(2,3,5-7)]
  obtain r c' w1 where one: "reconcileComponent (operator_iface L) (operator_reconcilers L lc rc) ctx before c after w = (r, c', w1)"
    by (rule prod_cases3)
  obtain rs1 out1 evs1 w2 where rest: "reconcile_loop (operator_iface L) (operator_reconcilers L lc rc) ctx (before @ [c']) after w1
      = (rs1, out1, evs1, w2)" by (rule prod_cases4)
  from Cons.prems(3) one rest obtain cr1 crs1 where ok: "r = Ok cr1" "rs1 = Ok crs1" "rs = cr1 # crs1" "w2 = w'"
    by (cases r; cases rs1) auto
  have filed: "charts_filed lv w1" by (rule settles_filed [OF settle [OF one] Cons.prems(2)])
  from Cons.prems(4) ok consider (Here) "cr = cr1" | (Later) "cr \<in> set crs1" by auto
  then show ?case
  proof cases
    case Later
    from Cons.prems(1) have "distinct (charts_in after)" by (simp add: charts_in_Cons)
    from Cons.IH [OF this filed rest [unfolded ok] Later] show ?thesis .
  next
    case Here
    from one [unfolded ok] have same: "same_component (operator_iface L) c c'" "cr_component cr1 = c'"
      using op.reconcileComponent_contract [OF one [unfolded ok(1)]] by simp_all
    then have kc: "chart_constants c = Some kc"
      using Here assms(13) chart_constants_type [of c' c] by (simp add: same_component_def)
    with Cons.prems(1) have away: "fst kc \<notin> set (charts_in after)" by (simp add: charts_in_Cons)
    have ready: "chart_ready lv ns (fst kc) w1"
      by (rule component_ready [OF assms(1,4,5,7) filed one [unfolded ok] _ kc]) (use Here assms(12) in simp)
    have "only_at lv (\<lambda>k n. n \<noteq> \<lparr> nn_namespace = ns, nn_name = fst kc \<rparr> \<or> k \<notin> {KHelmRepository, KHelmRelease}) w1 w'"
    proof (rule loop_relates [OF only_at_refl only_at_trans _ rest [unfolded ok] order_refl])
      fix d b a v q d' v'
      assume d: "d \<in> set after" "reconcileComponent (operator_iface L) (operator_reconcilers L lc rc) ctx b d a v = (q, d', v')"
      from settle [OF d(2)] have "only_at lv (own_chart ns d) v v'" by (simp add: settles_def)
      then show "only_at lv (\<lambda>k n. n \<noteq> \<lparr> nn_namespace = ns, nn_name = fst kc \<rparr> \<or> k \<notin> {KHelmRepository, KHelmRelease}) v v'"
        by (rule only_at_mono) (use not_own_elsewhere [OF away d(1)] in auto)
    qed
    with ready show ?thesis by (simp add: chart_ready_def only_at_def)
  qed
qed simp

lemma charts_in_append [simp]: "charts_in (xs @ ys) = charts_in xs @ charts_in ys"
  by (simp add: charts_in_def map_filter_def)

lemma chart_constants_flux: "chart_constants c = None \<longleftrightarrow> \<not> comp_is_flux c"
  by (cases c) simp_all

lemma no_charts_in: "list_all (\<lambda>c. \<not> comp_is_flux c) cs \<Longrightarrow> charts_in cs = []"
  by (induction cs) (simp_all add: charts_in_Cons chart_constants_flux [symmetric], simp add: charts_in_def map_filter_def)

text \<open>Every Juggler of the controller has each chart once.\<close>

lemma charts_registered_once:
  assumes "newJuggler E ctx cp remote w = Ok j"
  shows "charts_in (jg_components j) = chart_names"
proof -
  from newJuggler_parts [OF assms] obtain j0 os where j0: "configured_juggler E cp remote w = Inr j0"
    "jg_components j = jg_components j0 @ os" "list_all orphaned os" by blast
  from registered_components [OF j0(1)] obtain secrets cp1 crds where parts: "addPullSecrets E cp w = Inr (secrets, cp1)"
    "jg_components j0 = secrets @ controlPlaneComponents cp1
       @ jg_components (clusterroles_RegisterAsComponents NewJuggler (controlPlaneComponents cp1) (\<not> WasDeleted cp))
       @ map (crd_component (\<not> WasDeleted cp)) (filterCRDs crds embeddedCRDsToInstall)
       @ jg_components (policies_RegisterAsComponents NewJuggler (ev_local E) (\<not> WasDeleted cp))
       @ jg_components (RegisterDeploymentRuntimeConfigProtection (ev_environ E) NewJuggler
           (ev_protection E \<and> \<not> WasDeleted cp))" by blast
  have "charts_in secrets = []"
    using parts(1) by (intro no_charts_in) (auto simp: addPullSecrets_def list_all_iff split: sum.splits dest!: secrets_loop)
  moreover have "charts_in os = []"
    using j0(3) orphaned_is_object by (intro no_charts_in) (auto simp: list_all_iff)
  moreover have "charts_in (jg_components (clusterroles_RegisterAsComponents NewJuggler (controlPlaneComponents cp1) en)) = []" for en
    by (rule no_charts_in) (simp add: clusterroles_RegisterAsComponents_def NewJuggler_def Let_def)
  moreover have "charts_in (map (crd_component en :: _ \<Rightarrow> 'a comp) cs) = []" for en cs
    by (rule no_charts_in) (auto simp: list_all_iff crd_component_def)
  moreover have "charts_in (jg_components (policies_RegisterAsComponents NewJuggler cl en)) = []" for cl :: "'a client" and en
    by (rule no_charts_in) (simp add: policies_RegisterAsComponents_def NewJuggler_def PackageTypes_def policy_component_def binding_component_def
        cpr_component_def)
  moreover have "charts_in (jg_components (RegisterDeploymentRuntimeConfigProtection env (NewJuggler :: 'a op_juggler) en)) = []" for env en
    by (rule no_charts_in) (simp add: RegisterDeploymentRuntimeConfigProtection_def NewJuggler_def policy_component_def binding_component_def)
  moreover have "charts_in (controlPlaneComponents cp1 :: 'a comp list) = chart_names"
  proof -
    have "charts_in (concat (map (provider_components en) ps) :: 'a comp list) = []" for en ps
      by (rule no_charts_in) (auto simp: list_all_iff provider_components_def)
    then show ?thesis
      by (auto simp: controlPlaneComponents_def Let_def charts_in_Cons chart_names_def charts_in_def map_filter_def split: option.splits)
  qed
  ultimately show ?thesis using j0(2) parts(2) by simp
qed

text \<open>
  So what the controller reports is true of the cluster: the conditions and the counts of the status
  are made from results in which every chart that counts as healthy is ready.
\<close>

theorem plane_status_truthful:
  fixes E :: "'w cp_env"
  assumes "get_law (ev_local E) lv" "cou_law (ev_local E) lv" "delete_law (ev_local E) lv" "find_law (ev_libs E)"
    and "default_law (ev_libs E)" "leaves remote lv" "TenantNamespace ctx = Ok ns" "charts_filed lv w"
    and "updateControlPlaneComponents E ctx cp remote w = (Ok conditions, cp', w')"
  shows "\<exists>rs :: 'w comp component_result list. tally (operator_iface (ev_libs E)) (ev_now E w') rs = (cpl_enabled cp', cpl_healthy cp', conditions)
    \<and> (\<forall>cr kc. cr \<in> set rs \<longrightarrow> reported_healthy (ev_libs E) cr \<longrightarrow> chart_constants (cr_component cr) = Some kc
         \<longrightarrow> chart_ready lv ns (fst kc) w')"
proof -
  from assms(9) obtain j rs out evs where run: "newJuggler E ctx cp remote w = Ok j"
    "Reconcile (operator_iface (ev_libs E)) j ctx w = (Ok rs, out, evs, w')"
    "tally (operator_iface (ev_libs E)) (ev_now E w') rs = (cpl_enabled cp', cpl_healthy cp', conditions)"
    by (auto simp: updateControlPlaneComponents_def split: gores_of.splits prod.splits)
  from newJuggler_parts [OF run(1)] have rec: "jg_reconcilers j = operator_reconcilers (ev_libs E) (ev_local E) remote" by blast
  have once: "distinct (charts_in (jg_components j))"
    using charts_registered_once [OF run(1)] by (simp add: chart_names_def)
  have "chart_ready lv ns (fst kc) w'" if "cr \<in> set rs" "reported_healthy (ev_libs E) cr" "chart_constants (cr_component cr) = Some kc" for cr kc
    by (rule loop_ready [OF assms(1-7) once assms(8) run(2) [unfolded Reconcile_def rec] that])
  with run(3) show ?thesis by blast
qed


section \<open>A chart on a concrete cluster\<close>

definition flux_chart :: "(store \<times> store) comp" where
  "flux_chart = CFlux (Some (demo_chart_config\<lparr>cc_chart := Some \<lparr> ch_repository = ''oci://r'', ch_url = [],
     ch_name = ''flux'', ch_version = ''1.2.3'' \<rparr>\<rparr>))"

definition flux_cluster :: "store \<times> store" where
  "flux_cluster =
     ([((KHelmRepository, \<lparr> nn_namespace = ''tenant'', nn_name = ''flux'' \<rparr>),
          new_obj ''tenant'' ''flux'' (BHelmRepository zero_source_spec [ready_condition])),
       ((KHelmRelease, \<lparr> nn_namespace = ''tenant'', nn_name = ''flux'' \<rparr>),
          new_obj ''tenant'' ''flux'' (BHelmRelease zero_release_spec [ready_condition]))], [])"

lemma flux_chart_builds:
  "\<exists>src. comp_source plane_libs demo_ctx flux_chart w = (Ok (HelmRepositoryAdapter src), flux_chart)
     \<and> so_meta src = empty_meta ''tenant'' ''flux'' \<and> so_conds src = []"
  "\<exists>man. comp_manifesto plane_libs demo_ctx flux_chart w = (Ok (HelmReleaseManifesto man), flux_chart)
     \<and> hr_meta man = empty_meta ''tenant'' ''flux'' \<and> hr_conds man = []"
  by (simp_all add: flux_chart_def source_defs manifesto_defs chart_spec_defs chart_values_defs default_chart_spec_def
      build_source_def build_manifesto_def demo_chart_config_def ApplyDefaults_doc default_source_def default_release_def
      Let_def zero_chart_config_def lower_names)

text \<open>Both objects of the chart are there and ready.\<close>

abbreviation flux_key :: nname where
  "flux_key \<equiv> \<lparr> nn_namespace = ''tenant'', nn_name = ''flux'' \<rparr>"

definition both_ready :: "store \<times> store \<Rightarrow> bool" where
  "both_ready w \<longleftrightarrow> (\<exists>m sp. store_view (fst w) KHelmRepository flux_key = Some \<lparr> ko_meta = m, ko_body = BHelmRepository sp [ready_condition] \<rparr>)
     \<and> (\<exists>m sp. store_view (fst w) KHelmRelease flux_key = Some \<lparr> ko_meta = m, ko_body = BHelmRelease sp [ready_condition] \<rparr>)"

lemma on_fst_store:
  "cl_get (on_fst store_client) k n w = (case store_view (fst w) k n of Some ob \<Rightarrow> Inr ob | None \<Rightarrow> Inl NotFoundErr)"
  by (simp add: on_fst_def store_client_def st_get_def store_view_def)

lemma both_ready_observed:
  assumes "both_ready w" "fr_local r = on_fst store_client"
  shows "\<exists>obs. flux_Observe plane_libs (operator_flux plane_libs) r demo_ctx flux_chart w = (Ok obs, flux_chart, w)
     \<and> ob_exists obs \<and> \<not> ob_skipped obs \<and> he_healthy (ob_health obs)"
proof -
  from flux_chart_builds [of w] obtain src man where
    "comp_source plane_libs demo_ctx flux_chart w = (Ok (HelmRepositoryAdapter src), flux_chart)" "so_meta src = empty_meta ''tenant'' ''flux''"
    "comp_manifesto plane_libs demo_ctx flux_chart w = (Ok (HelmReleaseManifesto man), flux_chart)" "hr_meta man = empty_meta ''tenant'' ''flux''"
    by blast
  moreover have "comp_is_flux flux_chart" by (simp add: flux_chart_def)
  ultimately show ?thesis
    using assms
    by (auto simp: flux_Observe_stages observe_resource_def Let_def both_ready_def on_fst_store kind_of_def key_of_def
        empty_source_def empty_release_def empty_meta_def flux_GetHealthiness_conditions ready_healthiness_def
        plane_libs_def doc_libs_def ready_condition_def)
qed

lemma store_applied:
  assumes "build ctx c w = (Ok d, c')" "fr_local r = on_fst store_client"
    and "store_view (fst w) (kind_of (flux_GetObject d)) (key_of (flux_GetObject d)) = Some cur" "kind_of cur = kind_of (flux_GetObject d)"
  shows "\<exists>w'. apply_resource r build ctx c w = (Ok (), c', w') \<and> store_view (fst w') = (store_view (fst w))
    (kind_of (flux_GetObject d) := (store_view (fst w) (kind_of (flux_GetObject d)))
       (key_of (flux_GetObject d) \<mapsto> applied_object (fr_labels r c') d (Some cur)))"
  using assms flux_mutate_ok [OF assms(4), of r c']
  by (simp add: apply_resource_def on_fst_def store_client_def st_cou_def store_view_def update_conv fun_eq_iff of_err_def
      applied_object_def Let_def)

lemma applied_object_body:
  "ko_body (applied_object ls d (Some cur)) = reconciled_body (ko_body cur) (ko_body (flux_GetObject d))"
  by (simp add: applied_object_def Let_def)

lemma applied_keeps_ready:
  "\<exists>m' sp'. applied_object ls (HelmRepositoryAdapter d) (Some \<lparr> ko_meta = m, ko_body = BHelmRepository sp cs \<rparr>)
     = \<lparr> ko_meta = m', ko_body = BHelmRepository sp' cs \<rparr>"
  "\<exists>m' hp'. applied_object ls (HelmReleaseManifesto r) (Some \<lparr> ko_meta = m, ko_body = BHelmRelease hp cs \<rparr>)
     = \<lparr> ko_meta = m', ko_body = BHelmRelease hp' cs \<rparr>"
proof -
  let ?source = "applied_object ls (HelmRepositoryAdapter d) (Some \<lparr> ko_meta = m, ko_body = BHelmRepository sp cs \<rparr>)"
  let ?release = "applied_object ls (HelmReleaseManifesto r) (Some \<lparr> ko_meta = m, ko_body = BHelmRelease hp cs \<rparr>)"
  have "\<exists>sp'. ko_body ?source = BHelmRepository sp' cs" "\<exists>hp'. ko_body ?release = BHelmRelease hp' cs"
    by (simp_all add: applied_object_body reconciled_body_def)
  then show "\<exists>m' sp'. ?source = \<lparr> ko_meta = m', ko_body = BHelmRepository sp' cs \<rparr>"
    "\<exists>m' hp'. ?release = \<lparr> ko_meta = m', ko_body = BHelmRelease hp' cs \<rparr>"
    by (cases ?source; cases ?release; simp)+
qed

lemma both_ready_applied:
  assumes "both_ready w" "fr_local r = on_fst store_client"
  shows "\<exists>w'. flux_installOrUpdate (operator_flux plane_libs) r demo_ctx flux_chart w = (Ok (), flux_chart, w') \<and> both_ready w'"
proof -
  have source: "\<exists>w1. apply_resource r (comp_source plane_libs) demo_ctx flux_chart w = (Ok (), flux_chart, w1) \<and> both_ready w1"
    if "both_ready w" for w
  proof -
    from flux_chart_builds(1) [of w] obtain d where d: "comp_source plane_libs demo_ctx flux_chart w = (Ok (HelmRepositoryAdapter d), flux_chart)"
      "so_meta d = empty_meta ''tenant'' ''flux''" by blast
    from that obtain m sp where cur: "store_view (fst w) KHelmRepository flux_key
        = Some \<lparr> ko_meta = m, ko_body = BHelmRepository sp [ready_condition] \<rparr>" by (auto simp: both_ready_def)
    from cur d(2) have "\<exists>w1. apply_resource r (comp_source plane_libs) demo_ctx flux_chart w = (Ok (), flux_chart, w1)
        \<and> store_view (fst w1) = (store_view (fst w)) (KHelmRepository := (store_view (fst w) KHelmRepository)
            (flux_key \<mapsto> applied_object (fr_labels r flux_chart) (HelmRepositoryAdapter d) (Some \<lparr> ko_meta = m, ko_body = BHelmRepository sp [ready_condition] \<rparr>)))"
      using store_applied [where build = "comp_source plane_libs", OF d(1) assms(2)]
      by (simp add: kind_of_def key_of_def empty_meta_def)
    with that show ?thesis
      using applied_keeps_ready [of "fr_labels r flux_chart"] by (auto simp: both_ready_def)
  qed
  have release: "\<exists>w1. apply_resource r (comp_manifesto plane_libs) demo_ctx flux_chart w = (Ok (), flux_chart, w1) \<and> both_ready w1"
    if "both_ready w" for w
  proof -
    from flux_chart_builds(2) [of w] obtain d where d: "comp_manifesto plane_libs demo_ctx flux_chart w = (Ok (HelmReleaseManifesto d), flux_chart)"
      "hr_meta d = empty_meta ''tenant'' ''flux''" by blast
    from that obtain m sp where cur: "store_view (fst w) KHelmRelease flux_key
        = Some \<lparr> ko_meta = m, ko_body = BHelmRelease sp [ready_condition] \<rparr>" by (auto simp: both_ready_def)
    from cur d(2) have "\<exists>w1. apply_resource r (comp_manifesto plane_libs) demo_ctx flux_chart w = (Ok (), flux_chart, w1)
        \<and> store_view (fst w1) = (store_view (fst w)) (KHelmRelease := (store_view (fst w) KHelmRelease)
            (flux_key \<mapsto> applied_object (fr_labels r flux_chart) (HelmReleaseManifesto d) (Some \<lparr> ko_meta = m, ko_body = BHelmRelease sp [ready_condition] \<rparr>)))"
      using store_applied [where build = "comp_manifesto plane_libs", OF d(1) assms(2)]
      by (simp add: kind_of_def key_of_def empty_meta_def)
    with that show ?thesis
      using applied_keeps_ready [of "fr_labels r flux_chart"] by (auto simp: both_ready_def)
  qed
  have "comp_is_flux flux_chart" by (simp add: flux_chart_def)
  moreover obtain w1 where one: "apply_resource r (comp_source plane_libs) demo_ctx flux_chart w = (Ok (), flux_chart, w1)" "both_ready w1"
    using source [OF assms(1)] by blast
  moreover obtain w2 where "apply_resource r (comp_manifesto plane_libs) demo_ctx flux_chart w1 = (Ok (), flux_chart, w2)" "both_ready w2"
    using release [OF one(2)] by blast
  ultimately show ?thesis by (simp add: flux_installOrUpdate_stages)
qed

definition flux_juggler :: "(store \<times> store) op_juggler" where
  "flux_juggler = \<lparr> jg_components = [flux_chart],
     jg_reconcilers = operator_reconcilers plane_libs (on_fst store_client) (on_snd store_client) \<rparr>"

lemma flux_cluster_laws:
  "leaves (on_snd store_client) (\<lambda>w. store_view (fst w))" "charts_filed (\<lambda>w. store_view (fst w)) flux_cluster"
  "both_ready flux_cluster" "distinct (charts_in (jg_components flux_juggler))"
  "jg_reconcilers flux_juggler = operator_reconcilers plane_libs (on_fst store_client) (on_snd store_client)"
  "chart_constants flux_chart = Some (''flux'', ''flux'', ''flux-system'')"
  by (rule other_cluster_left(1))
     (simp_all add: charts_filed_def kind_filed_def flux_cluster_def store_view_def new_obj_def empty_meta_def kind_of_def key_of_def
       both_ready_def flux_juggler_def flux_chart_def charts_in_def map_filter_def)

lemma flux_round:
  "\<exists>w'. Reconcile (operator_iface plane_libs) flux_juggler demo_ctx flux_cluster
     = (Ok [\<lparr> cr_component = flux_chart, cr_result = StatusHealthy, cr_message = ''Flux is healthy.'' \<rparr>], [flux_chart],
        emitted_event (operator_iface plane_libs) flux_chart StatusHealthy ''Flux is healthy.'', w')"
proof -
  obtain r where r: "operator_flux_reconciler plane_libs (on_fst store_client) (on_snd store_client)
      = as_flux_reconciler plane_libs (operator_iface plane_libs) (operator_flux plane_libs) r" "fr_local r = on_fst store_client"
    using operator_clients(1) by blast
  obtain obs where obs: "flux_Observe plane_libs (operator_flux plane_libs) r demo_ctx flux_chart flux_cluster = (Ok obs, flux_chart, flux_cluster)"
    "ob_exists obs" using both_ready_observed [OF flux_cluster_laws(3) r(2)] by blast
  obtain w' where w': "flux_installOrUpdate (operator_flux plane_libs) r demo_ctx flux_chart flux_cluster = (Ok (), flux_chart, w')" "both_ready w'"
    using both_ready_applied [OF flux_cluster_laws(3) r(2)] by blast
  obtain obs' where obs': "flux_Observe plane_libs (operator_flux plane_libs) r demo_ctx flux_chart w' = (Ok obs', flux_chart, w')"
    "\<not> ob_skipped obs'" "he_healthy (ob_health obs')" using both_ready_observed [OF w'(2) r(2)] by blast
  have chart: "comp_is_flux flux_chart" "comp_enabled flux_chart" "comp_installable demo_ctx flux_chart flux_cluster = Ok True"
    "hk_pre_update (comp_hooks flux_chart) = None" "comp_dependencies flux_chart = []" "comp_name plane_libs flux_chart = ''Flux''"
    by (simp_all add: flux_chart_def flux_IsEnabled_def flux_IsInstallable_def chart_installable_def flux_Hooks_def no_hooks_def
        demo_chart_config_def flux_cluster_def)
  show ?thesis
    by (simp add: Reconcile_def flux_juggler_def reconcileComponent_def findReconcilerFor_operator chart r(1) reconciler_fields obs
        update_branch_def w'(1) obs' observed_result_def result_of_def run_hook_def checkDependencies_def)
qed


end
