(* ===== verification/GoMemory.thy ===== *)
theory GoMemory
  imports Prelude
begin

text \<open>
  Memory with pointers and slices, for the code whose correctness is a matter of aliasing: the
  deep copies of \<^verbatim>\<open>api/v1beta1\<close>. A struct is a value; a pointer refers to a cell, a slice
  to a part of a backing array. \<open>denotes\<close> says which tree a value stands for and which cells it
  reaches; a \<open>deep_copier\<close> returns a value that stands for the same tree in cells of its own.
\<close>

section \<open>Values, cells and types\<close>

datatype 'a gval =
    Scalar 'a
  | Pointer "nat option"
  | Slice "(nat \<times> nat \<times> nat) option" \<comment> \<open>backing array, offset, length\<close>
  | Struct "(string \<times> 'a gval) list"
  | Array "'a gval list"

text \<open>Cells below \<open>gm_next\<close> are allocated.\<close>

record 'a gmem =
  gm_next :: nat
  gm_cell :: "nat \<Rightarrow> 'a gval"

datatype gty = TScalar | TPointer gty | TSlice gty | TStruct "(string \<times> gty) list"

text \<open>The pure value that memory stands for: references are followed.\<close>

datatype 'a gtree = TrScalar 'a | TrNil | TrRef "'a gtree" | TrList "'a gtree list" | TrRec "(string \<times> 'a gtree) list"

fun elements :: "'a gval \<Rightarrow> 'a gval list" where
  "elements (Array vs) = vs"
| "elements _ = []"

definition slice_elements :: "'a gmem \<Rightarrow> nat \<Rightarrow> nat \<Rightarrow> nat \<Rightarrow> 'a gval list" where
  "slice_elements m a off len = take len (drop off (elements (gm_cell m a)))"

inductive denotes :: "'a gmem \<Rightarrow> gty \<Rightarrow> 'a gval \<Rightarrow> 'a gtree \<Rightarrow> nat set \<Rightarrow> bool"
  and denotes_list :: "'a gmem \<Rightarrow> gty \<Rightarrow> 'a gval list \<Rightarrow> 'a gtree list \<Rightarrow> nat set \<Rightarrow> bool"
  and denotes_fields :: "'a gmem \<Rightarrow> (string \<times> gty) list \<Rightarrow> (string \<times> 'a gval) list \<Rightarrow> (string \<times> 'a gtree) list \<Rightarrow> nat set \<Rightarrow> bool"
  for m :: "'a gmem"
where
  scalar: "denotes m TScalar (Scalar x) (TrScalar x) {}"
| nil_pointer: "denotes m (TPointer T) (Pointer None) TrNil {}"
| pointer: "a < gm_next m \<Longrightarrow> denotes m T (gm_cell m a) t A \<Longrightarrow> denotes m (TPointer T) (Pointer (Some a)) (TrRef t) (insert a A)"
| nil_slice: "denotes m (TSlice T) (Slice None) TrNil {}"
| slice: "a < gm_next m \<Longrightarrow> off + len \<le> length (elements (gm_cell m a)) \<Longrightarrow> denotes_list m T (slice_elements m a off len) ts A
    \<Longrightarrow> denotes m (TSlice T) (Slice (Some (a, off, len))) (TrList ts) (insert a A)"
| struct: "denotes_fields m Fs vs ts A \<Longrightarrow> denotes m (TStruct Fs) (Struct vs) (TrRec ts) A"
| no_element: "denotes_list m T [] [] {}"
| element: "denotes m T v t A \<Longrightarrow> denotes_list m T vs ts B \<Longrightarrow> denotes_list m T (v # vs) (t # ts) (A \<union> B)"
| no_field: "denotes_fields m [] [] [] {}"
| field: "denotes m T v t A \<Longrightarrow> denotes_fields m Fs vs ts B \<Longrightarrow> denotes_fields m ((n, T) # Fs) ((n, v) # vs) ((n, t) # ts) (A \<union> B)"

inductive_simps denotes_simps [simp]:
  "denotes m TScalar v t A" "denotes m (TPointer T) (Pointer p) t A" "denotes m (TSlice T) (Slice s) t A"
  "denotes m (TStruct Fs) v t A"
inductive_simps denotes_list_simps [simp]:
  "denotes_list m T [] ts A" "denotes_list m T (v # vs) ts A"
inductive_simps denotes_fields_simps [simp]:
  "denotes_fields m [] vs ts A" "denotes_fields m (F # Fs) vs ts A"

lemma denotes_pointer_cases:
  assumes "denotes m (TPointer T) v t A"
  obtains (Nil) "v = Pointer None" "t = TrNil" "A = {}"
    | (Ref) a u B where "v = Pointer (Some a)" "t = TrRef u" "A = insert a B" "a < gm_next m" "denotes m T (gm_cell m a) u B"
  using assms by (cases rule: denotes.cases) auto

lemma denotes_slice_cases:
  assumes "denotes m (TSlice T) v t A"
  obtains (Nil) "v = Slice None" "t = TrNil" "A = {}"
    | (Part) a off len ts B where "v = Slice (Some (a, off, len))" "t = TrList ts" "A = insert a B" "a < gm_next m"
        "off + len \<le> length (elements (gm_cell m a))" "denotes_list m T (slice_elements m a off len) ts B"
  using assms by (cases rule: denotes.cases) auto

section \<open>What a value stands for depends on the cells it reaches\<close>

definition agree :: "nat set \<Rightarrow> 'a gmem \<Rightarrow> 'a gmem \<Rightarrow> bool" where
  "agree A m m' \<longleftrightarrow> gm_next m \<le> gm_next m' \<and> (\<forall>a \<in> A. gm_cell m' a = gm_cell m a)"

lemma agree_subset: "agree A m m' \<Longrightarrow> B \<subseteq> A \<Longrightarrow> agree B m m'"
  by (auto simp: agree_def)

lemma denotes_frame:
  "denotes m T v t A \<Longrightarrow> agree A m m' \<Longrightarrow> denotes m' T v t A"
  "denotes_list m T vs ts A \<Longrightarrow> agree A m m' \<Longrightarrow> denotes_list m' T vs ts A"
  "denotes_fields m Fs fs us A \<Longrightarrow> agree A m m' \<Longrightarrow> denotes_fields m' Fs fs us A"
proof (induction rule: denotes_denotes_list_denotes_fields.inducts)
  case (pointer a T t A)
  then show ?case by (auto simp: agree_def intro!: denotes_denotes_list_denotes_fields.pointer)
next
  case (slice a off len T ts A)
  then have "slice_elements m' a off len = slice_elements m a off len" by (simp add: agree_def slice_elements_def)
  with slice show ?case by (auto simp: agree_def intro!: denotes_denotes_list_denotes_fields.slice)
next
  case (element T v t A vs ts B)
  then show ?case by (auto intro!: denotes_denotes_list_denotes_fields.element intro: agree_subset)
next
  case (field T v t A Fs vs ts B n)
  then show ?case by (auto intro!: denotes_denotes_list_denotes_fields.field intro: agree_subset)
qed (auto intro: denotes_denotes_list_denotes_fields.intros)

lemma denotes_allocated:
  "denotes m T v t A \<Longrightarrow> A \<subseteq> {..<gm_next m}"
  "denotes_list m T vs ts A \<Longrightarrow> A \<subseteq> {..<gm_next m}"
  "denotes_fields m Fs fs us A \<Longrightarrow> A \<subseteq> {..<gm_next m}"
  by (induction rule: denotes_denotes_list_denotes_fields.inducts) auto

text \<open>Types without references: a shallow copy is a deep one.\<close>

fun plain :: "gty \<Rightarrow> bool" where
  "plain TScalar = True"
| "plain (TPointer T) = False"
| "plain (TSlice T) = False"
| "plain (TStruct Fs) = list_all (\<lambda>F. plain (snd F)) Fs"

lemma plain_reaches_nothing:
  "denotes m T v t A \<Longrightarrow> plain T \<Longrightarrow> A = {}"
  "denotes_list m T vs ts A \<Longrightarrow> plain T \<Longrightarrow> A = {}"
  "denotes_fields m Fs fs us A \<Longrightarrow> plain (TStruct Fs) \<Longrightarrow> A = {}"
  by (induction rule: denotes_denotes_list_denotes_fields.inducts) auto

section \<open>Allocation\<close>

text \<open>
  \<^verbatim>\<open>new(T)\<close> and \<^verbatim>\<open>make([]T, n)\<close> reserve a cell. Its zero value is overwritten before
  anything reads it, so an empty struct stands for it.
\<close>

definition go_new :: "'a gmem \<Rightarrow> nat \<times> 'a gmem" where
  "go_new m = (gm_next m, m\<lparr>gm_next := Suc (gm_next m), gm_cell := (gm_cell m)(gm_next m := Struct [])\<rparr>)"

definition put :: "nat \<Rightarrow> 'a gval \<Rightarrow> 'a gmem \<Rightarrow> 'a gmem" where
  "put a v m = m\<lparr>gm_cell := (gm_cell m)(a := v)\<rparr>"

text \<open>Memory grows: what was allocated is as it was.\<close>

definition grown :: "'a gmem \<Rightarrow> 'a gmem \<Rightarrow> bool" where
  "grown m m' \<longleftrightarrow> agree {..<gm_next m} m m'"

lemma grown_refl [simp]: "grown m m"
  by (simp add: grown_def agree_def)

lemma grown_trans: "grown m m1 \<Longrightarrow> grown m1 m2 \<Longrightarrow> grown m m2"
  by (auto simp: grown_def agree_def)

lemma grown_next: "grown m m' \<Longrightarrow> gm_next m \<le> gm_next m'"
  by (simp add: grown_def agree_def)

lemma grown_denotes:
  assumes "grown m m'"
  shows "denotes m T v t A \<Longrightarrow> denotes m' T v t A" "denotes_list m T vs ts A \<Longrightarrow> denotes_list m' T vs ts A"
  using assms denotes_allocated denotes_frame agree_subset unfolding grown_def by metis+

lemma grown_new: "go_new m = (a, m') \<Longrightarrow> grown m m' \<and> a = gm_next m \<and> gm_next m' = Suc a"
  by (auto simp: go_new_def grown_def agree_def)

lemma grown_put: "grown m m' \<Longrightarrow> gm_next m \<le> a \<Longrightarrow> grown m (put a v m')"
  by (auto simp: grown_def agree_def put_def)

lemma put_next [simp]: "gm_next (put a v m) = gm_next m"
  by (simp add: put_def)

lemma put_cell [simp]: "gm_cell (put a v m) b = (if b = a then v else gm_cell m b)"
  by (simp add: put_def)

section \<open>Copying\<close>

text \<open>
  A copier is given the value of \<^verbatim>\<open>*in\<close> and returns the one that ends up in \<^verbatim>\<open>*out\<close>.
  \<open>assign\<close> is Go's assignment.
\<close>

type_synonym 'a copier = "'a gval \<Rightarrow> 'a gmem \<Rightarrow> 'a gval \<times> 'a gmem"

definition assign :: "'a copier" where
  "assign v m = (v, m)"

text \<open>
  \<^verbatim>\<open>if in.F != nil { in, out := &in.F, &out.F; *out = new(T); (*in).DeepCopyInto(*out) }\<close>;
  a nil pointer stays as \<^verbatim>\<open>*out = *in\<close> has put it.
\<close>

definition via_pointer :: "'a copier \<Rightarrow> 'a copier" where
  "via_pointer f v m =
     (case v of
        Pointer (Some a) \<Rightarrow>
          (case go_new m of (b, m1) \<Rightarrow>
             (case f (gm_cell m a) m1 of (v', m2) \<Rightarrow> (Pointer (Some b), put b v' m2)))
      | _ \<Rightarrow> (v, m))"

fun copy_elements :: "'a copier \<Rightarrow> 'a gval list \<Rightarrow> 'a gmem \<Rightarrow> 'a gval list \<times> 'a gmem" where
  "copy_elements f [] m = ([], m)"
| "copy_elements f (v # vs) m =
     (case f v m of (v', m1) \<Rightarrow> (case copy_elements f vs m1 of (vs', m2) \<Rightarrow> (v' # vs', m2)))"

text \<open>
  \<^verbatim>\<open>if in.F != nil { in, out := &in.F, &out.F; *out = make([]T, len(*in)); for i := range *in { ... } }\<close>;
  with \<open>assign\<close> it is \<^verbatim>\<open>copy(*out, *in)\<close>.
\<close>

definition via_slice :: "'a copier \<Rightarrow> 'a copier" where
  "via_slice f v m =
     (case v of
        Slice (Some (a, off, len)) \<Rightarrow>
          (case go_new m of (b, m1) \<Rightarrow>
             (case copy_elements f (slice_elements m a off len) m1 of (vs, m2) \<Rightarrow>
                (Slice (Some (b, 0, len)), put b (Array vs) m2)))
      | _ \<Rightarrow> (v, m))"

definition get_field :: "string \<Rightarrow> 'a gval \<Rightarrow> 'a gval" where
  "get_field n v = (case v of Struct vs \<Rightarrow> the (map_of vs n) | _ \<Rightarrow> v)"

definition set_field :: "string \<Rightarrow> 'a gval \<Rightarrow> 'a gval \<Rightarrow> 'a gval" where
  "set_field n x v = (case v of Struct vs \<Rightarrow> Struct (map (\<lambda>(k, y). (k, if k = n then x else y)) vs) | _ \<Rightarrow> v)"

text \<open>\<^verbatim>\<open>*out = *in\<close>, then statements that each write one field of \<^verbatim>\<open>out\<close>.\<close>

definition field_step :: "'a gval \<Rightarrow> string \<times> 'a copier \<Rightarrow> 'a gval \<times> 'a gmem \<Rightarrow> 'a gval \<times> 'a gmem" where
  "field_step inp st out =
     (case st of (n, f) \<Rightarrow> case out of (v, m) \<Rightarrow> case f (get_field n inp) m of (x, m1) \<Rightarrow> (set_field n x v, m1))"

definition copy_struct :: "(string \<times> 'a copier) list \<Rightarrow> 'a copier" where
  "copy_struct sts inp m = fold (field_step inp) sts (inp, m)"

section \<open>Deep copiers\<close>

text \<open>Cells that were allocated between two memories.\<close>

definition between :: "'a gmem \<Rightarrow> 'a gmem \<Rightarrow> nat set" where
  "between m m' = {gm_next m..<gm_next m'}"

lemma between_mono:
  "grown m m1 \<Longrightarrow> grown m2 m3 \<Longrightarrow> grown m1 m2 \<Longrightarrow> between m1 m2 \<subseteq> between m m3"
  using grown_next [of m m1] grown_next [of m2 m3] by (auto simp: between_def)

definition copied :: "gty \<Rightarrow> 'a gtree \<Rightarrow> 'a gmem \<Rightarrow> 'a gval \<Rightarrow> 'a gmem \<Rightarrow> bool" where
  "copied T t m v' m' \<longleftrightarrow> grown m m' \<and> (\<exists>B. denotes m' T v' t B \<and> B \<subseteq> between m m')"

definition deep_copier :: "gty \<Rightarrow> 'a copier \<Rightarrow> bool" where
  "deep_copier T f \<longleftrightarrow> (\<forall>m v t A v' m'. denotes m T v t A \<longrightarrow> f v m = (v', m') \<longrightarrow> copied T t m v' m')"

lemma deep_copierI:
  "(\<And>m v t A v' m'. denotes m T v t A \<Longrightarrow> f v m = (v', m') \<Longrightarrow> copied T t m v' m') \<Longrightarrow> deep_copier T f"
  by (simp add: deep_copier_def)

lemma deep_copierD:
  "deep_copier T f \<Longrightarrow> denotes m T v t A \<Longrightarrow> f v m = (v', m') \<Longrightarrow> copied T t m v' m'"
  unfolding deep_copier_def by blast

lemma copied_later: "copied T t m v' m' \<Longrightarrow> grown m0 m \<Longrightarrow> grown m' m1 \<Longrightarrow> copied T t m0 v' m1"
  unfolding copied_def by (meson between_mono grown_denotes(1) grown_trans order_trans)

lemma assign_deep: "plain T \<Longrightarrow> deep_copier T assign"
  by (rule deep_copierI) (auto simp: assign_def copied_def dest: plain_reaches_nothing(1))

lemma elements_deep:
  assumes "deep_copier T f" "denotes_list m T vs ts A" "copy_elements f vs m = (vs', m')"
  shows "length vs' = length vs \<and> grown m m' \<and> (\<exists>B. denotes_list m' T vs' ts B \<and> B \<subseteq> between m m')"
  using assms(2,3)
proof (induction vs arbitrary: m vs' m' ts A)
  case (Cons v vs)
  obtain v1 m1 where f: "f v m = (v1, m1)" by fastforce
  obtain us m2 where l: "copy_elements f vs m1 = (us, m2)" by fastforce
  from Cons.prems f l have eq: "vs' = v1 # us" "m' = m2" by simp_all
  from Cons.prems(1) obtain t ts1 A1 B1 where d: "ts = t # ts1" "denotes m T v t A1" "denotes_list m T vs ts1 B1" by auto
  have c: "grown m m1" using deep_copierD [OF assms(1) d(2) f] by (simp add: copied_def)
  from Cons.IH [OF grown_denotes(2) [OF c d(3)] l] obtain B where rest:
    "length us = length vs" "grown m1 m2" "denotes_list m2 T us ts1 B" "B \<subseteq> between m1 m2" by blast
  from copied_later [OF deep_copierD [OF assms(1) d(2) f] grown_refl rest(2)] obtain C where one:
    "grown m m2" "denotes m2 T v1 t C" "C \<subseteq> between m m2" by (auto simp: copied_def)
  have "C \<union> B \<subseteq> between m m2" using one(3) rest(4) between_mono [OF c grown_refl rest(2)] by blast
  with one rest eq d(1) show ?case by (auto intro: element)
qed simp

lemma via_pointer_copies:
  assumes "deep_copier T f" "denotes m T (gm_cell m a) u B"
  obtains m' C where "via_pointer f (Pointer (Some a)) m = (Pointer (Some (gm_next m)), m')" "grown m m'" "gm_next m < gm_next m'"
    "denotes m' T (gm_cell m' (gm_next m)) u C" "C \<subseteq> {Suc (gm_next m)..<gm_next m'}"
proof -
  obtain b m1 where n: "go_new m = (b, m1)" by fastforce
  note g = grown_new [OF n]
  obtain w m2 where f: "f (gm_cell m a) m1 = (w, m2)" by fastforce
  from deep_copierD [OF assms(1) grown_denotes(1) [OF conjunct1 [OF g] assms(2)] f] obtain C where
    c: "grown m1 m2" "denotes m2 T w u C" "C \<subseteq> between m1 m2" by (auto simp: copied_def)
  have "agree C m2 (put b w m2)" using c(3) g by (auto simp: agree_def between_def)
  from denotes_frame(1) [OF c(2) this] show thesis
    using that [of "put b w m2" C] n f g c grown_put [OF grown_trans [of m m1 m2]] grown_next [OF c(1)]
    by (auto simp: via_pointer_def between_def)
qed

lemma via_pointer_deep:
  assumes "deep_copier T f"
  shows "deep_copier (TPointer T) (via_pointer f)"
proof (rule deep_copierI)
  fix m t A v' m' and v :: "'a gval"
  assume d: "denotes m (TPointer T) v t A" and run: "via_pointer f v m = (v', m')"
  from d show "copied (TPointer T) t m v' m'"
  proof (cases rule: denotes_pointer_cases)
    case (Ref a u B)
    from via_pointer_copies [OF assms Ref(5)] run Ref(1) obtain C where c: "v' = Pointer (Some (gm_next m))" "grown m m'"
      "gm_next m < gm_next m'" "denotes m' T (gm_cell m' (gm_next m)) u C" "C \<subseteq> {Suc (gm_next m)..<gm_next m'}" by auto
    then have "insert (gm_next m) C \<subseteq> between m m'" by (auto simp: between_def)
    with c Ref(2) show ?thesis by (auto simp: copied_def)
  qed (use run in \<open>auto simp: via_pointer_def copied_def\<close>)
qed

lemma via_slice_deep:
  assumes "deep_copier T f"
  shows "deep_copier (TSlice T) (via_slice f)"
proof (rule deep_copierI)
  fix m t A v' m' and v :: "'a gval"
  assume d: "denotes m (TSlice T) v t A" and run: "via_slice f v m = (v', m')"
  from d show "copied (TSlice T) t m v' m'"
  proof (cases rule: denotes_slice_cases)
    case (Part a off len ts B)
    obtain b m1 where n: "go_new m = (b, m1)" by fastforce
    note g = grown_new [OF n]
    let ?es = "slice_elements m a off len"
    have len: "length ?es = len" using Part by (simp add: slice_elements_def)
    obtain ws m2 where f: "copy_elements f ?es m1 = (ws, m2)" by fastforce
    from elements_deep [OF assms grown_denotes(2) [OF conjunct1 [OF g] Part(6)] f] obtain C where
      c: "length ws = len" "grown m1 m2" "denotes_list m2 T ws ts C" "C \<subseteq> between m1 m2" by (auto simp: len)
    have res: "v' = Slice (Some (b, 0, len))" "m' = put b (Array ws) m2" using run n f Part by (simp_all add: via_slice_def)
    have "agree C m2 m'" using c(4) g by (auto simp: res agree_def between_def)
    then have "denotes_list m' T ws ts C" by (rule denotes_frame(2) [OF c(3)])
    moreover have "slice_elements m' b 0 len = ws" using c(1) by (simp add: slice_elements_def res)
    moreover have "grown m m'" unfolding res by (rule grown_put) (use g c(2) grown_trans in auto)
    moreover have "insert b C \<subseteq> between m m'" using g c(2,4) grown_next [OF c(2)] by (auto simp: res between_def)
    ultimately show ?thesis
      using Part(2) grown_next [OF c(2)] g c(1) unfolding copied_def
      by (intro conjI exI [of _ "insert b C"]) (auto simp: res)
  qed (use run in \<open>auto simp: via_slice_def copied_def\<close>)
qed

section \<open>Structs\<close>

abbreviation at_name :: "string \<Rightarrow> (string \<times> 'b) list \<Rightarrow> 'b" where
  "at_name n xs \<equiv> the (map_of xs n)"

lemma denotes_fields_names:
  "denotes_fields m Fs vs ts A \<Longrightarrow> map fst vs = map fst Fs \<and> map fst ts = map fst Fs"
  by (induction Fs arbitrary: vs ts A) auto

lemma denotes_fieldsD:
  "denotes_fields m Fs vs ts A \<Longrightarrow> distinct (map fst Fs) \<Longrightarrow> (n, T) \<in> set Fs
     \<Longrightarrow> \<exists>B. denotes m T (at_name n vs) (at_name n ts) B \<and> B \<subseteq> A"
proof (induction Fs arbitrary: vs ts A)
  case (Cons F Fs)
  then obtain k S v t vs1 ts1 B C where F: "F = (k, S)" "vs = (k, v) # vs1" "ts = (k, t) # ts1" "A = B \<union> C"
    "denotes m S v t B" "denotes_fields m Fs vs1 ts1 C" by (cases F) auto
  show ?case
  proof (cases "n = k")
    case True
    with Cons.prems F have "T = S" by force
    with True F show ?thesis by auto
  next
    case False
    with Cons.prems F have "(n, T) \<in> set Fs" "distinct (map fst Fs)" by auto
    from Cons.IH [OF F(6) this(2,1)] False F show ?thesis by auto
  qed
qed simp

lemma denotes_fieldsI:
  "distinct (map fst Fs) \<Longrightarrow> map fst vs = map fst Fs \<Longrightarrow> map fst ts = map fst Fs
     \<Longrightarrow> (\<And>n T. (n, T) \<in> set Fs \<Longrightarrow> \<exists>B. denotes m T (at_name n vs) (at_name n ts) B \<and> B \<subseteq> X)
     \<Longrightarrow> \<exists>A. denotes_fields m Fs vs ts A \<and> A \<subseteq> X"
proof (induction Fs arbitrary: vs ts)
  case (Cons F Fs)
  obtain n T where F: "F = (n, T)" by fastforce
  with Cons.prems(2,3) obtain v vs1 t ts1 where vt: "vs = (n, v) # vs1" "map fst vs1 = map fst Fs"
    "ts = (n, t) # ts1" "map fst ts1 = map fst Fs" by (cases vs; cases ts) auto
  have "\<exists>B. denotes_fields m Fs vs1 ts1 B \<and> B \<subseteq> X"
  proof (rule Cons.IH)
    fix k S
    assume k: "(k, S) \<in> set Fs"
    with Cons.prems(1) F have "k \<noteq> n" by force
    with Cons.prems(4) [of k S] k vt show "\<exists>B. denotes m S (at_name k vs1) (at_name k ts1) B \<and> B \<subseteq> X" by simp
  qed (use Cons.prems(1) vt in auto)
  moreover have "\<exists>A. denotes m T v t A \<and> A \<subseteq> X" using Cons.prems(4) [of n T] F vt by simp
  ultimately show ?case using F vt by (auto intro: field)
qed simp

text \<open>
  \<^verbatim>\<open>*out = *in\<close> and a deep copy of every field that holds references make a deep copy of the
  struct; the statements may come in any order.
\<close>

lemma map_of_set_field:
  "map_of (map (\<lambda>(k, y). (k, if k = n then x else y)) vs) k = (if k = n then map_option (\<lambda>_. x) (map_of vs k) else map_of vs k)"
  by (induction vs) auto

lemma in_names: "(k, S) \<in> set Fs \<Longrightarrow> map fst xs = map fst Fs \<Longrightarrow> k \<in> fst ` set xs"
  by (metis fst_conv image_eqI image_set)

lemma at_name_updated:
  assumes "k \<in> fst ` set xs"
  shows "at_name k (map (\<lambda>(k, y). (k, if k = n then x else y)) xs) = (if k = n then x else at_name k xs)"
proof -
  from assms have "map_of xs k \<noteq> None" by (simp add: map_of_eq_None_iff)
  then show ?thesis by (auto simp: map_of_set_field)
qed

definition half_copied :: "(string \<times> gty) list \<Rightarrow> 'a gmem \<Rightarrow> (string \<times> 'a gval) list \<Rightarrow> (string \<times> 'a gtree) list
    \<Rightarrow> string set \<Rightarrow> 'a gval \<times> 'a gmem \<Rightarrow> bool" where
  "half_copied Fs m vs ts done out \<longleftrightarrow> (\<exists>us m1. out = (Struct us, m1) \<and> map fst us = map fst Fs \<and> grown m m1
     \<and> (\<forall>(n, T) \<in> set Fs. if n \<in> done then copied T (at_name n ts) m (at_name n us) m1 else at_name n us = at_name n vs))"

lemma field_step_copies:
  assumes "half_copied Fs m vs ts done out" "denotes_fields m Fs vs ts A" "distinct (map fst Fs)"
    and "(n, T) \<in> set Fs" "deep_copier T f"
  shows "half_copied Fs m vs ts (insert n done) (field_step (Struct vs) (n, f) out)"
proof -
  from assms(1) obtain us m1 where out: "out = (Struct us, m1)" "map fst us = map fst Fs" "grown m m1"
    and fields: "\<And>k S. (k, S) \<in> set Fs \<Longrightarrow> if k \<in> done then copied S (at_name k ts) m (at_name k us) m1
        else at_name k us = at_name k vs" unfolding half_copied_def by blast
  obtain x m2 where f: "f (at_name n vs) m1 = (x, m2)" by fastforce
  obtain B where d: "denotes m T (at_name n vs) (at_name n ts) B" using denotes_fieldsD [OF assms(2-4)] by blast
  note c = deep_copierD [OF assms(5) grown_denotes(1) [OF out(3) d] f]
  then have g: "grown m1 m2" by (simp add: copied_def)
  let ?us = "map (\<lambda>(k, y). (k, if k = n then x else y)) us"
  have new: "at_name k ?us = (if k = n then x else at_name k us)" if "(k, S) \<in> set Fs" for k S
    by (rule at_name_updated) (rule in_names [OF that out(2)])
  have "if k \<in> insert n done then copied S (at_name k ts) m (at_name k ?us) m2 else at_name k ?us = at_name k vs"
    if k: "(k, S) \<in> set Fs" for k S
  proof (cases "k = n")
    case True
    with k assms(3,4) have "S = T" using eq_key_imp_eq_value by metis
    with True new [OF k] copied_later [OF c out(3) grown_refl] show ?thesis by simp
  next
    case False
    with fields [OF k] new [OF k] copied_later [OF _ grown_refl g] show ?thesis by auto
  qed
  moreover have "map fst ?us = map fst Fs" using out(2) by (induction us arbitrary: Fs) auto
  ultimately show ?thesis
    using out(1) f grown_trans [OF out(3) g] unfolding half_copied_def field_step_def
    by (intro exI [of _ ?us] exI [of _ m2]) (auto simp: get_field_def set_field_def)
qed

lemma fold_field_steps:
  assumes "denotes_fields m Fs vs ts A" "distinct (map fst Fs)"
  shows "half_copied Fs m vs ts done out \<Longrightarrow> \<forall>(n, f) \<in> set sts. \<exists>T. (n, T) \<in> set Fs \<and> deep_copier T f
     \<Longrightarrow> half_copied Fs m vs ts (done \<union> fst ` set sts) (fold (field_step (Struct vs)) sts out)"
proof (induction sts arbitrary: "done" out)
  case (Cons st sts)
  obtain n f where st: "st = (n, f)" by fastforce
  with Cons.prems(2) obtain T where T: "(n, T) \<in> set Fs" "deep_copier T f" by auto
  from Cons.IH [OF field_step_copies [OF Cons.prems(1) assms T]] Cons.prems(2) st show ?case by simp
qed simp

lemma copy_struct_deep:
  assumes "distinct (map fst Fs)" "\<forall>(n, f) \<in> set sts. \<exists>T. (n, T) \<in> set Fs \<and> deep_copier T f"
    and "\<forall>(n, T) \<in> set Fs. n \<in> fst ` set sts \<or> plain T"
  shows "deep_copier (TStruct Fs) (copy_struct sts)"
proof (rule deep_copierI)
  fix m t A v' m' and v :: "'a gval"
  assume "denotes m (TStruct Fs) v t A" and run: "copy_struct sts v m = (v', m')"
  then obtain vs ts where v: "v = Struct vs" "t = TrRec ts" and d: "denotes_fields m Fs vs ts A" by auto
  have "half_copied Fs m vs ts {} (v, m)"
    using denotes_fields_names [OF d] v by (auto simp: half_copied_def)
  from fold_field_steps [OF d assms(1) this assms(2)] run v have "half_copied Fs m vs ts (fst ` set sts) (v', m')"
    by (simp add: copy_struct_def)
  then obtain us where us: "v' = Struct us" "map fst us = map fst Fs" "grown m m'"
    and fields: "\<And>n T. (n, T) \<in> set Fs \<Longrightarrow> if n \<in> fst ` set sts then copied T (at_name n ts) m (at_name n us) m'
        else at_name n us = at_name n vs" unfolding half_copied_def by blast
  have "\<exists>B. denotes m' T (at_name n us) (at_name n ts) B \<and> B \<subseteq> between m m'" if n: "(n, T) \<in> set Fs" for n T
  proof (cases "n \<in> fst ` set sts")
    case True
    with fields [OF n] show ?thesis by (auto simp: copied_def)
  next
    case False
    with assms(3) n have p: "plain T" by blast
    obtain B where B: "denotes m T (at_name n vs) (at_name n ts) B" using denotes_fieldsD [OF d assms(1) n] by blast
    from grown_denotes(1) [OF us(3) B] plain_reaches_nothing(1) [OF B p] fields [OF n] False show ?thesis by auto
  qed
  from denotes_fieldsI [OF assms(1) us(2) _ this] denotes_fields_names [OF d] us v show "copied (TStruct Fs) t m v' m'"
    by (auto simp: copied_def)
qed

section \<open>Writing to a copy\<close>

fun set_tree :: "string \<Rightarrow> 'a gtree \<Rightarrow> 'a gtree \<Rightarrow> 'a gtree" where
  "set_tree n x (TrRec ts) = TrRec (map (\<lambda>(k, y). (k, if k = n then x else y)) ts)"
| "set_tree n x t = t"

fun tree_at :: "string \<Rightarrow> 'a gtree \<Rightarrow> 'a gtree" where
  "tree_at n (TrRec ts) = at_name n ts"
| "tree_at n t = t"

lemma denotes_set_field:
  assumes "denotes m (TStruct Fs) v t A" "distinct (map fst Fs)" "(n, T) \<in> set Fs" "denotes m T x u B" "B \<subseteq> A"
  shows "\<exists>C. denotes m (TStruct Fs) (set_field n x v) (set_tree n u t) C \<and> C \<subseteq> A"
proof -
  from assms(1) obtain vs ts where v: "v = Struct vs" "t = TrRec ts" and d: "denotes_fields m Fs vs ts A" by auto
  note names = denotes_fields_names [OF d]
  let ?vs = "map (\<lambda>(k, y). (k, if k = n then x else y)) vs" and ?ts = "map (\<lambda>(k, y). (k, if k = n then u else y)) ts"
  have same: "map fst ?vs = map fst vs" "map fst ?ts = map fst ts" by (auto simp: comp_def case_prod_beta)
  have "\<exists>C. denotes_fields m Fs ?vs ?ts C \<and> C \<subseteq> A"
  proof (rule denotes_fieldsI [OF assms(2)])
    fix k S
    assume k: "(k, S) \<in> set Fs"
    have "k \<in> fst ` set vs" "k \<in> fst ` set ts" using names in_names [OF k, of vs] in_names [OF k, of ts] by simp_all
    moreover have "S = T" if "k = n" using that k assms(2,3) eq_key_imp_eq_value by metis
    ultimately show "\<exists>C. denotes m S (at_name k ?vs) (at_name k ?ts) C \<and> C \<subseteq> A"
      using denotes_fieldsD [OF d assms(2) k] assms(4,5) by (auto simp: at_name_updated)
  qed (use names same in auto)
  then show ?thesis using v by (auto simp: set_field_def)
qed

lemma denotes_get_field:
  assumes "denotes m (TStruct Fs) v t A" "distinct (map fst Fs)" "(n, T) \<in> set Fs"
  shows "\<exists>B. denotes m T (get_field n v) (tree_at n t) B \<and> B \<subseteq> A"
  using assms denotes_fieldsD [of m Fs _ _ A n T] by (auto simp: get_field_def)

text \<open>
  A copy and its original are independent: whatever is written to cells of the one, the other
  stands for what it stood for.
\<close>

lemma copied_independent:
  assumes "copied T t m v' m'" "denotes m T v t A"
  obtains B where "denotes m' T v' t B" "B \<subseteq> between m m'" "denotes m' T v t A" "A \<inter> B = {}"
    "\<And>m''. agree (- B) m' m'' \<Longrightarrow> denotes m'' T v t A" "\<And>m''. agree (- A) m' m'' \<Longrightarrow> denotes m'' T v' t B"
proof -
  from assms(1) obtain B where B: "grown m m'" "denotes m' T v' t B" "B \<subseteq> between m m'" by (auto simp: copied_def)
  have A: "denotes m' T v t A" by (rule grown_denotes(1) [OF B(1) assms(2)])
  have "A \<inter> B = {}" using B(3) denotes_allocated(1) [OF assms(2)] by (force simp: between_def)
  moreover from this have "A \<subseteq> - B" "B \<subseteq> - A" by auto
  ultimately show thesis using that [OF B(2,3) A] denotes_frame(1) [OF A] denotes_frame(1) [OF B(2)] agree_subset by blast
qed

end
