(* ===== verification/DeepCopies.thy ===== *)
theory DeepCopies
  imports GoMemory
begin

text \<open>
  The types of \<^verbatim>\<open>api/v1beta1\<close> as they lie in memory and their deep copies
  (\<^verbatim>\<open>zz_generated.deepcopy.go\<close>). The controllers rely on them: a deletion works on a deep copy
  of the ControlPlane whose components are switched off, and clients hand out copies of what they
  cache. Every copy stands for the same value and shares no cell with the original.
\<close>

section \<open>Types of other modules\<close>

text \<open>
  Types that come from libraries, with their own deep copies where they hold references; the others
  are copied by assignment, which is right as long as they hold none.
\<close>

record 'a foreign =
  fg_type_meta :: gty \<comment> \<open>metav1.TypeMeta\<close>
  fg_meta_type :: gty \<comment> \<open>metav1.ObjectMeta\<close>
  fg_meta :: "'a copier"
  fg_list_meta_type :: gty \<comment> \<open>metav1.ListMeta\<close>
  fg_list_meta :: "'a copier"
  fg_condition_type :: gty \<comment> \<open>metav1.Condition\<close>
  fg_condition :: "'a copier"
  fg_json_type :: gty \<comment> \<open>apiextensions v1.JSON\<close>
  fg_json :: "'a copier"
  fg_target_type :: gty \<comment> \<open>api.Target of controller-utils\<close>
  fg_target :: "'a copier"
  fg_runtime_type :: gty \<comment> \<open>PackageRuntimeSpec of Crossplane\<close>
  fg_runtime :: "'a copier"
  fg_local_ref :: gty \<comment> \<open>corev1.LocalObjectReference\<close>
  fg_secret_ref :: gty \<comment> \<open>corev1.SecretReference\<close>
  fg_duration :: gty \<comment> \<open>metav1.Duration\<close>

definition foreign_laws :: "'a foreign \<Rightarrow> bool" where
  "foreign_laws Y \<longleftrightarrow> deep_copier (fg_meta_type Y) (fg_meta Y) \<and> deep_copier (fg_list_meta_type Y) (fg_list_meta Y)
     \<and> deep_copier (fg_condition_type Y) (fg_condition Y) \<and> deep_copier (fg_json_type Y) (fg_json Y)
     \<and> deep_copier (fg_target_type Y) (fg_target Y) \<and> deep_copier (fg_runtime_type Y) (fg_runtime Y)
     \<and> plain (fg_type_meta Y) \<and> plain (fg_local_ref Y) \<and> plain (fg_secret_ref Y) \<and> plain (fg_duration Y)"

text \<open>\<^verbatim>\<open>DeepCopyObject\<close> returns an interface: nil (\<open>None\<close>) or the copy.\<close>

type_synonym 'a object_copier = "'a gval \<Rightarrow> 'a gmem \<Rightarrow> 'a gval option \<times> 'a gmem"

definition as_object :: "'a copier \<Rightarrow> 'a object_copier" where
  "as_object f v m = (case f v m of (c, m1) \<Rightarrow> (if c \<noteq> Pointer None then Some c else None, m1))"

section \<open>Charts, targets and other parts\<close>

definition ChartSpec_type :: "gty" where
  "ChartSpec_type = TStruct [(''Repository'', TScalar), (''URL'', TScalar), (''Name'', TScalar), (''Version'', TScalar)]"

definition ChartSpec_DeepCopyInto :: "'a copier" where
  "ChartSpec_DeepCopyInto = copy_struct []"

definition ChartSpec_DeepCopy :: "'a copier" where
  "ChartSpec_DeepCopy = via_pointer ChartSpec_DeepCopyInto"

definition TelemetryConfig_type :: "gty" where
  "TelemetryConfig_type = TStruct [(''Enabled'', TScalar)]"

definition TelemetryConfig_DeepCopyInto :: "'a copier" where
  "TelemetryConfig_DeepCopyInto = copy_struct []"

definition TelemetryConfig_DeepCopy :: "'a copier" where
  "TelemetryConfig_DeepCopy = via_pointer TelemetryConfig_DeepCopyInto"

definition KubeconfigOverrides_type :: "gty" where
  "KubeconfigOverrides_type = TStruct [(''Host'', TScalar)]"

definition KubeconfigOverrides_DeepCopyInto :: "'a copier" where
  "KubeconfigOverrides_DeepCopyInto = copy_struct []"

definition KubeconfigOverrides_DeepCopy :: "'a copier" where
  "KubeconfigOverrides_DeepCopy = via_pointer KubeconfigOverrides_DeepCopyInto"

definition ServiceAccountReference_type :: "gty" where
  "ServiceAccountReference_type = TStruct [(''Name'', TScalar), (''Namespace'', TScalar), (''Overrides'', KubeconfigOverrides_type)]"

definition ServiceAccountReference_DeepCopyInto :: "'a copier" where
  "ServiceAccountReference_DeepCopyInto = copy_struct [(''Overrides'', assign)]"

definition ServiceAccountReference_DeepCopy :: "'a copier" where
  "ServiceAccountReference_DeepCopy = via_pointer ServiceAccountReference_DeepCopyInto"

definition Target_type :: "'a foreign \<Rightarrow> gty" where
  "Target_type Y = TStruct [(''Target'', fg_target_type Y), (''FluxServiceAccount'', ServiceAccountReference_type)]"

definition Target_DeepCopyInto :: "'a foreign \<Rightarrow> 'a copier" where
  "Target_DeepCopyInto Y = copy_struct [(''Target'', fg_target Y), (''FluxServiceAccount'', assign)]"

definition Target_DeepCopy :: "'a foreign \<Rightarrow> 'a copier" where
  "Target_DeepCopy Y = via_pointer (Target_DeepCopyInto Y)"

section \<open>The component configurations\<close>

definition BTPServiceOperatorConfig_type :: "'a foreign \<Rightarrow> gty" where
  "BTPServiceOperatorConfig_type Y = TStruct [(''Version'', TScalar), (''Chart'', TPointer ChartSpec_type),
     (''Values'', TPointer (fg_json_type Y))]"

definition BTPServiceOperatorConfig_DeepCopyInto :: "'a foreign \<Rightarrow> 'a copier" where
  "BTPServiceOperatorConfig_DeepCopyInto Y = copy_struct [(''Chart'', via_pointer assign), (''Values'', via_pointer (fg_json Y))]"

definition BTPServiceOperatorConfig_DeepCopy :: "'a foreign \<Rightarrow> 'a copier" where
  "BTPServiceOperatorConfig_DeepCopy Y = via_pointer (BTPServiceOperatorConfig_DeepCopyInto Y)"

definition CertManagerConfig_type :: "'a foreign \<Rightarrow> gty" where
  "CertManagerConfig_type Y = TStruct [(''Version'', TScalar), (''Chart'', TPointer ChartSpec_type),
     (''Values'', TPointer (fg_json_type Y))]"

definition CertManagerConfig_DeepCopyInto :: "'a foreign \<Rightarrow> 'a copier" where
  "CertManagerConfig_DeepCopyInto Y = copy_struct [(''Chart'', via_pointer assign), (''Values'', via_pointer (fg_json Y))]"

definition CertManagerConfig_DeepCopy :: "'a foreign \<Rightarrow> 'a copier" where
  "CertManagerConfig_DeepCopy Y = via_pointer (CertManagerConfig_DeepCopyInto Y)"

definition ExternalSecretsOperatorConfig_type :: "'a foreign \<Rightarrow> gty" where
  "ExternalSecretsOperatorConfig_type Y = TStruct [(''Version'', TScalar), (''Chart'', TPointer ChartSpec_type),
     (''Values'', TPointer (fg_json_type Y))]"

definition ExternalSecretsOperatorConfig_DeepCopyInto :: "'a foreign \<Rightarrow> 'a copier" where
  "ExternalSecretsOperatorConfig_DeepCopyInto Y = copy_struct [(''Chart'', via_pointer assign), (''Values'', via_pointer (fg_json Y))]"

definition ExternalSecretsOperatorConfig_DeepCopy :: "'a foreign \<Rightarrow> 'a copier" where
  "ExternalSecretsOperatorConfig_DeepCopy Y = via_pointer (ExternalSecretsOperatorConfig_DeepCopyInto Y)"

definition FluxConfig_type :: "'a foreign \<Rightarrow> gty" where
  "FluxConfig_type Y = TStruct [(''Version'', TScalar), (''Chart'', TPointer ChartSpec_type),
     (''Values'', TPointer (fg_json_type Y))]"

definition FluxConfig_DeepCopyInto :: "'a foreign \<Rightarrow> 'a copier" where
  "FluxConfig_DeepCopyInto Y = copy_struct [(''Chart'', via_pointer assign), (''Values'', via_pointer (fg_json Y))]"

definition FluxConfig_DeepCopy :: "'a foreign \<Rightarrow> 'a copier" where
  "FluxConfig_DeepCopy Y = via_pointer (FluxConfig_DeepCopyInto Y)"

definition KyvernoConfig_type :: "'a foreign \<Rightarrow> gty" where
  "KyvernoConfig_type Y = TStruct [(''Version'', TScalar), (''Chart'', TPointer ChartSpec_type),
     (''Values'', TPointer (fg_json_type Y))]"

definition KyvernoConfig_DeepCopyInto :: "'a foreign \<Rightarrow> 'a copier" where
  "KyvernoConfig_DeepCopyInto Y = copy_struct [(''Chart'', via_pointer assign), (''Values'', via_pointer (fg_json Y))]"

definition KyvernoConfig_DeepCopy :: "'a foreign \<Rightarrow> 'a copier" where
  "KyvernoConfig_DeepCopy Y = via_pointer (KyvernoConfig_DeepCopyInto Y)"

definition CrossplaneProviderConfig_type :: "'a foreign \<Rightarrow> gty" where
  "CrossplaneProviderConfig_type Y = TStruct [(''Name'', TScalar), (''Version'', TScalar), (''Package'', TScalar),
     (''PackagePullPolicy'', TPointer TScalar), (''PackagePullSecrets'', TSlice (fg_local_ref Y)),
     (''PackageRuntimeSpec'', fg_runtime_type Y)]"

definition CrossplaneProviderConfig_DeepCopyInto :: "'a foreign \<Rightarrow> 'a copier" where
  "CrossplaneProviderConfig_DeepCopyInto Y = copy_struct [(''PackagePullPolicy'', via_pointer assign), (''PackagePullSecrets'', via_slice assign),
     (''PackageRuntimeSpec'', fg_runtime Y)]"

definition CrossplaneProviderConfig_DeepCopy :: "'a foreign \<Rightarrow> 'a copier" where
  "CrossplaneProviderConfig_DeepCopy Y = via_pointer (CrossplaneProviderConfig_DeepCopyInto Y)"

definition CrossplaneConfig_type :: "'a foreign \<Rightarrow> gty" where
  "CrossplaneConfig_type Y = TStruct [(''Version'', TScalar), (''Chart'', TPointer ChartSpec_type),
     (''Values'', TPointer (fg_json_type Y)),
     (''Providers'', TSlice (TPointer (CrossplaneProviderConfig_type Y)))]"

definition CrossplaneConfig_DeepCopyInto :: "'a foreign \<Rightarrow> 'a copier" where
  "CrossplaneConfig_DeepCopyInto Y = copy_struct [(''Chart'', via_pointer assign), (''Values'', via_pointer (fg_json Y)),
     (''Providers'', via_slice (via_pointer (CrossplaneProviderConfig_DeepCopyInto Y)))]"

definition CrossplaneConfig_DeepCopy :: "'a foreign \<Rightarrow> 'a copier" where
  "CrossplaneConfig_DeepCopy Y = via_pointer (CrossplaneConfig_DeepCopyInto Y)"

definition ComponentsConfig_type :: "'a foreign \<Rightarrow> gty" where
  "ComponentsConfig_type Y = TStruct [(''Crossplane'', TPointer (CrossplaneConfig_type Y)),
     (''BTPServiceOperator'', TPointer (BTPServiceOperatorConfig_type Y)),
     (''CertManager'', TPointer (CertManagerConfig_type Y)),
     (''ExternalSecretsOperator'', TPointer (ExternalSecretsOperatorConfig_type Y)),
     (''Kyverno'', TPointer (KyvernoConfig_type Y)), (''Flux'', TPointer (FluxConfig_type Y))]"

definition ComponentsConfig_DeepCopyInto :: "'a foreign \<Rightarrow> 'a copier" where
  "ComponentsConfig_DeepCopyInto Y = copy_struct [(''Crossplane'', via_pointer (CrossplaneConfig_DeepCopyInto Y)),
     (''BTPServiceOperator'', via_pointer (BTPServiceOperatorConfig_DeepCopyInto Y)),
     (''CertManager'', via_pointer (CertManagerConfig_DeepCopyInto Y)),
     (''ExternalSecretsOperator'', via_pointer (ExternalSecretsOperatorConfig_DeepCopyInto Y)),
     (''Kyverno'', via_pointer (KyvernoConfig_DeepCopyInto Y)),
     (''Flux'', via_pointer (FluxConfig_DeepCopyInto Y))]"

definition ComponentsConfig_DeepCopy :: "'a foreign \<Rightarrow> 'a copier" where
  "ComponentsConfig_DeepCopy Y = via_pointer (ComponentsConfig_DeepCopyInto Y)"

section \<open>ControlPlane\<close>

definition ControlPlaneSpec_type :: "'a foreign \<Rightarrow> gty" where
  "ControlPlaneSpec_type Y = TStruct [(''CoreReference'', fg_local_ref Y), (''Target'', Target_type Y),
     (''Telemetry'', TPointer TelemetryConfig_type), (''PullSecrets'', TSlice (fg_local_ref Y)),
     (''ComponentsConfig'', ComponentsConfig_type Y)]"

definition ControlPlaneSpec_DeepCopyInto :: "'a foreign \<Rightarrow> 'a copier" where
  "ControlPlaneSpec_DeepCopyInto Y = copy_struct [(''CoreReference'', assign), (''Target'', Target_DeepCopyInto Y),
     (''Telemetry'', via_pointer assign), (''PullSecrets'', via_slice assign),
     (''ComponentsConfig'', ComponentsConfig_DeepCopyInto Y)]"

definition ControlPlaneSpec_DeepCopy :: "'a foreign \<Rightarrow> 'a copier" where
  "ControlPlaneSpec_DeepCopy Y = via_pointer (ControlPlaneSpec_DeepCopyInto Y)"

definition ControlPlaneStatus_type :: "'a foreign \<Rightarrow> gty" where
  "ControlPlaneStatus_type Y = TStruct [(''Conditions'', TSlice (fg_condition_type Y)), (''Namespace'', TScalar),
     (''ComponentsEnabled'', TScalar), (''ComponentsHealthy'', TScalar)]"

definition ControlPlaneStatus_DeepCopyInto :: "'a foreign \<Rightarrow> 'a copier" where
  "ControlPlaneStatus_DeepCopyInto Y = copy_struct [(''Conditions'', via_slice (fg_condition Y))]"

definition ControlPlaneStatus_DeepCopy :: "'a foreign \<Rightarrow> 'a copier" where
  "ControlPlaneStatus_DeepCopy Y = via_pointer (ControlPlaneStatus_DeepCopyInto Y)"

definition ControlPlane_type :: "'a foreign \<Rightarrow> gty" where
  "ControlPlane_type Y = TStruct [(''TypeMeta'', fg_type_meta Y), (''ObjectMeta'', fg_meta_type Y),
     (''Spec'', ControlPlaneSpec_type Y), (''Status'', ControlPlaneStatus_type Y)]"

definition ControlPlane_DeepCopyInto :: "'a foreign \<Rightarrow> 'a copier" where
  "ControlPlane_DeepCopyInto Y = copy_struct [(''TypeMeta'', assign), (''ObjectMeta'', fg_meta Y), (''Spec'', ControlPlaneSpec_DeepCopyInto Y),
     (''Status'', ControlPlaneStatus_DeepCopyInto Y)]"

definition ControlPlane_DeepCopy :: "'a foreign \<Rightarrow> 'a copier" where
  "ControlPlane_DeepCopy Y = via_pointer (ControlPlane_DeepCopyInto Y)"

definition ControlPlane_DeepCopyObject :: "'a foreign \<Rightarrow> 'a object_copier" where
  "ControlPlane_DeepCopyObject Y = as_object (ControlPlane_DeepCopy Y)"

definition ControlPlaneList_type :: "'a foreign \<Rightarrow> gty" where
  "ControlPlaneList_type Y = TStruct [(''TypeMeta'', fg_type_meta Y), (''ListMeta'', fg_list_meta_type Y),
     (''Items'', TSlice (ControlPlane_type Y))]"

definition ControlPlaneList_DeepCopyInto :: "'a foreign \<Rightarrow> 'a copier" where
  "ControlPlaneList_DeepCopyInto Y = copy_struct [(''TypeMeta'', assign), (''ListMeta'', fg_list_meta Y),
     (''Items'', via_slice (ControlPlane_DeepCopyInto Y))]"

definition ControlPlaneList_DeepCopy :: "'a foreign \<Rightarrow> 'a copier" where
  "ControlPlaneList_DeepCopy Y = via_pointer (ControlPlaneList_DeepCopyInto Y)"

definition ControlPlaneList_DeepCopyObject :: "'a foreign \<Rightarrow> 'a object_copier" where
  "ControlPlaneList_DeepCopyObject Y = as_object (ControlPlaneList_DeepCopy Y)"

section \<open>CrossplanePackageRestriction\<close>

definition PackageRestriction_type :: "gty" where
  "PackageRestriction_type = TStruct [(''Registries'', TSlice TScalar), (''Packages'', TSlice TScalar)]"

definition PackageRestriction_DeepCopyInto :: "'a copier" where
  "PackageRestriction_DeepCopyInto = copy_struct [(''Registries'', via_slice assign), (''Packages'', via_slice assign)]"

definition PackageRestriction_DeepCopy :: "'a copier" where
  "PackageRestriction_DeepCopy = via_pointer PackageRestriction_DeepCopyInto"

definition CrossplanePackageRestrictionSpec_type :: "gty" where
  "CrossplanePackageRestrictionSpec_type = TStruct [(''Providers'', PackageRestriction_type), (''Configurations'', PackageRestriction_type),
     (''Functions'', PackageRestriction_type)]"

definition CrossplanePackageRestrictionSpec_DeepCopyInto :: "'a copier" where
  "CrossplanePackageRestrictionSpec_DeepCopyInto = copy_struct [(''Providers'', PackageRestriction_DeepCopyInto),
     (''Configurations'', PackageRestriction_DeepCopyInto),
     (''Functions'', PackageRestriction_DeepCopyInto)]"

definition CrossplanePackageRestrictionSpec_DeepCopy :: "'a copier" where
  "CrossplanePackageRestrictionSpec_DeepCopy = via_pointer CrossplanePackageRestrictionSpec_DeepCopyInto"

definition CrossplanePackageRestrictionStatus_type :: "gty" where
  "CrossplanePackageRestrictionStatus_type = TStruct []"

definition CrossplanePackageRestrictionStatus_DeepCopyInto :: "'a copier" where
  "CrossplanePackageRestrictionStatus_DeepCopyInto = copy_struct []"

definition CrossplanePackageRestrictionStatus_DeepCopy :: "'a copier" where
  "CrossplanePackageRestrictionStatus_DeepCopy = via_pointer CrossplanePackageRestrictionStatus_DeepCopyInto"

definition CrossplanePackageRestriction_type :: "'a foreign \<Rightarrow> gty" where
  "CrossplanePackageRestriction_type Y = TStruct [(''TypeMeta'', fg_type_meta Y), (''ObjectMeta'', fg_meta_type Y),
     (''Spec'', CrossplanePackageRestrictionSpec_type),
     (''Status'', CrossplanePackageRestrictionStatus_type)]"

definition CrossplanePackageRestriction_DeepCopyInto :: "'a foreign \<Rightarrow> 'a copier" where
  "CrossplanePackageRestriction_DeepCopyInto Y = copy_struct [(''TypeMeta'', assign), (''ObjectMeta'', fg_meta Y),
     (''Spec'', CrossplanePackageRestrictionSpec_DeepCopyInto), (''Status'', assign)]"

definition CrossplanePackageRestriction_DeepCopy :: "'a foreign \<Rightarrow> 'a copier" where
  "CrossplanePackageRestriction_DeepCopy Y = via_pointer (CrossplanePackageRestriction_DeepCopyInto Y)"

definition CrossplanePackageRestriction_DeepCopyObject :: "'a foreign \<Rightarrow> 'a object_copier" where
  "CrossplanePackageRestriction_DeepCopyObject Y = as_object (CrossplanePackageRestriction_DeepCopy Y)"

definition CrossplanePackageRestrictionList_type :: "'a foreign \<Rightarrow> gty" where
  "CrossplanePackageRestrictionList_type Y = TStruct [(''TypeMeta'', fg_type_meta Y), (''ListMeta'', fg_list_meta_type Y),
     (''Items'', TSlice (CrossplanePackageRestriction_type Y))]"

definition CrossplanePackageRestrictionList_DeepCopyInto :: "'a foreign \<Rightarrow> 'a copier" where
  "CrossplanePackageRestrictionList_DeepCopyInto Y = copy_struct [(''TypeMeta'', assign), (''ListMeta'', fg_list_meta Y),
     (''Items'', via_slice (CrossplanePackageRestriction_DeepCopyInto Y))]"

definition CrossplanePackageRestrictionList_DeepCopy :: "'a foreign \<Rightarrow> 'a copier" where
  "CrossplanePackageRestrictionList_DeepCopy Y = via_pointer (CrossplanePackageRestrictionList_DeepCopyInto Y)"

definition CrossplanePackageRestrictionList_DeepCopyObject :: "'a foreign \<Rightarrow> 'a object_copier" where
  "CrossplanePackageRestrictionList_DeepCopyObject Y = as_object (CrossplanePackageRestrictionList_DeepCopy Y)"

section \<open>ReleaseChannel\<close>

definition ComponentVersion_type :: "gty" where
  "ComponentVersion_type = TStruct [(''Version'', TScalar), (''DockerRef'', TScalar), (''HelmRepo'', TScalar),
     (''HelmChart'', TScalar), (''OCIURL'', TScalar)]"

definition ComponentVersion_DeepCopyInto :: "'a copier" where
  "ComponentVersion_DeepCopyInto = copy_struct []"

definition ComponentVersion_DeepCopy :: "'a copier" where
  "ComponentVersion_DeepCopy = via_pointer ComponentVersion_DeepCopyInto"

definition Component_type :: "gty" where
  "Component_type = TStruct [(''Name'', TScalar), (''Versions'', TSlice ComponentVersion_type)]"

definition Component_DeepCopyInto :: "'a copier" where
  "Component_DeepCopyInto = copy_struct [(''Versions'', via_slice assign)]"

definition Component_DeepCopy :: "'a copier" where
  "Component_DeepCopy = via_pointer Component_DeepCopyInto"

definition ReleaseChannelSpec_type :: "'a foreign \<Rightarrow> gty" where
  "ReleaseChannelSpec_type Y = TStruct [(''OcmRegistryUrl'', TScalar), (''PullSecretRef'', fg_secret_ref Y),
     (''OcmRegistrySecretRef'', fg_secret_ref Y), (''OcmRegistrySecretKey'', TScalar),
     (''PrefixFilter'', TScalar), (''Interval'', fg_duration Y)]"

definition ReleaseChannelSpec_DeepCopyInto :: "'a copier" where
  "ReleaseChannelSpec_DeepCopyInto = copy_struct [(''PullSecretRef'', assign), (''OcmRegistrySecretRef'', assign), (''Interval'', assign)]"

definition ReleaseChannelSpec_DeepCopy :: "'a copier" where
  "ReleaseChannelSpec_DeepCopy = via_pointer ReleaseChannelSpec_DeepCopyInto"

definition ReleaseChannelStatus_type :: "gty" where
  "ReleaseChannelStatus_type = TStruct [(''Components'', TSlice Component_type)]"

definition ReleaseChannelStatus_DeepCopyInto :: "'a copier" where
  "ReleaseChannelStatus_DeepCopyInto = copy_struct [(''Components'', via_slice Component_DeepCopyInto)]"

definition ReleaseChannelStatus_DeepCopy :: "'a copier" where
  "ReleaseChannelStatus_DeepCopy = via_pointer ReleaseChannelStatus_DeepCopyInto"

definition ReleaseChannel_type :: "'a foreign \<Rightarrow> gty" where
  "ReleaseChannel_type Y = TStruct [(''TypeMeta'', fg_type_meta Y), (''ObjectMeta'', fg_meta_type Y),
     (''Spec'', ReleaseChannelSpec_type Y), (''Status'', ReleaseChannelStatus_type)]"

definition ReleaseChannel_DeepCopyInto :: "'a foreign \<Rightarrow> 'a copier" where
  "ReleaseChannel_DeepCopyInto Y = copy_struct [(''TypeMeta'', assign), (''ObjectMeta'', fg_meta Y), (''Spec'', assign),
     (''Status'', ReleaseChannelStatus_DeepCopyInto)]"

definition ReleaseChannel_DeepCopy :: "'a foreign \<Rightarrow> 'a copier" where
  "ReleaseChannel_DeepCopy Y = via_pointer (ReleaseChannel_DeepCopyInto Y)"

definition ReleaseChannel_DeepCopyObject :: "'a foreign \<Rightarrow> 'a object_copier" where
  "ReleaseChannel_DeepCopyObject Y = as_object (ReleaseChannel_DeepCopy Y)"

definition ReleaseChannelList_type :: "'a foreign \<Rightarrow> gty" where
  "ReleaseChannelList_type Y = TStruct [(''TypeMeta'', fg_type_meta Y), (''ListMeta'', fg_list_meta_type Y),
     (''Items'', TSlice (ReleaseChannel_type Y))]"

definition ReleaseChannelList_DeepCopyInto :: "'a foreign \<Rightarrow> 'a copier" where
  "ReleaseChannelList_DeepCopyInto Y = copy_struct [(''TypeMeta'', assign), (''ListMeta'', fg_list_meta Y),
     (''Items'', via_slice (ReleaseChannel_DeepCopyInto Y))]"

definition ReleaseChannelList_DeepCopy :: "'a foreign \<Rightarrow> 'a copier" where
  "ReleaseChannelList_DeepCopy Y = via_pointer (ReleaseChannelList_DeepCopyInto Y)"

definition ReleaseChannelList_DeepCopyObject :: "'a foreign \<Rightarrow> 'a object_copier" where
  "ReleaseChannelList_DeepCopyObject Y = as_object (ReleaseChannelList_DeepCopy Y)"

section \<open>Every copy is a deep one\<close>

lemma plain_types:
  "plain ChartSpec_type" "plain TelemetryConfig_type" "plain KubeconfigOverrides_type" "plain ServiceAccountReference_type"
  "plain ComponentVersion_type" "plain CrossplanePackageRestrictionStatus_type"
  "foreign_laws Y \<Longrightarrow> plain (ReleaseChannelSpec_type Y)"
  by (simp_all add: ChartSpec_type_def TelemetryConfig_type_def KubeconfigOverrides_type_def ServiceAccountReference_type_def
      ComponentVersion_type_def CrossplanePackageRestrictionStatus_type_def ReleaseChannelSpec_type_def foreign_laws_def)

lemma foreign_copiers:
  assumes "foreign_laws Y"
  shows "deep_copier (fg_meta_type Y) (fg_meta Y)" "deep_copier (fg_list_meta_type Y) (fg_list_meta Y)"
    "deep_copier (fg_condition_type Y) (fg_condition Y)" "deep_copier (fg_json_type Y) (fg_json Y)"
    "deep_copier (fg_target_type Y) (fg_target Y)" "deep_copier (fg_runtime_type Y) (fg_runtime Y)"
    "plain (fg_type_meta Y)" "plain (fg_local_ref Y)" "plain (fg_secret_ref Y)" "plain (fg_duration Y)"
  using assms by (simp_all add: foreign_laws_def)

lemmas copying = assign_deep via_pointer_deep via_slice_deep foreign_copiers plain_types

text \<open>Each generated function copies every field of its type that holds references.\<close>

lemma part_copiers [simp]:
  "deep_copier ChartSpec_type ChartSpec_DeepCopyInto" "deep_copier TelemetryConfig_type TelemetryConfig_DeepCopyInto"
  "deep_copier KubeconfigOverrides_type KubeconfigOverrides_DeepCopyInto"
  "deep_copier ServiceAccountReference_type ServiceAccountReference_DeepCopyInto"
  "foreign_laws Y \<Longrightarrow> deep_copier (Target_type Y) (Target_DeepCopyInto Y)"
  unfolding ChartSpec_type_def ChartSpec_DeepCopyInto_def TelemetryConfig_type_def TelemetryConfig_DeepCopyInto_def
    KubeconfigOverrides_DeepCopyInto_def ServiceAccountReference_DeepCopyInto_def Target_type_def Target_DeepCopyInto_def
    ServiceAccountReference_type_def KubeconfigOverrides_type_def
  by (rule copy_struct_deep; simp add: copying)+

lemma config_copiers [simp]:
  assumes "foreign_laws Y"
  shows "deep_copier (BTPServiceOperatorConfig_type Y) (BTPServiceOperatorConfig_DeepCopyInto Y)"
    "deep_copier (CertManagerConfig_type Y) (CertManagerConfig_DeepCopyInto Y)"
    "deep_copier (ExternalSecretsOperatorConfig_type Y) (ExternalSecretsOperatorConfig_DeepCopyInto Y)"
    "deep_copier (FluxConfig_type Y) (FluxConfig_DeepCopyInto Y)"
    "deep_copier (KyvernoConfig_type Y) (KyvernoConfig_DeepCopyInto Y)"
    "deep_copier (CrossplaneProviderConfig_type Y) (CrossplaneProviderConfig_DeepCopyInto Y)"
  unfolding BTPServiceOperatorConfig_type_def BTPServiceOperatorConfig_DeepCopyInto_def CertManagerConfig_type_def
    CertManagerConfig_DeepCopyInto_def ExternalSecretsOperatorConfig_type_def ExternalSecretsOperatorConfig_DeepCopyInto_def
    FluxConfig_type_def FluxConfig_DeepCopyInto_def KyvernoConfig_type_def KyvernoConfig_DeepCopyInto_def
    CrossplaneProviderConfig_type_def CrossplaneProviderConfig_DeepCopyInto_def
  by (rule copy_struct_deep; simp add: copying assms)+

lemma components_copiers [simp]:
  assumes "foreign_laws Y"
  shows crossplane_copier: "deep_copier (CrossplaneConfig_type Y) (CrossplaneConfig_DeepCopyInto Y)"
    and "deep_copier (ComponentsConfig_type Y) (ComponentsConfig_DeepCopyInto Y)"
proof -
  show c: "deep_copier (CrossplaneConfig_type Y) (CrossplaneConfig_DeepCopyInto Y)"
    unfolding CrossplaneConfig_type_def CrossplaneConfig_DeepCopyInto_def
    by (rule copy_struct_deep; simp add: copying assms)
  show "deep_copier (ComponentsConfig_type Y) (ComponentsConfig_DeepCopyInto Y)"
    unfolding ComponentsConfig_type_def ComponentsConfig_DeepCopyInto_def
    by (rule copy_struct_deep; simp add: copying assms c)
qed

lemma plane_copiers [simp]:
  assumes "foreign_laws Y"
  shows "deep_copier (ControlPlaneSpec_type Y) (ControlPlaneSpec_DeepCopyInto Y)"
    "deep_copier (ControlPlaneStatus_type Y) (ControlPlaneStatus_DeepCopyInto Y)"
    "deep_copier (ControlPlane_type Y) (ControlPlane_DeepCopyInto Y)"
    "deep_copier (ControlPlaneList_type Y) (ControlPlaneList_DeepCopyInto Y)"
proof -
  show s: "deep_copier (ControlPlaneSpec_type Y) (ControlPlaneSpec_DeepCopyInto Y)"
    "deep_copier (ControlPlaneStatus_type Y) (ControlPlaneStatus_DeepCopyInto Y)"
    unfolding ControlPlaneSpec_type_def ControlPlaneSpec_DeepCopyInto_def ControlPlaneStatus_type_def ControlPlaneStatus_DeepCopyInto_def
    by (rule copy_struct_deep; simp add: copying assms)+
  show p: "deep_copier (ControlPlane_type Y) (ControlPlane_DeepCopyInto Y)"
    unfolding ControlPlane_type_def ControlPlane_DeepCopyInto_def by (rule copy_struct_deep; simp add: copying assms s)
  show "deep_copier (ControlPlaneList_type Y) (ControlPlaneList_DeepCopyInto Y)"
    unfolding ControlPlaneList_type_def ControlPlaneList_DeepCopyInto_def by (rule copy_struct_deep; simp add: copying assms p)
qed

lemma restriction_copiers [simp]:
  "deep_copier PackageRestriction_type PackageRestriction_DeepCopyInto"
  "deep_copier CrossplanePackageRestrictionSpec_type CrossplanePackageRestrictionSpec_DeepCopyInto"
  "deep_copier CrossplanePackageRestrictionStatus_type CrossplanePackageRestrictionStatus_DeepCopyInto"
  "foreign_laws Y \<Longrightarrow> deep_copier (CrossplanePackageRestriction_type Y) (CrossplanePackageRestriction_DeepCopyInto Y)"
  "foreign_laws Y \<Longrightarrow> deep_copier (CrossplanePackageRestrictionList_type Y) (CrossplanePackageRestrictionList_DeepCopyInto Y)"
proof -
  show r: "deep_copier PackageRestriction_type PackageRestriction_DeepCopyInto"
    "deep_copier CrossplanePackageRestrictionStatus_type CrossplanePackageRestrictionStatus_DeepCopyInto"
    unfolding PackageRestriction_type_def PackageRestriction_DeepCopyInto_def CrossplanePackageRestrictionStatus_type_def
      CrossplanePackageRestrictionStatus_DeepCopyInto_def
    by (rule copy_struct_deep; simp add: copying)+
  show s: "deep_copier CrossplanePackageRestrictionSpec_type CrossplanePackageRestrictionSpec_DeepCopyInto"
    unfolding CrossplanePackageRestrictionSpec_type_def CrossplanePackageRestrictionSpec_DeepCopyInto_def
    by (rule copy_struct_deep; simp add: copying r)
  have c: "foreign_laws Y \<Longrightarrow> deep_copier (CrossplanePackageRestriction_type Y) (CrossplanePackageRestriction_DeepCopyInto Y)" for Y
    unfolding CrossplanePackageRestriction_type_def CrossplanePackageRestriction_DeepCopyInto_def
    by (rule copy_struct_deep; simp add: copying s)
  then show "foreign_laws Y \<Longrightarrow> deep_copier (CrossplanePackageRestriction_type Y) (CrossplanePackageRestriction_DeepCopyInto Y)" .
  show "foreign_laws Y \<Longrightarrow> deep_copier (CrossplanePackageRestrictionList_type Y) (CrossplanePackageRestrictionList_DeepCopyInto Y)"
    unfolding CrossplanePackageRestrictionList_type_def CrossplanePackageRestrictionList_DeepCopyInto_def
    by (rule copy_struct_deep; simp add: copying c)
qed

lemma channel_copiers [simp]:
  "deep_copier ComponentVersion_type ComponentVersion_DeepCopyInto" "deep_copier Component_type Component_DeepCopyInto"
  "deep_copier ReleaseChannelStatus_type ReleaseChannelStatus_DeepCopyInto"
  "foreign_laws Y \<Longrightarrow> deep_copier (ReleaseChannelSpec_type Y) ReleaseChannelSpec_DeepCopyInto"
  "foreign_laws Y \<Longrightarrow> deep_copier (ReleaseChannel_type Y) (ReleaseChannel_DeepCopyInto Y)"
  "foreign_laws Y \<Longrightarrow> deep_copier (ReleaseChannelList_type Y) (ReleaseChannelList_DeepCopyInto Y)"
proof -
  show v: "deep_copier ComponentVersion_type ComponentVersion_DeepCopyInto" "deep_copier Component_type Component_DeepCopyInto"
    unfolding Component_type_def Component_DeepCopyInto_def ComponentVersion_DeepCopyInto_def ComponentVersion_type_def
    by (rule copy_struct_deep; simp add: copying plain_types [unfolded ComponentVersion_type_def])+
  show s: "deep_copier ReleaseChannelStatus_type ReleaseChannelStatus_DeepCopyInto"
    unfolding ReleaseChannelStatus_type_def ReleaseChannelStatus_DeepCopyInto_def by (rule copy_struct_deep; simp add: copying v)
  show "foreign_laws Y \<Longrightarrow> deep_copier (ReleaseChannelSpec_type Y) ReleaseChannelSpec_DeepCopyInto"
    unfolding ReleaseChannelSpec_type_def ReleaseChannelSpec_DeepCopyInto_def by (rule copy_struct_deep; simp add: copying)
  have c: "foreign_laws Y \<Longrightarrow> deep_copier (ReleaseChannel_type Y) (ReleaseChannel_DeepCopyInto Y)" for Y
    unfolding ReleaseChannel_type_def ReleaseChannel_DeepCopyInto_def by (rule copy_struct_deep; simp add: copying s)
  then show "foreign_laws Y \<Longrightarrow> deep_copier (ReleaseChannel_type Y) (ReleaseChannel_DeepCopyInto Y)" .
  show "foreign_laws Y \<Longrightarrow> deep_copier (ReleaseChannelList_type Y) (ReleaseChannelList_DeepCopyInto Y)"
    unfolding ReleaseChannelList_type_def ReleaseChannelList_DeepCopyInto_def by (rule copy_struct_deep; simp add: copying c)
qed

text \<open>All copies of the API group, with the types they copy.\<close>

definition api_copies :: "'a foreign \<Rightarrow> (gty \<times> 'a copier) list" where
  "api_copies Y =
     [(ChartSpec_type, ChartSpec_DeepCopy), (TelemetryConfig_type, TelemetryConfig_DeepCopy),
      (KubeconfigOverrides_type, KubeconfigOverrides_DeepCopy),
      (ServiceAccountReference_type, ServiceAccountReference_DeepCopy),
      (Target_type Y, Target_DeepCopy Y),
      (BTPServiceOperatorConfig_type Y, BTPServiceOperatorConfig_DeepCopy Y),
      (CertManagerConfig_type Y, CertManagerConfig_DeepCopy Y),
      (ExternalSecretsOperatorConfig_type Y, ExternalSecretsOperatorConfig_DeepCopy Y),
      (FluxConfig_type Y, FluxConfig_DeepCopy Y), (KyvernoConfig_type Y, KyvernoConfig_DeepCopy Y),
      (CrossplaneProviderConfig_type Y, CrossplaneProviderConfig_DeepCopy Y),
      (CrossplaneConfig_type Y, CrossplaneConfig_DeepCopy Y),
      (ComponentsConfig_type Y, ComponentsConfig_DeepCopy Y),
      (ControlPlaneSpec_type Y, ControlPlaneSpec_DeepCopy Y),
      (ControlPlaneStatus_type Y, ControlPlaneStatus_DeepCopy Y),
      (ControlPlane_type Y, ControlPlane_DeepCopy Y),
      (ControlPlaneList_type Y, ControlPlaneList_DeepCopy Y),
      (PackageRestriction_type, PackageRestriction_DeepCopy),
      (CrossplanePackageRestrictionSpec_type, CrossplanePackageRestrictionSpec_DeepCopy),
      (CrossplanePackageRestrictionStatus_type, CrossplanePackageRestrictionStatus_DeepCopy),
      (CrossplanePackageRestriction_type Y, CrossplanePackageRestriction_DeepCopy Y),
      (CrossplanePackageRestrictionList_type Y, CrossplanePackageRestrictionList_DeepCopy Y),
      (ComponentVersion_type, ComponentVersion_DeepCopy), (Component_type, Component_DeepCopy),
      (ReleaseChannelSpec_type Y, ReleaseChannelSpec_DeepCopy),
      (ReleaseChannelStatus_type, ReleaseChannelStatus_DeepCopy),
      (ReleaseChannel_type Y, ReleaseChannel_DeepCopy Y),
      (ReleaseChannelList_type Y, ReleaseChannelList_DeepCopy Y)]"

lemma api_copies_deep:
  assumes "foreign_laws Y" "(T, f) \<in> set (api_copies Y)"
  shows "deep_copier (TPointer T) f"
proof -
  have "list_all (\<lambda>(T, f). deep_copier (TPointer T) f) (api_copies Y)"
    unfolding api_copies_def
      ChartSpec_DeepCopy_def TelemetryConfig_DeepCopy_def KubeconfigOverrides_DeepCopy_def
      ServiceAccountReference_DeepCopy_def Target_DeepCopy_def BTPServiceOperatorConfig_DeepCopy_def
      CertManagerConfig_DeepCopy_def ExternalSecretsOperatorConfig_DeepCopy_def
      FluxConfig_DeepCopy_def KyvernoConfig_DeepCopy_def CrossplaneProviderConfig_DeepCopy_def
      CrossplaneConfig_DeepCopy_def ComponentsConfig_DeepCopy_def ControlPlaneSpec_DeepCopy_def
      ControlPlaneStatus_DeepCopy_def ControlPlane_DeepCopy_def ControlPlaneList_DeepCopy_def
      PackageRestriction_DeepCopy_def CrossplanePackageRestrictionSpec_DeepCopy_def
      CrossplanePackageRestrictionStatus_DeepCopy_def CrossplanePackageRestriction_DeepCopy_def
      CrossplanePackageRestrictionList_DeepCopy_def ComponentVersion_DeepCopy_def
      Component_DeepCopy_def ReleaseChannelSpec_DeepCopy_def ReleaseChannelStatus_DeepCopy_def
      ReleaseChannel_DeepCopy_def ReleaseChannelList_DeepCopy_def
    by (simp add: assms(1) via_pointer_deep)
  with assms(2) show ?thesis by (auto simp: list_all_iff)
qed

text \<open>
  C23. Deep copies are copies and deep: the copy of any object or part of the API group stands for
  the same value as the original, in cells that did not exist before; and whatever is later written
  through the one, the other still stands for that value.
\<close>

theorem api_copies_independent:
  assumes "foreign_laws Y" "(T, f) \<in> set (api_copies Y)" "denotes m (TPointer T) p t A" "f p m = (q, m')"
  shows "\<exists>B. denotes m' (TPointer T) q t B \<and> B \<subseteq> between m m' \<and> denotes m' (TPointer T) p t A
    \<and> (\<forall>m''. agree (- B) m' m'' \<longrightarrow> denotes m'' (TPointer T) p t A)
    \<and> (\<forall>m''. agree (- A) m' m'' \<longrightarrow> denotes m'' (TPointer T) q t B)"
  by (rule copied_independent [OF deep_copierD [OF api_copies_deep [OF assms(1,2)] assms(3,4)] assms(3)]) blast

section \<open>The copy a deletion works on\<close>

text \<open>
  \<^verbatim>\<open>cpCopy := cp.DeepCopy(); cpCopy.Spec.ComponentsConfig = ComponentsConfig{}\<close>: the start of
  \<^verbatim>\<open>deleteControlPlaneComponents\<close>, in memory.
\<close>

definition empty_components_config :: "'a gval" where
  "empty_components_config = Struct [(''Crossplane'', Pointer None), (''BTPServiceOperator'', Pointer None),
     (''CertManager'', Pointer None), (''ExternalSecretsOperator'', Pointer None), (''Kyverno'', Pointer None), (''Flux'', Pointer None)]"

definition disabled_copy :: "'a foreign \<Rightarrow> 'a gval \<Rightarrow> 'a gmem \<Rightarrow> 'a gval gores \<times> 'a gmem" where
  "disabled_copy Y cp m =
     (case ControlPlane_DeepCopy Y cp m of (cpCopy, m1) \<Rightarrow>
        (case cpCopy of
           Pointer (Some b) \<Rightarrow>
             (let v = gm_cell m1 b;
                  spec = set_field ''ComponentsConfig'' empty_components_config (get_field ''Spec'' v)
              in (Ok cpCopy, put b (set_field ''Spec'' spec v) m1))
         | _ \<Rightarrow> (Panic nil_pointer, m1)))"

text \<open>The value of a ControlPlane without its components.\<close>

definition no_components :: "'a gtree" where
  "no_components = TrRec [(''Crossplane'', TrNil), (''BTPServiceOperator'', TrNil), (''CertManager'', TrNil),
     (''ExternalSecretsOperator'', TrNil), (''Kyverno'', TrNil), (''Flux'', TrNil)]"

definition without_components :: "'a gtree \<Rightarrow> 'a gtree" where
  "without_components cp = set_tree ''Spec'' (set_tree ''ComponentsConfig'' no_components (tree_at ''Spec'' cp)) cp"

lemma empty_components_denote:
  "denotes m (ComponentsConfig_type Y) empty_components_config no_components {}"
  by (simp add: ComponentsConfig_type_def empty_components_config_def no_components_def)

lemma plane_spec:
  assumes "denotes m (ControlPlane_type Y) v t A"
  shows "\<exists>B. denotes m (ControlPlaneSpec_type Y) (get_field ''Spec'' v) (tree_at ''Spec'' t) B \<and> B \<subseteq> A"
    and "denotes m (ControlPlaneSpec_type Y) x u B \<Longrightarrow> B \<subseteq> A
      \<Longrightarrow> \<exists>C. denotes m (ControlPlane_type Y) (set_field ''Spec'' x v) (set_tree ''Spec'' u t) C \<and> C \<subseteq> A"
  unfolding ControlPlane_type_def
  by (rule denotes_get_field [OF assms [unfolded ControlPlane_type_def]], simp, simp)
     (rule denotes_set_field [OF assms [unfolded ControlPlane_type_def]], simp, simp)

lemma spec_components:
  assumes "denotes m (ControlPlaneSpec_type Y) v t A" "denotes m (ComponentsConfig_type Y) x u B" "B \<subseteq> A"
  shows "\<exists>C. denotes m (ControlPlaneSpec_type Y) (set_field ''ComponentsConfig'' x v) (set_tree ''ComponentsConfig'' u t) C \<and> C \<subseteq> A"
  unfolding ControlPlaneSpec_type_def
  by (rule denotes_set_field [OF assms(1) [unfolded ControlPlaneSpec_type_def] _ _ assms(2,3)]) simp_all

text \<open>
  C24. The deletion works on a ControlPlane of its own: the copy stands for the ControlPlane as it is,
  apart from its components, of which none is configured; and whatever the components that are
  built from the copy write into it, the ControlPlane itself, whose finalizer and status the
  controller goes on to write, stands for what it stood for.
\<close>

theorem disabled_copy_apart:
  assumes "foreign_laws Y" "denotes m (TPointer (ControlPlane_type Y)) (Pointer (Some a)) (TrRef t) A"
  shows "\<exists>q m' B. disabled_copy Y (Pointer (Some a)) m = (Ok q, m')
    \<and> denotes m' (TPointer (ControlPlane_type Y)) q (TrRef (without_components t)) B \<and> A \<inter> B = {}
    \<and> (\<forall>m''. agree (- B) m' m'' \<longrightarrow> denotes m'' (TPointer (ControlPlane_type Y)) (Pointer (Some a)) (TrRef t) A)"
proof -
  let ?b = "gm_next m"
  from assms(2) obtain D where D: "denotes m (ControlPlane_type Y) (gm_cell m a) t D" by auto
  obtain m1 C where c: "via_pointer (ControlPlane_DeepCopyInto Y) (Pointer (Some a)) m = (Pointer (Some ?b), m1)" "grown m m1"
    "?b < gm_next m1" "denotes m1 (ControlPlane_type Y) (gm_cell m1 ?b) t C" "C \<subseteq> {Suc ?b..<gm_next m1}"
    by (rule via_pointer_copies [OF plane_copiers(3) [OF assms(1)] D])
  let ?v = "gm_cell m1 ?b"
  let ?spec = "set_field ''ComponentsConfig'' empty_components_config (get_field ''Spec'' ?v)"
  let ?m' = "put ?b (set_field ''Spec'' ?spec ?v) m1"
  obtain S where S: "denotes m1 (ControlPlaneSpec_type Y) (get_field ''Spec'' ?v) (tree_at ''Spec'' t) S" "S \<subseteq> C"
    using plane_spec(1) [OF c(4)] by blast
  obtain S' where S': "denotes m1 (ControlPlaneSpec_type Y) ?spec (set_tree ''ComponentsConfig'' no_components (tree_at ''Spec'' t)) S'"
    "S' \<subseteq> S"
    using spec_components [OF S(1) empty_components_denote] by auto
  obtain B where B: "denotes m1 (ControlPlane_type Y) (set_field ''Spec'' ?spec ?v) (without_components t) B" "B \<subseteq> C"
    using plane_spec(2) [OF c(4) S'(1)] S(2) S'(2) unfolding without_components_def by blast
  have "agree B m1 ?m'" using B(2) c(5) by (auto simp: agree_def)
  from denotes_frame(1) [OF B(1) this] have q: "denotes ?m' (TPointer (ControlPlane_type Y)) (Pointer (Some ?b))
      (TrRef (without_components t)) (insert ?b B)" using c(3) by (intro pointer) simp_all
  have alloc: "A \<subseteq> {..<?b}" by (rule denotes_allocated(1) [OF assms(2)])
  then have apart: "A \<inter> insert ?b B = {}" using B(2) c(5) by force
  have "grown m ?m'" by (rule grown_put [OF c(2)]) simp
  then have old: "denotes ?m' (TPointer (ControlPlane_type Y)) (Pointer (Some a)) (TrRef t) A" by (rule grown_denotes(1) [OF _ assms(2)])
  have "denotes m'' (TPointer (ControlPlane_type Y)) (Pointer (Some a)) (TrRef t) A" if "agree (- insert ?b B) ?m' m''" for m''
    by (rule denotes_frame(1) [OF old agree_subset [OF that]]) (use apart in blast)
  moreover have "disabled_copy Y (Pointer (Some a)) m = (Ok (Pointer (Some ?b)), ?m')"
    by (simp add: disabled_copy_def ControlPlane_DeepCopy_def c(1) Let_def)
  ultimately show ?thesis using q apart by blast
qed

section \<open>A ControlPlane in memory\<close>

text \<open>
  Cell 2 holds a Crossplane configuration with a chart (cell 3) and a slice of two providers
  (backing array in cell 1), of which the second is nil; cell 4 a ControlPlane that refers to it.
\<close>

definition demo_foreign :: "nat foreign" where
  "demo_foreign = \<lparr> fg_type_meta = TScalar, fg_meta_type = TScalar, fg_meta = assign, fg_list_meta_type = TScalar,
     fg_list_meta = assign, fg_condition_type = TScalar, fg_condition = assign, fg_json_type = TSlice TScalar,
     fg_json = via_slice assign, fg_target_type = TScalar, fg_target = assign, fg_runtime_type = TScalar, fg_runtime = assign,
     fg_local_ref = TScalar, fg_secret_ref = TScalar, fg_duration = TScalar \<rparr>"

definition demo_memory :: "nat gmem" where
  "demo_memory = \<lparr> gm_next = 5, gm_cell = (\<lambda>a.
     if a = 0 then Struct [(''Name'', Scalar 1), (''Version'', Scalar 2), (''Package'', Scalar 3), (''PackagePullPolicy'', Pointer None),
       (''PackagePullSecrets'', Slice None), (''PackageRuntimeSpec'', Scalar 4)]
     else if a = 1 then Array [Pointer (Some 0), Pointer None]
     else if a = 2 then Struct [(''Version'', Scalar 5), (''Chart'', Pointer (Some 3)), (''Values'', Pointer None),
       (''Providers'', Slice (Some (1, 0, 2)))]
     else if a = 3 then Struct [(''Repository'', Scalar 6), (''URL'', Scalar 7), (''Name'', Scalar 8), (''Version'', Scalar 9)]
     else Struct [(''TypeMeta'', Scalar 0), (''ObjectMeta'', Scalar 0),
       (''Spec'', Struct [(''CoreReference'', Scalar 0),
          (''Target'', Struct [(''Target'', Scalar 0), (''FluxServiceAccount'',
             Struct [(''Name'', Scalar 0), (''Namespace'', Scalar 0), (''Overrides'', Struct [(''Host'', Scalar 0)])])]),
          (''Telemetry'', Pointer None), (''PullSecrets'', Slice None),
          (''ComponentsConfig'', Struct [(''Crossplane'', Pointer (Some 2)), (''BTPServiceOperator'', Pointer None),
             (''CertManager'', Pointer None), (''ExternalSecretsOperator'', Pointer None), (''Kyverno'', Pointer None),
             (''Flux'', Pointer None)])]),
       (''Status'', Struct [(''Conditions'', Slice None), (''Namespace'', Scalar 0), (''ComponentsEnabled'', Scalar 0),
          (''ComponentsHealthy'', Scalar 0)])]) \<rparr>"

lemma demo_foreign_laws: "foreign_laws demo_foreign"
  by (simp add: foreign_laws_def demo_foreign_def assign_deep via_slice_deep)

lemma demo_crossplane_denotes:
  "\<exists>t A. denotes demo_memory (CrossplaneConfig_type demo_foreign) (gm_cell demo_memory 2) t A"
  by (simp add: CrossplaneConfig_type_def CrossplaneProviderConfig_type_def ChartSpec_type_def demo_foreign_def demo_memory_def
      slice_elements_def)

lemma demo_plane_denotes:
  "\<exists>t A. denotes demo_memory (TPointer (ControlPlane_type demo_foreign)) (Pointer (Some 4)) (TrRef t) A"
proof -
  obtain t A where c: "denotes demo_memory (CrossplaneConfig_type demo_foreign) (gm_cell demo_memory 2) t A"
    using demo_crossplane_denotes by blast
  have "gm_next demo_memory = 5" by (simp add: demo_memory_def)
  with c have "\<exists>u B. denotes demo_memory (ComponentsConfig_type demo_foreign) (Struct [(''Crossplane'', Pointer (Some 2)),
      (''BTPServiceOperator'', Pointer None), (''CertManager'', Pointer None), (''ExternalSecretsOperator'', Pointer None),
      (''Kyverno'', Pointer None), (''Flux'', Pointer None)]) u B"
    by (auto simp: ComponentsConfig_type_def)
  then have "\<exists>t A. denotes demo_memory (ControlPlane_type demo_foreign) (gm_cell demo_memory 4) t A"
    by (auto simp: ControlPlane_type_def ControlPlaneSpec_type_def ControlPlaneStatus_type_def Target_type_def
        ServiceAccountReference_type_def KubeconfigOverrides_type_def demo_foreign_def demo_memory_def)
  then show ?thesis by (auto simp: demo_memory_def)
qed

lemma api_copies_independent_witness:
  "\<exists>q m' t B. CrossplaneConfig_DeepCopy demo_foreign (Pointer (Some 2)) demo_memory = (q, m')
    \<and> denotes m' (TPointer (CrossplaneConfig_type demo_foreign)) q t B
    \<and> (\<forall>m''. agree (- B) m' m'' \<longrightarrow> (\<exists>A. denotes m'' (TPointer (CrossplaneConfig_type demo_foreign)) (Pointer (Some 2)) t A))"
proof -
  obtain t A where "denotes demo_memory (CrossplaneConfig_type demo_foreign) (gm_cell demo_memory 2) t A"
    using demo_crossplane_denotes by blast
  then have d: "denotes demo_memory (TPointer (CrossplaneConfig_type demo_foreign)) (Pointer (Some 2)) (TrRef t) (insert 2 A)"
    by (intro pointer) (simp add: demo_memory_def)
  obtain q m' where run: "CrossplaneConfig_DeepCopy demo_foreign (Pointer (Some 2)) demo_memory = (q, m')" by fastforce
  have "(CrossplaneConfig_type demo_foreign, CrossplaneConfig_DeepCopy demo_foreign) \<in> set (api_copies demo_foreign)"
    by (simp add: api_copies_def)
  from api_copies_independent [OF demo_foreign_laws this d run] run show ?thesis by blast
qed

lemma disabled_copy_apart_witness:
  "\<exists>t q m' B. disabled_copy demo_foreign (Pointer (Some 4)) demo_memory = (Ok q, m')
    \<and> denotes m' (TPointer (ControlPlane_type demo_foreign)) q (TrRef (without_components t)) B
    \<and> (\<forall>m''. agree (- B) m' m'' \<longrightarrow> (\<exists>A. denotes m'' (TPointer (ControlPlane_type demo_foreign)) (Pointer (Some 4)) (TrRef t) A))"
proof -
  obtain t A where "denotes demo_memory (TPointer (ControlPlane_type demo_foreign)) (Pointer (Some 4)) (TrRef t) A"
    using demo_plane_denotes by blast
  from disabled_copy_apart [OF demo_foreign_laws this] show ?thesis by blast
qed

end
