(* ===== verification/Schemes.thy ===== *)
theory Schemes
  imports TargetRounds
begin

text \<open>
  \<^verbatim>\<open>internal/schemes/schemes.go\<close> and the registration of the types of \<^verbatim>\<open>api/v1beta1\<close>: which
  Go types the clients of the two clusters can handle. A client answers every call for a type that
  its scheme does not know with an error; the schemes know all that a round needs.
\<close>

section \<open>Schemes\<close>

datatype api_type =
    Object kind | ListOf kind
  | ControlPlaneObject | ControlPlaneObjectList | ReleaseChannelObject | ReleaseChannelObjectList

type_synonym scheme = "api_type set"

text \<open>A function that adds types to a scheme, such as the \<^verbatim>\<open>AddToScheme\<close> of a package.\<close>

type_synonym scheme_builder = "scheme \<Rightarrow> err option \<times> scheme"

definition AddKnownTypes :: "api_type list \<Rightarrow> scheme_builder" where
  "AddKnownTypes ts s = (None, s \<union> set ts)"

text \<open>\<^verbatim>\<open>runtime.SchemeBuilder\<close>: the functions it holds are run one after the other.\<close>

fun run_builders :: "scheme_builder list \<Rightarrow> scheme_builder" where
  "run_builders [] s = (None, s)"
| "run_builders (b # bs) s = (case b s of (Some e, s1) \<Rightarrow> (Some e, s1) | (None, s1) \<Rightarrow> run_builders bs s1)"

text \<open>The packages whose types are added, and \<^verbatim>\<open>metav1.AddToGroupVersion\<close>.\<close>

record scheme_packages =
  sp_meta_types :: "scheme \<Rightarrow> scheme"
  sp_client_go :: scheme_builder
  sp_helm :: scheme_builder
  sp_kustomize :: scheme_builder
  sp_source :: scheme_builder
  sp_apiextensions :: scheme_builder
  sp_crossplane_v1 :: scheme_builder
  sp_crossplane_v1beta1 :: scheme_builder

section \<open>The API group of the operator (groupversion_info.go, *_types.go)\<close>

definition v1beta1_SchemeBuilder :: "scheme_packages \<Rightarrow> scheme_builder list" where
  "v1beta1_SchemeBuilder Z = [\<lambda>s. (None, sp_meta_types Z s)]"

definition register_control_planes :: scheme_builder where
  "register_control_planes = AddKnownTypes [ControlPlaneObject, ControlPlaneObjectList]"

definition register_package_restrictions :: scheme_builder where
  "register_package_restrictions = AddKnownTypes [Object KPackageRestriction, ListOf KPackageRestriction]"

definition register_release_channels :: scheme_builder where
  "register_release_channels = AddKnownTypes [ReleaseChannelObject, ReleaseChannelObjectList]"

text \<open>The builder after the \<^verbatim>\<open>init\<close> functions of the package have registered theirs.\<close>

definition v1beta1_AddToScheme :: "scheme_packages \<Rightarrow> scheme_builder" where
  "v1beta1_AddToScheme Z = run_builders (v1beta1_SchemeBuilder Z
     @ [register_control_planes, register_package_restrictions, register_release_channels])"

section \<open>The two schemes (schemes.go)\<close>

text \<open>\<^verbatim>\<open>utilruntime.Must\<close> panics on an error.\<close>

fun must_all :: "scheme_builder list \<Rightarrow> scheme \<Rightarrow> scheme gores" where
  "must_all [] s = Ok s"
| "must_all (b # bs) s = (case b s of (Some e, _) \<Rightarrow> Panic (err_msg e) | (None, s1) \<Rightarrow> must_all bs s1)"

definition initLocal :: "scheme_packages \<Rightarrow> scheme gores" where
  "initLocal Z = must_all [sp_client_go Z, v1beta1_AddToScheme Z, sp_helm Z, sp_kustomize Z, sp_source Z] {}"

definition initRemote :: "scheme_packages \<Rightarrow> scheme gores" where
  "initRemote Z = must_all [sp_client_go Z, sp_apiextensions Z, v1beta1_AddToScheme Z, sp_crossplane_v1 Z,
     sp_crossplane_v1beta1 Z] {}"

definition schemes_init :: "scheme_packages \<Rightarrow> (scheme \<times> scheme) gores" where
  "schemes_init Z = bind_go (initLocal Z) (\<lambda>l. bind_go (initRemote Z) (\<lambda>r. Ok (l, r)))"

text \<open>What the packages document to add: they add without an error, and nothing is taken out.\<close>

definition adds :: "scheme_builder \<Rightarrow> kind list \<Rightarrow> bool" where
  "adds b ks \<longleftrightarrow> (\<forall>s. fst (b s) = None \<and> s \<subseteq> snd (b s) \<and> (\<forall>k \<in> set ks. {Object k, ListOf k} \<subseteq> snd (b s)))"

definition package_laws :: "scheme_packages \<Rightarrow> bool" where
  "package_laws Z \<longleftrightarrow> (\<forall>s. s \<subseteq> sp_meta_types Z s)
     \<and> adds (sp_client_go Z) [KSecret, KNamespace, KServiceAccount, KClusterRole, KClusterRoleBinding, KPolicy, KPolicyBinding]
     \<and> adds (sp_helm Z) [KHelmRelease] \<and> adds (sp_kustomize Z) []
     \<and> adds (sp_source Z) [KHelmRepository, KGitRepository, KOCIRepository]
     \<and> adds (sp_apiextensions Z) [KCRD] \<and> adds (sp_crossplane_v1 Z) [KProvider]
     \<and> adds (sp_crossplane_v1beta1 Z) [KDeploymentRuntimeConfig]"

section \<open>A client with a scheme\<close>

definition not_registered :: err where
  "not_registered = OtherErr ''no kind is registered for the type''"

text \<open>Unstructured objects carry their kind with them and need no scheme.\<close>

definition knows :: "scheme \<Rightarrow> kind \<Rightarrow> bool" where
  "knows s k \<longleftrightarrow> (case k of KUnstructured g v n \<Rightarrow> True | _ \<Rightarrow> Object k \<in> s)"

definition knows_list :: "scheme \<Rightarrow> kind \<Rightarrow> bool" where
  "knows_list s k \<longleftrightarrow> (case k of KUnstructured g v n \<Rightarrow> True | _ \<Rightarrow> ListOf k \<in> s)"

definition with_scheme :: "scheme \<Rightarrow> 'w client \<Rightarrow> 'w client" where
  "with_scheme s cl = \<lparr>
     cl_get = (\<lambda>k n w. if knows s k then cl_get cl k n w else Inl not_registered),
     cl_list = (\<lambda>k os w. if knows_list s k then cl_list cl k os w else Inl not_registered),
     cl_create_or_update = (\<lambda>ob f w. if knows s (kind_of ob) then cl_create_or_update cl ob f w else (Some not_registered, w)),
     cl_update = (\<lambda>ob w. if knows s (kind_of ob) then cl_update cl ob w else (Some not_registered, w)),
     cl_delete = (\<lambda>ob w. if knows s (kind_of ob) then cl_delete cl ob w else (Some not_registered, w)),
     cl_delete_all_of = (\<lambda>k os w. if knows s k then cl_delete_all_of cl k os w else (Some not_registered, w)) \<rparr>"

lemma with_scheme_knows [simp]:
  "knows s k \<Longrightarrow> cl_get (with_scheme s cl) k = cl_get cl k"
  "knows_list s k \<Longrightarrow> cl_list (with_scheme s cl) k = cl_list cl k"
  "knows s (kind_of ob) \<Longrightarrow> cl_create_or_update (with_scheme s cl) ob = cl_create_or_update cl ob"
  "knows s (kind_of ob) \<Longrightarrow> cl_delete (with_scheme s cl) ob = cl_delete cl ob"
  "knows s k \<Longrightarrow> cl_delete_all_of (with_scheme s cl) k = cl_delete_all_of cl k"
  by (simp_all add: with_scheme_def fun_eq_iff)

section \<open>What the schemes know\<close>

definition serves_local :: "scheme \<Rightarrow> bool" where
  "serves_local s \<longleftrightarrow> list_all (\<lambda>k. knows s k \<and> knows_list s k)
       [KSecret, KNamespace, KPackageRestriction, KHelmRelease, KHelmRepository, KGitRepository, KOCIRepository]
     \<and> {ControlPlaneObject, ControlPlaneObjectList, ReleaseChannelObject, ReleaseChannelObjectList} \<subseteq> s"

definition serves_remote :: "scheme \<Rightarrow> bool" where
  "serves_remote s \<longleftrightarrow> list_all (\<lambda>k. knows s k \<and> knows_list s k)
     [KSecret, KNamespace, KServiceAccount, KClusterRole, KClusterRoleBinding, KPolicy, KPolicyBinding, KPackageRestriction,
      KCRD, KProvider, KDeploymentRuntimeConfig]"

lemma v1beta1_adds:
  assumes "\<And>s. s \<subseteq> sp_meta_types Z s"
  shows "fst (v1beta1_AddToScheme Z s) = None \<and> s \<subseteq> snd (v1beta1_AddToScheme Z s)
    \<and> {ControlPlaneObject, ControlPlaneObjectList, ReleaseChannelObject, ReleaseChannelObjectList,
       Object KPackageRestriction, ListOf KPackageRestriction} \<subseteq> snd (v1beta1_AddToScheme Z s)"
  using assms [of s]
  by (auto simp: v1beta1_AddToScheme_def v1beta1_SchemeBuilder_def register_control_planes_def
      register_package_restrictions_def register_release_channels_def AddKnownTypes_def)

lemma must_all_adds:
  assumes "list_all (\<lambda>b. adds b []) bs"
  shows "\<exists>s'. must_all bs s = Ok s' \<and> s \<subseteq> s' \<and> (\<forall>b \<in> set bs. \<forall>T. (\<forall>x. T \<subseteq> snd (b x)) \<longrightarrow> T \<subseteq> s')"
  using assms
proof (induction bs arbitrary: s)
  case (Cons b bs)
  obtain s1 where b: "b s = (None, s1)" "s \<subseteq> s1" using Cons.prems by (cases "b s") (auto simp: adds_def dest: spec [of _ s])
  from Cons.IH [of s1] Cons.prems obtain s' where s': "must_all bs s1 = Ok s'" "s1 \<subseteq> s'"
    "\<forall>b \<in> set bs. \<forall>T. (\<forall>x. T \<subseteq> snd (b x)) \<longrightarrow> T \<subseteq> s'" by auto
  have "T \<subseteq> s'" if "\<forall>x. T \<subseteq> snd (b x)" for T using that [rule_format, of s] b s'(2) by auto
  with b s' show ?case by auto
qed simp

lemma addsD:
  "adds b ks \<Longrightarrow> k \<in> set ks \<Longrightarrow> \<forall>x. {Object k, ListOf k} \<subseteq> snd (b x)"
  "adds b ks \<Longrightarrow> adds b []"
  by (auto simp: adds_def)

lemma schemes_serve:
  assumes "package_laws Z"
  shows "\<exists>l r. schemes_init Z = Ok (l, r) \<and> serves_local l \<and> serves_remote r"
proof -
  let ?own = "{ControlPlaneObject, ControlPlaneObjectList, ReleaseChannelObject, ReleaseChannelObjectList,
     Object KPackageRestriction, ListOf KPackageRestriction}"
  have own: "adds (v1beta1_AddToScheme Z) []"
    "\<forall>x. ?own \<subseteq> snd (v1beta1_AddToScheme Z x)"
    using v1beta1_adds [of Z] assms by (auto simp: package_laws_def adds_def)
  have laws: "adds (sp_client_go Z) [KSecret, KNamespace, KServiceAccount, KClusterRole, KClusterRoleBinding, KPolicy, KPolicyBinding]"
    "adds (sp_helm Z) [KHelmRelease]" "adds (sp_kustomize Z) []" "adds (sp_source Z) [KHelmRepository, KGitRepository, KOCIRepository]"
    "adds (sp_apiextensions Z) [KCRD]" "adds (sp_crossplane_v1 Z) [KProvider]" "adds (sp_crossplane_v1beta1 Z) [KDeploymentRuntimeConfig]"
    using assms by (simp_all add: package_laws_def)
  note ok = laws [THEN addsD(2)] own(1)
  let ?bl = "[sp_client_go Z, v1beta1_AddToScheme Z, sp_helm Z, sp_kustomize Z, sp_source Z]"
  let ?br = "[sp_client_go Z, sp_apiextensions Z, v1beta1_AddToScheme Z, sp_crossplane_v1 Z, sp_crossplane_v1beta1 Z]"
  have pl: "list_all (\<lambda>b. adds b []) ?bl" and pr: "list_all (\<lambda>b. adds b []) ?br" by (simp_all add: ok)
  obtain l where l: "must_all ?bl {} = Ok l" "\<forall>b \<in> set ?bl. \<forall>T. (\<forall>x. T \<subseteq> snd (b x)) \<longrightarrow> T \<subseteq> l"
    using must_all_adds [OF pl, of "{}"] by (elim exE conjE) (rule that)
  obtain r where r: "must_all ?br {} = Ok r" "\<forall>b \<in> set ?br. \<forall>T. (\<forall>x. T \<subseteq> snd (b x)) \<longrightarrow> T \<subseteq> r"
    using must_all_adds [OF pr, of "{}"] by (elim exE conjE) (rule that)
  have L: "{Object k, ListOf k} \<subseteq> l" if "adds b ks" "b \<in> set ?bl" "k \<in> set ks" for b ks k
    by (rule mp [OF spec [OF bspec [OF l(2) that(2)]] addsD(1) [OF that(1,3)]])
  have R: "{Object k, ListOf k} \<subseteq> r" if "adds b ks" "b \<in> set ?br" "k \<in> set ks" for b ks k
    by (rule mp [OF spec [OF bspec [OF r(2) that(2)]] addsD(1) [OF that(1,3)]])
  have "?own \<subseteq> l" "?own \<subseteq> r" 
    by (rule mp [OF spec [OF bspec [OF l(2)]] own(2)], simp) (rule mp [OF spec [OF bspec [OF r(2)]] own(2)], simp)
  then have "serves_local l" "serves_remote r"
    using L [OF laws(1)] L [OF laws(2)] L [OF laws(4)] R [OF laws(1)] R [OF laws(5)] R [OF laws(6)] R [OF laws(7)]
    by (simp_all add: serves_local_def serves_remote_def knows_def knows_list_def)
  then show ?thesis using l(1) r(1) by (simp add: schemes_init_def initLocal_def initRemote_def)
qed

section \<open>A round needs no other types\<close>

lemma unstructured_known [simp]: "knows_list s (gvk_kind g)"
  by (simp add: knows_list_def gvk_kind_def split: prod.splits)

lemma check_all_with_scheme [simp]: "check_all gs (with_scheme s cl) w = check_all gs cl w"
  by (induction gs) (simp_all add: checkForResources_def split: sum.split option.split)

lemma hooks_with_scheme:
  assumes "serves_remote s"
  shows "run_hook (hk_pre_uninstall (comp_hooks c)) (with_scheme s cl) = run_hook (hk_pre_uninstall (comp_hooks c)) cl"
    "run_hook (hk_pre_install (comp_hooks c)) (with_scheme s cl) = run_hook (hk_pre_install (comp_hooks c)) cl"
    "run_hook (hk_pre_update (comp_hooks c)) (with_scheme s cl) = run_hook (hk_pre_update (comp_hooks c)) cl"
proof -
  have "knows s KPolicy" "knows s KPolicyBinding" using assms by (simp_all add: serves_remote_def)
  then have policy: "CheckIfPolicyIsInstalled pt (with_scheme s cl) = CheckIfPolicyIsInstalled pt cl" for pt
    by (simp add: CheckIfPolicyIsInstalled_def Let_def fun_eq_iff split: sum.split)
  have orphans: "PreventOrphanedResources gs (with_scheme s cl) = PreventOrphanedResources gs cl" for gs
    by (simp add: PreventOrphanedResources_def fun_eq_iff)
  note hooks = run_hook_def [abs_def] btp_Hooks_def certmanager_Hooks_def crossplane_Hooks_def eso_Hooks_def kyverno_Hooks_def
    flux_Hooks_def provider_Hooks_def no_hooks_def
  show "run_hook (hk_pre_uninstall (comp_hooks c)) (with_scheme s cl) = run_hook (hk_pre_uninstall (comp_hooks c)) cl"
    by (cases c) (simp_all add: hooks orphans)
  show "run_hook (hk_pre_install (comp_hooks c)) (with_scheme s cl) = run_hook (hk_pre_install (comp_hooks c)) cl"
    "run_hook (hk_pre_update (comp_hooks c)) (with_scheme s cl) = run_hook (hk_pre_update (comp_hooks c)) cl"
    by (cases c; simp add: hooks policy)+
qed

lemma flux_kinds_known: "serves_local s \<Longrightarrow> knows s (kind_of (flux_GetObject r))"
  using flux_kind_cases [of r] by (auto simp: serves_local_def)

lemma resources_with_scheme:
  assumes "serves_local s" "fr_local r = cl" "fr_local r' = with_scheme s cl" "fr_labels r' = fr_labels r"
  shows "observe_resource L r' b = observe_resource L r b" "apply_resource r' b = apply_resource r b"
    "delete_resource r' b = delete_resource r b"
proof -
  note known = flux_kinds_known [OF assms(1)]
  have m: "flux_mutate r' c a d = flux_mutate r c a d" for c a d by (simp add: flux_mutate_def fun_eq_iff assms(4) split: sum.split)
  show "observe_resource L r' b = observe_resource L r b" "apply_resource r' b = apply_resource r b"
    "delete_resource r' b = delete_resource r b"
    by (simp_all add: fun_eq_iff observe_resource_def apply_resource_def delete_resource_def assms(2,3) known m Let_def
        split: gores_of.split prod.split sum.split)
qed

lemma flux_reconciler_with_scheme:
  assumes "serves_local s" "serves_remote s'"
  shows "operator_flux_reconciler L (with_scheme s lc) (with_scheme s' rc) = operator_flux_reconciler L lc rc"
proof -
  let ?r = "\<lambda>lc rc. flux_RegisterType (operator_iface L) (NewFluxReconciler (operator_iface L) lc rc LabelComponentName) flux_samples"
  have fold: "fr_local (flux_RegisterType I r cs) = fr_local r \<and> fr_remote (flux_RegisterType I r cs) = fr_remote r
     \<and> fr_labels (flux_RegisterType I r cs) = fr_labels r" for I and r :: "('x comp, 'x) flux_reconciler" and cs
    by (induction cs arbitrary: r) (simp_all add: flux_RegisterType_def)
  have fields: "fr_local (?r lc rc) = lc" "fr_remote (?r lc rc) = rc" "fr_labels (?r lc rc) = operator_labels L" for lc rc
    by (simp_all add: fold NewFluxReconciler_def DefaultLabelFunc_def operator_labels_def fun_eq_iff)
  have known: "fr_known (?r (with_scheme s lc) (with_scheme s' rc)) = fr_known (?r lc rc)"
    using flux_known [of L "with_scheme s lc" "with_scheme s' rc"] flux_known [of L lc rc]
    by (simp add: operator_flux_reconciler_def as_flux_reconciler_def Let_def)
  note res = resources_with_scheme [OF assms(1) fields(1) [of lc rc] fields(1) [of "with_scheme s lc" "with_scheme s' rc"],
    unfolded fields(3), OF refl]
  have ops: "flux_Observe L F (?r (with_scheme s lc) (with_scheme s' rc)) = flux_Observe L F (?r lc rc)"
    "flux_Uninstall F (?r (with_scheme s lc) (with_scheme s' rc)) = flux_Uninstall F (?r lc rc)"
    "flux_installOrUpdate F (?r (with_scheme s lc) (with_scheme s' rc)) = flux_installOrUpdate F (?r lc rc)" for F
    unfolding fun_eq_iff flux_Observe_stages flux_Uninstall_stages flux_installOrUpdate_stages res by simp_all
  show ?thesis
    by (simp add: operator_flux_reconciler_def Let_def as_flux_reconciler_def known ops fields hooks_with_scheme [OF assms(2)])
qed

text \<open>What an object component needs of the target's scheme.\<close>

definition served :: "scheme \<Rightarrow> 'w comp \<Rightarrow> bool" where
  "served s c \<longleftrightarrow> (\<forall>ctx obj key. comp_build ctx c = Ok (obj, key) \<longrightarrow> knows s (kind_of obj))"

lemma object_reconciler_with_scheme:
  assumes "serves_remote s" "served s c"
    and "R = operator_object_reconciler L (with_scheme s rc)" "R0 = operator_object_reconciler L rc"
  shows "rk_observe R ctx c w = rk_observe R0 ctx c w" "rk_uninstall R ctx c w = rk_uninstall R0 ctx c w"
    "rk_install R ctx c w = rk_install R0 ctx c w" "rk_update R ctx c w = rk_update R0 ctx c w"
    "rk_pre_uninstall R ctx c w = rk_pre_uninstall R0 ctx c w" "rk_pre_install R ctx c w = rk_pre_install R0 ctx c w"
    "rk_pre_update R ctx c w = rk_pre_update R0 ctx c w"
proof -
  obtain r where r: "R = as_object_reconciler (operator_iface L) (operator_object L) r" "or_remote r = with_scheme s rc"
    "\<forall>c. or_labels r c = operator_labels L c" unfolding assms(3) using operator_object_fields by blast
  obtain r0 where r0: "R0 = as_object_reconciler (operator_iface L) (operator_object L) r0" "or_remote r0 = rc"
    "\<forall>c. or_labels r0 c = operator_labels L c" unfolding assms(4) using operator_object_fields by blast
  have m: "object_mutate (operator_object L) r ctx c w = object_mutate (operator_object L) r0 ctx c w"
    by (simp add: object_mutate_def fun_eq_iff r(3) r0(3))
  have b: "knows s (kind_of obj)" if "comp_build ctx c = Ok (obj, key)" for obj key using assms(2) that by (auto simp: served_def)
  have k: "kind_of (set_key obj key) = kind_of obj" for obj key by (simp add: set_key_def kind_of_def)
  show "rk_observe R ctx c w = rk_observe R0 ctx c w" "rk_uninstall R ctx c w = rk_uninstall R0 ctx c w"
    "rk_install R ctx c w = rk_install R0 ctx c w" "rk_update R ctx c w = rk_update R0 ctx c w"
    by (simp_all add: r r0 reconciler_fields object_Observe_def object_Uninstall_def applyObject_def m k b
        split: gores_of.split prod.split)
  show "rk_pre_uninstall R ctx c w = rk_pre_uninstall R0 ctx c w" "rk_pre_install R ctx c w = rk_pre_install R0 ctx c w"
    "rk_pre_update R ctx c w = rk_pre_update R0 ctx c w"
    by (simp_all add: r r0 reconciler_fields hooks_with_scheme [OF assms(1)])
qed

lemma object_reconciler_keeps:
  assumes "R = operator_object_reconciler L rc"
  shows "rk_observe R ctx c w = (x, c1, w1) \<Longrightarrow> c1 = c" "rk_uninstall R ctx c w = (y, c1, w1) \<Longrightarrow> c1 = c"
    "rk_install R ctx c w = (y, c1, w1) \<Longrightarrow> c1 = c" "rk_update R ctx c w = (y, c1, w1) \<Longrightarrow> c1 = c"
    "rk_pre_uninstall R ctx c w = (y, c1, w1) \<Longrightarrow> c1 = c" "rk_pre_install R ctx c w = (y, c1, w1) \<Longrightarrow> c1 = c"
    "rk_pre_update R ctx c w = (y, c1, w1) \<Longrightarrow> c1 = c"
proof -
  obtain r where r: "R = as_object_reconciler (operator_iface L) (operator_object L) r" unfolding assms using operator_object_fields by blast
  show "rk_observe R ctx c w = (x, c1, w1) \<Longrightarrow> c1 = c" "rk_uninstall R ctx c w = (y, c1, w1) \<Longrightarrow> c1 = c"
    "rk_install R ctx c w = (y, c1, w1) \<Longrightarrow> c1 = c" "rk_update R ctx c w = (y, c1, w1) \<Longrightarrow> c1 = c"
    by (auto simp: r reconciler_fields object_Observe_def object_Uninstall_def applyObject_def
        split: gores_of.splits prod.splits sum.splits if_splits)
  show "rk_pre_uninstall R ctx c w = (y, c1, w1) \<Longrightarrow> c1 = c" "rk_pre_install R ctx c w = (y, c1, w1) \<Longrightarrow> c1 = c"
    "rk_pre_update R ctx c w = (y, c1, w1) \<Longrightarrow> c1 = c"
    by (auto simp: r reconciler_fields dest: run_hook_component)
qed

lemma component_with_scheme:
  assumes "serves_local s" "serves_remote s'" "served s' c"
  shows "reconcileComponent (operator_iface L) (operator_reconcilers L (with_scheme s lc) (with_scheme s' rc)) ctx before c after w
    = reconcileComponent (operator_iface L) (operator_reconcilers L lc rc) ctx before c after w"
proof (cases "comp_is_flux c")
  case True
  then show ?thesis
    by (simp add: reconcileComponent_def findReconcilerFor_operator flux_reconciler_with_scheme [OF assms(1,2)])
next
  case False
  let ?known = "operator_object_reconciler L (with_scheme s' rc)" and ?plain = "operator_object_reconciler L rc"
  note same = object_reconciler_with_scheme [OF assms(2,3) refl refl, of L rc]
  note keep = object_reconciler_keeps [OF refl, of L rc]
  have at: "\<exists>y w1. rk_pre_uninstall ?plain ctx c w = (y, c, w1)" "\<exists>y w1. rk_pre_install ?plain ctx c w = (y, c, w1)"
    "\<exists>y w1. rk_pre_update ?plain ctx c w = (y, c, w1)" "\<exists>y w1. rk_update ?plain ctx c w = (y, c, w1)"
    "\<exists>x w1. rk_observe ?plain ctx c w = (x, c, w1)" for w
    using keep by (metis prod_cases3)+
  have un: "uninstall_branch (operator_iface L) ?known ctx c w = uninstall_branch (operator_iface L) ?plain ctx c w" for w
    using at(1) [of w] by (elim exE) (simp add: uninstall_branch_def same split: gores_of.split)
  have ins: "install_branch (operator_iface L) ?known ctx c w = install_branch (operator_iface L) ?plain ctx c w" for w
    using at(2) [of w] by (elim exE) (simp add: install_branch_def same split: gores_of.split)
  have upd: "update_branch (operator_iface L) ?known ctx c w = update_branch (operator_iface L) ?plain ctx c w" for w
  proof -
    obtain y w1 z w2 where "rk_pre_update ?plain ctx c w = (y, c, w1)" "rk_update ?plain ctx c w1 = (z, c, w2)"
      using at(3) [of w] at(4) by blast
    then show ?thesis by (simp add: update_branch_def same split: gores_of.split)
  qed
  obtain x w1 where o: "rk_observe ?plain ctx c w = (x, c, w1)" using at(5) by blast
  then have "rk_observe ?known ctx c w = (x, c, w1)" by (simp add: same)
  with False show ?thesis
    by (cases x) (simp_all add: reconcileComponent_def findReconcilerFor_operator o un ins upd split: gores_of.split option.split)
qed

lemma loop_with_scheme:
  assumes "serves_local s" "serves_remote s'"
  shows "list_all (served s') after \<Longrightarrow>
    reconcile_loop (operator_iface L) (operator_reconcilers L (with_scheme s lc) (with_scheme s' rc)) ctx before after w
      = reconcile_loop (operator_iface L) (operator_reconcilers L lc rc) ctx before after w"
proof (induction after arbitrary: before w)
  case (Cons c after)
  then have "served s' c" "list_all (served s') after" by simp_all
  then show ?case by (simp only: reconcile_loop.simps component_with_scheme [OF assms] Cons.IH)
qed simp

lemma registered_served:
  assumes "newJuggler E ctx cp remote w = Ok j" "serves_remote s"
  shows "list_all (served s) (jg_components j)"
proof -
  have k: "knows s KSecret" "knows s KClusterRole" "knows s KProvider" "knows s KDeploymentRuntimeConfig" "knows s KCRD"
    "knows s KPackageRestriction" "knows s KPolicy" "knows s KPolicyBinding"
    using assms(2) by (simp_all add: serves_remote_def)
  have objects: "served s (CClusterRole r)" "served s (CSecret x)" "served s (CProvider p)" "served s (CDrc d)" for r x p d
    by (auto simp: served_def k clusterrole_BuildObjectToReconcile_def secret_BuildObjectToReconcile_def
        provider_BuildObjectToReconcile_def EmptyFromConfig_def drc_BuildObjectToReconcile_def split: if_splits)
  have charts: "served s c" if "comp_is_flux c" for c using that by (cases c) (simp_all add: served_def)
  have generics: "served s (crd_component b q)" "served s (cpr_component cl b)" "served s (policy_component n b f)"
    "served s (binding_component n b g)" for b q cl n f g
    by (simp_all add: served_def k generic_BuildObjectToReconcile_def crd_component_def cpr_component_def policy_component_def
        binding_component_def)
  show ?thesis by (rule registered_all [OF assms(1)]) (rule objects charts generics; assumption?)+
qed


section \<open>Concrete packages\<close>

definition demo_packages :: scheme_packages where
  "demo_packages =
     (let group = (\<lambda>ks. AddKnownTypes (concat (map (\<lambda>k. [Object k, ListOf k]) ks)))
      in \<lparr> sp_meta_types = (\<lambda>s. s),
           sp_client_go = group [KSecret, KNamespace, KServiceAccount, KClusterRole, KClusterRoleBinding, KPolicy, KPolicyBinding],
           sp_helm = group [KHelmRelease], sp_kustomize = group [], sp_source = group [KHelmRepository, KGitRepository, KOCIRepository],
           sp_apiextensions = group [KCRD], sp_crossplane_v1 = group [KProvider],
           sp_crossplane_v1beta1 = group [KDeploymentRuntimeConfig] \<rparr>)"

lemma demo_packages_laws: "package_laws demo_packages"
  by (auto simp: package_laws_def demo_packages_def adds_def AddKnownTypes_def Let_def)


end
